(* ===== verification/Prelude.thy ===== *)
theory Prelude
  imports Main "HOL-Library.AList" "HOL-Library.Sublist" "HOL-Library.Char_ord"
    "HOL-Library.List_Lexorder" "HOL-Library.Word" "HOL-Library.Multiset"
begin

text \<open>
  What every theory of the development shares: the dynamically typed values that the Go code
  passes around as \<open>any\<close>, Go maps as association lists, machine integers, time, and the
  state-and-error programs into which the request handlers are translated, with the rules that
  carry facts about the state through a program.
\<close>

named_theorems effects \<open>a program relates the state before it and the state after it\<close>

section \<open>Values of the Go type any\<close>

text \<open>
  \<open>GFloat m e\<close> is the float64 with the value \<open>m * 2^e\<close>, with \<open>m\<close> odd or the value one of the
  two zeros \<open>GFloat 0 0\<close> and \<open>GFloat 0 1\<close> (the negative one). \<open>GNum\<close> is a \<open>json.Number\<close>. Go's \<open>int\<close> and \<open>int64\<close> are both
  \<open>GInt\<close>; \<open>[]string\<close> and \<open>[]map[string]any\<close> are \<open>GList\<close> and \<open>map[string]string\<close> is \<open>GMap\<close>,
  because every type switch of the code treats them as the untyped slice or map with the same
  elements.
\<close>

datatype gval =
    GNil
  | GStr string
  | GInt int
  | GFloat int int
  | GNum string
  | GBool bool
  | GList "gval list"
  | GMap "(string \<times> gval) list"

type_synonym gmap = "(string \<times> gval) list"
type_synonym strmap = "(string \<times> string) list"

section \<open>Go maps\<close>

abbreviation mget :: "('k \<times> 'v) list \<Rightarrow> 'k \<Rightarrow> 'v option" where
  "mget m k \<equiv> map_of m k"

abbreviation mput :: "('k \<times> 'v) list \<Rightarrow> 'k \<Rightarrow> 'v \<Rightarrow> ('k \<times> 'v) list" where
  "mput m k v \<equiv> AList.update k v m"

abbreviation mdel :: "('k \<times> 'v) list \<Rightarrow> 'k \<Rightarrow> ('k \<times> 'v) list" where
  "mdel m k \<equiv> AList.delete k m"

text \<open>\<open>maps.Copy(dst, src)\<close>\<close>

definition mcopy :: "('k \<times> 'v) list \<Rightarrow> ('k \<times> 'v) list \<Rightarrow> ('k \<times> 'v) list" where
  "mcopy dst src = fold (\<lambda>(k, v) m. mput m k v) src dst"

text \<open>Reading a missing key of a \<open>map[string]string\<close> gives the empty string.\<close>

definition sget :: "strmap \<Rightarrow> string \<Rightarrow> string" where
  "sget m k = (case mget m k of Some v \<Rightarrow> v | None \<Rightarrow> '''')"

lemma mget_mput [simp]: "mget (mput m k v) k' = (if k' = k then Some v else mget m k')"
  by (simp add: update_conv)

lemma mget_mdel [simp]: "mget (mdel m k) k' = (if k' = k then None else mget m k')"
  by (simp add: AList.delete_conv)

lemma sget_mput [simp]: "sget (mput m k v) k' = (if k' = k then v else sget m k')"
  by (simp add: sget_def)

lemma distinct_mput [simp]: "distinct (map fst m) \<Longrightarrow> distinct (map fst (mput m k v))"
  by (rule distinct_update)

lemma mcopy_Nil [simp]: "mcopy dst [] = dst"
  by (simp add: mcopy_def)

lemma mcopy_Cons: "mcopy dst ((k, v) # src) = mcopy (mput dst k v) src"
  by (simp add: mcopy_def)

lemma distinct_mcopy: "distinct (map fst dst) \<Longrightarrow> distinct (map fst (mcopy dst src))"
  by (induction src arbitrary: dst) (auto simp: mcopy_Cons)

lemma mget_mcopy:
  "distinct (map fst src) \<Longrightarrow>
   mget (mcopy dst src) k = (case mget src k of Some v \<Rightarrow> Some v | None \<Rightarrow> mget dst k)"
proof (induction src arbitrary: dst)
  case Nil
  then show ?case by simp
next
  case (Cons p src)
  obtain a v where p: "p = (a, v)" by (cases p)
  have "a \<notin> fst ` set src" using Cons.prems by (simp add: p)
  then have "mget src a = None" by (simp add: map_of_eq_None_iff)
  then show ?case using Cons by (auto simp: p mcopy_Cons split: option.splits)
qed

section \<open>Machine integers and time\<close>

text \<open>The two's complement value that an \<open>int64\<close> operation leaves.\<close>

definition wrap64 :: "int \<Rightarrow> int" where
  "wrap64 x = signed_take_bit 63 x"

definition int64_range :: "int \<Rightarrow> bool" where
  "int64_range x \<longleftrightarrow> - (2 ^ 63) \<le> x \<and> x < 2 ^ 63"

lemma wrap64_id [simp]: "int64_range x \<Longrightarrow> wrap64 x = x"
  by (simp add: wrap64_def int64_range_def signed_take_bit_int_eq_self_iff)

text \<open>A \<open>time.Time\<close> is its distance from the Unix epoch in nanoseconds.\<close>

type_synonym gotime = int

definition unixMilli :: "gotime \<Rightarrow> int" where
  "unixMilli t = t div 1000000"

definition unixSec :: "gotime \<Rightarrow> int" where
  "unixSec t = t div 1000000000"

text \<open>What is left of a time after a column of milliseconds, or of seconds, has stored it.\<close>

definition trunc_ms :: "gotime \<Rightarrow> gotime" where
  "trunc_ms t = unixMilli t * 1000000"

definition trunc_s :: "gotime \<Rightarrow> gotime" where
  "trunc_s t = unixSec t * 1000000000"

text \<open>\<open>time.Duration(n) * time.Second\<close>\<close>

definition seconds :: "int \<Rightarrow> int" where
  "seconds n = wrap64 (n * 1000000000)"

lemma seconds_small: "0 \<le> n \<Longrightarrow> n \<le> 9223372036 \<Longrightarrow> seconds n = n * 1000000000"
  by (simp add: seconds_def int64_range_def)

lemma trunc_ms_le: "trunc_ms t \<le> t"
  by (simp add: trunc_ms_def unixMilli_def)

lemma trunc_ms_gt: "t - 1000000 < trunc_ms t"
  by (simp add: trunc_ms_def unixMilli_def)

lemma trunc_ms_mono: "s \<le> t \<Longrightarrow> trunc_ms s \<le> trunc_ms t"
  by (simp add: trunc_ms_def unixMilli_def zdiv_mono1)

lemma unixMilli_trunc_ms [simp]: "unixMilli (trunc_ms t) = unixMilli t"
  by (simp add: trunc_ms_def unixMilli_def)

lemma trunc_ms_idem [simp]: "trunc_ms (trunc_ms t) = trunc_ms t"
  by (simp add: trunc_ms_def unixMilli_def)

lemma unixSec_trunc_s [simp]: "unixSec (trunc_s t) = unixSec t"
  by (simp add: trunc_s_def unixSec_def)

lemma trunc_s_idem [simp]: "trunc_s (trunc_s t) = trunc_s t"
  by (simp add: trunc_s_def unixSec_def)

end
