(* ===== verification/GoStrings.thy ===== *)
theory GoStrings
  imports Prelude
begin

text \<open>
  The parts of Go's \<open>strings\<close>, \<open>strconv\<close>, \<open>unicode/utf8\<close>, \<open>encoding/base64\<close> and
  \<open>encoding/hex\<close> that the code uses. A Go string is a sequence of bytes, and so is \<open>string\<close>:
  \<open>length\<close> is Go's \<open>len\<close>, and the order on strings is the bytewise order of \<open>sort.Strings\<close>.
\<close>

section \<open>strings\<close>

definition trimRight :: "char \<Rightarrow> string \<Rightarrow> string" where
  "trimRight c s = rev (dropWhile (\<lambda>x. x = c) (rev s))"

definition trimBoth :: "char \<Rightarrow> string \<Rightarrow> string" where
  "trimBoth c s = trimRight c (dropWhile (\<lambda>x. x = c) s)"

text \<open>\<open>strings.Split(s, c)\<close> for a separator of one byte\<close>

fun splitOn :: "char \<Rightarrow> string \<Rightarrow> string list" where
  "splitOn c [] = [[]]"
| "splitOn c (x # xs) =
     (if x = c then [] # splitOn c xs
      else (case splitOn c xs of [] \<Rightarrow> [[x]] | y # ys \<Rightarrow> (x # y) # ys))"

text \<open>\<open>strings.SplitN(s, c, 2)\<close>: what precedes the first separator, and what follows it if there is one\<close>

definition splitFirst :: "char \<Rightarrow> string \<Rightarrow> string \<times> string option" where
  "splitFirst c s = (takeWhile (\<lambda>x. x \<noteq> c) s,
     (case dropWhile (\<lambda>x. x \<noteq> c) s of [] \<Rightarrow> None | _ # r \<Rightarrow> Some r))"

fun joinWith :: "string \<Rightarrow> string list \<Rightarrow> string" where
  "joinWith sep [] = []"
| "joinWith sep [x] = x"
| "joinWith sep (x # y # ys) = x @ sep @ joinWith sep (y # ys)"

definition ascii_lower :: "char \<Rightarrow> char" where
  "ascii_lower c = (let n = of_char c :: nat in if 65 \<le> n \<and> n \<le> 90 then char_of (n + 32) else c)"

definition ascii_upper :: "char \<Rightarrow> char" where
  "ascii_upper c = (let n = of_char c :: nat in if 97 \<le> n \<and> n \<le> 122 then char_of (n - 32) else c)"

text \<open>
  \<open>strings.EqualFold\<close> against a needle whose letters have no case variants outside ASCII
  (the code compares with \<open>All\<close>).
\<close>

definition equalFold :: "string \<Rightarrow> string \<Rightarrow> bool" where
  "equalFold s t \<longleftrightarrow> map ascii_lower s = map ascii_lower t"

section \<open>Decimal numbers\<close>

definition digit_val :: "char \<Rightarrow> nat option" where
  "digit_val c = (let n = of_char c :: nat in if 48 \<le> n \<and> n \<le> 57 then Some (n - 48) else None)"

fun dec_value :: "nat \<Rightarrow> string \<Rightarrow> nat option" where
  "dec_value acc [] = Some acc"
| "dec_value acc (c # cs) =
     (case digit_val c of None \<Rightarrow> None | Some d \<Rightarrow> dec_value (acc * 10 + d) cs)"

definition parse_digits :: "string \<Rightarrow> nat option" where
  "parse_digits ds = (if ds = [] then None else dec_value 0 ds)"

text \<open>\<open>strconv.ParseInt(s, 10, 64)\<close>, and \<open>strconv.Atoi\<close> where \<open>int\<close> has 64 bits\<close>

definition parseInt :: "string \<Rightarrow> int option" where
  "parseInt s =
     (case s of [] \<Rightarrow> None
      | c # cs \<Rightarrow>
          (let neg = (c = CHR ''-'');
               ds = (if c = CHR ''-'' \<or> c = CHR ''+'' then cs else s)
           in case parse_digits ds of None \<Rightarrow> None
              | Some n \<Rightarrow>
                  (let v = (if neg then - int n else int n)
                   in if int64_range v then Some v else None)))"

fun dec_digits :: "nat \<Rightarrow> string" where
  "dec_digits n = (if n < 10 then [char_of (48 + n)]
                   else dec_digits (n div 10) @ [char_of (48 + n mod 10)])"

declare dec_digits.simps [simp del]

text \<open>\<open>strconv.Itoa\<close>, \<open>strconv.FormatInt(n, 10)\<close> and the verb \<open>%d\<close>\<close>

definition formatInt :: "int \<Rightarrow> string" where
  "formatInt n = (if n < 0 then CHR ''-'' # dec_digits (nat (- n)) else dec_digits (nat n))"

lemma of_char_digit: "d < 10 \<Longrightarrow> of_char (char_of (48 + d :: nat) :: char) = 48 + d"
  by (simp add: of_char_of take_bit_eq_mod)

lemma digit_val_digit: "d < 10 \<Longrightarrow> digit_val (char_of (48 + d)) = Some d"
  using of_char_digit [of d] by (simp add: digit_val_def Let_def)

lemma dec_value_snoc:
  "dec_value acc (ds @ [c]) =
   (case dec_value acc ds of None \<Rightarrow> None
    | Some v \<Rightarrow> (case digit_val c of None \<Rightarrow> None | Some d \<Rightarrow> Some (v * 10 + d)))"
  by (induction ds arbitrary: acc) (auto split: option.splits)

lemma dec_value_digits: "dec_value 0 (dec_digits n) = Some n"
proof (induction n rule: dec_digits.induct)
  case (1 n)
  show ?case
  proof (cases "n < 10")
    case True
    then show ?thesis by (simp add: dec_digits.simps [of n] digit_val_digit)
  next
    case False
    with 1 have "dec_value 0 (dec_digits (n div 10)) = Some (n div 10)" by simp
    with False show ?thesis
      by (simp add: dec_digits.simps [of n] dec_value_snoc digit_val_digit)
  qed
qed

lemma dec_digits_nonempty [simp]: "dec_digits n \<noteq> []"
  by (subst dec_digits.simps) simp

lemma digit_val_dec_digits: "c \<in> set (dec_digits n) \<Longrightarrow> digit_val c \<noteq> None"
proof (induction n rule: dec_digits.induct)
  case (1 n)
  then show ?case
    by (cases "n < 10") (auto simp: dec_digits.simps [of n] digit_val_digit)
qed

lemma dec_digits_head: "dec_digits n = c # cs \<Longrightarrow> c \<noteq> CHR ''-'' \<and> c \<noteq> CHR ''+''"
  using digit_val_dec_digits [of c n] by (auto simp: digit_val_def Let_def)

lemma parseInt_formatInt: "int64_range n \<Longrightarrow> parseInt (formatInt n) = Some n"
proof (cases "n < 0")
  case True
  assume "int64_range n"
  with True show ?thesis
    by (simp add: parseInt_def formatInt_def parse_digits_def dec_value_digits)
next
  case False
  assume r: "int64_range n"
  obtain c cs where c: "dec_digits (nat n) = c # cs"
    by (metis dec_digits_nonempty neq_Nil_conv)
  have "parse_digits (c # cs) = Some (nat n)"
    using dec_value_digits [of "nat n"] by (simp add: c parse_digits_def)
  with False r dec_digits_head [OF c] show ?thesis
    by (simp add: parseInt_def formatInt_def c Let_def)
qed

lemma formatInt_nonempty [simp]: "formatInt n \<noteq> []"
  by (simp add: formatInt_def)

lemma formatInt_inj: "formatInt m = formatInt n \<Longrightarrow> int64_range m \<Longrightarrow> int64_range n \<Longrightarrow> m = n"
  by (metis option.inject parseInt_formatInt)

section \<open>UTF-8\<close>

definition in_range :: "nat \<Rightarrow> nat \<Rightarrow> char \<Rightarrow> bool" where
  "in_range lo hi c \<longleftrightarrow> lo \<le> (of_char c :: nat) \<and> (of_char c :: nat) \<le> hi"

definition rune_error :: nat where
  "rune_error = 65533"

text \<open>
  \<open>utf8.DecodeRune\<close>: the first rune of a nonempty string and its width in bytes. A byte that
  starts no valid sequence is a \<open>RuneError\<close> of width 1.
\<close>

definition decodeRune :: "string \<Rightarrow> nat \<times> nat" where
  "decodeRune s =
     (let b = (\<lambda>i. of_char (s ! i) :: nat);
          ok = (\<lambda>i lo hi. i < length s \<and> in_range lo hi (s ! i));
          bad = (rune_error, 1)
      in if s = [] then (rune_error, 0)
         else if b 0 < 128 then (b 0, 1)
         else if b 0 < 194 then bad
         else if b 0 < 224 then
           (if ok 1 128 191 then ((b 0 - 192) * 64 + (b 1 - 128), 2) else bad)
         else if b 0 < 240 then
           (if ok 1 (if b 0 = 224 then 160 else 128) (if b 0 = 237 then 159 else 191) \<and> ok 2 128 191
            then ((b 0 - 224) * 4096 + (b 1 - 128) * 64 + (b 2 - 128), 3) else bad)
         else if b 0 < 245 then
           (if ok 1 (if b 0 = 240 then 144 else 128) (if b 0 = 244 then 143 else 191)
               \<and> ok 2 128 191 \<and> ok 3 128 191
            then ((b 0 - 240) * 262144 + (b 1 - 128) * 4096 + (b 2 - 128) * 64 + (b 3 - 128), 4)
            else bad)
         else bad)"

lemma decodeRune_width: "s \<noteq> [] \<Longrightarrow> 0 < snd (decodeRune s)"
  by (simp add: decodeRune_def Let_def)

text \<open>The runes of a string, each with the bytes that it occupies.\<close>

function runeChunks :: "string \<Rightarrow> (nat \<times> string) list" where
  "runeChunks s =
     (if s = [] then []
      else (let (r, n) = decodeRune s in (r, take n s) # runeChunks (drop n s)))"
  by pat_completeness auto
termination
proof (relation "measure length")
  show "wf (measure (length :: string \<Rightarrow> nat))" by simp
next
  fix s :: string and d r n
  assume "s \<noteq> []" and "d = decodeRune s" and "(r, n) = d"
  then have "0 < n" using decodeRune_width [of s] by (metis snd_conv)
  with \<open>s \<noteq> []\<close> show "(drop n s, s) \<in> measure length" by simp
qed

declare runeChunks.simps [simp del]

lemma runeChunks_Nil [simp]: "runeChunks [] = []"
  by (simp add: runeChunks.simps)

text \<open>\<open>for _, r := range s\<close>\<close>

definition runes :: "string \<Rightarrow> nat list" where
  "runes s = map fst (runeChunks s)"

lemma runeChunks_concat: "concat (map snd (runeChunks s)) = s"
  by (induction s rule: runeChunks.induct)
    (subst runeChunks.simps, auto split: prod.splits)

definition is_space :: "nat \<Rightarrow> bool" where
  "is_space r \<longleftrightarrow> r \<in> {9, 10, 11, 12, 13, 32, 133, 160, 5760, 8232, 8233, 8239, 8287, 12288}
     \<or> (8192 \<le> r \<and> r \<le> 8202)"

text \<open>\<open>strings.TrimSpace\<close>\<close>

definition trimSpace :: "string \<Rightarrow> string" where
  "trimSpace s =
     (let sp = (\<lambda>(r, bs). is_space r);
          cs = dropWhile sp (runeChunks s)
      in concat (map snd (rev (dropWhile sp (rev cs)))))"

fun utf8_encode :: "nat \<Rightarrow> string" where
  "utf8_encode r =
     (if r < 128 then [char_of r]
      else if r < 2048 then [char_of (192 + r div 64), char_of (128 + r mod 64)]
      else if (55296 \<le> r \<and> r \<le> 57343) \<or> 1114111 < r then map char_of [239, 191, 189 :: nat]
      else if r < 65536 then
        [char_of (224 + r div 4096), char_of (128 + r div 64 mod 64), char_of (128 + r mod 64)]
      else [char_of (240 + r div 262144), char_of (128 + r div 4096 mod 64),
            char_of (128 + r div 64 mod 64), char_of (128 + r mod 64)])"

declare utf8_encode.simps [simp del]

text \<open>What is left of a string that passes through an encoder which replaces invalid bytes.\<close>

definition to_valid_utf8 :: "string \<Rightarrow> string" where
  "to_valid_utf8 s =
     concat (map (\<lambda>(r, bs). if r = rune_error \<and> length bs = 1 then utf8_encode rune_error else bs)
              (runeChunks s))"

definition valid_utf8 :: "string \<Rightarrow> bool" where
  "valid_utf8 s \<longleftrightarrow> (\<forall>(r, bs) \<in> set (runeChunks s). \<not> (r = rune_error \<and> length bs = 1))"

lemma to_valid_utf8_id: "valid_utf8 s \<Longrightarrow> to_valid_utf8 s = s"
proof -
  assume v: "valid_utf8 s"
  have "map (\<lambda>(r, bs). if r = rune_error \<and> length bs = 1 then utf8_encode rune_error else bs)
          (runeChunks s) = map snd (runeChunks s)"
    using v by (intro map_cong) (auto simp: valid_utf8_def)
  then show ?thesis
    by (simp only: to_valid_utf8_def runeChunks_concat)
qed

text \<open>Strings of ASCII characters are valid.\<close>

definition ascii :: "string \<Rightarrow> bool" where
  "ascii s \<longleftrightarrow> list_all (\<lambda>c. (of_char c :: nat) < 128) s"

lemma runeChunks_ascii_Cons:
  "(of_char c :: nat) < 128 \<Longrightarrow> runeChunks (c # s) = (of_char c, [c]) # runeChunks s"
  by (subst runeChunks.simps) (simp add: decodeRune_def Let_def)

lemma runeChunks_ascii: "ascii s \<Longrightarrow> runeChunks s = map (\<lambda>c. (of_char c, [c])) s"
  by (induction s) (auto simp: ascii_def runeChunks_ascii_Cons)

lemma ascii_valid_utf8: "ascii s \<Longrightarrow> valid_utf8 s"
  by (auto simp: valid_utf8_def runeChunks_ascii rune_error_def ascii_def list_all_iff)

lemma ascii_to_valid_utf8 [simp]: "ascii s \<Longrightarrow> to_valid_utf8 s = s"
  by (simp add: to_valid_utf8_id ascii_valid_utf8)

end
