(* ===== verification/GoEncoding.thy ===== *)
theory GoEncoding
  imports GoStrings
begin

text \<open>
  Go's \<open>encoding/base64\<close>, \<open>encoding/hex\<close> and the big-endian integers of
  \<open>encoding/binary\<close>. The decoders follow \<open>DecodeString\<close>: line breaks are skipped, padding is
  required by the padded encoding and refused by the raw ones, and the unused bits of the last
  character are not checked.
\<close>

section \<open>Bytes\<close>

abbreviation byte :: "char \<Rightarrow> nat" where
  "byte c \<equiv> of_char c"

lemma byte_less: "byte c < 256"
  by simp

lemma char_of_byte [simp]: "char_of (byte c) = c"
  by simp

section \<open>base64\<close>

definition b64_std :: string where
  "b64_std = ''ABCDEFGHIJKLMNOPQRSTUVWXYZabcdefghijklmnopqrstuvwxyz0123456789+/''"

definition b64_url :: string where
  "b64_url = ''ABCDEFGHIJKLMNOPQRSTUVWXYZabcdefghijklmnopqrstuvwxyz0123456789-_''"

definition b64_val :: "string \<Rightarrow> char \<Rightarrow> nat option" where
  "b64_val al c = map_of (zip al [0..<64]) c"

fun b64_encode :: "string \<Rightarrow> bool \<Rightarrow> string \<Rightarrow> string" where
  "b64_encode al pad [] = []"
| "b64_encode al pad [a] =
     [al ! (byte a div 4), al ! (byte a mod 4 * 16)] @ (if pad then ''=='' else [])"
| "b64_encode al pad [a, b] =
     [al ! (byte a div 4), al ! (byte a mod 4 * 16 + byte b div 16), al ! (byte b mod 16 * 4)]
     @ (if pad then ''='' else [])"
| "b64_encode al pad (a # b # c # rest) =
     al ! (byte a div 4) # al ! (byte a mod 4 * 16 + byte b div 16)
     # al ! (byte b mod 16 * 4 + byte c div 64) # al ! (byte c mod 64)
     # b64_encode al pad rest"

definition b64_tail1 :: "nat \<Rightarrow> nat \<Rightarrow> string" where
  "b64_tail1 x y = [char_of (x * 4 + y div 16)]"

definition b64_tail2 :: "nat \<Rightarrow> nat \<Rightarrow> nat \<Rightarrow> string" where
  "b64_tail2 x y z = b64_tail1 x y @ [char_of (y mod 16 * 16 + z div 4)]"

definition b64_quad :: "nat \<Rightarrow> nat \<Rightarrow> nat \<Rightarrow> nat \<Rightarrow> string" where
  "b64_quad x y z u = b64_tail2 x y z @ [char_of (z mod 4 * 64 + u)]"

fun b64_decode_chunks :: "string \<Rightarrow> bool \<Rightarrow> string \<Rightarrow> string option" where
  "b64_decode_chunks al pad [] = Some []"
| "b64_decode_chunks al pad [p] = None"
| "b64_decode_chunks al pad [p, q] =
     (if pad then None
      else (case (b64_val al p, b64_val al q) of
              (Some x, Some y) \<Rightarrow> Some (b64_tail1 x y) | _ \<Rightarrow> None))"
| "b64_decode_chunks al pad [p, q, r] =
     (if pad then None
      else (case (b64_val al p, b64_val al q, b64_val al r) of
              (Some x, Some y, Some z) \<Rightarrow> Some (b64_tail2 x y z) | _ \<Rightarrow> None))"
| "b64_decode_chunks al pad (p # q # r # s # rest) =
     (case (b64_val al p, b64_val al q) of
        (Some x, Some y) \<Rightarrow>
          (if pad \<and> r = CHR ''='' \<and> s = CHR ''='' \<and> rest = [] then Some (b64_tail1 x y)
           else (case b64_val al r of
              None \<Rightarrow> None
            | Some z \<Rightarrow>
                (if pad \<and> s = CHR ''='' \<and> rest = [] then Some (b64_tail2 x y z)
                 else (case (b64_val al s, b64_decode_chunks al pad rest) of
                         (Some u, Some out) \<Rightarrow> Some (b64_quad x y z u @ out)
                       | _ \<Rightarrow> None))))
      | _ \<Rightarrow> None)"

definition b64_decode :: "string \<Rightarrow> bool \<Rightarrow> string \<Rightarrow> string option" where
  "b64_decode al pad s =
     b64_decode_chunks al pad (filter (\<lambda>c. c \<noteq> char_of (10::nat) \<and> c \<noteq> char_of (13::nat)) s)"

abbreviation rawURLEncode :: "string \<Rightarrow> string" where
  "rawURLEncode \<equiv> b64_encode b64_url False"

abbreviation rawURLDecode :: "string \<Rightarrow> string option" where
  "rawURLDecode \<equiv> b64_decode b64_url False"

definition good_alphabet :: "string \<Rightarrow> bool" where
  "good_alphabet al \<longleftrightarrow> length al = 64 \<and> distinct al
     \<and> char_of (10::nat) \<notin> set al \<and> char_of (13::nat) \<notin> set al"

lemma good_b64_url: "good_alphabet b64_url"
  by (simp add: good_alphabet_def b64_url_def char_of_def bit_0 bit_Suc)

lemma good_b64_std: "good_alphabet b64_std"
  by (simp add: good_alphabet_def b64_std_def char_of_def bit_0 bit_Suc)

lemma b64_val_nth: "good_alphabet al \<Longrightarrow> i < 64 \<Longrightarrow> b64_val al (al ! i) = Some i"
  by (simp add: b64_val_def good_alphabet_def map_of_zip_nth)

lemma b64_nth_plain:
  "good_alphabet al \<Longrightarrow> i < 64 \<Longrightarrow> al ! i \<noteq> char_of (10::nat) \<and> al ! i \<noteq> char_of (13::nat)"
  by (metis good_alphabet_def nth_mem)

lemma b64_indices:
  "byte a div 4 < 64" "byte a mod 4 * 16 < 64" "byte a mod 4 * 16 + byte b div 16 < 64"
  "byte b mod 16 * 4 < 64" "byte b mod 16 * 4 + byte c div 64 < 64" "byte c mod 64 < 64"
proof -
  have *: "x < 256 \<Longrightarrow> y < 256 \<Longrightarrow> x div 4 < 64 \<and> x mod 4 * 16 + y div 16 < 64 \<and>
      x mod 16 * 4 + y div 64 < 64" for x y :: nat
  proof -
    assume "x < 256" and "y < 256"
    then have "y div 16 < 16" and "y div 64 < 4" and "x div 4 < 64"
      by (simp_all add: less_mult_imp_div_less)
    moreover have "x mod 4 < 4" and "x mod 16 < 16" by simp_all
    ultimately show ?thesis by linarith
  qed
  show "byte a div 4 < 64" "byte a mod 4 * 16 + byte b div 16 < 64"
    "byte b mod 16 * 4 + byte c div 64 < 64"
    using * [of "byte a" "byte b"] * [of "byte b" "byte c"] by simp_all
  then show "byte a mod 4 * 16 < 64" "byte b mod 16 * 4 < 64" "byte c mod 64 < 64"
    by simp_all
qed

lemma b64_rejoin:
  "(byte a div 4) * 4 + (byte a mod 4 * 16 + byte b div 16) div 16 = byte a"
  "(byte a div 4) * 4 + (byte a mod 4 * 16) div 16 = byte a"
  "(byte a mod 4 * 16 + byte b div 16) mod 16 * 16 + (byte b mod 16 * 4 + byte c div 64) div 4 = byte b"
  "(byte a mod 4 * 16 + byte b div 16) mod 16 * 16 + (byte b mod 16 * 4) div 4 = byte b"
  "(byte b mod 16 * 4 + byte c div 64) mod 4 * 64 + byte c mod 64 = byte c"
proof -
  have b: "byte b div 16 < 16" and c: "byte c div 64 < 4"
    using byte_less [of b] byte_less [of c] by (simp_all add: less_mult_imp_div_less)
  show "(byte a div 4) * 4 + (byte a mod 4 * 16 + byte b div 16) div 16 = byte a"
    using b by simp
  show "(byte a div 4) * 4 + (byte a mod 4 * 16) div 16 = byte a"
    by simp
  show "(byte a mod 4 * 16 + byte b div 16) mod 16 * 16 + (byte b mod 16 * 4 + byte c div 64) div 4 = byte b"
    using b c by simp
  show "(byte a mod 4 * 16 + byte b div 16) mod 16 * 16 + (byte b mod 16 * 4) div 4 = byte b"
    using b by simp
  show "(byte b mod 16 * 4 + byte c div 64) mod 4 * 64 + byte c mod 64 = byte c"
    using c by simp
qed

lemma b64_encode_plain:
  "good_alphabet al \<Longrightarrow>
   filter (\<lambda>c. c \<noteq> char_of (10::nat) \<and> c \<noteq> char_of (13::nat)) (b64_encode al False s)
   = b64_encode al False s"
  by (induction al False s rule: b64_encode.induct)
    (auto simp: b64_nth_plain b64_indices)

text \<open>The raw encodings decode to what was encoded.\<close>

lemma b64_decode_encode: "good_alphabet al \<Longrightarrow> b64_decode al False (b64_encode al False s) = Some s"
proof -
  assume al: "good_alphabet al"
  have rejoin: "n = byte c \<Longrightarrow> char_of n = c" for n c by simp
  have "b64_decode_chunks al False (b64_encode al False s) = Some s"
    using al
    by (induction al False s rule: b64_encode.induct)
      (simp_all only: b64_encode.simps b64_decode_chunks.simps append.simps if_False simp_thms
        b64_val_nth b64_indices b64_tail1_def b64_tail2_def b64_quad_def option.case prod.case
        b64_rejoin [THEN rejoin])
  with al show ?thesis by (simp add: b64_decode_def b64_encode_plain)
qed

lemma rawURLDecode_encode [simp]: "rawURLDecode (rawURLEncode s) = Some s"
  by (rule b64_decode_encode [OF good_b64_url])

lemma b64_encode_nonempty [simp]: "b64_encode al pad s = [] \<longleftrightarrow> s = []"
  by (cases "(al, pad, s)" rule: b64_encode.cases) auto

section \<open>hex\<close>

definition hex_lower :: string where
  "hex_lower = ''0123456789abcdef''"

text \<open>\<open>hex.EncodeToString\<close>\<close>

definition hexEncode :: "string \<Rightarrow> string" where
  "hexEncode s = concat (map (\<lambda>c. [hex_lower ! (byte c div 16), hex_lower ! (byte c mod 16)]) s)"

lemma length_hexEncode: "length (hexEncode s) = 2 * length s"
  by (induction s) (auto simp: hexEncode_def)

lemma hex_lower_nth_inj: "i < 16 \<Longrightarrow> j < 16 \<Longrightarrow> hex_lower ! i = hex_lower ! j \<Longrightarrow> i = j"
  using nth_eq_iff_index_eq [of hex_lower i j] by (simp add: hex_lower_def)

lemma hexEncode_inj: "hexEncode s = hexEncode t \<Longrightarrow> s = t"
proof (induction s arbitrary: t)
  case Nil
  then show ?case by (cases t) (auto simp: hexEncode_def)
next
  case (Cons a s)
  then obtain b t' where t: "t = b # t'" by (cases t) (auto simp: hexEncode_def)
  have lt: "byte c div 16 < 16" for c using byte_less [of c] by (simp add: less_mult_imp_div_less)
  from Cons.prems have "hex_lower ! (byte a div 16) = hex_lower ! (byte b div 16)"
    and "hex_lower ! (byte a mod 16) = hex_lower ! (byte b mod 16)" and r: "hexEncode s = hexEncode t'"
    by (auto simp: t hexEncode_def)
  then have "byte a div 16 = byte b div 16" and "byte a mod 16 = byte b mod 16"
    using lt by (auto intro: hex_lower_nth_inj)
  then have "byte a = byte b" by (metis div_mult_mod_eq)
  then have "a = b" by (metis char_of_byte)
  with Cons.IH [OF r] t show ?case by simp
qed

section \<open>Big-endian integers\<close>

text \<open>\<open>binary.BigEndian.PutUint32\<close> and \<open>PutUint64\<close>\<close>

definition be32 :: "nat \<Rightarrow> string" where
  "be32 n = [char_of (n div 16777216 mod 256), char_of (n div 65536 mod 256),
             char_of (n div 256 mod 256), char_of (n mod 256)]"

definition be64 :: "nat \<Rightarrow> string" where
  "be64 n = map (\<lambda>k. char_of (n div 256 ^ k mod 256)) [7, 6, 5, 4, 3, 2, 1, 0]"

text \<open>\<open>new(big.Int).SetBytes(raw)\<close>\<close>

definition be_value :: "string \<Rightarrow> nat" where
  "be_value s = foldl (\<lambda>acc c. acc * 256 + byte c) 0 s"

lemma length_be32 [simp]: "length (be32 n) = 4"
  by (simp add: be32_def)

lemma be_value_be32: "n < 2 ^ 32 \<Longrightarrow> be_value (be32 n) = n"
proof -
  assume n: "n < 2 ^ 32"
  have 0: "n = (n div 256) * 256 + n mod 256" by simp
  have 1: "n div 256 = (n div 65536) * 256 + n div 256 mod 256"
    using div_mult2_eq [of n 256 256] by simp
  have 2: "n div 65536 = (n div 16777216) * 256 + n div 65536 mod 256"
    using div_mult2_eq [of n 65536 256] by simp
  have 3: "n div 16777216 mod 256 = n div 16777216"
    using n by (simp add: less_mult_imp_div_less)
  have "be_value (be32 n) =
      ((n div 16777216 mod 256 * 256 + n div 65536 mod 256) * 256 + n div 256 mod 256) * 256 + n mod 256"
    by (simp add: be32_def be_value_def of_char_of take_bit_eq_mod)
  then show ?thesis
    using 0 1 2 3 by presburger
qed

lemma digits_determine:
  "(\<And>k. k < j \<Longrightarrow> m div 256 ^ k mod 256 = n div 256 ^ k mod (256::nat)) \<Longrightarrow> m mod 256 ^ j = n mod 256 ^ j"
proof (induction j)
  case (Suc j)
  then have "m mod 256 ^ j = n mod 256 ^ j" and "m div 256 ^ j mod 256 = n div 256 ^ j mod 256" by auto
  then show ?case using mod_mult2_eq [of m "256 ^ j" 256] mod_mult2_eq [of n "256 ^ j" 256] by (simp add: mult.commute)
qed simp

lemma length_be64 [simp]: "length (be64 n) = 8"
  by (simp add: be64_def)

lemma char_of_mod_inj: "(char_of (a mod 256 :: nat) :: char) = char_of (b mod 256) \<Longrightarrow> a mod 256 = b mod 256"
  by (metis mod_mod_trivial of_char_of)

lemma be64_inj:
  assumes "be64 m = be64 n" and "m < 2 ^ 64" and "n < 2 ^ 64"
  shows "m = n"
proof -
  have "m div 256 ^ k mod 256 = n div 256 ^ k mod 256" if "k < 8" for k
  proof -
    from that have "k \<in> set [7, 6, 5, 4, 3, 2, 1, 0]" by (auto simp: numeral_eq_Suc less_Suc_eq)
    with assms(1) have "(char_of (m div 256 ^ k mod 256 :: nat) :: char) = char_of (n div 256 ^ k mod 256)"
      unfolding be64_def map_eq_conv by blast
    then show ?thesis by (rule char_of_mod_inj)
  qed
  then have "m mod 256 ^ 8 = n mod 256 ^ 8" by (rule digits_determine)
  with assms(2,3) show ?thesis by simp
qed

end
