(* ===== verification/GoCrypto.thy ===== *)
theory GoCrypto
  imports GoEncoding
begin

unbundle bit_operations_syntax

text \<open>
  The digests of Go's standard library on which message and signature checks rest:
  \<open>crypto/sha256\<close> (FIPS 180-4), \<open>crypto/md5\<close> (RFC 1321) and \<open>crypto/hmac\<close> (RFC 2104), on
  32 bit words.
\<close>

section \<open>Blocks\<close>

definition blocks_of :: "nat \<Rightarrow> 'a list \<Rightarrow> 'a list list" where
  "blocks_of n xs = map (\<lambda>i. take n (drop (n * i) xs)) [0..<length xs div n]"

text \<open>A one bit, zeros up to 56 bytes modulo 64, then the length in bits in eight bytes.\<close>

definition md_pad :: "(nat \<Rightarrow> string) \<Rightarrow> string \<Rightarrow> string" where
  "md_pad len8 s = s @ [char_of (128::nat)] @ replicate ((119 - length s mod 64) mod 64) (char_of (0::nat))
     @ len8 (8 * length s mod 2 ^ 64)"

definition word_be :: "string \<Rightarrow> 32 word" where
  "word_be s = word_of_nat (be_value s)"

definition be_word :: "32 word \<Rightarrow> string" where
  "be_word x = be32 (unat x)"

section \<open>SHA-256\<close>

text \<open>The constants of FIPS 180-4 and RFC 1321, in decimal.\<close>

definition sha256_k :: "32 word list" where
  "sha256_k = [
     1116352408, 1899447441, 3049323471, 3921009573, 961987163, 1508970993, 2453635748, 2870763221,
     3624381080, 310598401, 607225278, 1426881987, 1925078388, 2162078206, 2614888103, 3248222580,
     3835390401, 4022224774, 264347078, 604807628, 770255983, 1249150122, 1555081692, 1996064986,
     2554220882, 2821834349, 2952996808, 3210313671, 3336571891, 3584528711, 113926993, 338241895,
     666307205, 773529912, 1294757372, 1396182291, 1695183700, 1986661051, 2177026350, 2456956037,
     2730485921, 2820302411, 3259730800, 3345764771, 3516065817, 3600352804, 4094571909, 275423344,
     430227734, 506948616, 659060556, 883997877, 958139571, 1322822218, 1537002063, 1747873779,
     1955562222, 2024104815, 2227730452, 2361852424, 2428436474, 2756734187, 3204031479, 3329325298]"

definition sha256_init :: "32 word list" where
  "sha256_init = [
     1779033703, 3144134277, 1013904242, 2773480762, 1359893119, 2600822924, 528734635, 1541459225]"

definition sha256_schedule :: "32 word list \<Rightarrow> 32 word list" where
  "sha256_schedule m =
     fold (\<lambda>t w.
       (let x = w ! (t - 15); y = w ! (t - 2);
            s0 = word_rotr 7 x XOR word_rotr 18 x XOR drop_bit 3 x;
            s1 = word_rotr 17 y XOR word_rotr 19 y XOR drop_bit 10 y
        in w @ [s1 + w ! (t - 7) + s0 + w ! (t - 16)])) [16..<64] m"

fun sha256_round :: "32 word \<times> 32 word \<Rightarrow> 32 word list \<Rightarrow> 32 word list" where
  "sha256_round (k, w) [a, b, c, d, e, f, g, h] =
     (let t1 = h + (word_rotr 6 e XOR word_rotr 11 e XOR word_rotr 25 e)
               + ((e AND f) XOR (NOT e AND g)) + k + w;
          t2 = (word_rotr 2 a XOR word_rotr 13 a XOR word_rotr 22 a)
               + ((a AND b) XOR (a AND c) XOR (b AND c))
      in [t1 + t2, a, b, c, d + t1, e, f, g])"
| "sha256_round kw st = st"

definition sha256_block :: "string \<Rightarrow> 32 word list \<Rightarrow> 32 word list" where
  "sha256_block blk st =
     (let w = sha256_schedule (map word_be (blocks_of 4 blk))
      in map2 (+) st (fold sha256_round (zip sha256_k w) st))"

text \<open>\<open>sha256.Sum256\<close>\<close>

definition sha256 :: "string \<Rightarrow> string" where
  "sha256 s = concat (map be_word (fold sha256_block (blocks_of 64 (md_pad be64 s)) sha256_init))"

definition sha256Hex :: "string \<Rightarrow> string" where
  "sha256Hex s = hexEncode (sha256 s)"

section \<open>MD5\<close>

definition md5_t :: "32 word list" where
  "md5_t = [
     3614090360, 3905402710, 606105819, 3250441966, 4118548399, 1200080426, 2821735955, 4249261313,
     1770035416, 2336552879, 4294925233, 2304563134, 1804603682, 4254626195, 2792965006, 1236535329,
     4129170786, 3225465664, 643717713, 3921069994, 3593408605, 38016083, 3634488961, 3889429448,
     568446438, 3275163606, 4107603335, 1163531501, 2850285829, 4243563512, 1735328473, 2368359562,
     4294588738, 2272392833, 1839030562, 4259657740, 2763975236, 1272893353, 4139469664, 3200236656,
     681279174, 3936430074, 3572445317, 76029189, 3654602809, 3873151461, 530742520, 3299628645,
     4096336452, 1126891415, 2878612391, 4237533241, 1700485571, 2399980690, 4293915773, 2240044497,
     1873313359, 4264355552, 2734768916, 1309151649, 4149444226, 3174756917, 718787259, 3951481745]"

definition md5_s :: "nat list" where
  "md5_s = [
     7, 12, 17, 22, 7, 12, 17, 22, 7, 12, 17, 22, 7, 12, 17, 22,
     5, 9, 14, 20, 5, 9, 14, 20, 5, 9, 14, 20, 5, 9, 14, 20,
     4, 11, 16, 23, 4, 11, 16, 23, 4, 11, 16, 23, 4, 11, 16, 23,
     6, 10, 15, 21, 6, 10, 15, 21, 6, 10, 15, 21, 6, 10, 15, 21]"

definition md5_init :: "32 word list" where
  "md5_init = [0x67452301, 0xefcdab89, 0x98badcfe, 0x10325476]"

definition md5_index :: "nat \<Rightarrow> nat" where
  "md5_index i = (if i < 16 then i else if i < 32 then (5 * i + 1) mod 16
     else if i < 48 then (3 * i + 5) mod 16 else 7 * i mod 16)"

definition md5_mix :: "nat \<Rightarrow> 32 word \<Rightarrow> 32 word \<Rightarrow> 32 word \<Rightarrow> 32 word" where
  "md5_mix i b c d = (if i < 16 then (b AND c) OR (NOT b AND d)
     else if i < 32 then (d AND b) OR (NOT d AND c)
     else if i < 48 then b XOR c XOR d else c XOR (b OR NOT d))"

fun md5_round :: "32 word list \<Rightarrow> nat \<Rightarrow> 32 word list \<Rightarrow> 32 word list" where
  "md5_round m i [a, b, c, d] =
     [d, b + word_rotl (md5_s ! i) (a + md5_mix i b c d + md5_t ! i + m ! md5_index i), b, c]"
| "md5_round m i st = st"

definition md5_block :: "string \<Rightarrow> 32 word list \<Rightarrow> 32 word list" where
  "md5_block blk st =
     map2 (+) st (fold (md5_round (map (word_be \<circ> rev) (blocks_of 4 blk))) [0..<64] st)"

text \<open>\<open>md5.Sum\<close>\<close>

definition md5 :: "string \<Rightarrow> string" where
  "md5 s = concat (map (rev \<circ> be_word)
     (fold md5_block (blocks_of 64 (md_pad (\<lambda>n. rev (be64 n)) s)) md5_init))"

section \<open>HMAC\<close>

definition xor_pad :: "8 word \<Rightarrow> string \<Rightarrow> string" where
  "xor_pad p key = map (\<lambda>c. char_of (unat ((word_of_nat (byte c) :: 8 word) XOR p)))
     (key @ replicate (64 - length key) (char_of (0::nat)))"

text \<open>\<open>hmac.New(sha256.New, key)\<close>, one \<open>Write\<close>, one \<open>Sum\<close>\<close>

definition hmac_sha256 :: "string \<Rightarrow> string \<Rightarrow> string" where
  "hmac_sha256 key msg =
     (let k = (if length key > 64 then sha256 key else key)
      in sha256 (xor_pad 0x5c k @ sha256 (xor_pad 0x36 k @ msg)))"

section \<open>Digest lengths\<close>

lemma length_sha256_round [simp]: "length (sha256_round kw st) = length st"
  by (cases "(kw, st)" rule: sha256_round.cases) (simp_all add: Let_def)

lemma length_sha256_rounds [simp]: "length (fold sha256_round kws st) = length st"
  by (induction kws arbitrary: st) auto

lemma length_sha256_block [simp]: "length (sha256_block blk st) = length st"
  by (simp add: sha256_block_def Let_def)

lemma length_sha256_blocks [simp]: "length (fold sha256_block bs st) = length st"
  by (induction bs arbitrary: st) auto

lemma length_concat_words: "(\<And>x. length (f x) = 4) \<Longrightarrow> length (concat (map f xs)) = 4 * length xs"
  by (induction xs) auto

lemma length_sha256: "length (sha256 s) = 32"
  by (simp add: sha256_def length_concat_words be_word_def sha256_init_def)

lemma length_md5_round [simp]: "length (md5_round m i st) = length st"
  by (cases "(m, i, st)" rule: md5_round.cases) simp_all

lemma length_md5_rounds [simp]: "length (fold (md5_round m) is st) = length st"
  by (induction "is" arbitrary: st) auto

lemma length_md5_block [simp]: "length (md5_block blk st) = length st"
  by (simp add: md5_block_def)

lemma length_md5_blocks [simp]: "length (fold md5_block bs st) = length st"
  by (induction bs arbitrary: st) auto

lemma length_md5: "length (md5 s) = 16"
  by (simp add: md5_def length_concat_words be_word_def md5_init_def)

lemma sha256Hex_nonempty [simp]: "sha256Hex s \<noteq> []"
  using length_sha256 [of s] by (auto simp: sha256Hex_def length_hexEncode simp flip: length_0_conv)

end
