(* ===== verification/GoJson.thy ===== *)
theory GoJson
  imports GoCrypto
begin

text \<open>
  The parts of \<open>encoding/json\<close> that the code uses: \<open>Unmarshal\<close> into \<open>any\<close> and into
  \<open>map[string]any\<close>, \<open>Decoder.Decode\<close> with \<open>UseNumber\<close>, and \<open>Marshal\<close>. Numbers become the
  nearest float64 and are printed with the fewest digits that read back as the same float64.
  The parser's fuel is spent once per character or bracket, so the length of the input is enough.
\<close>

section \<open>float64\<close>

fun bit_length :: "nat \<Rightarrow> nat" where
  "bit_length n = (if n = 0 then 0 else Suc (bit_length (n div 2)))"

declare bit_length.simps [simp del]

definition pow2 :: "int \<Rightarrow> nat" where
  "pow2 e = 2 ^ nat e"

fun norm_float :: "nat \<Rightarrow> int \<Rightarrow> nat \<times> int" where
  "norm_float m e = (if m = 0 then (0, 0) else if even m then norm_float (m div 2) (e + 1) else (m, e))"

declare norm_float.simps [simp del]

text \<open>
  The float64 nearest to \<open>num / den\<close>, ties to even, as a normalised mantissa and exponent;
  \<open>None\<close> when the value is out of range.
\<close>

definition nearest_f64 :: "nat \<Rightarrow> nat \<Rightarrow> (nat \<times> int) option" where
  "nearest_f64 num den =
     (if num = 0 then Some (0, 0)
      else
        (let k = int (bit_length num) - int (bit_length den) - 53;
             scaled = (\<lambda>e. (num * pow2 (- e), den * pow2 e));
             top = (\<lambda>e. fst (scaled e) div snd (scaled e));
             e = max (- 1074) (if top k < 2 ^ 53 then k else k + 1);
             q = top e; r = fst (scaled e) mod snd (scaled e); d = snd (scaled e);
             m = (if 2 * r > d \<or> (2 * r = d \<and> odd q) then q + 1 else q)
         in if int (bit_length m) + e > 1024 then None else Some (norm_float m e)))"

definition dec_ratio :: "nat \<Rightarrow> int \<Rightarrow> nat \<times> nat" where
  "dec_ratio m x = (m * 10 ^ nat x, 10 ^ nat (- x))"

definition float_to_int64 :: "int \<Rightarrow> int \<Rightarrow> int" where
  "float_to_int64 m e =
     (let v = (if e \<ge> 0 then m * 2 ^ nat e else sgn m * (\<bar>m\<bar> div 2 ^ nat (- e)))
      in if int64_range v then v else - (2 ^ 63))"

text \<open>The decimal exponent \<open>p\<close> with \<open>10^(p-1) \<le> n/d < 10^p\<close>.\<close>

fun dec_exp_small :: "nat \<Rightarrow> nat \<Rightarrow> nat \<Rightarrow> int" where
  "dec_exp_small 0 n d = 0"
| "dec_exp_small (Suc fuel) n d = (if 10 * n \<ge> d then 0 else dec_exp_small fuel (10 * n) d - 1)"

definition dec_exp :: "nat \<Rightarrow> nat \<Rightarrow> int" where
  "dec_exp n d = (if n \<ge> d then int (length (dec_digits (n div d))) else dec_exp_small 400 n d)"

text \<open>The shortest decimal digits, and the position of the point, of a positive float64.\<close>

definition shortest_with :: "nat \<Rightarrow> int \<Rightarrow> nat \<Rightarrow> nat option" where
  "shortest_with m e nd =
     (let n = m * pow2 e; d = pow2 (- e); x = int nd - dec_exp n d;
          sn = n * 10 ^ nat x; sd = d * 10 ^ nat (- x);
          lo = sn div sd;
          good = (\<lambda>c. (case dec_ratio c (- x) of (a, b) \<Rightarrow> nearest_f64 a b) = Some (m, e))
      in if good lo \<and> (2 * (sn mod sd) \<le> sd \<or> \<not> good (lo + 1)) then Some lo
         else if good (lo + 1) then Some (lo + 1) else None)"

definition shortest_digits :: "nat \<Rightarrow> int \<Rightarrow> string \<times> int" where
  "shortest_digits m e =
     (let n = m * pow2 e; d = pow2 (- e); p = dec_exp n d
      in case List.map_filter (\<lambda>nd. map_option (\<lambda>c. (c, nd)) (shortest_with m e nd)) [1..<18] of
           [] \<Rightarrow> (''0'', 1)
         | (c, nd) # _ \<Rightarrow>
             (let ds = dec_digits c
              in (rev (dropWhile (\<lambda>x. x = CHR ''0'') (rev ds)), p + int (length ds) - int nd)))"

definition format_f :: "string \<Rightarrow> int \<Rightarrow> string" where
  "format_f ds p =
     (if p \<le> 0 then ''0.'' @ replicate (nat (- p)) (CHR ''0'') @ ds
      else if int (length ds) \<le> p then ds @ replicate (nat p - length ds) (CHR ''0'')
      else take (nat p) ds @ ''.'' @ drop (nat p) ds)"

definition format_e :: "nat \<Rightarrow> string \<Rightarrow> int \<Rightarrow> string" where
  "format_e w ds p =
     (let x = p - 1; xs = dec_digits (nat \<bar>x\<bar>)
      in take 1 ds @ (if length ds > 1 then ''.'' @ drop 1 ds else []) @ ''e''
         @ (if x < 0 then ''-'' else ''+'') @ replicate (w - length xs) (CHR ''0'') @ xs)"

text \<open>\<open>encoding/json\<close>'s and \<open>fmt\<close>'s rendering of a float64\<close>

definition json_float :: "int \<Rightarrow> int \<Rightarrow> string" where
  "json_float m e =
     (if m = 0 then (if e = 1 then ''-0'' else ''0'')
      else (case shortest_digits (nat \<bar>m\<bar>) e of (ds, p) \<Rightarrow>
        (if m < 0 then ''-'' else []) @
        (if p < - 5 \<or> p > 21 then format_e (if p - 1 < 0 then 1 else 2) ds p else format_f ds p)))"

definition sprint_float :: "int \<Rightarrow> int \<Rightarrow> string" where
  "sprint_float m e =
     (if m = 0 then (if e = 1 then ''-0'' else ''0'')
      else (case shortest_digits (nat \<bar>m\<bar>) e of (ds, p) \<Rightarrow>
        (if m < 0 then ''-'' else []) @
        (if p - 1 < - 4 \<or> p - 1 \<ge> 6 then format_e 2 ds p else format_f ds p)))"

section \<open>Parsing\<close>

definition json_ws :: "char \<Rightarrow> bool" where
  "json_ws c \<longleftrightarrow> byte c \<in> {9, 10, 13, 32}"

definition skip_ws :: "string \<Rightarrow> string" where
  "skip_ws s = dropWhile json_ws s"

definition is_digit :: "char \<Rightarrow> bool" where
  "is_digit c \<longleftrightarrow> digit_val c \<noteq> None"

definition hex_val :: "char \<Rightarrow> nat option" where
  "hex_val c = (let n = byte c in
     if 48 \<le> n \<and> n \<le> 57 then Some (n - 48) else if 97 \<le> n \<and> n \<le> 102 then Some (n - 87)
     else if 65 \<le> n \<and> n \<le> 70 then Some (n - 55) else None)"

fun hex4 :: "string \<Rightarrow> (nat \<times> string) option" where
  "hex4 (a # b # c # d # s) =
     (case (hex_val a, hex_val b, hex_val c, hex_val d) of
        (Some w, Some x, Some y, Some z) \<Rightarrow> Some (((w * 16 + x) * 16 + y) * 16 + z, s)
      | _ \<Rightarrow> None)"
| "hex4 s = None"

definition escape_of :: "char \<Rightarrow> string option" where
  "escape_of c = map_of
     [(char_of (34::nat), [char_of (34::nat)]), (char_of (92::nat), [char_of (92::nat)]),
      (CHR ''/'', ''/''), (CHR ''b'', [char_of (8::nat)]), (CHR ''f'', [char_of (12::nat)]),
      (CHR ''n'', [char_of (10::nat)]), (CHR ''r'', [char_of (13::nat)]), (CHR ''t'', [char_of (9::nat)])] c"

text \<open>
  A \<open>\u\<close> escape whose code unit is a surrogate takes the next escape with it when the two are
  a pair, and is the replacement character otherwise.
\<close>

definition unicode_escape :: "string \<Rightarrow> (string \<times> string) option" where
  "unicode_escape s =
     (case hex4 s of
        None \<Rightarrow> None
      | Some (u, r) \<Rightarrow>
          (if 55296 \<le> u \<and> u \<le> 57343 then
             (case r of
                b # c # r' \<Rightarrow>
                  (if byte b = 92 \<and> c = CHR ''u'' then
                     (case hex4 r' of
                        Some (v, r'') \<Rightarrow>
                          (if u \<le> 56319 \<and> 56320 \<le> v \<and> v \<le> 57343
                           then Some (utf8_encode (65536 + (u - 55296) * 1024 + (v - 56320)), r'')
                           else Some (utf8_encode rune_error, r))
                      | None \<Rightarrow> Some (utf8_encode rune_error, r))
                   else Some (utf8_encode rune_error, r))
              | _ \<Rightarrow> Some (utf8_encode rune_error, r))
           else Some (utf8_encode u, r)))"

text \<open>The rest of a string literal after its opening quote.\<close>

fun json_string :: "nat \<Rightarrow> string \<Rightarrow> (string \<times> string) option" where
  "json_string 0 s = None"
| "json_string (Suc fuel) [] = None"
| "json_string (Suc fuel) (c # s) =
     (if byte c = 34 then Some ([], s)
      else if byte c < 32 then None
      else if byte c = 92 then
        (case s of [] \<Rightarrow> None
         | x # s' \<Rightarrow>
            (case (if x = CHR ''u'' then unicode_escape s' else map_option (\<lambda>t. (t, s')) (escape_of x)) of
               None \<Rightarrow> None
             | Some (t, r) \<Rightarrow> map_option (\<lambda>(out, r'). (t @ out, r')) (json_string fuel r)))
      else
        (case decodeRune (c # s) of (r, n) \<Rightarrow>
           map_option (\<lambda>(out, r'). ((if r = rune_error \<and> n = 1 then utf8_encode rune_error
                                     else take n (c # s)) @ out, r'))
             (json_string fuel (drop n (c # s)))))"

text \<open>The longest number literal at the start, by Go's scanner.\<close>

definition number_int :: "string \<Rightarrow> (string \<times> string) option" where
  "number_int s =
     (case s of [] \<Rightarrow> None
      | c # r \<Rightarrow> (if c = CHR ''0'' then Some (''0'', r)
                  else if is_digit c then Some (takeWhile is_digit s, dropWhile is_digit s)
                  else None))"

definition number_frac :: "string \<Rightarrow> (string \<times> string) option" where
  "number_frac s =
     (case s of
        c # r \<Rightarrow> (if c = CHR ''.'' then
                    (if takeWhile is_digit r = [] then None
                     else Some (takeWhile is_digit r, dropWhile is_digit r))
                  else Some ([], s))
      | [] \<Rightarrow> Some ([], []))"

definition number_exp :: "string \<Rightarrow> (string \<times> string) option" where
  "number_exp s =
     (case s of
        c # r \<Rightarrow> (if c = CHR ''e'' \<or> c = CHR ''E'' then
                    (let sg = (case r of x # _ \<Rightarrow> if x = CHR ''-'' \<or> x = CHR ''+'' then [x] else [] | [] \<Rightarrow> []);
                         t = drop (length sg) r
                     in if takeWhile is_digit t = [] then None
                        else Some (sg @ takeWhile is_digit t, dropWhile is_digit t))
                  else Some ([], s))
      | [] \<Rightarrow> Some ([], []))"

record number_lit =
  nl_neg :: bool
  nl_int :: string
  nl_frac :: string
  nl_exp :: string

definition json_number :: "string \<Rightarrow> (number_lit \<times> string \<times> string) option" where
  "json_number s =
     (let neg = (case s of c # _ \<Rightarrow> c = CHR ''-'' | [] \<Rightarrow> False);
          s1 = (if neg then tl s else s)
      in case number_int s1 of None \<Rightarrow> None
         | Some (i, s2) \<Rightarrow>
            (case number_frac s2 of None \<Rightarrow> None
             | Some (f, s3) \<Rightarrow>
                (case number_exp s3 of None \<Rightarrow> None
                 | Some (x, s4) \<Rightarrow>
                     Some (\<lparr>nl_neg = neg, nl_int = i, nl_frac = f, nl_exp = x\<rparr>,
                           take (length s - length s4) s, s4))))"

definition digits_nat :: "string \<Rightarrow> nat" where
  "digits_nat ds = (case dec_value 0 ds of Some n \<Rightarrow> n | None \<Rightarrow> 0)"

definition exp_int :: "string \<Rightarrow> int" where
  "exp_int x = (case x of [] \<Rightarrow> 0
     | c # r \<Rightarrow> (if c = CHR ''-'' then - int (digits_nat r)
                 else if c = CHR ''+'' then int (digits_nat r) else int (digits_nat x)))"

text \<open>\<open>strconv.ParseFloat(lit, 64)\<close>\<close>

definition parse_float :: "number_lit \<Rightarrow> gval option" where
  "parse_float l =
     (case dec_ratio (digits_nat (nl_int l @ nl_frac l)) (exp_int (nl_exp l) - int (length (nl_frac l))) of
        (a, b) \<Rightarrow>
        (case nearest_f64 a b of
           None \<Rightarrow> None
         | Some (m, e) \<Rightarrow>
             Some (if m = 0 \<and> nl_neg l then GFloat 0 1
                   else GFloat (if nl_neg l then - int m else int m) e)))"

text \<open>What the decoder makes of a number: a float64, or a \<open>json.Number\<close> after \<open>UseNumber\<close>.\<close>

type_synonym number_mode = "number_lit \<Rightarrow> string \<Rightarrow> gval option"

definition as_float64 :: number_mode where
  "as_float64 l lit = parse_float l"

definition as_number :: number_mode where
  "as_number l lit = Some (GNum lit)"

definition max_depth :: nat where
  "max_depth = 10000"

definition json_literal :: "string \<Rightarrow> (gval \<times> string) option" where
  "json_literal s =
     (if prefix ''true'' s then Some (GBool True, drop 4 s)
      else if prefix ''false'' s then Some (GBool False, drop 5 s)
      else if prefix ''null'' s then Some (GNil, drop 4 s) else None)"

fun json_value :: "number_mode \<Rightarrow> nat \<Rightarrow> nat \<Rightarrow> string \<Rightarrow> (gval \<times> string) option"
  and json_elems :: "number_mode \<Rightarrow> nat \<Rightarrow> nat \<Rightarrow> string \<Rightarrow> (gval list \<times> string) option"
  and json_members :: "number_mode \<Rightarrow> nat \<Rightarrow> nat \<Rightarrow> string \<Rightarrow> (gmap \<times> string) option"
where
  "json_value num 0 depth s = None"
| "json_value num (Suc fuel) depth s =
     (case skip_ws s of
        [] \<Rightarrow> None
      | c # r \<Rightarrow>
          (if c = CHR ''{'' then
             (if depth \<ge> max_depth then None
              else (case skip_ws r of
                      [] \<Rightarrow> None
                    | x # r' \<Rightarrow> (if x = CHR ''}'' then Some (GMap [], r')
                        else map_option (\<lambda>(m, t). (GMap (mcopy [] m), t))
                               (json_members num fuel (Suc depth) r))))
           else if c = CHR ''['' then
             (if depth \<ge> max_depth then None
              else (case skip_ws r of
                      [] \<Rightarrow> None
                    | x # r' \<Rightarrow> (if x = CHR '']'' then Some (GList [], r')
                        else map_option (\<lambda>(xs, t). (GList xs, t)) (json_elems num fuel (Suc depth) r))))
           else if byte c = 34 then
             map_option (\<lambda>(t, r'). (GStr t, r')) (json_string (Suc (length r)) r)
           else if c = CHR ''-'' \<or> is_digit c then
             (case json_number (c # r) of
                None \<Rightarrow> None
              | Some (l, lit, r') \<Rightarrow> map_option (\<lambda>v. (v, r')) (num l lit))
           else json_literal (c # r)))"
| "json_elems num 0 depth s = None"
| "json_elems num (Suc fuel) depth s =
     (case json_value num fuel depth s of
        None \<Rightarrow> None
      | Some (v, r) \<Rightarrow>
          (case skip_ws r of
             [] \<Rightarrow> None
           | c # r' \<Rightarrow>
               (if c = CHR '','' then map_option (\<lambda>(vs, t). (v # vs, t)) (json_elems num fuel depth r')
                else if c = CHR '']'' then Some ([v], r') else None)))"
| "json_members num 0 depth s = None"
| "json_members num (Suc fuel) depth s =
     (case skip_ws s of
        [] \<Rightarrow> None
      | q # r0 \<Rightarrow>
         (if byte q \<noteq> 34 then None
          else (case json_string (Suc (length r0)) r0 of
                  None \<Rightarrow> None
                | Some (k, r1) \<Rightarrow>
                    (case skip_ws r1 of
                       [] \<Rightarrow> None
                     | x # r2 \<Rightarrow>
                        (if x \<noteq> CHR '':'' then None
                         else (case json_value num fuel depth r2 of
                                 None \<Rightarrow> None
                               | Some (v, r3) \<Rightarrow>
                                   (case skip_ws r3 of
                                      [] \<Rightarrow> None
                                    | c # r4 \<Rightarrow>
                                        (if c = CHR '','' then
                                           map_option (\<lambda>(m, t). ((k, v) # m, t)) (json_members num fuel depth r4)
                                         else if c = CHR ''}'' then Some ([(k, v)], r4) else None))))))))"

definition json_fuel :: "string \<Rightarrow> nat" where
  "json_fuel s = 2 * length s + 2"

text \<open>\<open>json.Unmarshal(raw, &value)\<close> with \<open>var value any\<close>\<close>

definition json_unmarshal :: "string \<Rightarrow> gval option" where
  "json_unmarshal s =
     (case json_value as_float64 (json_fuel s) 0 s of
        Some (v, r) \<Rightarrow> (if skip_ws r = [] then Some v else None)
      | None \<Rightarrow> None)"

text \<open>
  \<open>json.Unmarshal(raw, &value)\<close> with \<open>var value map[string]any\<close>: an object, or \<open>null\<close>, which
  leaves the nil map.
\<close>

definition json_unmarshal_map :: "string \<Rightarrow> gmap option" where
  "json_unmarshal_map s =
     (case json_unmarshal s of
        Some (GMap m) \<Rightarrow> Some m
      | Some GNil \<Rightarrow> Some []
      | _ \<Rightarrow> None)"

text \<open>\<open>Decode\<close> of a \<open>Decoder\<close> with \<open>UseNumber\<close>: the first value, whatever follows it.\<close>

definition json_decode_map :: "string \<Rightarrow> gmap option" where
  "json_decode_map s =
     (case json_value as_number (json_fuel s) 0 s of
        Some (GMap m, r) \<Rightarrow> Some m
      | Some (GNil, r) \<Rightarrow> Some []
      | _ \<Rightarrow> None)"

section \<open>Printing\<close>

definition hex_escape :: "nat \<Rightarrow> string" where
  "hex_escape n = [char_of (92::nat)] @ ''u'' @
     [hex_lower ! (n div 4096 mod 16), hex_lower ! (n div 256 mod 16),
      hex_lower ! (n div 16 mod 16), hex_lower ! (n mod 16)]"

definition json_escape_rune :: "nat \<times> string \<Rightarrow> string" where
  "json_escape_rune p = (case p of (r, bs) \<Rightarrow>
     (let bsl = [char_of (92::nat)] in
      if r = 34 then bsl @ [char_of (34::nat)]
      else if r = 92 then bsl @ bsl
      else if r = 8 then bsl @ ''b''
      else if r = 12 then bsl @ ''f''
      else if r = 10 then bsl @ ''n''
      else if r = 13 then bsl @ ''r''
      else if r = 9 then bsl @ ''t''
      else if r < 32 \<or> r \<in> {38, 60, 62, 8232, 8233} then hex_escape r
      else if r = rune_error \<and> length bs = 1 then hex_escape rune_error
      else bs))"

definition json_quote :: "string \<Rightarrow> string" where
  "json_quote s = [char_of (34::nat)] @ concat (map json_escape_rune (runeChunks s)) @ [char_of (34::nat)]"

fun json_marshal :: "gval \<Rightarrow> string" where
  "json_marshal GNil = ''null''"
| "json_marshal (GStr s) = json_quote s"
| "json_marshal (GInt n) = formatInt n"
| "json_marshal (GFloat m e) = json_float m e"
| "json_marshal (GNum s) = (if s = [] then ''0'' else s)"
| "json_marshal (GBool b) = (if b then ''true'' else ''false'')"
| "json_marshal (GList vs) = ''['' @ joinWith '','' (map json_marshal vs) @ '']''"
| "json_marshal (GMap m) =
     ''{'' @ joinWith '','' (map (\<lambda>(k, t). json_quote k @ '':'' @ t)
        (sort_key fst (map (\<lambda>(k, v). (k, json_marshal v)) m))) @ ''}''"

text \<open>\<open>fmt.Sprint\<close> of one value\<close>

fun sprint :: "gval \<Rightarrow> string" where
  "sprint GNil = ''<nil>''"
| "sprint (GStr s) = s"
| "sprint (GInt n) = formatInt n"
| "sprint (GFloat m e) = sprint_float m e"
| "sprint (GNum s) = s"
| "sprint (GBool b) = (if b then ''true'' else ''false'')"
| "sprint (GList vs) = ''['' @ joinWith '' '' (map sprint vs) @ '']''"
| "sprint (GMap m) =
     ''map['' @ joinWith '' '' (map (\<lambda>(k, t). k @ '':'' @ t)
        (sort_key fst (map (\<lambda>(k, v). (k, sprint v)) m))) @ '']''"

section \<open>Values that were stored as JSON text and read back\<close>

text \<open>
  The store keeps maps in columns of JSON text. Reading back what was written replaces invalid
  UTF-8 in strings and turns integers into the nearest float64.
\<close>

fun json_rt :: "gval \<Rightarrow> gval" where
  "json_rt (GStr s) = GStr (to_valid_utf8 s)"
| "json_rt (GInt n) =
     (case nearest_f64 (nat \<bar>n\<bar>) 1 of Some (m, e) \<Rightarrow> GFloat (sgn n * int m) e | None \<Rightarrow> GNil)"
| "json_rt (GList vs) = GList (map json_rt vs)"
| "json_rt (GMap m) = GMap (map (\<lambda>(k, v). (to_valid_utf8 k, json_rt v)) m)"
| "json_rt v = v"

definition json_rt_map :: "gmap \<Rightarrow> gmap" where
  "json_rt_map m = map (\<lambda>(k, v). (to_valid_utf8 k, json_rt v)) m"

definition json_rt_strmap :: "strmap \<Rightarrow> strmap" where
  "json_rt_strmap m = map (\<lambda>(k, v). (to_valid_utf8 k, to_valid_utf8 v)) m"

end
