(* ===== verification/ApiErrors.thy ===== *)
theory ApiErrors
  imports GoJson
begin

text \<open>
  \<open>internal/errors/api.go\<close>: the API error value, its constructors and the predeclared errors.
  A Go \<open>error\<close> is \<open>goerr\<close>: an API error, any other error (only its text matters), or a panic of
  the handler, which ends the request like an error that no code turns into a response.
\<close>

datatype fault_type = SenderFault | ReceiverFault

record api_error =
  ae_Code :: string
  ae_Message :: string
  ae_HTTPStatusCode :: int
  ae_Fault :: fault_type
  ae_QueryErrorCode :: string
  ae_Detail :: string
  ae_Cause :: "string option"

datatype goerr = EApi api_error | EPlain string | EPanic string

definition fault_string :: "fault_type \<Rightarrow> string" where
  "fault_string f = (case f of SenderFault \<Rightarrow> ''Sender'' | ReceiverFault \<Rightarrow> ''Receiver'')"

definition api_Error :: "api_error \<Rightarrow> string" where
  "api_Error e = (case ae_Cause e of
      None \<Rightarrow> ae_Code e @ '': '' @ ae_Message e
    | Some c \<Rightarrow> ae_Code e @ '': '' @ ae_Message e @ '': '' @ c)"

definition go_error_text :: "goerr \<Rightarrow> string" where
  "go_error_text err = (case err of EApi e \<Rightarrow> api_Error e | EPlain t \<Rightarrow> t | EPanic t \<Rightarrow> t)"

definition WithCause :: "api_error \<Rightarrow> string \<Rightarrow> api_error" where
  "WithCause e err = e\<lparr>ae_Cause := Some err\<rparr>"

definition api_New :: "string \<Rightarrow> int \<Rightarrow> string \<Rightarrow> api_error" where
  "api_New code status message =
     \<lparr>ae_Code = code, ae_Message = message, ae_HTTPStatusCode = status, ae_Fault = SenderFault,
      ae_QueryErrorCode = ''AWS.SimpleQueueService.'' @ code @ '';Sender'',
      ae_Detail = [], ae_Cause = None\<rparr>"

definition api_Internal :: "string \<Rightarrow> string \<Rightarrow> api_error" where
  "api_Internal message err =
     \<lparr>ae_Code = ''InternalError'', ae_Message = message, ae_HTTPStatusCode = 500,
      ae_Fault = ReceiverFault,
      ae_QueryErrorCode = ''AWS.SimpleQueueService.InternalError;Receiver'',
      ae_Detail = [], ae_Cause = Some err\<rparr>"

text \<open>\<open>apierrors.As\<close>: no other error of the code wraps an API error.\<close>

definition api_As :: "goerr \<Rightarrow> api_error option" where
  "api_As err = (case err of EApi e \<Rightarrow> Some e | _ \<Rightarrow> None)"

text \<open>\<open>apierrors.New(code, http.StatusBadRequest, message)\<close> as an error result\<close>

definition badRequest :: "string \<Rightarrow> string \<Rightarrow> goerr" where
  "badRequest code message = EApi (api_New code 400 message)"

definition invalidParameter :: "string \<Rightarrow> goerr" where
  "invalidParameter message = badRequest ''InvalidParameterValue'' message"

definition internalError :: "string \<Rightarrow> string \<Rightarrow> goerr" where
  "internalError message err = EApi (api_Internal message err)"

section \<open>The predeclared errors\<close>

definition ErrInvalidSecurity :: api_error where
  "ErrInvalidSecurity = api_New ''InvalidSecurity'' 400
     ''The request was not made over HTTPS or did not use SigV4 for signing.''"

definition ErrInvalidAddress :: api_error where
  "ErrInvalidAddress = api_New ''InvalidAddress'' 400
     ''The specified ID is invalid.''"

definition ErrQueueDoesNotExist :: api_error where
  "ErrQueueDoesNotExist = api_New ''QueueDoesNotExist'' 400
     ''The specified queue does not exist.''"

definition ErrQueueDeletedRecently :: api_error where
  "ErrQueueDeletedRecently = api_New ''QueueDeletedRecently'' 400
     ''You must wait 60 seconds after deleting a queue before you can create another queue with the same name.''"

definition ErrQueueNameExists :: api_error where
  "ErrQueueNameExists = api_New ''QueueNameExists'' 400
     ''A queue with this name already exists.''"

definition ErrRequestThrottled :: api_error where
  "ErrRequestThrottled = api_New ''RequestThrottled'' 400
     ''The request was denied due to request throttling.''"

definition ErrUnsupportedOperation :: api_error where
  "ErrUnsupportedOperation = api_New ''UnsupportedOperation'' 400
     ''Unsupported operation.''"

definition ErrInvalidAttributeName :: api_error where
  "ErrInvalidAttributeName = api_New ''InvalidAttributeName'' 400
     ''The specified attribute doesn't exist.''"

definition ErrInvalidAttributeValue :: api_error where
  "ErrInvalidAttributeValue = api_New ''InvalidAttributeValue'' 400
     ''A queue attribute value is invalid.''"

definition ErrReceiptHandleIsInvalid :: api_error where
  "ErrReceiptHandleIsInvalid = api_New ''ReceiptHandleIsInvalid'' 400
     ''The specified receipt handle isn't valid.''"

definition ErrMessageNotInflight :: api_error where
  "ErrMessageNotInflight = api_New ''MessageNotInflight'' 400
     ''The specified message isn't in flight.''"

definition ErrOverLimit :: api_error where
  "ErrOverLimit = api_New ''OverLimit'' 400
     ''The specified action violates a limit.''"

definition ErrInvalidMessageContents :: api_error where
  "ErrInvalidMessageContents = api_New ''InvalidMessageContents'' 400
     ''The message contains characters outside the allowed set.''"

definition ErrTooManyEntriesInBatch :: api_error where
  "ErrTooManyEntriesInBatch = api_New ''TooManyEntriesInBatchRequest'' 400
     ''The batch request contains more entries than permissible.''"

definition ErrEmptyBatchRequest :: api_error where
  "ErrEmptyBatchRequest = api_New ''EmptyBatchRequest'' 400
     ''The batch request doesn't contain any entries.''"

definition ErrBatchEntryIDsNotDistinct :: api_error where
  "ErrBatchEntryIDsNotDistinct = api_New ''BatchEntryIdsNotDistinct'' 400
     ''Two or more batch entries in the request have the same Id.''"

definition ErrInvalidBatchEntryID :: api_error where
  "ErrInvalidBatchEntryID = api_New ''InvalidBatchEntryId'' 400
     ''The Id of a batch entry in a batch request doesn't abide by the specification.''"

definition ErrBatchRequestTooLong :: api_error where
  "ErrBatchRequestTooLong = api_New ''BatchRequestTooLong'' 400
     ''The length of all the messages put together is more than the limit.''"

definition ErrPurgeQueueInProgress :: api_error where
  "ErrPurgeQueueInProgress = api_New ''PurgeQueueInProgress'' 400
     ''Only one PurgeQueue operation on a queue is allowed every 60 seconds.''"

definition ErrResourceNotFoundException :: api_error where
  "ErrResourceNotFoundException = api_New ''ResourceNotFoundException'' 400
     ''The specified resource does not exist.''"

definition ErrKMSDisabled :: api_error where
  "ErrKMSDisabled = api_New ''KmsDisabled'' 400
     ''The request was denied due to request throttling.''"

definition ErrKMSInvalidState :: api_error where
  "ErrKMSInvalidState = api_New ''KmsInvalidState'' 400
     ''The request was rejected because the specified resource is not in a valid state.''"

definition ErrKMSNotFound :: api_error where
  "ErrKMSNotFound = api_New ''KmsNotFound'' 400
     ''The specified resource does not exist.''"

definition ErrKMSOptInRequired :: api_error where
  "ErrKMSOptInRequired = api_New ''KmsOptInRequired'' 400
     ''The request was rejected because the specified key policy is not syntactically or semantically correct.''"

definition ErrKMSThrottled :: api_error where
  "ErrKMSThrottled = api_New ''KmsThrottled'' 400
     ''The request was denied due to request throttling.''"

definition ErrKMSAccessDenied :: api_error where
  "ErrKMSAccessDenied = api_New ''KmsAccessDenied'' 400
     ''The caller does not have required permissions to use the KMS key.''"

definition ErrKMSInvalidKeyUsage :: api_error where
  "ErrKMSInvalidKeyUsage = api_New ''KmsInvalidKeyUsage'' 400
     ''The caller requests a key that is not valid for the operation.''"

lemma api_As_EApi [simp]: "api_As (EApi e) = Some e"
  by (simp add: api_As_def)

lemma internal_is_receiver [simp]: "ae_Fault (api_Internal m e) = ReceiverFault"
  by (simp add: api_Internal_def)

lemma new_is_sender [simp]: "ae_Fault (api_New c s m) = SenderFault"
  by (simp add: api_New_def)

lemma api_New_code [simp]: "ae_Code (api_New c s m) = c"
  by (simp add: api_New_def)

end
