(* ===== verification/GoHttp.thy ===== *)
theory GoHttp
  imports GoJson
begin

text \<open>
  The parts of \<open>net/url\<close>, \<open>net/http\<close> and \<open>net/textproto\<close> that the code uses: query strings, header
  names and the observations that the handlers make of a request. Parsing the request line and
  the headers off the wire is the server's; a request is given by what the code reads of it.
\<close>

section \<open>Query strings\<close>

text \<open>\<open>url.QueryUnescape\<close>\<close>

fun queryUnescape :: "string \<Rightarrow> string option" where
  "queryUnescape [] = Some []"
| "queryUnescape (c # s) =
     (if c = CHR ''%'' then
        (case s of
           a # b # r \<Rightarrow>
             (case (hex_val a, hex_val b) of
                (Some x, Some y) \<Rightarrow> map_option (\<lambda>t. char_of (16 * x + y) # t) (queryUnescape r)
              | _ \<Rightarrow> None)
         | _ \<Rightarrow> None)
      else map_option (\<lambda>t. (if c = CHR ''+'' then CHR '' '' else c) # t) (queryUnescape s))"

text \<open>\<open>url.Values\<close>, with the keys in the order in which they were first seen\<close>

type_synonym url_values = "(string \<times> string list) list"

definition values_add :: "url_values \<Rightarrow> string \<Rightarrow> string \<Rightarrow> url_values" where
  "values_add m key value = mput m key ((case mget m key of None \<Rightarrow> [] | Some vs \<Rightarrow> vs) @ [value])"

definition values_get :: "url_values \<Rightarrow> string \<Rightarrow> string" where
  "values_get m key = (case mget m key of Some (v # _) \<Rightarrow> v | _ \<Rightarrow> [])"

text \<open>One setting of a query: nothing, an error, or a key and a value.\<close>

definition parse_setting :: "string \<Rightarrow> (unit + string \<times> string) option" where
  "parse_setting setting =
     (if CHR '';'' \<in> set setting then Some (Inl ())
      else if setting = [] then None
      else (case splitFirst (CHR ''='') setting of (k, v) \<Rightarrow>
        (case (queryUnescape k, queryUnescape (case v of None \<Rightarrow> [] | Some v' \<Rightarrow> v')) of
           (Some key, Some value) \<Rightarrow> Some (Inr (key, value))
         | _ \<Rightarrow> Some (Inl ()))))"

definition query_limit :: nat where
  "query_limit = 10000"

definition add_setting :: "string \<Rightarrow> url_values \<times> bool \<Rightarrow> url_values \<times> bool" where
  "add_setting setting = (\<lambda>(m, failed).
     case parse_setting setting of
       None \<Rightarrow> (m, failed) | Some (Inl _) \<Rightarrow> (m, True) | Some (Inr (k, v)) \<Rightarrow> (values_add m k v, failed))"

text \<open>
  \<open>url.ParseQuery\<close>: the settings that can be read, and whether one could not. Go 1.26 reads no
  query of more than 10000 settings.
\<close>

definition parseQuery :: "string \<Rightarrow> url_values \<times> bool" where
  "parseQuery query =
     (let settings = splitOn (CHR ''&'') query
      in if query_limit < length settings then ([], True)
         else fold add_setting settings ([], False))"

section \<open>Headers\<close>

definition token_char :: "char \<Rightarrow> bool" where
  "token_char c \<longleftrightarrow> (let n = byte c in (48 \<le> n \<and> n \<le> 57) \<or> (65 \<le> n \<and> n \<le> 90) \<or> (97 \<le> n \<and> n \<le> 122)
     \<or> n \<in> {33, 35, 36, 37, 38, 39, 42, 43, 45, 46, 94, 95, 96, 124, 126})"

fun canonical_case :: "bool \<Rightarrow> string \<Rightarrow> string" where
  "canonical_case upper [] = []"
| "canonical_case upper (c # s) =
     (if upper then ascii_upper c else ascii_lower c) # canonical_case (c = CHR ''-'') s"

text \<open>\<open>textproto.CanonicalMIMEHeaderKey\<close>\<close>

definition canonicalHeaderKey :: "string \<Rightarrow> string" where
  "canonicalHeaderKey s = (if list_all token_char s then canonical_case True s else s)"

type_synonym http_header = "(string \<times> string list) list"

definition header_get :: "http_header \<Rightarrow> string \<Rightarrow> string" where
  "header_get h key = (case mget h (canonicalHeaderKey key) of Some (v # _) \<Rightarrow> v | _ \<Rightarrow> [])"

definition header_set :: "http_header \<Rightarrow> string \<Rightarrow> string \<Rightarrow> http_header" where
  "header_set h key value = mput h (canonicalHeaderKey key) [value]"

definition header_add :: "http_header \<Rightarrow> string \<Rightarrow> string \<Rightarrow> http_header" where
  "header_add h key value = values_add h (canonicalHeaderKey key) value"

text \<open>
  What the code reads of a \<open>*http.Request\<close>: \<open>Method\<close>, \<open>URL.Path\<close>, \<open>URL.EscapedPath()\<close>,
  \<open>URL.RawQuery\<close>, \<open>Host\<close> and \<open>Header\<close>, whose keys the server has made canonical. The body is what
  \<open>io.ReadAll\<close> gives, \<open>None\<close> when reading fails.
\<close>

record http_request =
  hr_Method :: string
  hr_Path :: string
  hr_EscapedPath :: string
  hr_RawQuery :: string
  hr_Host :: string
  hr_Header :: http_header
  hr_Body :: "string option"

text \<open>\<open>URL.Query()\<close> drops the settings that cannot be read.\<close>

definition url_query :: "http_request \<Rightarrow> url_values" where
  "url_query r = fst (parseQuery (hr_RawQuery r))"

section \<open>More of strings\<close>

text \<open>\<open>strings.Fields\<close>\<close>

fun fields_scan :: "string \<Rightarrow> (nat \<times> string) list \<Rightarrow> string list" where
  "fields_scan cur [] = (if cur = [] then [] else [cur])"
| "fields_scan cur ((r, bs) # cs) =
     (if is_space r then (if cur = [] then fields_scan [] cs else cur # fields_scan [] cs)
      else fields_scan (cur @ bs) cs)"

definition stringFields :: "string \<Rightarrow> string list" where
  "stringFields s = fields_scan [] (runeChunks s)"

text \<open>
  \<open>strings.ToLower\<close> on the letters whose lower case is in ASCII (those of ASCII, the Kelvin sign and
  the dotted capital I). A name with another letter outside ASCII names no header before and
  after.
\<close>

definition lower_rune :: "nat \<times> string \<Rightarrow> string" where
  "lower_rune p = (case p of (r, bs) \<Rightarrow>
     if r < 128 then map ascii_lower bs else if r = 8490 then ''k'' else if r = 304 then ''i'' else bs)"

definition toLower :: "string \<Rightarrow> string" where
  "toLower s = concat (map lower_rune (runeChunks s))"

text \<open>\<open>strings.TrimPrefix\<close>, \<open>strings.CutSuffix\<close>, and \<open>strings.Contains\<close>\<close>

definition trimPrefix :: "string \<Rightarrow> string \<Rightarrow> string" where
  "trimPrefix s pre = (if prefix pre s then drop (length pre) s else s)"

definition cutSuffix :: "string \<Rightarrow> string \<Rightarrow> string option" where
  "cutSuffix s suf = (if suffix suf s then Some (take (length s - length suf) s) else None)"

definition contains_str :: "string \<Rightarrow> string \<Rightarrow> bool" where
  "contains_str s sub \<longleftrightarrow> list_ex (prefix sub) (suffixes s)"

text \<open>\<open>strconv.ParseBool\<close>\<close>

definition parseBool :: "string \<Rightarrow> bool option" where
  "parseBool s =
     (if s \<in> set [''1'', ''t'', ''T'', ''true'', ''TRUE'', ''True''] then Some True
      else if s \<in> set [''0'', ''f'', ''F'', ''false'', ''FALSE'', ''False''] then Some False else None)"

end
