(* ===== verification/Registry.thy ===== *)
theory Registry
  imports ApiErrors GoHttp
begin

text \<open>
  \<open>internal/model/types.go\<close> and \<open>internal/model/registry.go\<close>: the description of the SQS API and its
  lookups. \<open>MustOperation\<close> and \<open>MustShape\<close> panic on an unknown name.
\<close>

record metadata =
  md_APIVersion :: string
  md_EndpointPrefix :: string
  md_JSONVersion :: string
  md_Protocol :: string
  md_TargetPrefix :: string
  md_QueryNamespace :: string
  md_ServiceID :: string

record operation =
  op_Name :: string
  op_InputShape :: string
  op_OutputShape :: string
  op_Errors :: "string list"

record paginator =
  pg_InputToken :: string
  pg_OutputToken :: string
  pg_LimitKey :: string
  pg_ResultKey :: string

record shape_ref =
  sr_Shape :: string
  sr_LocationName :: string
  sr_Flattened :: bool

record member_ref =
  mb_Shape :: string
  mb_LocationName :: string
  mb_Flattened :: bool

record shape =
  sh_Name :: string
  sh_Type :: string
  sh_Enum :: "string list"
  sh_Required :: "string list"
  sh_MemberOrder :: "string list"
  sh_Members :: "(string \<times> member_ref) list"
  sh_Key :: "shape_ref option"
  sh_Value :: "shape_ref option"
  sh_Member :: "shape_ref option"
  sh_Flattened :: bool
  sh_Exception :: bool

record registry =
  rg_Metadata :: metadata
  rg_Operations :: "(string \<times> operation) list"
  rg_Shapes :: "(string \<times> shape) list"
  rg_Pagination :: "(string \<times> paginator) list"

definition Operation :: "registry \<Rightarrow> string \<Rightarrow> operation option" where
  "Operation r name = mget (rg_Operations r) name"

definition Shape :: "registry \<Rightarrow> string \<Rightarrow> shape option" where
  "Shape r name = mget (rg_Shapes r) name"

definition MustOperation :: "registry \<Rightarrow> string \<Rightarrow> goerr + operation" where
  "MustOperation r name = (case Operation r name of
      None \<Rightarrow> Inl (EPanic (''unknown operation '' @ name)) | Some op \<Rightarrow> Inr op)"

definition MustShape :: "registry \<Rightarrow> string \<Rightarrow> goerr + shape" where
  "MustShape r name = (case Shape r name of
      None \<Rightarrow> Inl (EPanic (''unknown shape '' @ name)) | Some s \<Rightarrow> Inr s)"

definition HasEnum :: "registry \<Rightarrow> string \<Rightarrow> string \<Rightarrow> bool" where
  "HasEnum r shapeName value = (case Shape r shapeName of
      None \<Rightarrow> False | Some s \<Rightarrow> sh_Enum s \<noteq> [] \<and> value \<in> set (sh_Enum s))"

definition RequiredMembers :: "registry \<Rightarrow> string \<Rightarrow> goerr + string set" where
  "RequiredMembers r shapeName = (case MustShape r shapeName of Inl e \<Rightarrow> Inl e | Inr s \<Rightarrow> Inr (set (sh_Required s)))"

definition SortedOperationNames :: "registry \<Rightarrow> string list" where
  "SortedOperationNames r = sort (map fst (rg_Operations r))"

definition Target :: "registry \<Rightarrow> string \<Rightarrow> string" where
  "Target r operation = md_TargetPrefix (rg_Metadata r) @ ''.'' @ operation"

text \<open>The action that a target names, with whether the registry has it.\<close>

definition ActionFromTarget :: "registry \<Rightarrow> string \<Rightarrow> string \<times> bool" where
  "ActionFromTarget r target =
     (let pre = md_TargetPrefix (rg_Metadata r) @ ''.'' in
      if \<not> prefix pre target then ([], False)
      else (let action = drop (length pre) target in (action, Operation r action \<noteq> None)))"

lemma ActionFromTarget_Target [simp]:
  "ActionFromTarget r (Target r operation) = (operation, Operation r operation \<noteq> None)"
  by (simp add: ActionFromTarget_def Target_def Let_def)

lemma ActionFromTarget_Some:
  assumes "ActionFromTarget r target = (action, True)"
  shows "target = Target r action \<and> Operation r action \<noteq> None"
  using assms by (auto simp: ActionFromTarget_def Target_def Let_def prefix_def split: if_splits)

end
