(* ===== verification/RegistryGen.thy ===== *)
theory RegistryGen
  imports Registry
begin

text \<open>
  \<open>internal/model/registry_gen.go\<close>: the registry \<open>model.Default\<close>, one definition for each operation and
  shape of the JSON text, in its order. Fields that the text omits have their zero values.
\<close>

definition zero_shape :: "string \<Rightarrow> string \<Rightarrow> shape" where
  "zero_shape name typ =
     \<lparr>sh_Name = name, sh_Type = typ, sh_Enum = [], sh_Required = [], sh_MemberOrder = [], sh_Members = [],
      sh_Key = None, sh_Value = None, sh_Member = None, sh_Flattened = False, sh_Exception = False\<rparr>"

definition plain_ref :: "string \<Rightarrow> shape_ref" where
  "plain_ref s = \<lparr>sr_Shape = s, sr_LocationName = [], sr_Flattened = False\<rparr>"

definition plain_member :: "string \<times> string \<Rightarrow> string \<times> member_ref" where
  "plain_member = (\<lambda>(name, s). (name, \<lparr>mb_Shape = s, mb_LocationName = [], mb_Flattened = False\<rparr>))"

section \<open>Metadata\<close>

definition Default_Metadata :: metadata where
  "Default_Metadata =
     \<lparr>md_APIVersion = ''2012-11-05'', md_EndpointPrefix = ''sqs'', md_JSONVersion = ''1.0'',
      md_Protocol = ''json'', md_TargetPrefix = ''AmazonSQS'',
      md_QueryNamespace = ''http://queue.amazonaws.com/doc/2012-11-05/'', md_ServiceID = ''SQS''\<rparr>"

section \<open>Operations\<close>

definition op_AddPermission :: operation where
  "op_AddPermission =
     \<lparr>op_Name = ''AddPermission'', op_InputShape = ''AddPermissionRequest'',
      op_OutputShape = '''',
      op_Errors = [''OverLimit'', ''RequestThrottled'', ''QueueDoesNotExist'', ''InvalidAddress'',
        ''InvalidSecurity'', ''UnsupportedOperation'']\<rparr>"

definition op_CancelMessageMoveTask :: operation where
  "op_CancelMessageMoveTask =
     \<lparr>op_Name = ''CancelMessageMoveTask'', op_InputShape = ''CancelMessageMoveTaskRequest'',
      op_OutputShape = ''CancelMessageMoveTaskResult'',
      op_Errors = [''ResourceNotFoundException'', ''RequestThrottled'', ''InvalidAddress'',
        ''InvalidSecurity'', ''UnsupportedOperation'']\<rparr>"

definition op_ChangeMessageVisibility :: operation where
  "op_ChangeMessageVisibility =
     \<lparr>op_Name = ''ChangeMessageVisibility'', op_InputShape = ''ChangeMessageVisibilityRequest'',
      op_OutputShape = '''',
      op_Errors = [''MessageNotInflight'', ''ReceiptHandleIsInvalid'', ''RequestThrottled'',
        ''QueueDoesNotExist'', ''UnsupportedOperation'', ''InvalidAddress'',
        ''InvalidSecurity'']\<rparr>"

definition op_ChangeMessageVisibilityBatch :: operation where
  "op_ChangeMessageVisibilityBatch =
     \<lparr>op_Name = ''ChangeMessageVisibilityBatch'', op_InputShape = ''ChangeMessageVisibilityBatchRequest'',
      op_OutputShape = ''ChangeMessageVisibilityBatchResult'',
      op_Errors = [''TooManyEntriesInBatchRequest'', ''EmptyBatchRequest'',
        ''BatchEntryIdsNotDistinct'', ''InvalidBatchEntryId'', ''RequestThrottled'',
        ''QueueDoesNotExist'', ''UnsupportedOperation'', ''InvalidAddress'',
        ''InvalidSecurity'']\<rparr>"

definition op_CreateQueue :: operation where
  "op_CreateQueue =
     \<lparr>op_Name = ''CreateQueue'', op_InputShape = ''CreateQueueRequest'',
      op_OutputShape = ''CreateQueueResult'',
      op_Errors = [''QueueDeletedRecently'', ''QueueNameExists'', ''RequestThrottled'',
        ''InvalidAddress'', ''InvalidAttributeName'', ''InvalidAttributeValue'',
        ''UnsupportedOperation'', ''InvalidSecurity'']\<rparr>"

definition op_DeleteMessage :: operation where
  "op_DeleteMessage =
     \<lparr>op_Name = ''DeleteMessage'', op_InputShape = ''DeleteMessageRequest'',
      op_OutputShape = '''',
      op_Errors = [''InvalidIdFormat'', ''ReceiptHandleIsInvalid'', ''RequestThrottled'',
        ''QueueDoesNotExist'', ''UnsupportedOperation'', ''InvalidSecurity'',
        ''InvalidAddress'']\<rparr>"

definition op_DeleteMessageBatch :: operation where
  "op_DeleteMessageBatch =
     \<lparr>op_Name = ''DeleteMessageBatch'', op_InputShape = ''DeleteMessageBatchRequest'',
      op_OutputShape = ''DeleteMessageBatchResult'',
      op_Errors = [''TooManyEntriesInBatchRequest'', ''EmptyBatchRequest'',
        ''BatchEntryIdsNotDistinct'', ''InvalidBatchEntryId'', ''RequestThrottled'',
        ''QueueDoesNotExist'', ''UnsupportedOperation'', ''InvalidAddress'',
        ''InvalidSecurity'']\<rparr>"

definition op_DeleteQueue :: operation where
  "op_DeleteQueue =
     \<lparr>op_Name = ''DeleteQueue'', op_InputShape = ''DeleteQueueRequest'',
      op_OutputShape = '''',
      op_Errors = [''RequestThrottled'', ''QueueDoesNotExist'', ''InvalidAddress'',
        ''UnsupportedOperation'', ''InvalidSecurity'']\<rparr>"

definition op_GetQueueAttributes :: operation where
  "op_GetQueueAttributes =
     \<lparr>op_Name = ''GetQueueAttributes'', op_InputShape = ''GetQueueAttributesRequest'',
      op_OutputShape = ''GetQueueAttributesResult'',
      op_Errors = [''InvalidAttributeName'', ''RequestThrottled'', ''QueueDoesNotExist'',
        ''UnsupportedOperation'', ''InvalidSecurity'', ''InvalidAddress'']\<rparr>"

definition op_GetQueueUrl :: operation where
  "op_GetQueueUrl =
     \<lparr>op_Name = ''GetQueueUrl'', op_InputShape = ''GetQueueUrlRequest'',
      op_OutputShape = ''GetQueueUrlResult'',
      op_Errors = [''RequestThrottled'', ''QueueDoesNotExist'', ''InvalidAddress'',
        ''InvalidSecurity'', ''UnsupportedOperation'']\<rparr>"

definition op_ListDeadLetterSourceQueues :: operation where
  "op_ListDeadLetterSourceQueues =
     \<lparr>op_Name = ''ListDeadLetterSourceQueues'', op_InputShape = ''ListDeadLetterSourceQueuesRequest'',
      op_OutputShape = ''ListDeadLetterSourceQueuesResult'',
      op_Errors = [''QueueDoesNotExist'', ''RequestThrottled'', ''InvalidSecurity'',
        ''InvalidAddress'', ''UnsupportedOperation'']\<rparr>"

definition op_ListMessageMoveTasks :: operation where
  "op_ListMessageMoveTasks =
     \<lparr>op_Name = ''ListMessageMoveTasks'', op_InputShape = ''ListMessageMoveTasksRequest'',
      op_OutputShape = ''ListMessageMoveTasksResult'',
      op_Errors = [''ResourceNotFoundException'', ''RequestThrottled'', ''InvalidAddress'',
        ''InvalidSecurity'', ''UnsupportedOperation'']\<rparr>"

definition op_ListQueueTags :: operation where
  "op_ListQueueTags =
     \<lparr>op_Name = ''ListQueueTags'', op_InputShape = ''ListQueueTagsRequest'',
      op_OutputShape = ''ListQueueTagsResult'',
      op_Errors = [''RequestThrottled'', ''QueueDoesNotExist'', ''UnsupportedOperation'',
        ''InvalidAddress'', ''InvalidSecurity'']\<rparr>"

definition op_ListQueues :: operation where
  "op_ListQueues =
     \<lparr>op_Name = ''ListQueues'', op_InputShape = ''ListQueuesRequest'',
      op_OutputShape = ''ListQueuesResult'',
      op_Errors = [''RequestThrottled'', ''InvalidSecurity'', ''InvalidAddress'',
        ''UnsupportedOperation'']\<rparr>"

definition op_PurgeQueue :: operation where
  "op_PurgeQueue =
     \<lparr>op_Name = ''PurgeQueue'', op_InputShape = ''PurgeQueueRequest'',
      op_OutputShape = '''',
      op_Errors = [''QueueDoesNotExist'', ''PurgeQueueInProgress'', ''RequestThrottled'',
        ''InvalidAddress'', ''InvalidSecurity'', ''UnsupportedOperation'']\<rparr>"

definition op_ReceiveMessage :: operation where
  "op_ReceiveMessage =
     \<lparr>op_Name = ''ReceiveMessage'', op_InputShape = ''ReceiveMessageRequest'',
      op_OutputShape = ''ReceiveMessageResult'',
      op_Errors = [''UnsupportedOperation'', ''OverLimit'', ''RequestThrottled'',
        ''QueueDoesNotExist'', ''InvalidSecurity'', ''KmsDisabled'',
        ''KmsInvalidState'', ''KmsNotFound'', ''KmsOptInRequired'', ''KmsThrottled'',
        ''KmsAccessDenied'', ''KmsInvalidKeyUsage'', ''InvalidAddress'']\<rparr>"

definition op_RemovePermission :: operation where
  "op_RemovePermission =
     \<lparr>op_Name = ''RemovePermission'', op_InputShape = ''RemovePermissionRequest'',
      op_OutputShape = '''',
      op_Errors = [''InvalidAddress'', ''RequestThrottled'', ''QueueDoesNotExist'',
        ''InvalidSecurity'', ''UnsupportedOperation'']\<rparr>"

definition op_SendMessage :: operation where
  "op_SendMessage =
     \<lparr>op_Name = ''SendMessage'', op_InputShape = ''SendMessageRequest'',
      op_OutputShape = ''SendMessageResult'',
      op_Errors = [''InvalidMessageContents'', ''UnsupportedOperation'', ''RequestThrottled'',
        ''QueueDoesNotExist'', ''InvalidSecurity'', ''KmsDisabled'',
        ''KmsInvalidState'', ''KmsNotFound'', ''KmsOptInRequired'', ''KmsThrottled'',
        ''KmsAccessDenied'', ''KmsInvalidKeyUsage'', ''InvalidAddress'']\<rparr>"

definition op_SendMessageBatch :: operation where
  "op_SendMessageBatch =
     \<lparr>op_Name = ''SendMessageBatch'', op_InputShape = ''SendMessageBatchRequest'',
      op_OutputShape = ''SendMessageBatchResult'',
      op_Errors = [''TooManyEntriesInBatchRequest'', ''EmptyBatchRequest'',
        ''BatchEntryIdsNotDistinct'', ''BatchRequestTooLong'', ''InvalidBatchEntryId'',
        ''UnsupportedOperation'', ''RequestThrottled'', ''QueueDoesNotExist'',
        ''InvalidSecurity'', ''KmsDisabled'', ''KmsInvalidState'', ''KmsNotFound'',
        ''KmsOptInRequired'', ''KmsThrottled'', ''KmsAccessDenied'',
        ''KmsInvalidKeyUsage'', ''InvalidAddress'']\<rparr>"

definition op_SetQueueAttributes :: operation where
  "op_SetQueueAttributes =
     \<lparr>op_Name = ''SetQueueAttributes'', op_InputShape = ''SetQueueAttributesRequest'',
      op_OutputShape = '''',
      op_Errors = [''InvalidAttributeName'', ''InvalidAttributeValue'', ''RequestThrottled'',
        ''QueueDoesNotExist'', ''UnsupportedOperation'', ''OverLimit'',
        ''InvalidAddress'', ''InvalidSecurity'']\<rparr>"

definition op_StartMessageMoveTask :: operation where
  "op_StartMessageMoveTask =
     \<lparr>op_Name = ''StartMessageMoveTask'', op_InputShape = ''StartMessageMoveTaskRequest'',
      op_OutputShape = ''StartMessageMoveTaskResult'',
      op_Errors = [''ResourceNotFoundException'', ''RequestThrottled'', ''InvalidAddress'',
        ''InvalidSecurity'', ''UnsupportedOperation'']\<rparr>"

definition op_TagQueue :: operation where
  "op_TagQueue =
     \<lparr>op_Name = ''TagQueue'', op_InputShape = ''TagQueueRequest'',
      op_OutputShape = '''',
      op_Errors = [''InvalidAddress'', ''RequestThrottled'', ''QueueDoesNotExist'',
        ''InvalidSecurity'', ''UnsupportedOperation'']\<rparr>"

definition op_UntagQueue :: operation where
  "op_UntagQueue =
     \<lparr>op_Name = ''UntagQueue'', op_InputShape = ''UntagQueueRequest'',
      op_OutputShape = '''',
      op_Errors = [''InvalidAddress'', ''RequestThrottled'', ''QueueDoesNotExist'',
        ''InvalidSecurity'', ''UnsupportedOperation'']\<rparr>"

section \<open>Shapes\<close>

definition sh_AWSAccountIdList :: shape where
  "sh_AWSAccountIdList =
     (zero_shape ''AWSAccountIdList'' ''list'')\<lparr>sh_Member := Some (plain_ref ''String''),
       sh_Flattened := True\<rparr>"

definition sh_ActionNameList :: shape where
  "sh_ActionNameList =
     (zero_shape ''ActionNameList'' ''list'')\<lparr>sh_Member := Some (plain_ref ''String''),
       sh_Flattened := True\<rparr>"

definition sh_AddPermissionRequest :: shape where
  "sh_AddPermissionRequest =
     (zero_shape ''AddPermissionRequest'' ''structure'')\<lparr>sh_Required := [''QueueUrl'', ''Label'', ''AWSAccountIds'', ''Actions''],
       sh_MemberOrder := [''AWSAccountIds'', ''Actions'', ''Label'', ''QueueUrl''],
       sh_Members := map plain_member [
        (''AWSAccountIds'', ''AWSAccountIdList''),
        (''Actions'', ''ActionNameList''),
        (''Label'', ''String''),
        (''QueueUrl'', ''String'')]\<rparr>"

definition sh_AttributeNameList :: shape where
  "sh_AttributeNameList =
     (zero_shape ''AttributeNameList'' ''list'')\<lparr>sh_Member := Some (plain_ref ''QueueAttributeName''),
       sh_Flattened := True\<rparr>"

definition sh_BatchEntryIdsNotDistinct :: shape where
  "sh_BatchEntryIdsNotDistinct =
     (zero_shape ''BatchEntryIdsNotDistinct'' ''structure'')\<lparr>sh_MemberOrder := [''message''],
       sh_Members := map plain_member [
        (''message'', ''ExceptionMessage'')],
       sh_Exception := True\<rparr>"

definition sh_BatchRequestTooLong :: shape where
  "sh_BatchRequestTooLong =
     (zero_shape ''BatchRequestTooLong'' ''structure'')\<lparr>sh_MemberOrder := [''message''],
       sh_Members := map plain_member [
        (''message'', ''ExceptionMessage'')],
       sh_Exception := True\<rparr>"

definition sh_BatchResultErrorEntry :: shape where
  "sh_BatchResultErrorEntry =
     (zero_shape ''BatchResultErrorEntry'' ''structure'')\<lparr>sh_Required := [''Id'', ''SenderFault'', ''Code''],
       sh_MemberOrder := [''Code'', ''Id'', ''Message'', ''SenderFault''],
       sh_Members := map plain_member [
        (''Code'', ''String''),
        (''Id'', ''String''),
        (''Message'', ''String''),
        (''SenderFault'', ''Boolean'')]\<rparr>"

definition sh_BatchResultErrorEntryList :: shape where
  "sh_BatchResultErrorEntryList =
     (zero_shape ''BatchResultErrorEntryList'' ''list'')\<lparr>sh_Member := Some (plain_ref ''BatchResultErrorEntry''),
       sh_Flattened := True\<rparr>"

definition sh_Binary :: shape where
  "sh_Binary =
     zero_shape ''Binary'' ''blob''"

definition sh_BinaryList :: shape where
  "sh_BinaryList =
     (zero_shape ''BinaryList'' ''list'')\<lparr>sh_Member := Some (plain_ref ''Binary'')\<rparr>"

definition sh_Boolean :: shape where
  "sh_Boolean =
     zero_shape ''Boolean'' ''boolean''"

definition sh_BoxedInteger :: shape where
  "sh_BoxedInteger =
     zero_shape ''BoxedInteger'' ''integer''"

definition sh_CancelMessageMoveTaskRequest :: shape where
  "sh_CancelMessageMoveTaskRequest =
     (zero_shape ''CancelMessageMoveTaskRequest'' ''structure'')\<lparr>sh_Required := [''TaskHandle''],
       sh_MemberOrder := [''TaskHandle''],
       sh_Members := map plain_member [
        (''TaskHandle'', ''String'')]\<rparr>"

definition sh_CancelMessageMoveTaskResult :: shape where
  "sh_CancelMessageMoveTaskResult =
     (zero_shape ''CancelMessageMoveTaskResult'' ''structure'')\<lparr>sh_MemberOrder := [''ApproximateNumberOfMessagesMoved''],
       sh_Members := map plain_member [
        (''ApproximateNumberOfMessagesMoved'', ''Long'')]\<rparr>"

definition sh_ChangeMessageVisibilityBatchRequest :: shape where
  "sh_ChangeMessageVisibilityBatchRequest =
     (zero_shape ''ChangeMessageVisibilityBatchRequest'' ''structure'')\<lparr>sh_Required := [''QueueUrl'', ''Entries''],
       sh_MemberOrder := [''Entries'', ''QueueUrl''],
       sh_Members := map plain_member [
        (''Entries'', ''ChangeMessageVisibilityBatchRequestEntryList''),
        (''QueueUrl'', ''String'')]\<rparr>"

definition sh_ChangeMessageVisibilityBatchRequestEntry :: shape where
  "sh_ChangeMessageVisibilityBatchRequestEntry =
     (zero_shape ''ChangeMessageVisibilityBatchRequestEntry'' ''structure'')\<lparr>sh_Required := [''Id'', ''ReceiptHandle''],
       sh_MemberOrder := [''Id'', ''ReceiptHandle'', ''VisibilityTimeout''],
       sh_Members := map plain_member [
        (''Id'', ''String''),
        (''ReceiptHandle'', ''String''),
        (''VisibilityTimeout'', ''NullableInteger'')]\<rparr>"

definition sh_ChangeMessageVisibilityBatchRequestEntryList :: shape where
  "sh_ChangeMessageVisibilityBatchRequestEntryList =
     (zero_shape ''ChangeMessageVisibilityBatchRequestEntryList'' ''list'')\<lparr>sh_Member := Some (plain_ref ''ChangeMessageVisibilityBatchRequestEntry''),
       sh_Flattened := True\<rparr>"

definition sh_ChangeMessageVisibilityBatchResult :: shape where
  "sh_ChangeMessageVisibilityBatchResult =
     (zero_shape ''ChangeMessageVisibilityBatchResult'' ''structure'')\<lparr>sh_Required := [''Successful'', ''Failed''],
       sh_MemberOrder := [''Failed'', ''Successful''],
       sh_Members := map plain_member [
        (''Failed'', ''BatchResultErrorEntryList''),
        (''Successful'', ''ChangeMessageVisibilityBatchResultEntryList'')]\<rparr>"

definition sh_ChangeMessageVisibilityBatchResultEntry :: shape where
  "sh_ChangeMessageVisibilityBatchResultEntry =
     (zero_shape ''ChangeMessageVisibilityBatchResultEntry'' ''structure'')\<lparr>sh_Required := [''Id''],
       sh_MemberOrder := [''Id''],
       sh_Members := map plain_member [
        (''Id'', ''String'')]\<rparr>"

definition sh_ChangeMessageVisibilityBatchResultEntryList :: shape where
  "sh_ChangeMessageVisibilityBatchResultEntryList =
     (zero_shape ''ChangeMessageVisibilityBatchResultEntryList'' ''list'')\<lparr>sh_Member := Some (plain_ref ''ChangeMessageVisibilityBatchResultEntry''),
       sh_Flattened := True\<rparr>"

definition sh_ChangeMessageVisibilityRequest :: shape where
  "sh_ChangeMessageVisibilityRequest =
     (zero_shape ''ChangeMessageVisibilityRequest'' ''structure'')\<lparr>sh_Required := [''QueueUrl'', ''ReceiptHandle'', ''VisibilityTimeout''],
       sh_MemberOrder := [''QueueUrl'', ''ReceiptHandle'', ''VisibilityTimeout''],
       sh_Members := map plain_member [
        (''QueueUrl'', ''String''),
        (''ReceiptHandle'', ''String''),
        (''VisibilityTimeout'', ''NullableInteger'')]\<rparr>"

definition sh_CreateQueueRequest :: shape where
  "sh_CreateQueueRequest =
     (zero_shape ''CreateQueueRequest'' ''structure'')\<lparr>sh_Required := [''QueueName''],
       sh_MemberOrder := [''Attributes'', ''QueueName'', ''tags''],
       sh_Members := map plain_member [
        (''Attributes'', ''QueueAttributeMap''),
        (''QueueName'', ''String''),
        (''tags'', ''TagMap'')]\<rparr>"

definition sh_CreateQueueResult :: shape where
  "sh_CreateQueueResult =
     (zero_shape ''CreateQueueResult'' ''structure'')\<lparr>sh_MemberOrder := [''QueueUrl''],
       sh_Members := map plain_member [
        (''QueueUrl'', ''String'')]\<rparr>"

definition sh_DeleteMessageBatchRequest :: shape where
  "sh_DeleteMessageBatchRequest =
     (zero_shape ''DeleteMessageBatchRequest'' ''structure'')\<lparr>sh_Required := [''QueueUrl'', ''Entries''],
       sh_MemberOrder := [''Entries'', ''QueueUrl''],
       sh_Members := map plain_member [
        (''Entries'', ''DeleteMessageBatchRequestEntryList''),
        (''QueueUrl'', ''String'')]\<rparr>"

definition sh_DeleteMessageBatchRequestEntry :: shape where
  "sh_DeleteMessageBatchRequestEntry =
     (zero_shape ''DeleteMessageBatchRequestEntry'' ''structure'')\<lparr>sh_Required := [''Id'', ''ReceiptHandle''],
       sh_MemberOrder := [''Id'', ''ReceiptHandle''],
       sh_Members := map plain_member [
        (''Id'', ''String''),
        (''ReceiptHandle'', ''String'')]\<rparr>"

definition sh_DeleteMessageBatchRequestEntryList :: shape where
  "sh_DeleteMessageBatchRequestEntryList =
     (zero_shape ''DeleteMessageBatchRequestEntryList'' ''list'')\<lparr>sh_Member := Some (plain_ref ''DeleteMessageBatchRequestEntry''),
       sh_Flattened := True\<rparr>"

definition sh_DeleteMessageBatchResult :: shape where
  "sh_DeleteMessageBatchResult =
     (zero_shape ''DeleteMessageBatchResult'' ''structure'')\<lparr>sh_Required := [''Successful'', ''Failed''],
       sh_MemberOrder := [''Failed'', ''Successful''],
       sh_Members := map plain_member [
        (''Failed'', ''BatchResultErrorEntryList''),
        (''Successful'', ''DeleteMessageBatchResultEntryList'')]\<rparr>"

definition sh_DeleteMessageBatchResultEntry :: shape where
  "sh_DeleteMessageBatchResultEntry =
     (zero_shape ''DeleteMessageBatchResultEntry'' ''structure'')\<lparr>sh_Required := [''Id''],
       sh_MemberOrder := [''Id''],
       sh_Members := map plain_member [
        (''Id'', ''String'')]\<rparr>"

definition sh_DeleteMessageBatchResultEntryList :: shape where
  "sh_DeleteMessageBatchResultEntryList =
     (zero_shape ''DeleteMessageBatchResultEntryList'' ''list'')\<lparr>sh_Member := Some (plain_ref ''DeleteMessageBatchResultEntry''),
       sh_Flattened := True\<rparr>"

definition sh_DeleteMessageRequest :: shape where
  "sh_DeleteMessageRequest =
     (zero_shape ''DeleteMessageRequest'' ''structure'')\<lparr>sh_Required := [''QueueUrl'', ''ReceiptHandle''],
       sh_MemberOrder := [''QueueUrl'', ''ReceiptHandle''],
       sh_Members := map plain_member [
        (''QueueUrl'', ''String''),
        (''ReceiptHandle'', ''String'')]\<rparr>"

definition sh_DeleteQueueRequest :: shape where
  "sh_DeleteQueueRequest =
     (zero_shape ''DeleteQueueRequest'' ''structure'')\<lparr>sh_Required := [''QueueUrl''],
       sh_MemberOrder := [''QueueUrl''],
       sh_Members := map plain_member [
        (''QueueUrl'', ''String'')]\<rparr>"

definition sh_EmptyBatchRequest :: shape where
  "sh_EmptyBatchRequest =
     (zero_shape ''EmptyBatchRequest'' ''structure'')\<lparr>sh_MemberOrder := [''message''],
       sh_Members := map plain_member [
        (''message'', ''ExceptionMessage'')],
       sh_Exception := True\<rparr>"

definition sh_ExceptionMessage :: shape where
  "sh_ExceptionMessage =
     zero_shape ''ExceptionMessage'' ''string''"

definition sh_GetQueueAttributesRequest :: shape where
  "sh_GetQueueAttributesRequest =
     (zero_shape ''GetQueueAttributesRequest'' ''structure'')\<lparr>sh_Required := [''QueueUrl''],
       sh_MemberOrder := [''AttributeNames'', ''QueueUrl''],
       sh_Members := map plain_member [
        (''AttributeNames'', ''AttributeNameList''),
        (''QueueUrl'', ''String'')]\<rparr>"

definition sh_GetQueueAttributesResult :: shape where
  "sh_GetQueueAttributesResult =
     (zero_shape ''GetQueueAttributesResult'' ''structure'')\<lparr>sh_MemberOrder := [''Attributes''],
       sh_Members := map plain_member [
        (''Attributes'', ''QueueAttributeMap'')]\<rparr>"

definition sh_GetQueueUrlRequest :: shape where
  "sh_GetQueueUrlRequest =
     (zero_shape ''GetQueueUrlRequest'' ''structure'')\<lparr>sh_Required := [''QueueName''],
       sh_MemberOrder := [''QueueName'', ''QueueOwnerAWSAccountId''],
       sh_Members := map plain_member [
        (''QueueName'', ''String''),
        (''QueueOwnerAWSAccountId'', ''String'')]\<rparr>"

definition sh_GetQueueUrlResult :: shape where
  "sh_GetQueueUrlResult =
     (zero_shape ''GetQueueUrlResult'' ''structure'')\<lparr>sh_MemberOrder := [''QueueUrl''],
       sh_Members := map plain_member [
        (''QueueUrl'', ''String'')]\<rparr>"

definition sh_InvalidAddress :: shape where
  "sh_InvalidAddress =
     (zero_shape ''InvalidAddress'' ''structure'')\<lparr>sh_MemberOrder := [''message''],
       sh_Members := map plain_member [
        (''message'', ''ExceptionMessage'')],
       sh_Exception := True\<rparr>"

definition sh_InvalidAttributeName :: shape where
  "sh_InvalidAttributeName =
     (zero_shape ''InvalidAttributeName'' ''structure'')\<lparr>sh_MemberOrder := [''message''],
       sh_Members := map plain_member [
        (''message'', ''ExceptionMessage'')],
       sh_Exception := True\<rparr>"

definition sh_InvalidAttributeValue :: shape where
  "sh_InvalidAttributeValue =
     (zero_shape ''InvalidAttributeValue'' ''structure'')\<lparr>sh_MemberOrder := [''message''],
       sh_Members := map plain_member [
        (''message'', ''ExceptionMessage'')],
       sh_Exception := True\<rparr>"

definition sh_InvalidBatchEntryId :: shape where
  "sh_InvalidBatchEntryId =
     (zero_shape ''InvalidBatchEntryId'' ''structure'')\<lparr>sh_MemberOrder := [''message''],
       sh_Members := map plain_member [
        (''message'', ''ExceptionMessage'')],
       sh_Exception := True\<rparr>"

definition sh_InvalidIdFormat :: shape where
  "sh_InvalidIdFormat =
     (zero_shape ''InvalidIdFormat'' ''structure'')\<lparr>sh_Exception := True\<rparr>"

definition sh_InvalidMessageContents :: shape where
  "sh_InvalidMessageContents =
     (zero_shape ''InvalidMessageContents'' ''structure'')\<lparr>sh_MemberOrder := [''message''],
       sh_Members := map plain_member [
        (''message'', ''ExceptionMessage'')],
       sh_Exception := True\<rparr>"

definition sh_InvalidSecurity :: shape where
  "sh_InvalidSecurity =
     (zero_shape ''InvalidSecurity'' ''structure'')\<lparr>sh_MemberOrder := [''message''],
       sh_Members := map plain_member [
        (''message'', ''ExceptionMessage'')],
       sh_Exception := True\<rparr>"

definition sh_KmsAccessDenied :: shape where
  "sh_KmsAccessDenied =
     (zero_shape ''KmsAccessDenied'' ''structure'')\<lparr>sh_MemberOrder := [''message''],
       sh_Members := map plain_member [
        (''message'', ''ExceptionMessage'')],
       sh_Exception := True\<rparr>"

definition sh_KmsDisabled :: shape where
  "sh_KmsDisabled =
     (zero_shape ''KmsDisabled'' ''structure'')\<lparr>sh_MemberOrder := [''message''],
       sh_Members := map plain_member [
        (''message'', ''ExceptionMessage'')],
       sh_Exception := True\<rparr>"

definition sh_KmsInvalidKeyUsage :: shape where
  "sh_KmsInvalidKeyUsage =
     (zero_shape ''KmsInvalidKeyUsage'' ''structure'')\<lparr>sh_MemberOrder := [''message''],
       sh_Members := map plain_member [
        (''message'', ''ExceptionMessage'')],
       sh_Exception := True\<rparr>"

definition sh_KmsInvalidState :: shape where
  "sh_KmsInvalidState =
     (zero_shape ''KmsInvalidState'' ''structure'')\<lparr>sh_MemberOrder := [''message''],
       sh_Members := map plain_member [
        (''message'', ''ExceptionMessage'')],
       sh_Exception := True\<rparr>"

definition sh_KmsNotFound :: shape where
  "sh_KmsNotFound =
     (zero_shape ''KmsNotFound'' ''structure'')\<lparr>sh_MemberOrder := [''message''],
       sh_Members := map plain_member [
        (''message'', ''ExceptionMessage'')],
       sh_Exception := True\<rparr>"

definition sh_KmsOptInRequired :: shape where
  "sh_KmsOptInRequired =
     (zero_shape ''KmsOptInRequired'' ''structure'')\<lparr>sh_MemberOrder := [''message''],
       sh_Members := map plain_member [
        (''message'', ''ExceptionMessage'')],
       sh_Exception := True\<rparr>"

definition sh_KmsThrottled :: shape where
  "sh_KmsThrottled =
     (zero_shape ''KmsThrottled'' ''structure'')\<lparr>sh_MemberOrder := [''message''],
       sh_Members := map plain_member [
        (''message'', ''ExceptionMessage'')],
       sh_Exception := True\<rparr>"

definition sh_ListDeadLetterSourceQueuesRequest :: shape where
  "sh_ListDeadLetterSourceQueuesRequest =
     (zero_shape ''ListDeadLetterSourceQueuesRequest'' ''structure'')\<lparr>sh_Required := [''QueueUrl''],
       sh_MemberOrder := [''MaxResults'', ''NextToken'', ''QueueUrl''],
       sh_Members := map plain_member [
        (''MaxResults'', ''BoxedInteger''),
        (''NextToken'', ''Token''),
        (''QueueUrl'', ''String'')]\<rparr>"

definition sh_ListDeadLetterSourceQueuesResult :: shape where
  "sh_ListDeadLetterSourceQueuesResult =
     (zero_shape ''ListDeadLetterSourceQueuesResult'' ''structure'')\<lparr>sh_Required := [''queueUrls''],
       sh_MemberOrder := [''NextToken'', ''queueUrls''],
       sh_Members := map plain_member [
        (''NextToken'', ''Token''),
        (''queueUrls'', ''QueueUrlList'')]\<rparr>"

definition sh_ListMessageMoveTasksRequest :: shape where
  "sh_ListMessageMoveTasksRequest =
     (zero_shape ''ListMessageMoveTasksRequest'' ''structure'')\<lparr>sh_Required := [''SourceArn''],
       sh_MemberOrder := [''MaxResults'', ''SourceArn''],
       sh_Members := map plain_member [
        (''MaxResults'', ''NullableInteger''),
        (''SourceArn'', ''String'')]\<rparr>"

definition sh_ListMessageMoveTasksResult :: shape where
  "sh_ListMessageMoveTasksResult =
     (zero_shape ''ListMessageMoveTasksResult'' ''structure'')\<lparr>sh_MemberOrder := [''Results''],
       sh_Members := [
        (''Results'', \<lparr>mb_Shape = ''ListMessageMoveTasksResultEntryList'', mb_LocationName = '''', mb_Flattened = True\<rparr>)]\<rparr>"

definition sh_ListMessageMoveTasksResultEntry :: shape where
  "sh_ListMessageMoveTasksResultEntry =
     (zero_shape ''ListMessageMoveTasksResultEntry'' ''structure'')\<lparr>sh_MemberOrder := [''ApproximateNumberOfMessagesMoved'', ''ApproximateNumberOfMessagesToMove'',
        ''DestinationArn'', ''FailureReason'', ''MaxNumberOfMessagesPerSecond'',
        ''SourceArn'', ''StartedTimestamp'', ''Status'', ''TaskHandle''],
       sh_Members := map plain_member [
        (''ApproximateNumberOfMessagesMoved'', ''Long''),
        (''ApproximateNumberOfMessagesToMove'', ''NullableLong''),
        (''DestinationArn'', ''String''),
        (''FailureReason'', ''String''),
        (''MaxNumberOfMessagesPerSecond'', ''NullableInteger''),
        (''SourceArn'', ''String''),
        (''StartedTimestamp'', ''Long''),
        (''Status'', ''String''),
        (''TaskHandle'', ''String'')]\<rparr>"

definition sh_ListMessageMoveTasksResultEntryList :: shape where
  "sh_ListMessageMoveTasksResultEntryList =
     (zero_shape ''ListMessageMoveTasksResultEntryList'' ''list'')\<lparr>sh_Member := Some (plain_ref ''ListMessageMoveTasksResultEntry''),
       sh_Flattened := True\<rparr>"

definition sh_ListQueueTagsRequest :: shape where
  "sh_ListQueueTagsRequest =
     (zero_shape ''ListQueueTagsRequest'' ''structure'')\<lparr>sh_Required := [''QueueUrl''],
       sh_MemberOrder := [''QueueUrl''],
       sh_Members := map plain_member [
        (''QueueUrl'', ''String'')]\<rparr>"

definition sh_ListQueueTagsResult :: shape where
  "sh_ListQueueTagsResult =
     (zero_shape ''ListQueueTagsResult'' ''structure'')\<lparr>sh_MemberOrder := [''Tags''],
       sh_Members := map plain_member [
        (''Tags'', ''TagMap'')]\<rparr>"

definition sh_ListQueuesRequest :: shape where
  "sh_ListQueuesRequest =
     (zero_shape ''ListQueuesRequest'' ''structure'')\<lparr>sh_MemberOrder := [''MaxResults'', ''NextToken'', ''QueueNamePrefix''],
       sh_Members := map plain_member [
        (''MaxResults'', ''BoxedInteger''),
        (''NextToken'', ''Token''),
        (''QueueNamePrefix'', ''String'')]\<rparr>"

definition sh_ListQueuesResult :: shape where
  "sh_ListQueuesResult =
     (zero_shape ''ListQueuesResult'' ''structure'')\<lparr>sh_MemberOrder := [''NextToken'', ''QueueUrls''],
       sh_Members := map plain_member [
        (''NextToken'', ''Token''),
        (''QueueUrls'', ''QueueUrlList'')]\<rparr>"

definition sh_Long :: shape where
  "sh_Long =
     zero_shape ''Long'' ''long''"

definition sh_Message :: shape where
  "sh_Message =
     (zero_shape ''Message'' ''structure'')\<lparr>sh_MemberOrder := [''Attributes'', ''Body'', ''MD5OfBody'', ''MD5OfMessageAttributes'',
        ''MessageAttributes'', ''MessageId'', ''ReceiptHandle''],
       sh_Members := map plain_member [
        (''Attributes'', ''MessageSystemAttributeMap''),
        (''Body'', ''String''),
        (''MD5OfBody'', ''String''),
        (''MD5OfMessageAttributes'', ''String''),
        (''MessageAttributes'', ''MessageBodyAttributeMap''),
        (''MessageId'', ''String''),
        (''ReceiptHandle'', ''String'')]\<rparr>"

definition sh_MessageAttributeName :: shape where
  "sh_MessageAttributeName =
     zero_shape ''MessageAttributeName'' ''string''"

definition sh_MessageAttributeNameList :: shape where
  "sh_MessageAttributeNameList =
     (zero_shape ''MessageAttributeNameList'' ''list'')\<lparr>sh_Member := Some (plain_ref ''MessageAttributeName''),
       sh_Flattened := True\<rparr>"

definition sh_MessageAttributeValue :: shape where
  "sh_MessageAttributeValue =
     (zero_shape ''MessageAttributeValue'' ''structure'')\<lparr>sh_Required := [''DataType''],
       sh_MemberOrder := [''BinaryListValues'', ''BinaryValue'', ''DataType'', ''StringListValues'',
        ''StringValue''],
       sh_Members := [
        (''BinaryListValues'', \<lparr>mb_Shape = ''BinaryList'', mb_LocationName = '''', mb_Flattened = True\<rparr>),
        (''BinaryValue'', \<lparr>mb_Shape = ''Binary'', mb_LocationName = '''', mb_Flattened = False\<rparr>),
        (''DataType'', \<lparr>mb_Shape = ''String'', mb_LocationName = '''', mb_Flattened = False\<rparr>),
        (''StringListValues'', \<lparr>mb_Shape = ''StringList'', mb_LocationName = '''', mb_Flattened = True\<rparr>),
        (''StringValue'', \<lparr>mb_Shape = ''String'', mb_LocationName = '''', mb_Flattened = False\<rparr>)]\<rparr>"

definition sh_MessageBodyAttributeMap :: shape where
  "sh_MessageBodyAttributeMap =
     (zero_shape ''MessageBodyAttributeMap'' ''map'')\<lparr>sh_Key := Some (plain_ref ''String''),
       sh_Value := Some (plain_ref ''MessageAttributeValue''),
       sh_Flattened := True\<rparr>"

definition sh_MessageBodySystemAttributeMap :: shape where
  "sh_MessageBodySystemAttributeMap =
     (zero_shape ''MessageBodySystemAttributeMap'' ''map'')\<lparr>sh_Key := Some (plain_ref ''MessageSystemAttributeNameForSends''),
       sh_Value := Some (plain_ref ''MessageSystemAttributeValue''),
       sh_Flattened := True\<rparr>"

definition sh_MessageList :: shape where
  "sh_MessageList =
     (zero_shape ''MessageList'' ''list'')\<lparr>sh_Member := Some (plain_ref ''Message''),
       sh_Flattened := True\<rparr>"

definition sh_MessageNotInflight :: shape where
  "sh_MessageNotInflight =
     (zero_shape ''MessageNotInflight'' ''structure'')\<lparr>sh_Exception := True\<rparr>"

definition sh_MessageSystemAttributeList :: shape where
  "sh_MessageSystemAttributeList =
     (zero_shape ''MessageSystemAttributeList'' ''list'')\<lparr>sh_Member := Some (plain_ref ''MessageSystemAttributeName''),
       sh_Flattened := True\<rparr>"

definition sh_MessageSystemAttributeMap :: shape where
  "sh_MessageSystemAttributeMap =
     (zero_shape ''MessageSystemAttributeMap'' ''map'')\<lparr>sh_Key := Some (plain_ref ''MessageSystemAttributeName''),
       sh_Value := Some (plain_ref ''String''),
       sh_Flattened := True\<rparr>"

definition sh_MessageSystemAttributeName :: shape where
  "sh_MessageSystemAttributeName =
     (zero_shape ''MessageSystemAttributeName'' ''string'')\<lparr>sh_Enum := [''All'', ''SenderId'', ''SentTimestamp'', ''ApproximateReceiveCount'',
        ''ApproximateFirstReceiveTimestamp'', ''SequenceNumber'',
        ''MessageDeduplicationId'', ''MessageGroupId'', ''AWSTraceHeader'',
        ''DeadLetterQueueSourceArn'']\<rparr>"

definition sh_MessageSystemAttributeNameForSends :: shape where
  "sh_MessageSystemAttributeNameForSends =
     (zero_shape ''MessageSystemAttributeNameForSends'' ''string'')\<lparr>sh_Enum := [''AWSTraceHeader'']\<rparr>"

definition sh_MessageSystemAttributeValue :: shape where
  "sh_MessageSystemAttributeValue =
     (zero_shape ''MessageSystemAttributeValue'' ''structure'')\<lparr>sh_Required := [''DataType''],
       sh_MemberOrder := [''BinaryListValues'', ''BinaryValue'', ''DataType'', ''StringListValues'',
        ''StringValue''],
       sh_Members := [
        (''BinaryListValues'', \<lparr>mb_Shape = ''BinaryList'', mb_LocationName = '''', mb_Flattened = True\<rparr>),
        (''BinaryValue'', \<lparr>mb_Shape = ''Binary'', mb_LocationName = '''', mb_Flattened = False\<rparr>),
        (''DataType'', \<lparr>mb_Shape = ''String'', mb_LocationName = '''', mb_Flattened = False\<rparr>),
        (''StringListValues'', \<lparr>mb_Shape = ''StringList'', mb_LocationName = '''', mb_Flattened = True\<rparr>),
        (''StringValue'', \<lparr>mb_Shape = ''String'', mb_LocationName = '''', mb_Flattened = False\<rparr>)]\<rparr>"

definition sh_NullableInteger :: shape where
  "sh_NullableInteger =
     zero_shape ''NullableInteger'' ''integer''"

definition sh_NullableLong :: shape where
  "sh_NullableLong =
     zero_shape ''NullableLong'' ''long''"

definition sh_OverLimit :: shape where
  "sh_OverLimit =
     (zero_shape ''OverLimit'' ''structure'')\<lparr>sh_MemberOrder := [''message''],
       sh_Members := map plain_member [
        (''message'', ''ExceptionMessage'')],
       sh_Exception := True\<rparr>"

definition sh_PurgeQueueInProgress :: shape where
  "sh_PurgeQueueInProgress =
     (zero_shape ''PurgeQueueInProgress'' ''structure'')\<lparr>sh_MemberOrder := [''message''],
       sh_Members := map plain_member [
        (''message'', ''ExceptionMessage'')],
       sh_Exception := True\<rparr>"

definition sh_PurgeQueueRequest :: shape where
  "sh_PurgeQueueRequest =
     (zero_shape ''PurgeQueueRequest'' ''structure'')\<lparr>sh_Required := [''QueueUrl''],
       sh_MemberOrder := [''QueueUrl''],
       sh_Members := map plain_member [
        (''QueueUrl'', ''String'')]\<rparr>"

definition sh_QueueAttributeMap :: shape where
  "sh_QueueAttributeMap =
     (zero_shape ''QueueAttributeMap'' ''map'')\<lparr>sh_Key := Some (plain_ref ''QueueAttributeName''),
       sh_Value := Some (plain_ref ''String''),
       sh_Flattened := True\<rparr>"

definition sh_QueueAttributeName :: shape where
  "sh_QueueAttributeName =
     (zero_shape ''QueueAttributeName'' ''string'')\<lparr>sh_Enum := [''All'', ''Policy'', ''VisibilityTimeout'', ''MaximumMessageSize'',
        ''MessageRetentionPeriod'', ''ApproximateNumberOfMessages'',
        ''ApproximateNumberOfMessagesNotVisible'', ''CreatedTimestamp'',
        ''LastModifiedTimestamp'', ''QueueArn'',
        ''ApproximateNumberOfMessagesDelayed'', ''DelaySeconds'',
        ''ReceiveMessageWaitTimeSeconds'', ''RedrivePolicy'', ''FifoQueue'',
        ''ContentBasedDeduplication'', ''KmsMasterKeyId'',
        ''KmsDataKeyReusePeriodSeconds'', ''DeduplicationScope'',
        ''FifoThroughputLimit'', ''RedriveAllowPolicy'', ''SqsManagedSseEnabled'']\<rparr>"

definition sh_QueueDeletedRecently :: shape where
  "sh_QueueDeletedRecently =
     (zero_shape ''QueueDeletedRecently'' ''structure'')\<lparr>sh_MemberOrder := [''message''],
       sh_Members := map plain_member [
        (''message'', ''ExceptionMessage'')],
       sh_Exception := True\<rparr>"

definition sh_QueueDoesNotExist :: shape where
  "sh_QueueDoesNotExist =
     (zero_shape ''QueueDoesNotExist'' ''structure'')\<lparr>sh_MemberOrder := [''message''],
       sh_Members := map plain_member [
        (''message'', ''ExceptionMessage'')],
       sh_Exception := True\<rparr>"

definition sh_QueueNameExists :: shape where
  "sh_QueueNameExists =
     (zero_shape ''QueueNameExists'' ''structure'')\<lparr>sh_MemberOrder := [''message''],
       sh_Members := map plain_member [
        (''message'', ''ExceptionMessage'')],
       sh_Exception := True\<rparr>"

definition sh_QueueUrlList :: shape where
  "sh_QueueUrlList =
     (zero_shape ''QueueUrlList'' ''list'')\<lparr>sh_Member := Some (plain_ref ''String''),
       sh_Flattened := True\<rparr>"

definition sh_ReceiptHandleIsInvalid :: shape where
  "sh_ReceiptHandleIsInvalid =
     (zero_shape ''ReceiptHandleIsInvalid'' ''structure'')\<lparr>sh_MemberOrder := [''message''],
       sh_Members := map plain_member [
        (''message'', ''ExceptionMessage'')],
       sh_Exception := True\<rparr>"

definition sh_ReceiveMessageRequest :: shape where
  "sh_ReceiveMessageRequest =
     (zero_shape ''ReceiveMessageRequest'' ''structure'')\<lparr>sh_Required := [''QueueUrl''],
       sh_MemberOrder := [''AttributeNames'', ''MaxNumberOfMessages'', ''MessageAttributeNames'',
        ''MessageSystemAttributeNames'', ''QueueUrl'', ''ReceiveRequestAttemptId'',
        ''VisibilityTimeout'', ''WaitTimeSeconds''],
       sh_Members := map plain_member [
        (''AttributeNames'', ''AttributeNameList''),
        (''MaxNumberOfMessages'', ''NullableInteger''),
        (''MessageAttributeNames'', ''MessageAttributeNameList''),
        (''MessageSystemAttributeNames'', ''MessageSystemAttributeList''),
        (''QueueUrl'', ''String''),
        (''ReceiveRequestAttemptId'', ''String''),
        (''VisibilityTimeout'', ''NullableInteger''),
        (''WaitTimeSeconds'', ''NullableInteger'')]\<rparr>"

definition sh_ReceiveMessageResult :: shape where
  "sh_ReceiveMessageResult =
     (zero_shape ''ReceiveMessageResult'' ''structure'')\<lparr>sh_MemberOrder := [''Messages''],
       sh_Members := map plain_member [
        (''Messages'', ''MessageList'')]\<rparr>"

definition sh_RemovePermissionRequest :: shape where
  "sh_RemovePermissionRequest =
     (zero_shape ''RemovePermissionRequest'' ''structure'')\<lparr>sh_Required := [''QueueUrl'', ''Label''],
       sh_MemberOrder := [''Label'', ''QueueUrl''],
       sh_Members := map plain_member [
        (''Label'', ''String''),
        (''QueueUrl'', ''String'')]\<rparr>"

definition sh_RequestThrottled :: shape where
  "sh_RequestThrottled =
     (zero_shape ''RequestThrottled'' ''structure'')\<lparr>sh_MemberOrder := [''message''],
       sh_Members := map plain_member [
        (''message'', ''ExceptionMessage'')],
       sh_Exception := True\<rparr>"

definition sh_ResourceNotFoundException :: shape where
  "sh_ResourceNotFoundException =
     (zero_shape ''ResourceNotFoundException'' ''structure'')\<lparr>sh_MemberOrder := [''message''],
       sh_Members := map plain_member [
        (''message'', ''ExceptionMessage'')],
       sh_Exception := True\<rparr>"

definition sh_SendMessageBatchRequest :: shape where
  "sh_SendMessageBatchRequest =
     (zero_shape ''SendMessageBatchRequest'' ''structure'')\<lparr>sh_Required := [''QueueUrl'', ''Entries''],
       sh_MemberOrder := [''Entries'', ''QueueUrl''],
       sh_Members := map plain_member [
        (''Entries'', ''SendMessageBatchRequestEntryList''),
        (''QueueUrl'', ''String'')]\<rparr>"

definition sh_SendMessageBatchRequestEntry :: shape where
  "sh_SendMessageBatchRequestEntry =
     (zero_shape ''SendMessageBatchRequestEntry'' ''structure'')\<lparr>sh_Required := [''Id'', ''MessageBody''],
       sh_MemberOrder := [''DelaySeconds'', ''Id'', ''MessageAttributes'', ''MessageBody'',
        ''MessageDeduplicationId'', ''MessageGroupId'', ''MessageSystemAttributes''],
       sh_Members := map plain_member [
        (''DelaySeconds'', ''NullableInteger''),
        (''Id'', ''String''),
        (''MessageAttributes'', ''MessageBodyAttributeMap''),
        (''MessageBody'', ''String''),
        (''MessageDeduplicationId'', ''String''),
        (''MessageGroupId'', ''String''),
        (''MessageSystemAttributes'', ''MessageBodySystemAttributeMap'')]\<rparr>"

definition sh_SendMessageBatchRequestEntryList :: shape where
  "sh_SendMessageBatchRequestEntryList =
     (zero_shape ''SendMessageBatchRequestEntryList'' ''list'')\<lparr>sh_Member := Some (plain_ref ''SendMessageBatchRequestEntry''),
       sh_Flattened := True\<rparr>"

definition sh_SendMessageBatchResult :: shape where
  "sh_SendMessageBatchResult =
     (zero_shape ''SendMessageBatchResult'' ''structure'')\<lparr>sh_Required := [''Successful'', ''Failed''],
       sh_MemberOrder := [''Failed'', ''Successful''],
       sh_Members := map plain_member [
        (''Failed'', ''BatchResultErrorEntryList''),
        (''Successful'', ''SendMessageBatchResultEntryList'')]\<rparr>"

definition sh_SendMessageBatchResultEntry :: shape where
  "sh_SendMessageBatchResultEntry =
     (zero_shape ''SendMessageBatchResultEntry'' ''structure'')\<lparr>sh_Required := [''Id'', ''MessageId'', ''MD5OfMessageBody''],
       sh_MemberOrder := [''Id'', ''MD5OfMessageAttributes'', ''MD5OfMessageBody'',
        ''MD5OfMessageSystemAttributes'', ''MessageId'', ''SequenceNumber''],
       sh_Members := map plain_member [
        (''Id'', ''String''),
        (''MD5OfMessageAttributes'', ''String''),
        (''MD5OfMessageBody'', ''String''),
        (''MD5OfMessageSystemAttributes'', ''String''),
        (''MessageId'', ''String''),
        (''SequenceNumber'', ''String'')]\<rparr>"

definition sh_SendMessageBatchResultEntryList :: shape where
  "sh_SendMessageBatchResultEntryList =
     (zero_shape ''SendMessageBatchResultEntryList'' ''list'')\<lparr>sh_Member := Some (plain_ref ''SendMessageBatchResultEntry''),
       sh_Flattened := True\<rparr>"

definition sh_SendMessageRequest :: shape where
  "sh_SendMessageRequest =
     (zero_shape ''SendMessageRequest'' ''structure'')\<lparr>sh_Required := [''QueueUrl'', ''MessageBody''],
       sh_MemberOrder := [''DelaySeconds'', ''MessageAttributes'', ''MessageBody'',
        ''MessageDeduplicationId'', ''MessageGroupId'', ''MessageSystemAttributes'',
        ''QueueUrl''],
       sh_Members := map plain_member [
        (''DelaySeconds'', ''NullableInteger''),
        (''MessageAttributes'', ''MessageBodyAttributeMap''),
        (''MessageBody'', ''String''),
        (''MessageDeduplicationId'', ''String''),
        (''MessageGroupId'', ''String''),
        (''MessageSystemAttributes'', ''MessageBodySystemAttributeMap''),
        (''QueueUrl'', ''String'')]\<rparr>"

definition sh_SendMessageResult :: shape where
  "sh_SendMessageResult =
     (zero_shape ''SendMessageResult'' ''structure'')\<lparr>sh_MemberOrder := [''MD5OfMessageAttributes'', ''MD5OfMessageBody'',
        ''MD5OfMessageSystemAttributes'', ''MessageId'', ''SequenceNumber''],
       sh_Members := map plain_member [
        (''MD5OfMessageAttributes'', ''String''),
        (''MD5OfMessageBody'', ''String''),
        (''MD5OfMessageSystemAttributes'', ''String''),
        (''MessageId'', ''String''),
        (''SequenceNumber'', ''String'')]\<rparr>"

definition sh_SetQueueAttributesRequest :: shape where
  "sh_SetQueueAttributesRequest =
     (zero_shape ''SetQueueAttributesRequest'' ''structure'')\<lparr>sh_Required := [''QueueUrl'', ''Attributes''],
       sh_MemberOrder := [''Attributes'', ''QueueUrl''],
       sh_Members := map plain_member [
        (''Attributes'', ''QueueAttributeMap''),
        (''QueueUrl'', ''String'')]\<rparr>"

definition sh_StartMessageMoveTaskRequest :: shape where
  "sh_StartMessageMoveTaskRequest =
     (zero_shape ''StartMessageMoveTaskRequest'' ''structure'')\<lparr>sh_Required := [''SourceArn''],
       sh_MemberOrder := [''DestinationArn'', ''MaxNumberOfMessagesPerSecond'', ''SourceArn''],
       sh_Members := map plain_member [
        (''DestinationArn'', ''String''),
        (''MaxNumberOfMessagesPerSecond'', ''NullableInteger''),
        (''SourceArn'', ''String'')]\<rparr>"

definition sh_StartMessageMoveTaskResult :: shape where
  "sh_StartMessageMoveTaskResult =
     (zero_shape ''StartMessageMoveTaskResult'' ''structure'')\<lparr>sh_MemberOrder := [''TaskHandle''],
       sh_Members := map plain_member [
        (''TaskHandle'', ''String'')]\<rparr>"

definition sh_String :: shape where
  "sh_String =
     zero_shape ''String'' ''string''"

definition sh_StringList :: shape where
  "sh_StringList =
     (zero_shape ''StringList'' ''list'')\<lparr>sh_Member := Some (plain_ref ''String'')\<rparr>"

definition sh_TagKey :: shape where
  "sh_TagKey =
     zero_shape ''TagKey'' ''string''"

definition sh_TagKeyList :: shape where
  "sh_TagKeyList =
     (zero_shape ''TagKeyList'' ''list'')\<lparr>sh_Member := Some (plain_ref ''TagKey''),
       sh_Flattened := True\<rparr>"

definition sh_TagMap :: shape where
  "sh_TagMap =
     (zero_shape ''TagMap'' ''map'')\<lparr>sh_Key := Some (plain_ref ''TagKey''),
       sh_Value := Some (plain_ref ''TagValue''),
       sh_Flattened := True\<rparr>"

definition sh_TagQueueRequest :: shape where
  "sh_TagQueueRequest =
     (zero_shape ''TagQueueRequest'' ''structure'')\<lparr>sh_Required := [''QueueUrl'', ''Tags''],
       sh_MemberOrder := [''QueueUrl'', ''Tags''],
       sh_Members := map plain_member [
        (''QueueUrl'', ''String''),
        (''Tags'', ''TagMap'')]\<rparr>"

definition sh_TagValue :: shape where
  "sh_TagValue =
     zero_shape ''TagValue'' ''string''"

definition sh_Token :: shape where
  "sh_Token =
     zero_shape ''Token'' ''string''"

definition sh_TooManyEntriesInBatchRequest :: shape where
  "sh_TooManyEntriesInBatchRequest =
     (zero_shape ''TooManyEntriesInBatchRequest'' ''structure'')\<lparr>sh_MemberOrder := [''message''],
       sh_Members := map plain_member [
        (''message'', ''ExceptionMessage'')],
       sh_Exception := True\<rparr>"

definition sh_UnsupportedOperation :: shape where
  "sh_UnsupportedOperation =
     (zero_shape ''UnsupportedOperation'' ''structure'')\<lparr>sh_MemberOrder := [''message''],
       sh_Members := map plain_member [
        (''message'', ''ExceptionMessage'')],
       sh_Exception := True\<rparr>"

definition sh_UntagQueueRequest :: shape where
  "sh_UntagQueueRequest =
     (zero_shape ''UntagQueueRequest'' ''structure'')\<lparr>sh_Required := [''QueueUrl'', ''TagKeys''],
       sh_MemberOrder := [''QueueUrl'', ''TagKeys''],
       sh_Members := map plain_member [
        (''QueueUrl'', ''String''),
        (''TagKeys'', ''TagKeyList'')]\<rparr>"

section \<open>Pagination\<close>

definition Default_Pagination :: "(string \<times> paginator) list" where
  "Default_Pagination = [
     (''ListDeadLetterSourceQueues'', \<lparr>pg_InputToken = ''NextToken'', pg_OutputToken = ''NextToken'',
        pg_LimitKey = ''MaxResults'', pg_ResultKey = ''queueUrls''\<rparr>),
     (''ListQueues'', \<lparr>pg_InputToken = ''NextToken'', pg_OutputToken = ''NextToken'',
        pg_LimitKey = ''MaxResults'', pg_ResultKey = ''QueueUrls''\<rparr>)]"

section \<open>The registry\<close>

definition Default_Operations :: "(string \<times> operation) list" where
  "Default_Operations = [
     (''AddPermission'', op_AddPermission),
     (''CancelMessageMoveTask'', op_CancelMessageMoveTask),
     (''ChangeMessageVisibility'', op_ChangeMessageVisibility),
     (''ChangeMessageVisibilityBatch'', op_ChangeMessageVisibilityBatch),
     (''CreateQueue'', op_CreateQueue),
     (''DeleteMessage'', op_DeleteMessage),
     (''DeleteMessageBatch'', op_DeleteMessageBatch),
     (''DeleteQueue'', op_DeleteQueue),
     (''GetQueueAttributes'', op_GetQueueAttributes),
     (''GetQueueUrl'', op_GetQueueUrl),
     (''ListDeadLetterSourceQueues'', op_ListDeadLetterSourceQueues),
     (''ListMessageMoveTasks'', op_ListMessageMoveTasks),
     (''ListQueueTags'', op_ListQueueTags),
     (''ListQueues'', op_ListQueues),
     (''PurgeQueue'', op_PurgeQueue),
     (''ReceiveMessage'', op_ReceiveMessage),
     (''RemovePermission'', op_RemovePermission),
     (''SendMessage'', op_SendMessage),
     (''SendMessageBatch'', op_SendMessageBatch),
     (''SetQueueAttributes'', op_SetQueueAttributes),
     (''StartMessageMoveTask'', op_StartMessageMoveTask),
     (''TagQueue'', op_TagQueue),
     (''UntagQueue'', op_UntagQueue)]"

definition Default_Shapes :: "(string \<times> shape) list" where
  "Default_Shapes = [
     (''AWSAccountIdList'', sh_AWSAccountIdList),
     (''ActionNameList'', sh_ActionNameList),
     (''AddPermissionRequest'', sh_AddPermissionRequest),
     (''AttributeNameList'', sh_AttributeNameList),
     (''BatchEntryIdsNotDistinct'', sh_BatchEntryIdsNotDistinct),
     (''BatchRequestTooLong'', sh_BatchRequestTooLong),
     (''BatchResultErrorEntry'', sh_BatchResultErrorEntry),
     (''BatchResultErrorEntryList'', sh_BatchResultErrorEntryList),
     (''Binary'', sh_Binary),
     (''BinaryList'', sh_BinaryList),
     (''Boolean'', sh_Boolean),
     (''BoxedInteger'', sh_BoxedInteger),
     (''CancelMessageMoveTaskRequest'', sh_CancelMessageMoveTaskRequest),
     (''CancelMessageMoveTaskResult'', sh_CancelMessageMoveTaskResult),
     (''ChangeMessageVisibilityBatchRequest'', sh_ChangeMessageVisibilityBatchRequest),
     (''ChangeMessageVisibilityBatchRequestEntry'', sh_ChangeMessageVisibilityBatchRequestEntry),
     (''ChangeMessageVisibilityBatchRequestEntryList'', sh_ChangeMessageVisibilityBatchRequestEntryList),
     (''ChangeMessageVisibilityBatchResult'', sh_ChangeMessageVisibilityBatchResult),
     (''ChangeMessageVisibilityBatchResultEntry'', sh_ChangeMessageVisibilityBatchResultEntry),
     (''ChangeMessageVisibilityBatchResultEntryList'', sh_ChangeMessageVisibilityBatchResultEntryList),
     (''ChangeMessageVisibilityRequest'', sh_ChangeMessageVisibilityRequest),
     (''CreateQueueRequest'', sh_CreateQueueRequest),
     (''CreateQueueResult'', sh_CreateQueueResult),
     (''DeleteMessageBatchRequest'', sh_DeleteMessageBatchRequest),
     (''DeleteMessageBatchRequestEntry'', sh_DeleteMessageBatchRequestEntry),
     (''DeleteMessageBatchRequestEntryList'', sh_DeleteMessageBatchRequestEntryList),
     (''DeleteMessageBatchResult'', sh_DeleteMessageBatchResult),
     (''DeleteMessageBatchResultEntry'', sh_DeleteMessageBatchResultEntry),
     (''DeleteMessageBatchResultEntryList'', sh_DeleteMessageBatchResultEntryList),
     (''DeleteMessageRequest'', sh_DeleteMessageRequest),
     (''DeleteQueueRequest'', sh_DeleteQueueRequest),
     (''EmptyBatchRequest'', sh_EmptyBatchRequest),
     (''ExceptionMessage'', sh_ExceptionMessage),
     (''GetQueueAttributesRequest'', sh_GetQueueAttributesRequest),
     (''GetQueueAttributesResult'', sh_GetQueueAttributesResult),
     (''GetQueueUrlRequest'', sh_GetQueueUrlRequest),
     (''GetQueueUrlResult'', sh_GetQueueUrlResult),
     (''InvalidAddress'', sh_InvalidAddress),
     (''InvalidAttributeName'', sh_InvalidAttributeName),
     (''InvalidAttributeValue'', sh_InvalidAttributeValue),
     (''InvalidBatchEntryId'', sh_InvalidBatchEntryId),
     (''InvalidIdFormat'', sh_InvalidIdFormat),
     (''InvalidMessageContents'', sh_InvalidMessageContents),
     (''InvalidSecurity'', sh_InvalidSecurity),
     (''KmsAccessDenied'', sh_KmsAccessDenied),
     (''KmsDisabled'', sh_KmsDisabled),
     (''KmsInvalidKeyUsage'', sh_KmsInvalidKeyUsage),
     (''KmsInvalidState'', sh_KmsInvalidState),
     (''KmsNotFound'', sh_KmsNotFound),
     (''KmsOptInRequired'', sh_KmsOptInRequired),
     (''KmsThrottled'', sh_KmsThrottled),
     (''ListDeadLetterSourceQueuesRequest'', sh_ListDeadLetterSourceQueuesRequest),
     (''ListDeadLetterSourceQueuesResult'', sh_ListDeadLetterSourceQueuesResult),
     (''ListMessageMoveTasksRequest'', sh_ListMessageMoveTasksRequest),
     (''ListMessageMoveTasksResult'', sh_ListMessageMoveTasksResult),
     (''ListMessageMoveTasksResultEntry'', sh_ListMessageMoveTasksResultEntry),
     (''ListMessageMoveTasksResultEntryList'', sh_ListMessageMoveTasksResultEntryList),
     (''ListQueueTagsRequest'', sh_ListQueueTagsRequest),
     (''ListQueueTagsResult'', sh_ListQueueTagsResult),
     (''ListQueuesRequest'', sh_ListQueuesRequest),
     (''ListQueuesResult'', sh_ListQueuesResult),
     (''Long'', sh_Long),
     (''Message'', sh_Message),
     (''MessageAttributeName'', sh_MessageAttributeName),
     (''MessageAttributeNameList'', sh_MessageAttributeNameList),
     (''MessageAttributeValue'', sh_MessageAttributeValue),
     (''MessageBodyAttributeMap'', sh_MessageBodyAttributeMap),
     (''MessageBodySystemAttributeMap'', sh_MessageBodySystemAttributeMap),
     (''MessageList'', sh_MessageList),
     (''MessageNotInflight'', sh_MessageNotInflight),
     (''MessageSystemAttributeList'', sh_MessageSystemAttributeList),
     (''MessageSystemAttributeMap'', sh_MessageSystemAttributeMap),
     (''MessageSystemAttributeName'', sh_MessageSystemAttributeName),
     (''MessageSystemAttributeNameForSends'', sh_MessageSystemAttributeNameForSends),
     (''MessageSystemAttributeValue'', sh_MessageSystemAttributeValue),
     (''NullableInteger'', sh_NullableInteger),
     (''NullableLong'', sh_NullableLong),
     (''OverLimit'', sh_OverLimit),
     (''PurgeQueueInProgress'', sh_PurgeQueueInProgress),
     (''PurgeQueueRequest'', sh_PurgeQueueRequest),
     (''QueueAttributeMap'', sh_QueueAttributeMap),
     (''QueueAttributeName'', sh_QueueAttributeName),
     (''QueueDeletedRecently'', sh_QueueDeletedRecently),
     (''QueueDoesNotExist'', sh_QueueDoesNotExist),
     (''QueueNameExists'', sh_QueueNameExists),
     (''QueueUrlList'', sh_QueueUrlList),
     (''ReceiptHandleIsInvalid'', sh_ReceiptHandleIsInvalid),
     (''ReceiveMessageRequest'', sh_ReceiveMessageRequest),
     (''ReceiveMessageResult'', sh_ReceiveMessageResult),
     (''RemovePermissionRequest'', sh_RemovePermissionRequest),
     (''RequestThrottled'', sh_RequestThrottled),
     (''ResourceNotFoundException'', sh_ResourceNotFoundException),
     (''SendMessageBatchRequest'', sh_SendMessageBatchRequest),
     (''SendMessageBatchRequestEntry'', sh_SendMessageBatchRequestEntry),
     (''SendMessageBatchRequestEntryList'', sh_SendMessageBatchRequestEntryList),
     (''SendMessageBatchResult'', sh_SendMessageBatchResult),
     (''SendMessageBatchResultEntry'', sh_SendMessageBatchResultEntry),
     (''SendMessageBatchResultEntryList'', sh_SendMessageBatchResultEntryList),
     (''SendMessageRequest'', sh_SendMessageRequest),
     (''SendMessageResult'', sh_SendMessageResult),
     (''SetQueueAttributesRequest'', sh_SetQueueAttributesRequest),
     (''StartMessageMoveTaskRequest'', sh_StartMessageMoveTaskRequest),
     (''StartMessageMoveTaskResult'', sh_StartMessageMoveTaskResult),
     (''String'', sh_String),
     (''StringList'', sh_StringList),
     (''TagKey'', sh_TagKey),
     (''TagKeyList'', sh_TagKeyList),
     (''TagMap'', sh_TagMap),
     (''TagQueueRequest'', sh_TagQueueRequest),
     (''TagValue'', sh_TagValue),
     (''Token'', sh_Token),
     (''TooManyEntriesInBatchRequest'', sh_TooManyEntriesInBatchRequest),
     (''UnsupportedOperation'', sh_UnsupportedOperation),
     (''UntagQueueRequest'', sh_UntagQueueRequest)]"

definition Default :: registry where
  "Default = \<lparr>rg_Metadata = Default_Metadata, rg_Operations = Default_Operations,
     rg_Shapes = Default_Shapes, rg_Pagination = Default_Pagination\<rparr>"

end
