(* ===== verification/Helpers.thy ===== *)
theory Helpers
  imports ApiErrors
begin

text \<open>
  \<open>internal/service/helpers.go\<close> and the readers of request fields at the end of
  \<open>internal/service/messages.go\<close>: typed access to the decoded input, page tokens, policy
  documents.
\<close>

section \<open>Request fields\<close>

definition boolString :: "bool \<Rightarrow> string" where
  "boolString value = (if value then ''true'' else ''false'')"

text \<open>The switch of \<open>stringValue\<close> on a value that is present and not nil.\<close>

definition stringOf :: "gval \<Rightarrow> string" where
  "stringOf raw = (case raw of
      GStr s \<Rightarrow> s
    | GInt n \<Rightarrow> formatInt n
    | GFloat m e \<Rightarrow> formatInt (float_to_int64 m e)
    | GBool b \<Rightarrow> boolString b
    | _ \<Rightarrow> sprint raw)"

definition stringValue :: "gmap \<Rightarrow> string \<Rightarrow> string" where
  "stringValue input key = (case mget input key of
      None \<Rightarrow> []
    | Some GNil \<Rightarrow> []
    | Some raw \<Rightarrow> stringOf raw)"

definition int64Value :: "gmap \<Rightarrow> string \<Rightarrow> int \<Rightarrow> string + int" where
  "int64Value input key fallback = (case mget input key of
      None \<Rightarrow> Inr fallback
    | Some GNil \<Rightarrow> Inr fallback
    | Some (GInt n) \<Rightarrow> Inr n
    | Some (GFloat m e) \<Rightarrow> Inr (float_to_int64 m e)
    | Some (GStr s) \<Rightarrow> (case parseInt s of None \<Rightarrow> Inl ''invalid syntax'' | Some v \<Rightarrow> Inr v)
    | Some _ \<Rightarrow> Inl (''field '' @ key @ '' is not an integer''))"

definition stringMapValue :: "gmap \<Rightarrow> string \<Rightarrow> strmap" where
  "stringMapValue input key = (case mget input key of
      Some (GMap typed) \<Rightarrow> map (\<lambda>(k, v). (k, stringValue [(''value'', v)] ''value'')) typed
    | _ \<Rightarrow> [])"

definition stringSliceValue :: "gmap \<Rightarrow> string \<Rightarrow> string list" where
  "stringSliceValue input key = (case mget input key of
      Some (GList typed) \<Rightarrow> map (\<lambda>v. stringValue [(''value'', v)] ''value'') typed
    | _ \<Rightarrow> [])"

text \<open>\<open>int64Field\<close>: the value, and whether the field was given at all; a malformed value is 0.\<close>

definition int64Field :: "gmap \<Rightarrow> string \<Rightarrow> int \<times> bool" where
  "int64Field input key = (case mget input key of
      None \<Rightarrow> (0, False)
    | Some GNil \<Rightarrow> (0, False)
    | Some _ \<Rightarrow> (case int64Value input key 0 of Inl _ \<Rightarrow> (0, True) | Inr v \<Rightarrow> (v, True)))"

definition anyMapValue :: "gmap \<Rightarrow> string \<Rightarrow> gmap" where
  "anyMapValue input key = (case mget input key of Some (GMap typed) \<Rightarrow> typed | _ \<Rightarrow> [])"

definition anySliceValue :: "gmap \<Rightarrow> string \<Rightarrow> gval list" where
  "anySliceValue input key = (case mget input key of Some (GList typed) \<Rightarrow> typed | _ \<Rightarrow> [])"

fun sliceOfMaps :: "gval list \<Rightarrow> gmap list" where
  "sliceOfMaps [] = []"
| "sliceOfMaps (v # vs) = (case v of GMap typed \<Rightarrow> typed # sliceOfMaps vs | _ \<Rightarrow> sliceOfMaps vs)"

definition cloneAnyMap :: "gmap \<Rightarrow> gmap" where
  "cloneAnyMap values = mcopy [] values"

definition stringMapToAny :: "strmap \<Rightarrow> gmap" where
  "stringMapToAny values = map (\<lambda>(k, v). (k, GStr v)) values"

definition toAnySlice :: "string list \<Rightarrow> gval list" where
  "toAnySlice values = map GStr values"

text \<open>\<open>if typed, ok := raw.(map[string]any)\<close>, the nil map otherwise\<close>

definition as_map :: "gval \<Rightarrow> gmap" where
  "as_map v = (case v of GMap m \<Rightarrow> m | _ \<Rightarrow> [])"

lemma stringValue_str [simp]: "mget input key = Some (GStr s) \<Longrightarrow> stringValue input key = s"
  by (simp add: stringValue_def stringOf_def)

lemma stringValue_none [simp]: "mget input key = None \<Longrightarrow> stringValue input key = []"
  by (simp add: stringValue_def)

lemma mget_stringMapToAny: "mget (stringMapToAny m) k = map_option GStr (mget m k)"
  by (induction m) (auto simp: stringMapToAny_def)

section \<open>Page tokens\<close>

definition encodeNextToken :: "int \<Rightarrow> string" where
  "encodeNextToken offset = (if offset \<le> 0 then [] else rawURLEncode (formatInt offset))"

definition decodeNextToken :: "string \<Rightarrow> string + int" where
  "decodeNextToken token =
     (if token = [] then Inr 0
      else (case rawURLDecode token of
          None \<Rightarrow> Inl ''illegal base64 data''
        | Some raw \<Rightarrow> (case parseInt raw of None \<Rightarrow> Inl ''invalid syntax'' | Some n \<Rightarrow> Inr n)))"

section \<open>Policy documents\<close>

definition normalizePolicyJSON :: "string \<Rightarrow> string" where
  "normalizePolicyJSON raw =
     (if raw = [] then raw
      else (case json_unmarshal raw of None \<Rightarrow> raw | Some value \<Rightarrow> json_marshal value))"

text \<open>The nil map, which cannot be written to, is \<open>None\<close>: the document \<open>null\<close> gives it.\<close>

definition parseJSONDocument :: "string \<Rightarrow> string + gmap option" where
  "parseJSONDocument raw =
     (if raw = [] then Inr (Some [])
      else (case json_unmarshal raw of
          Some (GMap value) \<Rightarrow> Inr (Some value)
        | Some GNil \<Rightarrow> Inr None
        | _ \<Rightarrow> Inl ''invalid JSON''))"

definition containsFold :: "string list \<Rightarrow> string \<Rightarrow> bool" where
  "containsFold values needle \<longleftrightarrow> list_ex (\<lambda>value. equalFold value needle) values"

section \<open>Properties\<close>

text \<open>
  A page token is read back as the offset it was made from: for every offset that an
  \<open>int\<close> can hold, decoding the encoded token gives the offset, and 0 for the offsets that are
  encoded as the empty token.
\<close>

lemma nextToken_roundtrip:
  "n < 2 ^ 63 \<Longrightarrow> decodeNextToken (encodeNextToken n) = Inr (max 0 n)"
  by (auto simp: decodeNextToken_def encodeNextToken_def parseInt_formatInt int64_range_def)

end
