(* ===== verification/Programs.thy ===== *)
theory Programs
  imports Prelude
begin

text \<open>
  Request handlers read and write shared state and stop at the first error, keeping what they
  have written until then. A handler is a function from the state to an error or a result and
  the state it leaves: \<open>bindE\<close> is Go's \<open>if err != nil { return err }\<close>, \<open>attempt\<close> hands the
  error to the caller as a value, and the loops are \<open>forE\<close>, \<open>mapE\<close> and \<open>foldE\<close>. The locale
  \<open>effect\<close> carries a reflexive and transitive relation between states through such programs;
  every invariant and every frame property of the handlers is an instance of it.
\<close>

type_synonym ('w, 'e, 'a) prog = "'w \<Rightarrow> ('e + 'a) \<times> 'w"

section \<open>Sequencing\<close>

definition ok :: "'a \<Rightarrow> ('w, 'e, 'a) prog" where
  "ok x = (\<lambda>w. (Inr x, w))"

definition throw :: "'e \<Rightarrow> ('w, 'e, 'a) prog" where
  "throw e = (\<lambda>w. (Inl e, w))"

definition bindE :: "('w, 'e, 'a) prog \<Rightarrow> ('a \<Rightarrow> ('w, 'e, 'b) prog) \<Rightarrow> ('w, 'e, 'b) prog" where
  "bindE m f = (\<lambda>w. case m w of (r, w') \<Rightarrow>
     (case r of Inl e \<Rightarrow> (Inl e, w') | Inr x \<Rightarrow> f x w'))"

abbreviation seqE :: "('w, 'e, unit) prog \<Rightarrow> ('w, 'e, 'b) prog \<Rightarrow> ('w, 'e, 'b) prog" where
  "seqE m k \<equiv> bindE m (\<lambda>_. k)"

definition attempt :: "('w, 'e, 'a) prog \<Rightarrow> ('w, 'f, 'e + 'a) prog" where
  "attempt m = (\<lambda>w. case m w of (r, w') \<Rightarrow> (Inr r, w'))"

definition mapErr :: "('e \<Rightarrow> 'f) \<Rightarrow> ('w, 'e, 'a) prog \<Rightarrow> ('w, 'f, 'a) prog" where
  "mapErr g m = (\<lambda>w. case m w of (r, w') \<Rightarrow>
     ((case r of Inl e \<Rightarrow> Inl (g e) | Inr x \<Rightarrow> Inr x), w'))"

text \<open>A pure computation that may fail.\<close>

definition liftE :: "('e + 'a) \<Rightarrow> ('w, 'e, 'a) prog" where
  "liftE r = (\<lambda>w. (r, w))"

definition guardE :: "bool \<Rightarrow> 'e \<Rightarrow> ('w, 'e, unit) prog" where
  "guardE b e = (if b then ok () else throw e)"

fun forE :: "('a \<Rightarrow> ('w, 'e, unit) prog) \<Rightarrow> 'a list \<Rightarrow> ('w, 'e, unit) prog" where
  "forE body [] = ok ()"
| "forE body (x # xs) = bindE (body x) (\<lambda>_. forE body xs)"

fun mapE :: "('a \<Rightarrow> ('w, 'e, 'b) prog) \<Rightarrow> 'a list \<Rightarrow> ('w, 'e, 'b list) prog" where
  "mapE body [] = ok []"
| "mapE body (x # xs) = bindE (body x) (\<lambda>y. bindE (mapE body xs) (\<lambda>ys. ok (y # ys)))"

fun foldE :: "('s \<Rightarrow> 'a \<Rightarrow> ('w, 'e, 's) prog) \<Rightarrow> 's \<Rightarrow> 'a list \<Rightarrow> ('w, 'e, 's) prog" where
  "foldE body s [] = ok s"
| "foldE body s (x # xs) = bindE (body s x) (\<lambda>s'. foldE body s' xs)"

section \<open>Running programs\<close>

lemma run_ok [simp]: "ok x w = (Inr x, w)"
  by (simp add: ok_def)

lemma run_throw [simp]: "throw e w = (Inl e, w)"
  by (simp add: throw_def)

lemma run_liftE [simp]: "liftE r w = (r, w)"
  by (simp add: liftE_def)

lemma run_guardE [simp]: "guardE b e w = (if b then Inr () else Inl e, w)"
  by (simp add: guardE_def)

lemma run_bindE:
  "bindE m f w = (case m w of (Inl e, w') \<Rightarrow> (Inl e, w') | (Inr x, w') \<Rightarrow> f x w')"
  by (simp add: bindE_def split: prod.splits sum.splits)

lemma run_bindE_Inr [simp]: "m w = (Inr x, w') \<Longrightarrow> bindE m f w = f x w'"
  by (simp add: bindE_def)

lemma run_bindE_Inl [simp]: "m w = (Inl e, w') \<Longrightarrow> bindE m f w = (Inl e, w')"
  by (simp add: bindE_def)

lemma run_mapErr: "mapErr g m w = (case m w of (Inl e, w') \<Rightarrow> (Inl (g e), w') | (Inr x, w') \<Rightarrow> (Inr x, w'))"
  by (simp add: mapErr_def split: prod.splits sum.splits)

lemma run_mapErr_Inr [simp]: "m w = (Inr x, w') \<Longrightarrow> mapErr g m w = (Inr x, w')"
  by (simp add: mapErr_def)

lemma run_mapErr_Inl [simp]: "m w = (Inl e, w') \<Longrightarrow> mapErr g m w = (Inl (g e), w')"
  by (simp add: mapErr_def)

lemma run_attempt [simp]: "m w = (r, w') \<Longrightarrow> attempt m w = (Inr r, w')"
  by (simp add: attempt_def)

lemma bindE_Inr_cases:
  assumes "bindE m f w = (Inr y, w'')"
  obtains x w' where "m w = (Inr x, w')" and "f x w' = (Inr y, w'')"
  using assms by (cases "m w") (auto simp: bindE_def split: sum.splits)

lemma bindE_cases:
  assumes "bindE m f w = (r, w'')"
  obtains (err) e where "m w = (Inl e, w'')" and "r = Inl e"
  | (cont) x w' where "m w = (Inr x, w')" and "f x w' = (r, w'')"
  using assms by (cases "m w") (auto simp: bindE_def split: sum.splits)

section \<open>Relations between the states before and after\<close>

definition steps :: "('w \<Rightarrow> 'w \<Rightarrow> bool) \<Rightarrow> ('w, 'e, 'a) prog \<Rightarrow> bool" where
  "steps R m \<longleftrightarrow> (\<forall>w. R w (snd (m w)))"

lemma stepsI: "(\<And>w r w'. m w = (r, w') \<Longrightarrow> R w w') \<Longrightarrow> steps R m"
  by (metis prod.collapse steps_def)

lemma stepsD: "steps R m \<Longrightarrow> m w = (r, w') \<Longrightarrow> R w w'"
  by (metis snd_conv steps_def)

locale effect =
  fixes R :: "'w \<Rightarrow> 'w \<Rightarrow> bool"
  assumes effect_refl: "R w w"
    and effect_trans: "R u v \<Longrightarrow> R v w \<Longrightarrow> R u w"
begin

lemma steps_ok [effects]: "steps R (ok x)"
  by (simp add: steps_def effect_refl)

lemma steps_throw [effects]: "steps R (throw e)"
  by (simp add: steps_def effect_refl)

lemma steps_liftE [effects]: "steps R (liftE r)"
  by (simp add: steps_def effect_refl)

lemma steps_guardE [effects]: "steps R (guardE b e)"
  by (simp add: steps_def effect_refl)

lemma steps_bindE [effects]:
  assumes "steps R m" and "\<And>x. steps R (f x)"
  shows "steps R (bindE m f)"
proof (rule stepsI)
  fix w r w'
  assume "bindE m f w = (r, w')"
  then show "R w w'"
    by (cases rule: bindE_cases) (use assms in \<open>blast dest: stepsD intro: effect_trans\<close>)+
qed

lemma steps_attempt [effects]: "steps R m \<Longrightarrow> steps R (attempt m)"
  by (auto simp: steps_def attempt_def split: prod.splits) (metis snd_conv)

lemma steps_mapErr [effects]: "steps R m \<Longrightarrow> steps R (mapErr g m)"
  by (auto simp: steps_def mapErr_def split: prod.splits) (metis snd_conv)

lemma steps_forE [effects]: "(\<And>x. steps R (body x)) \<Longrightarrow> steps R (forE body xs)"
  by (induction xs) (auto intro: effects)

lemma steps_mapE [effects]: "(\<And>x. steps R (body x)) \<Longrightarrow> steps R (mapE body xs)"
  by (induction xs) (auto intro!: effects)

lemma steps_foldE [effects]: "(\<And>s x. steps R (body s x)) \<Longrightarrow> steps R (foldE body s xs)"
  by (induction xs arbitrary: s) (auto intro!: effects)

lemma steps_if [effects]: "steps R m \<Longrightarrow> steps R k \<Longrightarrow> steps R (if b then m else k)"
  by simp

lemma steps_option [effects]:
  "steps R m \<Longrightarrow> (\<And>x. steps R (f x)) \<Longrightarrow> steps R (case z of None \<Rightarrow> m | Some x \<Rightarrow> f x)"
  by (cases z) auto

lemma steps_sum [effects]:
  "(\<And>x. steps R (f x)) \<Longrightarrow> (\<And>y. steps R (g y)) \<Longrightarrow> steps R (case z of Inl x \<Rightarrow> f x | Inr y \<Rightarrow> g y)"
  by (cases z) auto

lemma steps_prod [effects]: "(\<And>x y. steps R (f x y)) \<Longrightarrow> steps R (case z of (x, y) \<Rightarrow> f x y)"
  by (cases z) auto

lemma steps_let [effects]: "(\<And>x. steps R (f x)) \<Longrightarrow> steps R (Let z f)"
  by simp

end

end
