(* ===== verification/StorageTypes.thy ===== *)
theory StorageTypes
  imports Helpers Programs
begin

text \<open>
  \<open>internal/storage/types.go\<close>: the rows of the store as the service sees them. Field names
  carry a letter for their type, since record fields share one name space: \<open>q_\<close> for \<open>Queue\<close>,
  \<open>p_\<close> for \<open>PendingAttributePatch\<close>, \<open>t_\<close> for \<open>MoveTask\<close>, \<open>m_\<close> for \<open>Message\<close>, \<open>r_\<close> for
  \<open>Receipt\<close>, \<open>e_\<close> for \<open>DedupEntry\<close> and \<open>a_\<close> for \<open>ReceiveAttempt\<close>. A pointer field is an option.
\<close>

record queue =
  q_ID :: int
  q_AccountID :: string
  q_Region :: string
  q_Name :: string
  q_URL :: string
  q_ARN :: string
  q_FIFO :: bool
  q_Attributes :: strmap
  q_CreatedAt :: gotime
  q_AvailableAt :: gotime
  q_LastModifiedAt :: gotime
  q_DeletedAt :: "gotime option"
  q_ReuseBlockedTill :: "gotime option"
  q_PurgeRequestedAt :: "gotime option"
  q_PurgeExpiresAt :: "gotime option"

record pending_patch =
  p_ID :: int
  p_QueueID :: int
  p_Attributes :: strmap
  p_EffectiveAt :: gotime
  p_SubmittedAt :: gotime

record move_task =
  t_ID :: int
  t_TaskHandle :: string
  t_SourceQueueID :: int
  t_DestinationQueueID :: "int option"
  t_Status :: string
  t_MaxMessagesPerSecond :: "int option"
  t_Moved :: int
  t_ToMove :: "int option"
  t_FailureReason :: string
  t_StartedAt :: gotime
  t_UpdatedAt :: gotime
  t_CompletedAt :: "gotime option"

record message =
  m_RowID :: int
  m_QueueID :: int
  m_MessageID :: string
  m_Body :: string
  m_BodyMD5 :: string
  m_MessageAttributes :: gmap
  m_SystemAttributes :: gmap
  m_SentAt :: gotime
  m_OriginalSentAt :: gotime
  m_FirstReceivedAt :: "gotime option"
  m_ReceiveCount :: int
  m_AvailableAt :: gotime
  m_VisibilityDeadline :: "gotime option"
  m_RetentionDeadline :: gotime
  m_DeletedAt :: "gotime option"
  m_GroupID :: string
  m_DedupID :: string
  m_SequenceNumber :: string
  m_DeadLetterSourceARN :: string
  m_EncryptionKeyID :: string
  m_ReceiveAttemptID :: string
  m_LastReceiptHandle :: string
  m_CurrentSourceQueueARN :: string

record receipt =
  r_ID :: int
  r_QueueID :: int
  r_MessageRowID :: int
  r_Handle :: string
  r_IssuedAt :: gotime
  r_VisibilityDeadline :: gotime
  r_Active :: bool
  r_ReceiveAttemptID :: string

record dedup_entry =
  e_ID :: int
  e_QueueID :: int
  e_ScopeKey :: string
  e_DedupID :: string
  e_Response :: gmap
  e_ExpiresAt :: gotime

record receive_attempt =
  a_ID :: int
  a_QueueID :: int
  a_AttemptID :: string
  a_Response :: "gmap list"
  a_ExpiresAt :: gotime
  a_InvalidatedAt :: "gotime option"

section \<open>The database and the world around a request\<close>

text \<open>
  The tables, each a list of rows in the order of their ids, and the counters behind
  \<open>AUTOINCREMENT\<close>. A tag is a triple of queue id, key and value.
\<close>

record db =
  d_queues :: "queue list"
  d_queue_seq :: int
  d_pending :: "pending_patch list"
  d_pending_seq :: int
  d_tags :: "(int \<times> string \<times> string) list"
  d_tasks :: "move_task list"
  d_task_seq :: int
  d_messages :: "message list"
  d_message_seq :: int
  d_receipts :: "receipt list"
  d_receipt_seq :: int
  d_dedup :: "dedup_entry list"
  d_dedup_seq :: int
  d_attempts :: "receive_attempt list"
  d_attempt_seq :: int

text \<open>
  What a handler reads from outside the database is given in advance and consumed in order:
  \<open>w_faults i\<close> says whether the \<open>i\<close>-th call to the store fails without effect (disk, lock,
  cancelled context), \<open>w_clock i\<close> is the \<open>i\<close>-th reading of the clock, \<open>w_rand i\<close> the \<open>i\<close>-th
  byte of the random source and \<open>w_randfail i\<close> whether its \<open>i\<close>-th read fails, \<open>w_uuid i\<close> the
  \<open>i\<close>-th UUID of the package \<open>google/uuid\<close>, and \<open>w_cancel i\<close> whether the request's context is
  done when the handler waits for the \<open>i\<close>-th time. The theorems hold for every choice of these,
  or name what they need of it.
\<close>

record world =
  w_db :: db
  w_faults :: "nat \<Rightarrow> bool"
  w_calls :: nat
  w_clock :: "nat \<Rightarrow> gotime"
  w_ticks :: nat
  w_rand :: "nat \<Rightarrow> char"
  w_randpos :: nat
  w_randfail :: "nat \<Rightarrow> bool"
  w_reads :: nat
  w_uuid :: "nat \<Rightarrow> string"
  w_uuids :: nat
  w_cancel :: "nat \<Rightarrow> bool"
  w_waits :: nat

type_synonym 'a store_prog = "(world, string, 'a) prog"
type_synonym 'a handler = "(world, goerr, 'a) prog"

text \<open>\<open>s.clock.Now()\<close> and \<open>time.Now().UTC()\<close>\<close>

definition nowE :: "(world, 'e, gotime) prog" where
  "nowE = (\<lambda>w. (Inr (w_clock w (w_ticks w)), w\<lparr>w_ticks := Suc (w_ticks w)\<rparr>))"

definition newUUID :: "(world, 'e, string) prog" where
  "newUUID = (\<lambda>w. (Inr (w_uuid w (w_uuids w)), w\<lparr>w_uuids := Suc (w_uuids w)\<rparr>))"

text \<open>\<open>rand.Read\<close> of a buffer of \<open>n\<close> bytes: the bytes, or an error\<close>

definition randRead :: "nat \<Rightarrow> (world, 'e, string option) prog" where
  "randRead n = (\<lambda>w.
     if w_randfail w (w_reads w) then (Inr None, w\<lparr>w_reads := Suc (w_reads w)\<rparr>)
     else (Inr (Some (map (w_rand w) [w_randpos w..<w_randpos w + n])),
           w\<lparr>w_reads := Suc (w_reads w), w_randpos := w_randpos w + n\<rparr>))"

text \<open>The \<open>select\<close> between \<open>ctx.Done()\<close> and the timer.\<close>

definition ctxDone :: "(world, 'e, bool) prog" where
  "ctxDone = (\<lambda>w. (Inr (w_cancel w (w_waits w)), w\<lparr>w_waits := Suc (w_waits w)\<rparr>))"

text \<open>One call to the store: it fails without effect, or runs on the database.\<close>

definition sqlE :: "(db \<Rightarrow> string + 'a \<times> db) \<Rightarrow> 'a store_prog" where
  "sqlE f = (\<lambda>w.
     let w1 = w\<lparr>w_calls := Suc (w_calls w)\<rparr>
     in if w_faults w (w_calls w) then (Inl ''storage failure'', w1)
        else (case f (w_db w) of
            Inl e \<Rightarrow> (Inl e, w1)
          | Inr (x, d) \<Rightarrow> (Inr x, w1\<lparr>w_db := d\<rparr>)))"

text \<open>A query, which leaves the database as it is.\<close>

definition queryE :: "(db \<Rightarrow> 'a) \<Rightarrow> 'a store_prog" where
  "queryE f = sqlE (\<lambda>d. Inr (f d, d))"

definition healthy :: "world \<Rightarrow> bool" where
  "healthy w \<longleftrightarrow> (\<forall>i. \<not> w_faults w i)"

section \<open>Relations between databases\<close>

text \<open>\<open>dbrel R\<close> relates two worlds whose databases \<open>R\<close> relates.\<close>

definition dbrel :: "(db \<Rightarrow> db \<Rightarrow> bool) \<Rightarrow> world \<Rightarrow> world \<Rightarrow> bool" where
  "dbrel R w w' \<longleftrightarrow> R (w_db w) (w_db w')"

lemma steps_sqlE:
  assumes "\<And>d. R d d" and "\<And>d x d'. f d = Inr (x, d') \<Longrightarrow> R d d'"
  shows "steps (dbrel R) (sqlE f)"
  by (rule stepsI) (auto simp: sqlE_def dbrel_def Let_def assms split: if_splits sum.splits)

lemma steps_queryE:
  assumes "\<And>d. R d d"
  shows "steps (dbrel R) (queryE f)"
  unfolding queryE_def by (rule steps_sqlE) (auto simp: assms)

text \<open>The sources of time, randomness and cancellation leave the database alone.\<close>

locale db_relation = effect "dbrel R" for R :: "db \<Rightarrow> db \<Rightarrow> bool"
begin

lemma db_refl: "R d d"
  using effect_refl [of "undefined\<lparr>w_db := d\<rparr>"] by (simp add: dbrel_def)

lemma steps_now [effects]: "steps (dbrel R) nowE"
  by (rule stepsI) (auto simp: nowE_def dbrel_def db_refl)

lemma steps_newUUID [effects]: "steps (dbrel R) newUUID"
  by (rule stepsI) (auto simp: newUUID_def dbrel_def db_refl)

lemma steps_randRead [effects]: "steps (dbrel R) (randRead n)"
  by (rule stepsI) (auto simp: randRead_def dbrel_def db_refl split: if_splits)

lemma steps_ctxDone [effects]: "steps (dbrel R) ctxDone"
  by (rule stepsI) (auto simp: ctxDone_def dbrel_def db_refl)

lemma steps_query [effects]: "steps (dbrel R) (queryE f)"
  by (rule steps_queryE) (rule db_refl)

end

lemma db_relationI: "(\<And>d. R d d) \<Longrightarrow> (\<And>a b c. R a b \<Longrightarrow> R b c \<Longrightarrow> R a c) \<Longrightarrow> db_relation R"
  by unfold_locales (auto simp: dbrel_def)

end
