(* ===== verification/GoTime.thy ===== *)
theory GoTime
  imports GoHttp "HOL-Library.Monad_Syntax"
begin

text \<open>
  The parts of Go's package \<open>time\<close> that the code uses: civil dates, \<open>Parse\<close> with the layouts
  \<open>20060102T150405Z\<close> and RFC 3339, \<open>Format\<close> with the layouts \<open>20060102\<close> and \<open>20060102T150405Z\<close>, and
  \<open>ParseDuration\<close>. Times are nanoseconds since the Unix epoch in UTC. Dates that are written out
  and read back are the same (\<open>civil_of_days_of_civil\<close>).
\<close>

section \<open>Civil dates\<close>

definition leap_year :: "int \<Rightarrow> bool" where
  "leap_year y \<longleftrightarrow> y mod 4 = 0 \<and> (y mod 100 \<noteq> 0 \<or> y mod 400 = 0)"

definition daysIn :: "int \<Rightarrow> int \<Rightarrow> int" where
  "daysIn m y = (if m = 2 then (if leap_year y then 29 else 28) else if m \<in> {4, 6, 9, 11} then 30 else 31)"

definition valid_date :: "int \<times> int \<times> int \<Rightarrow> bool" where
  "valid_date p = (case p of (y, m, d) \<Rightarrow> 1 \<le> m \<and> m \<le> 12 \<and> 1 \<le> d \<and> d \<le> daysIn m y)"

text \<open>
  Days are counted from March 1 of the year 0, so that the leap day ends the year; a year that
  starts in March starts on day \<open>year_start\<close>, and its month \<open>p\<close> on day \<open>(153 * p + 2) div 5\<close> of it.
\<close>

definition epoch_day :: int where
  "epoch_day = 719468"

definition year_start :: "int \<Rightarrow> int" where
  "year_start y = 365 * y + y div 4 - y div 100 + y div 400"

definition days_of_civil :: "int \<times> int \<times> int \<Rightarrow> int" where
  "days_of_civil p = (case p of (y, m, d) \<Rightarrow>
     year_start (if m \<le> 2 then y - 1 else y) + (153 * ((m + 9) mod 12) + 2) div 5 + d - 1 - epoch_day)"

definition year_of_day :: "int \<Rightarrow> int" where
  "year_of_day n =
     (let y = 400 * n div 146097
      in if n < year_start y then y - 1 else if year_start (y + 1) \<le> n then y + 1 else y)"

definition civil_of_days :: "int \<Rightarrow> int \<times> int \<times> int" where
  "civil_of_days z =
     (let n = z + epoch_day; y = year_of_day n; doy = n - year_start y;
          p = (5 * doy + 2) div 153; m = (p + 2) mod 12 + 1
      in (if m \<le> 2 then y + 1 else y, m, doy - (153 * p + 2) div 5 + 1))"

lemma div_Suc:
  fixes y k :: int
  assumes "1 < k"
  shows "(y + 1) div k = y div k + (if (y + 1) mod k = 0 then 1 else 0)"
proof -
  define q r where "q = y div k" and "r = y mod k"
  then have y: "y = k * q + r" and r: "0 \<le> r" "r < k" using assms by simp_all
  show ?thesis
  proof (cases "r + 1 = k")
    case True
    with y have "y + 1 = k * (q + 1)" by (simp add: distrib_left)
    with assms show ?thesis by (simp flip: q_def)
  next
    case False
    with y r have "(y + 1) div k = q" "(y + 1) mod k = r + 1"
      by (auto intro: int_div_pos_eq int_mod_pos_eq [of _ _ q])
    with r show ?thesis by (simp flip: q_def)
  qed
qed

lemma year_start_Suc: "year_start (y + 1) = year_start y + (if leap_year (y + 1) then 366 else 365)"
proof -
  define p q r where "p = ((y + 1) mod 4 = 0)" and "q = ((y + 1) mod 100 = 0)" and "r = ((y + 1) mod 400 = 0)"
  note pqr = this
  have 4: "(y + 1) div 4 = y div 4 + (if p then 1 else 0)" unfolding pqr by (rule div_Suc) simp
  have 100: "(y + 1) div 100 = y div 100 + (if q then 1 else 0)" unfolding pqr by (rule div_Suc) simp
  have 400: "(y + 1) div 400 = y div 400 + (if r then 1 else 0)" unfolding pqr by (rule div_Suc) simp
  have d: "q \<longrightarrow> p" "r \<longrightarrow> q" unfolding pqr by presburger+
  have "leap_year (y + 1) = (p \<and> (\<not> q \<or> r))" by (simp only: leap_year_def pqr)
  then show ?thesis
    unfolding year_start_def 4 100 400 using d by (cases p; cases q; cases r; simp)
qed

lemma year_start_mono: "a \<le> b \<Longrightarrow> year_start a \<le> year_start b"
proof (induction b rule: int_ge_induct)
  case (step b)
  then show ?case using year_start_Suc [of b] by (simp split: if_splits)
qed simp

lemma year_start_unique:
  "year_start a \<le> n \<Longrightarrow> n < year_start (a + 1) \<Longrightarrow> year_start b \<le> n \<Longrightarrow> n < year_start (b + 1) \<Longrightarrow> a = b"
  using year_start_mono [of "a + 1" b] year_start_mono [of "b + 1" a] by linarith

lemma year_start_bounds: "146097 * y \<le> 400 * year_start y + 1200" "400 * year_start y \<le> 146097 * y + 1200"
proof -
  define a b c where "a = y div 4" and "b = y div 100" and "c = y div 400"
  note abc = this
  have a: "400 * a \<le> 100 * y" "100 * y \<le> 400 * a + 400" unfolding abc by presburger+
  have b: "400 * b \<le> 4 * y" "4 * y \<le> 400 * b + 400" unfolding abc by presburger+
  have c: "400 * c \<le> y" "y \<le> 400 * c + 400" unfolding abc by presburger+
  have s: "400 * year_start y = 146000 * y + 400 * a - 400 * b + 400 * c"
    by (simp add: year_start_def distrib_left right_diff_distrib flip: abc)
  show "146097 * y \<le> 400 * year_start y + 1200" "400 * year_start y \<le> 146097 * y + 1200"
    unfolding s using a b c by linarith+
qed

lemma year_of_day_bounds: "year_start (year_of_day n) \<le> n \<and> n < year_start (year_of_day n + 1)"
proof -
  define y where "y = 400 * n div 146097"
  define m where "m = 400 * n mod 146097"
  have "146097 * y + m = 400 * n" "0 \<le> m" "m < 146097" by (simp_all add: y_def m_def)
  then have n: "146097 * y \<le> 400 * n" "400 * n < 146097 * y + 146097" by linarith+
  have "400 * year_start (y - 1) \<le> 400 * n"
    using year_start_bounds(2) [of "y - 1"] n(1) by (simp add: right_diff_distrib)
  moreover have "400 * n < 400 * year_start (y + 2)"
    using year_start_bounds(1) [of "y + 2"] n(2) by (simp add: distrib_left)
  ultimately have b: "year_start (y - 1) \<le> n" "n < year_start (y + 2)" by simp_all
  have y: "year_of_day n = (if n < year_start y then y - 1 else if year_start (y + 1) \<le> n then y + 1 else y)"
    by (simp only: year_of_day_def Let_def y_def)
  have e: "y - 1 + 1 = y" "y + 1 + 1 = y + 2" by simp_all
  consider "n < year_start y" | "year_start y \<le> n" "n < year_start (y + 1)" | "year_start y \<le> n" "year_start (y + 1) \<le> n"
    by linarith
  then show ?thesis
  proof cases
    case 1
    then have "year_of_day n = y - 1" by (simp only: y if_True)
    with 1 b e show ?thesis by metis
  next
    case 2
    then have "year_of_day n = y" unfolding y using not_le by auto
    with 2 show ?thesis by metis
  next
    case 3
    then have "year_of_day n = y + 1" unfolding y using not_le by auto
    with 3 b e show ?thesis by metis
  qed
qed

lemma month_of_day:
  fixes p d :: int
  assumes "1 \<le> d" and "0 \<le> p" and "p \<le> 11" and "d \<le> (if p = 11 then 29 else if p \<in> {1, 3, 6, 8} then 30 else 31)"
  shows "(5 * ((153 * p + 2) div 5 + d - 1) + 2) div 153 = p"
proof -
  have "p = 0 \<or> p = 1 \<or> p = 2 \<or> p = 3 \<or> p = 4 \<or> p = 5 \<or> p = 6 \<or> p = 7 \<or> p = 8 \<or> p = 9 \<or> p = 10 \<or> p = 11"
    using assms(2,3) by presburger
  then show ?thesis
    using assms(1,4) by (elim disjE; simp; presburger)
qed

lemma civil_of_days_of_civil:
  assumes "valid_date p"
  shows "civil_of_days (days_of_civil p) = p"
proof -
  obtain y m d where p: "p = (y, m, d)" by (cases p)
  have v: "1 \<le> m" "m \<le> 12" "1 \<le> d" "d \<le> daysIn m y" using assms by (simp_all add: p valid_date_def)
  define q where "q = (m + 9) mod 12"
  define y' where "y' = (if m \<le> 2 then y - 1 else y)"
  define doy where "doy = (153 * q + 2) div 5 + d - 1"
  have q: "0 \<le> q" "q \<le> 11" by (simp_all add: q_def)
  have m: "m = (if q \<le> 9 then q + 3 else q - 9)" using v(1,2) unfolding q_def by presburger
  have d: "d \<le> (if q = 11 then (if leap_year (y' + 1) then 29 else 28) else if q \<in> {1, 3, 6, 8} then 30 else 31)"
    using v(4) q by (auto simp: daysIn_def m y'_def split: if_splits)
  have doy: "0 \<le> doy" "doy < (if leap_year (y' + 1) then 366 else 365)"
  proof -
    show "0 \<le> doy" using v(3) q by (simp add: doy_def)
    have "q = 0 \<or> q = 1 \<or> q = 2 \<or> q = 3 \<or> q = 4 \<or> q = 5 \<or> q = 6 \<or> q = 7 \<or> q = 8 \<or> q = 9 \<or> q = 10 \<or> q = 11"
      using q by presburger
    then show "doy < (if leap_year (y' + 1) then 366 else 365)"
      using d unfolding doy_def by (elim disjE) (auto split: if_splits)
  qed
  define n where "n = year_start y' + doy"
  have n: "days_of_civil p + epoch_day = n"
    by (simp add: p days_of_civil_def n_def doy_def y'_def q_def)
  have "year_of_day n = y'"
    by (rule year_start_unique [of _ n]) (use year_of_day_bounds doy year_start_Suc [of y'] in \<open>auto simp: n_def\<close>)
  moreover have "(5 * doy + 2) div 153 = q"
    unfolding doy_def by (rule month_of_day) (use v(3) q d in \<open>auto split: if_splits\<close>)
  moreover have "(q + 2) mod 12 + 1 = m" using v(1,2) unfolding q_def by presburger
  ultimately show ?thesis
    using n by (simp add: civil_of_days_def Let_def p n_def) (simp add: doy_def y'_def)
qed

section \<open>Parsing\<close>

definition nsSecond :: int where
  "nsSecond = 1000000000"

definition nsDay :: int where
  "nsDay = 86400 * nsSecond"

text \<open>\<open>time.Date\<close> in UTC\<close>

definition time_Date :: "int \<times> int \<times> int \<Rightarrow> int \<Rightarrow> int \<Rightarrow> int \<Rightarrow> int \<Rightarrow> gotime" where
  "time_Date date h m s ns = days_of_civil date * nsDay + (h * 3600 + m * 60 + s) * nsSecond + ns"

text \<open>Literal text of a layout.\<close>

definition skip_literal :: "string \<Rightarrow> string \<Rightarrow> string option" where
  "skip_literal lit s = (if prefix lit s then Some (drop (length lit) s) else None)"

text \<open>The elements \<open>2006\<close> and, of two digits or (unless \<open>fixed\<close>) of one, \<open>15\<close>, \<open>01\<close>, \<open>02\<close>, \<open>04\<close>, \<open>05\<close>\<close>

definition long_year :: "string \<Rightarrow> (int \<times> string) option" where
  "long_year s = (if length s < 4 then None
     else map_option (\<lambda>n. (int n, drop 4 s)) (dec_value 0 (take 4 s)))"

definition getnum :: "bool \<Rightarrow> string \<Rightarrow> (int \<times> string) option" where
  "getnum fixed s = (case s of [] \<Rightarrow> None
     | a # r \<Rightarrow> (case digit_val a of None \<Rightarrow> None
        | Some x \<Rightarrow> (case r of [] \<Rightarrow> (if fixed then None else Some (int x, r))
           | b # r' \<Rightarrow> (case digit_val b of
                None \<Rightarrow> (if fixed then None else Some (int x, r))
              | Some y \<Rightarrow> Some (int (10 * x + y), r')))))"

definition getnum_in :: "bool \<Rightarrow> int \<Rightarrow> int \<Rightarrow> string \<Rightarrow> (int \<times> string) option" where
  "getnum_in fixed lo hi s = do { (n, r) \<leftarrow> getnum fixed s; if lo \<le> n \<and> n \<le> hi then Some (n, r) else None }"

text \<open>The fraction of a second that may follow the seconds although the layout has none: nine digits count.\<close>

definition frac_seconds :: "string \<Rightarrow> int \<times> string" where
  "frac_seconds s = (case s of
       sep # d # r \<Rightarrow>
         (if (sep = CHR ''.'' \<or> sep = CHR '','') \<and> is_digit d then
            (let ds = takeWhile is_digit (d # r); ns = take 9 ds
             in (int (digits_nat ns) * 10 ^ (9 - length ns), drop (length ds) (d # r)))
          else (0, s))
     | _ \<Rightarrow> (0, s))"

text \<open>The zone \<open>Z07:00\<close>: its offset in seconds.\<close>

definition zone_offset :: "string \<Rightarrow> (int \<times> string) option" where
  "zone_offset s =
     (if prefix ''Z'' s then Some (0, drop 1 s)
      else if length s < 6 \<or> s ! 3 \<noteq> CHR '':'' then None
      else do {
        (hr, _) \<leftarrow> getnum_in True 0 24 (take 2 (drop 1 s));
        (mm, _) \<leftarrow> getnum_in True 0 60 (take 2 (drop 4 s));
        if s ! 0 = CHR ''+'' then Some ((hr * 60 + mm) * 60, drop 6 s)
        else if s ! 0 = CHR ''-'' then Some (- ((hr * 60 + mm) * 60), drop 6 s) else None })"

definition zone_literal :: "string \<Rightarrow> (int \<times> string) option" where
  "zone_literal s = map_option (\<lambda>r. (0, r)) (skip_literal ''Z'' s)"

text \<open>
  \<open>time.Parse\<close> for the layouts of a date and a time of the day whose parts are separated by
  \<open>dsep\<close> and \<open>tsep\<close>.
\<close>

definition parse_time :: "string \<Rightarrow> string \<Rightarrow> (string \<Rightarrow> (int \<times> string) option) \<Rightarrow> string \<Rightarrow> gotime option" where
  "parse_time dsep tsep zone s = do {
     (y, s) \<leftarrow> long_year s; s \<leftarrow> skip_literal dsep s;
     (mo, s) \<leftarrow> getnum_in True 1 12 s; s \<leftarrow> skip_literal dsep s;
     (d, s) \<leftarrow> getnum True s; s \<leftarrow> skip_literal ''T'' s;
     (h, s) \<leftarrow> getnum_in False 0 23 s; s \<leftarrow> skip_literal tsep s;
     (m, s) \<leftarrow> getnum_in True 0 59 s; s \<leftarrow> skip_literal tsep s;
     (sec, s) \<leftarrow> getnum_in True 0 59 s;
     (off, r) \<leftarrow> zone (snd (frac_seconds s));
     if r \<noteq> [] \<or> d < 1 \<or> daysIn mo y < d then None
     else Some (time_Date (y, mo, d) h m sec (fst (frac_seconds s)) - off * nsSecond) }"

text \<open>\<open>time.Parse("20060102T150405Z", s)\<close> and \<open>time.Parse(time.RFC3339, s)\<close>\<close>

definition parse_stamp :: "string \<Rightarrow> gotime option" where
  "parse_stamp = parse_time [] [] zone_literal"

definition parse_rfc3339 :: "string \<Rightarrow> gotime option" where
  "parse_rfc3339 = parse_time ''-'' '':'' zone_offset"

section \<open>Formatting\<close>

definition zero_pad :: "nat \<Rightarrow> int \<Rightarrow> string" where
  "zero_pad w n = (let ds = dec_digits (nat \<bar>n\<bar>)
     in (if n < 0 then ''-'' else []) @ replicate (w - length ds) (CHR ''0'') @ ds)"

text \<open>\<open>t.Format("20060102")\<close> and \<open>t.Format("20060102T150405Z")\<close>\<close>

definition format_date :: "gotime \<Rightarrow> string" where
  "format_date t = (case civil_of_days (t div nsDay) of (y, m, d) \<Rightarrow> zero_pad 4 y @ zero_pad 2 m @ zero_pad 2 d)"

definition format_stamp :: "gotime \<Rightarrow> string" where
  "format_stamp t = (let s = t mod nsDay div nsSecond in
     format_date t @ ''T'' @ zero_pad 2 (s div 3600) @ zero_pad 2 (s div 60 mod 60) @ zero_pad 2 (s mod 60) @ ''Z'')"

section \<open>Durations\<close>

definition duration_units :: "(string \<times> int) list" where
  "duration_units = [(''ns'', 1), (''us'', 1000), (map char_of [194, 181, 115 :: nat], 1000),
     (map char_of [206, 188, 115 :: nat], 1000), (''ms'', 1000000), (''s'', nsSecond),
     (''m'', 60 * nsSecond), (''h'', 3600 * nsSecond)]"

text \<open>The digits after the point that fit in 63 bits, and the power of ten they are divided by.\<close>

fun leading_fraction :: "nat \<Rightarrow> nat \<Rightarrow> string \<Rightarrow> nat \<times> nat" where
  "leading_fraction x scale [] = (x, scale)"
| "leading_fraction x scale (c # ds) =
     (let y = 10 * x + digits_nat [c]
      in if (2 ^ 63 - 1) div 10 < x \<or> 2 ^ 63 < y then (x, scale) else leading_fraction y (10 * scale) ds)"

definition f64_ratio :: "(nat \<times> int) option \<Rightarrow> nat \<times> nat" where
  "f64_ratio f = (case f of None \<Rightarrow> (0, 1) | Some (m, e) \<Rightarrow> (m * pow2 e, pow2 (- e)))"

text \<open>\<open>uint64(float64(f) * (float64(unit) / scale))\<close>\<close>

definition scaled_fraction :: "nat \<Rightarrow> nat \<Rightarrow> nat \<Rightarrow> nat" where
  "scaled_fraction f unit scale =
     (case (f64_ratio (nearest_f64 f 1), f64_ratio (nearest_f64 unit scale)) of
        ((a, b), (c, d)) \<Rightarrow> (case f64_ratio (nearest_f64 (a * c) (b * d)) of (n, k) \<Rightarrow> n div k))"

definition number_part :: "char \<Rightarrow> bool" where
  "number_part c \<longleftrightarrow> c = CHR ''.'' \<or> is_digit c"

text \<open>One number with its unit, and the rest.\<close>

definition duration_term :: "string \<Rightarrow> (int \<times> string) option" where
  "duration_term s =
     (let ds = takeWhile is_digit s; v = int (digits_nat ds); s1 = dropWhile is_digit s;
          point = prefix ''.'' s1; fs = (if point then takeWhile is_digit (drop 1 s1) else []);
          s2 = (if point then dropWhile is_digit (drop 1 s1) else s1);
          u = takeWhile (\<lambda>c. \<not> number_part c) s2
      in if 2 ^ 63 < v \<or> (ds = [] \<and> fs = []) \<or> u = [] then None
         else (case mget duration_units u of
             None \<Rightarrow> None
           | Some unit \<Rightarrow>
               (if 2 ^ 63 div unit < v then None
                else (case leading_fraction 0 1 fs of (f, scale) \<Rightarrow>
                  (let w = v * unit + (if 0 < f then int (scaled_fraction f (nat unit) scale) else 0)
                   in if 2 ^ 63 < w then None else Some (w, drop (length u) s2))))))"

lemma duration_term_shorter: "duration_term s = Some (w, r) \<Longrightarrow> length r < length s"
proof -
  assume a: "duration_term s = Some (w, r)"
  define s1 where "s1 = dropWhile is_digit s"
  define s2 where "s2 = (if prefix ''.'' s1 then dropWhile is_digit (drop 1 s1) else s1)"
  define u where "u = takeWhile (\<lambda>c. \<not> number_part c) s2"
  have r: "u \<noteq> []" "r = drop (length u) s2"
    using a unfolding duration_term_def Let_def by (auto simp: s1_def s2_def u_def split: if_splits option.splits prod.splits)
  have "length s2 \<le> length s"
    using length_dropWhile_le [of is_digit s] length_dropWhile_le [of is_digit "drop 1 s1"] by (auto simp: s1_def s2_def)
  moreover have "s2 \<noteq> []" using r(1) by (auto simp: u_def)
  ultimately show "length r < length s" using r by (cases u; cases s2) auto
qed

function duration_terms :: "int \<Rightarrow> string \<Rightarrow> int option" where
  "duration_terms d s =
     (if s = [] then Some d
      else (case duration_term s of
          None \<Rightarrow> None
        | Some (w, r) \<Rightarrow> if 2 ^ 63 < d + w then None else duration_terms (d + w) r))"
  by pat_completeness auto
termination
  by (relation "measure (length \<circ> snd)") (auto dest: duration_term_shorter)

declare duration_terms.simps [simp del]

definition parseDuration :: "string \<Rightarrow> int option" where
  "parseDuration s =
     (let signed = (s \<noteq> [] \<and> (hd s = CHR ''-'' \<or> hd s = CHR ''+'')); neg = prefix ''-'' s;
          t = (if signed then tl s else s)
      in if t = ''0'' then Some 0
         else if t = [] then None
         else (case duration_terms 0 t of
             None \<Rightarrow> None
           | Some d \<Rightarrow> (if neg then Some (- d) else if 2 ^ 63 - 1 < d then None else Some d)))"

end
