(* ===== verification/Config.thy ===== *)
theory Config
  imports StorageTypes GoTime
begin

text \<open>
  \<open>internal/config/config.go\<close>: the settings of the server, read from the environment and then from
  the command line, and their validation. Durations are nanoseconds.
\<close>

record config =
  cfg_ListenAddr :: string
  cfg_PublicBaseURL :: string
  cfg_Region :: string
  cfg_AllowedRegions :: "string list"
  cfg_AccountID :: string
  cfg_SQLitePath :: string
  cfg_DataSource :: string
  cfg_AuthMode :: string
  cfg_CredentialsFile :: string
  cfg_DefaultAccessKeyID :: string
  cfg_DefaultSecretAccessKey :: string
  cfg_DefaultSessionToken :: string
  cfg_AllowInsecureBypass :: bool
  cfg_LogLevel :: string
  cfg_CreatePropagation :: int
  cfg_DeleteCooldown :: int
  cfg_PurgeCooldown :: int
  cfg_AttributePropagation :: int
  cfg_RetentionPropagation :: int
  cfg_StatsRefreshInterval :: int
  cfg_ReaperInterval :: int
  cfg_MoveTaskPollInterval :: int
  cfg_LongPollWakeFrequency :: int

definition cfg_Validate :: "config \<Rightarrow> string option" where
  "cfg_Validate c =
     (if cfg_PublicBaseURL c = [] then Some ''public base URL is required''
      else if cfg_Region c = [] then Some ''region is required''
      else if cfg_AccountID c = [] then Some ''account id is required''
      else None)"

text \<open>\<open>os.Getenv\<close> is the parameter \<open>env\<close>; an unset variable is empty.\<close>

definition envOr :: "(string \<Rightarrow> string) \<Rightarrow> string \<Rightarrow> string \<Rightarrow> string" where
  "envOr env key fallback = (if env key \<noteq> [] then env key else fallback)"

definition envBool :: "(string \<Rightarrow> string) \<Rightarrow> string \<Rightarrow> bool \<Rightarrow> bool" where
  "envBool env key fallback =
     (let raw = env key; low = map ascii_lower raw
      in if raw = [] then fallback
         else if low \<in> set [''1'', ''true'', ''yes'', ''y'', ''on''] then True
         else if low \<in> set [''0'', ''false'', ''no'', ''n'', ''off''] then False
         else fallback)"

definition splitCSV :: "string \<Rightarrow> string list" where
  "splitCSV raw =
     (if raw = [] then []
      else filter (\<lambda>part. part \<noteq> []) (map trimSpace (splitOn (CHR '','') raw)))"

definition sqliteDSN :: "string \<Rightarrow> string" where
  "sqliteDSN path = ''file:'' @ path
     @ ''?_pragma=busy_timeout(5000)&_pragma=journal_mode(WAL)&_pragma=foreign_keys(ON)''"

text \<open>\<open>args\<close> is \<open>os.Args[1:]\<close>.\<close>

definition flagPassed :: "string list \<Rightarrow> string \<Rightarrow> bool" where
  "flagPassed args name =
     (let pre = ''-'' @ name
      in list_ex (\<lambda>arg. arg = pre \<or> prefix (pre @ ''='') arg) args)"

definition envDuration :: "(string \<Rightarrow> string) \<Rightarrow> string \<Rightarrow> int \<Rightarrow> int" where
  "envDuration env key fallback =
     (if env key = [] then fallback else (case parseDuration (env key) of Some value \<Rightarrow> value | None \<Rightarrow> fallback))"

section \<open>The command line\<close>

text \<open>The variables that \<open>Load\<close> registers with \<open>flag.StringVar\<close>; \<open>allow-insecure-bypass\<close> is the only \<open>BoolVar\<close>.\<close>

definition string_flags :: "(string \<times> (string \<Rightarrow> config \<Rightarrow> config)) list" where
  "string_flags = [
     (''listen'', \<lambda>v c. c\<lparr>cfg_ListenAddr := v\<rparr>),
     (''public-base-url'', \<lambda>v c. c\<lparr>cfg_PublicBaseURL := v\<rparr>),
     (''region'', \<lambda>v c. c\<lparr>cfg_Region := v\<rparr>),
     (''account-id'', \<lambda>v c. c\<lparr>cfg_AccountID := v\<rparr>),
     (''sqlite-path'', \<lambda>v c. c\<lparr>cfg_SQLitePath := v\<rparr>),
     (''sqlite-dsn'', \<lambda>v c. c\<lparr>cfg_DataSource := v\<rparr>),
     (''auth-mode'', \<lambda>v c. c\<lparr>cfg_AuthMode := v\<rparr>),
     (''credentials-file'', \<lambda>v c. c\<lparr>cfg_CredentialsFile := v\<rparr>),
     (''log-level'', \<lambda>v c. c\<lparr>cfg_LogLevel := v\<rparr>)]"

text \<open>
  \<open>flag.Parse\<close>: \<open>None\<close> is a usage error or a request for help, on which the process exits. Flags end
  at the first argument that is none, or at \<open>--\<close>. A value follows \<open>=\<close> or is the next argument.
\<close>

fun parse_flags :: "string list \<Rightarrow> config \<Rightarrow> config option" where
  "parse_flags [] c = Some c"
| "parse_flags (s # args) c =
     (if length s < 2 \<or> hd s \<noteq> CHR ''-'' \<or> s = ''--'' then Some c
      else
        (let body = (if prefix ''--'' s then drop 2 s else drop 1 s)
         in if body = [] \<or> hd body = CHR ''-'' \<or> hd body = CHR ''='' then None
            else (case splitFirst (CHR ''='') body of (name, inline) \<Rightarrow>
              if name = ''allow-insecure-bypass'' then
                (case parseBool (case inline of Some v \<Rightarrow> v | None \<Rightarrow> ''true'') of
                   None \<Rightarrow> None
                 | Some b \<Rightarrow> parse_flags args (c\<lparr>cfg_AllowInsecureBypass := b\<rparr>))
              else (case mget string_flags name of
                  None \<Rightarrow> None
                | Some set_flag \<Rightarrow>
                    (case inline of
                       Some v \<Rightarrow> parse_flags args (set_flag v c)
                     | None \<Rightarrow> (case args of [] \<Rightarrow> None | v # args' \<Rightarrow> parse_flags args' (set_flag v c)))))))"

section \<open>Load\<close>

definition env_config :: "(string \<Rightarrow> string) \<Rightarrow> config" where
  "env_config env =
     (let sqlitePath = envOr env ''SQS_SQLITE_PATH'' ''sqs.db'';
          dataSource = envOr env ''SQS_SQLITE_DSN'' (sqliteDSN sqlitePath)
      in \<lparr>cfg_ListenAddr = envOr env ''SQS_LISTEN_ADDR'' '':9324'',
          cfg_PublicBaseURL = envOr env ''SQS_PUBLIC_BASE_URL'' ''http://127.0.0.1:9324'',
          cfg_Region = envOr env ''SQS_REGION'' ''us-east-1'',
          cfg_AllowedRegions = splitCSV (envOr env ''SQS_ALLOWED_REGIONS'' ''us-east-1''),
          cfg_AccountID = envOr env ''SQS_ACCOUNT_ID'' ''000000000000'',
          cfg_SQLitePath = sqlitePath,
          cfg_DataSource = dataSource,
          cfg_AuthMode = envOr env ''SQS_AUTH_MODE'' ''strict'',
          cfg_CredentialsFile = envOr env ''SQS_CREDENTIALS_FILE'' [],
          cfg_DefaultAccessKeyID = envOr env ''SQS_DEFAULT_ACCESS_KEY_ID'' ''test'',
          cfg_DefaultSecretAccessKey = envOr env ''SQS_DEFAULT_SECRET_ACCESS_KEY'' ''test'',
          cfg_DefaultSessionToken = envOr env ''SQS_DEFAULT_SESSION_TOKEN'' [],
          cfg_AllowInsecureBypass = envBool env ''SQS_ALLOW_INSECURE_BYPASS'' False,
          cfg_LogLevel = envOr env ''SQS_LOG_LEVEL'' ''INFO'',
          cfg_CreatePropagation = envDuration env ''SQS_CREATE_PROPAGATION'' nsSecond,
          cfg_DeleteCooldown = envDuration env ''SQS_DELETE_COOLDOWN'' (60 * nsSecond),
          cfg_PurgeCooldown = envDuration env ''SQS_PURGE_COOLDOWN'' (60 * nsSecond),
          cfg_AttributePropagation = envDuration env ''SQS_ATTRIBUTE_PROPAGATION'' (60 * nsSecond),
          cfg_RetentionPropagation = envDuration env ''SQS_RETENTION_PROPAGATION'' (15 * 60 * nsSecond),
          cfg_StatsRefreshInterval = envDuration env ''SQS_STATS_REFRESH_INTERVAL'' (5 * nsSecond),
          cfg_ReaperInterval = envDuration env ''SQS_REAPER_INTERVAL'' nsSecond,
          cfg_MoveTaskPollInterval = envDuration env ''SQS_MOVE_TASK_POLL_INTERVAL'' nsSecond,
          cfg_LongPollWakeFrequency = envDuration env ''SQS_LONG_POLL_WAKE_FREQUENCY'' (250 * 1000000)\<rparr>)"

definition cfg_Load :: "(string \<Rightarrow> string) \<Rightarrow> string list \<Rightarrow> config option" where
  "cfg_Load env args =
     (case parse_flags args (env_config env) of
        None \<Rightarrow> None
      | Some c \<Rightarrow>
          (let c1 = c\<lparr>cfg_PublicBaseURL := trimRight (CHR ''/'') (cfg_PublicBaseURL c)\<rparr>;
               c2 = (if cfg_AllowedRegions c1 = [] then c1\<lparr>cfg_AllowedRegions := [cfg_Region c1]\<rparr> else c1)
           in Some (if \<not> flagPassed args ''sqlite-dsn'' \<and> flagPassed args ''sqlite-path''
                    then c2\<lparr>cfg_DataSource := sqliteDSN (cfg_SQLitePath c2)\<rparr> else c2)))"

section \<open>What start-up may rely on\<close>

text \<open>The region list is never empty, so a signature for a region outside it is never accepted by default.\<close>

lemma loaded_regions: "cfg_Load env args = Some c \<Longrightarrow> cfg_AllowedRegions c \<noteq> []"
  by (auto simp: cfg_Load_def Let_def split: option.splits if_splits)

text \<open>A data source given by a flag is the one that is opened; \<open>flagPassed\<close> does not see a path given as \<open>--sqlite-path\<close>.\<close>

lemma dashed_path_ignored:
  "cfg_Load (\<lambda>_. []) [''--sqlite-path=/data/q.db''] = Some c \<Longrightarrow>
   cfg_SQLitePath c = ''/data/q.db'' \<and> cfg_DataSource c = sqliteDSN ''sqs.db''"
  by (auto simp: cfg_Load_def string_flags_def splitFirst_def flagPassed_def env_config_def envOr_def Let_def split: if_splits)

end
