(* ===== verification/SqliteStore.thy ===== *)
theory SqliteStore
  imports Config "HOL-Library.Product_Lexorder"
begin

text \<open>
  \<open>internal/storage/sqlite/store.go\<close>: queues, pending attribute patches, tags and move tasks.
  Each method is a function on the database (\<open>db_...\<close>), an error when a constraint of the
  schema is violated, wrapped by \<open>sqlE\<close> into a call that the driver may also refuse. The
  schema's constraints are those of \<open>Init\<close> with foreign keys on, as the default data source
  sets them; a transaction of several statements is one step. Times lose what their column
  cannot hold: queues, patches and tasks keep seconds.
\<close>

section \<open>The schema\<close>

text \<open>\<open>Init\<close> on a new file: every table is empty and every id counter at its start.\<close>

definition db_Init :: db where
  "db_Init = \<lparr>d_queues = [], d_queue_seq = 0, d_pending = [], d_pending_seq = 0, d_tags = [],
     d_tasks = [], d_task_seq = 0, d_messages = [], d_message_seq = 0, d_receipts = [],
     d_receipt_seq = 0, d_dedup = [], d_dedup_seq = 0, d_attempts = [], d_attempt_seq = 0\<rparr>"

definition row_by :: "('r \<Rightarrow> bool) \<Rightarrow> 'r list \<Rightarrow> 'r option" where
  "row_by P rows = find P rows"

definition update_where :: "('r \<Rightarrow> bool) \<Rightarrow> ('r \<Rightarrow> 'r) \<Rightarrow> 'r list \<Rightarrow> 'r list" where
  "update_where P f rows = map (\<lambda>r. if P r then f r else r) rows"

text \<open>The conflict clauses \<open>UNIQUE(url)\<close>, \<open>UNIQUE(arn)\<close>, \<open>UNIQUE(account_id, region, name)\<close>.\<close>

definition queue_conflict :: "queue \<Rightarrow> queue \<Rightarrow> bool" where
  "queue_conflict q q' \<longleftrightarrow> q_URL q = q_URL q' \<or> q_ARN q = q_ARN q'
     \<or> (q_AccountID q = q_AccountID q' \<and> q_Region q = q_Region q' \<and> q_Name q = q_Name q')"

definition queue_exists :: "db \<Rightarrow> int \<Rightarrow> bool" where
  "queue_exists d i \<longleftrightarrow> (\<exists>q \<in> set (d_queues d). q_ID q = i)"

section \<open>Queues\<close>

text \<open>What \<open>scanQueueRow\<close> returns of the columns that \<open>updateQueueTx\<close> or \<open>InsertQueue\<close> wrote.\<close>

definition scanQueueRow :: "queue \<Rightarrow> queue" where
  "scanQueueRow q = q\<lparr>q_Attributes := json_rt_strmap (q_Attributes q),
     q_CreatedAt := trunc_s (q_CreatedAt q), q_AvailableAt := trunc_s (q_AvailableAt q),
     q_LastModifiedAt := trunc_s (q_LastModifiedAt q),
     q_DeletedAt := map_option trunc_s (q_DeletedAt q),
     q_ReuseBlockedTill := map_option trunc_s (q_ReuseBlockedTill q),
     q_PurgeRequestedAt := map_option trunc_s (q_PurgeRequestedAt q),
     q_PurgeExpiresAt := map_option trunc_s (q_PurgeExpiresAt q)\<rparr>"

definition db_InsertQueue :: "queue \<Rightarrow> db \<Rightarrow> string + queue \<times> db" where
  "db_InsertQueue q d =
     (if \<exists>q' \<in> set (d_queues d). queue_conflict q q' then Inl ''UNIQUE constraint failed: queues''
      else (let i = d_queue_seq d + 1; q1 = q\<lparr>q_ID := i\<rparr>
            in Inr (q1, d\<lparr>d_queues := d_queues d @ [scanQueueRow q1], d_queue_seq := i\<rparr>)))"

definition db_updateQueueTx :: "queue \<Rightarrow> db \<Rightarrow> string + unit \<times> db" where
  "db_updateQueueTx q d =
     (if queue_exists d (q_ID q) \<and>
         (\<exists>q' \<in> set (d_queues d). q_ID q' \<noteq> q_ID q \<and> queue_conflict q q')
      then Inl ''UNIQUE constraint failed: queues''
      else Inr ((), d\<lparr>d_queues := update_where (\<lambda>r. q_ID r = q_ID q) (\<lambda>_. scanQueueRow q) (d_queues d)\<rparr>))"

text \<open>
  \<open>DELETE FROM queues WHERE id = ?\<close> with the schema's foreign keys: rows that belong to the
  queue go with it, receipts also with their message, and move tasks that lead to it forget
  their destination.
\<close>

definition db_DeleteQueueRow :: "int \<Rightarrow> db \<Rightarrow> string + unit \<times> db" where
  "db_DeleteQueueRow i d =
     (let gone = m_RowID ` set (filter (\<lambda>m. m_QueueID m = i) (d_messages d))
      in Inr ((), d\<lparr>d_queues := filter (\<lambda>q. q_ID q \<noteq> i) (d_queues d),
           d_pending := filter (\<lambda>p. p_QueueID p \<noteq> i) (d_pending d),
           d_tags := filter (\<lambda>(k, _). k \<noteq> i) (d_tags d),
           d_tasks := map (\<lambda>t. if t_DestinationQueueID t = Some i then t\<lparr>t_DestinationQueueID := None\<rparr> else t)
             (filter (\<lambda>t. t_SourceQueueID t \<noteq> i) (d_tasks d)),
           d_messages := filter (\<lambda>m. m_QueueID m \<noteq> i) (d_messages d),
           d_receipts := filter (\<lambda>r. r_QueueID r \<noteq> i \<and> r_MessageRowID r \<notin> gone) (d_receipts d),
           d_dedup := filter (\<lambda>e. e_QueueID e \<noteq> i) (d_dedup d),
           d_attempts := filter (\<lambda>a. a_QueueID a \<noteq> i) (d_attempts d)\<rparr>))"

definition db_QueueByID :: "int \<Rightarrow> db \<Rightarrow> queue option" where
  "db_QueueByID i d = row_by (\<lambda>q. q_ID q = i) (d_queues d)"

definition db_QueueByName :: "string \<Rightarrow> string \<Rightarrow> string \<Rightarrow> db \<Rightarrow> queue option" where
  "db_QueueByName acc reg name d =
     row_by (\<lambda>q. q_AccountID q = acc \<and> q_Region q = reg \<and> q_Name q = name) (d_queues d)"

definition db_QueueByURL :: "string \<Rightarrow> db \<Rightarrow> queue option" where
  "db_QueueByURL url d = row_by (\<lambda>q. q_URL q = url) (d_queues d)"

definition db_QueueByARN :: "string \<Rightarrow> db \<Rightarrow> queue option" where
  "db_QueueByARN arn d = row_by (\<lambda>q. q_ARN q = arn) (d_queues d)"

text \<open>
  SQLite's \<open>LIKE\<close>: \<open>%\<close> stands for any characters, \<open>_\<close> for one, and ASCII letters match in
  either case. (A queue name is ASCII, so one character is one byte.)
\<close>

fun sql_like :: "string \<Rightarrow> string \<Rightarrow> bool" where
  "sql_like [] s = (s = [])"
| "sql_like (p # ps) [] = (p = CHR ''%'' \<and> sql_like ps [])"
| "sql_like (p # ps) (c # cs) =
     (if p = CHR ''%'' then sql_like ps (c # cs) \<or> sql_like (p # ps) cs
      else (p = CHR ''_'' \<or> ascii_lower p = ascii_lower c) \<and> sql_like ps cs)"

definition db_ListQueues :: "string \<Rightarrow> string \<Rightarrow> string \<Rightarrow> db \<Rightarrow> queue list" where
  "db_ListQueues acc reg pre d =
     sort_key q_Name
       (filter (\<lambda>q. q_AccountID q = acc \<and> q_Region q = reg \<and> (pre = [] \<or> sql_like (pre @ ''%'') (q_Name q)))
         (d_queues d))"

text \<open>\<open>stringsContains\<close>\<close>

definition stringsContains :: "string \<Rightarrow> string \<Rightarrow> bool" where
  "stringsContains raw needle \<longleftrightarrow> raw \<noteq> [] \<and> needle \<noteq> [] \<and> sublist needle raw"

definition db_ListQueuesByRedriveTarget :: "string \<Rightarrow> db \<Rightarrow> queue list" where
  "db_ListQueuesByRedriveTarget target d =
     filter (\<lambda>q. \<not> (sget (q_Attributes q) ''RedrivePolicy'' = []
                  \<or> \<not> stringsContains (sget (q_Attributes q) ''RedrivePolicy'') target)) (d_queues d)"

section \<open>Pending attributes\<close>

definition db_SavePendingAttributes ::
  "int \<Rightarrow> strmap \<Rightarrow> gotime \<Rightarrow> gotime \<Rightarrow> db \<Rightarrow> string + unit \<times> db" where
  "db_SavePendingAttributes i attrs effectiveAt submittedAt d =
     (if \<not> queue_exists d i then Inl ''FOREIGN KEY constraint failed''
      else (let k = d_pending_seq d + 1
            in Inr ((), d\<lparr>d_pending := d_pending d @
                 [\<lparr>p_ID = k, p_QueueID = i, p_Attributes = json_rt_strmap attrs,
                   p_EffectiveAt = trunc_s effectiveAt, p_SubmittedAt = trunc_s submittedAt\<rparr>],
               d_pending_seq := k\<rparr>)))"

definition db_ListPendingAttributes :: "int \<Rightarrow> db \<Rightarrow> pending_patch list" where
  "db_ListPendingAttributes i d =
     sort_key (\<lambda>p. (unixSec (p_EffectiveAt p), p_ID p)) (filter (\<lambda>p. p_QueueID p = i) (d_pending d))"

text \<open>The patches that are due, in the order in which they are applied.\<close>

definition due_patches :: "gotime \<Rightarrow> db \<Rightarrow> pending_patch list" where
  "due_patches now d =
     sort_key (\<lambda>p. (unixSec (p_EffectiveAt p), p_ID p))
       (filter (\<lambda>p. unixSec (p_EffectiveAt p) \<le> unixSec now) (d_pending d))"

definition patch_queue :: "pending_patch \<Rightarrow> gotime \<Rightarrow> queue \<Rightarrow> queue" where
  "patch_queue p now q = q\<lparr>q_Attributes := mcopy (q_Attributes q) (p_Attributes p), q_LastModifiedAt := now\<rparr>"

definition apply_patch :: "gotime \<Rightarrow> pending_patch \<Rightarrow> db \<Rightarrow> string + db" where
  "apply_patch now p d =
     (case db_QueueByID (p_QueueID p) d of
        None \<Rightarrow> Inr d
      | Some q \<Rightarrow>
          (case db_updateQueueTx (patch_queue p now q) d of
             Inl e \<Rightarrow> Inl e
           | Inr (_, d') \<Rightarrow> Inr (d'\<lparr>d_pending := filter (\<lambda>r. p_ID r \<noteq> p_ID p) (d_pending d')\<rparr>)))"

fun apply_patches :: "gotime \<Rightarrow> pending_patch list \<Rightarrow> db \<Rightarrow> string + db" where
  "apply_patches now [] d = Inr d"
| "apply_patches now (p # ps) d =
     (case apply_patch now p d of Inl e \<Rightarrow> Inl e | Inr d' \<Rightarrow> apply_patches now ps d')"

definition db_ApplyDueQueueMutations :: "gotime \<Rightarrow> db \<Rightarrow> string + unit \<times> db" where
  "db_ApplyDueQueueMutations now d =
     (case apply_patches now (due_patches now d) d of Inl e \<Rightarrow> Inl e | Inr d' \<Rightarrow> Inr ((), d'))"

section \<open>Tags\<close>

text \<open>The primary key of \<open>queue_tags\<close> is the queue with the tag's name.\<close>

definition db_ReplaceTags :: "int \<Rightarrow> strmap \<Rightarrow> db \<Rightarrow> string + unit \<times> db" where
  "db_ReplaceTags i tags d =
     (if tags \<noteq> [] \<and> \<not> queue_exists d i then Inl ''FOREIGN KEY constraint failed''
      else if \<not> distinct (map fst tags) then Inl ''UNIQUE constraint failed''
      else Inr ((), d\<lparr>d_tags := filter (\<lambda>(k, _). k \<noteq> i) (d_tags d) @ map (\<lambda>(k, v). (i, k, v)) tags\<rparr>))"

definition db_DeleteTags :: "int \<Rightarrow> string list \<Rightarrow> db \<Rightarrow> string + unit \<times> db" where
  "db_DeleteTags i keys d =
     Inr ((), d\<lparr>d_tags := filter (\<lambda>(q, k, v). \<not> (q = i \<and> k \<in> set keys)) (d_tags d)\<rparr>)"

definition db_ListTags :: "int \<Rightarrow> db \<Rightarrow> strmap" where
  "db_ListTags i d =
     mcopy [] (sort_key fst (map snd (filter (\<lambda>(q, _). q = i) (d_tags d))))"

section \<open>Move tasks\<close>

definition scanMoveTask :: "move_task \<Rightarrow> move_task" where
  "scanMoveTask t = t\<lparr>t_StartedAt := trunc_s (t_StartedAt t), t_UpdatedAt := trunc_s (t_UpdatedAt t),
     t_CompletedAt := map_option trunc_s (t_CompletedAt t)\<rparr>"

definition destination_ok :: "db \<Rightarrow> move_task \<Rightarrow> bool" where
  "destination_ok d t = (case t_DestinationQueueID t of None \<Rightarrow> True | Some i \<Rightarrow> queue_exists d i)"

definition db_InsertMoveTask :: "move_task \<Rightarrow> db \<Rightarrow> string + move_task \<times> db" where
  "db_InsertMoveTask t d =
     (if \<exists>t' \<in> set (d_tasks d). t_TaskHandle t' = t_TaskHandle t
      then Inl ''UNIQUE constraint failed: message_move_tasks.task_handle''
      else if \<not> queue_exists d (t_SourceQueueID t) \<or> \<not> destination_ok d t
      then Inl ''FOREIGN KEY constraint failed''
      else (let i = d_task_seq d + 1; t1 = t\<lparr>t_ID := i\<rparr>
            in Inr (t1, d\<lparr>d_tasks := d_tasks d @ [scanMoveTask t1], d_task_seq := i\<rparr>)))"

text \<open>The handle and the source queue of a task are not columns of the update.\<close>

definition db_UpdateMoveTask :: "move_task \<Rightarrow> db \<Rightarrow> string + unit \<times> db" where
  "db_UpdateMoveTask t d =
     (if (\<exists>r \<in> set (d_tasks d). t_ID r = t_ID t) \<and> \<not> destination_ok d t
      then Inl ''FOREIGN KEY constraint failed''
      else Inr ((), d\<lparr>d_tasks := update_where (\<lambda>r. t_ID r = t_ID t)
        (\<lambda>r. (scanMoveTask t)\<lparr>t_TaskHandle := t_TaskHandle r, t_SourceQueueID := t_SourceQueueID r\<rparr>)
        (d_tasks d)\<rparr>))"

definition task_running :: "move_task \<Rightarrow> bool" where
  "task_running t \<longleftrightarrow> t_Status t = ''RUNNING'' \<or> t_Status t = ''CANCELLING''"

text \<open>\<open>ORDER BY started_at DESC\<close>; rows that started in the same second come in the order of their ids.\<close>

definition db_ListMoveTasksBySourceQueue :: "int \<Rightarrow> int \<Rightarrow> db \<Rightarrow> move_task list" where
  "db_ListMoveTasksBySourceQueue i limit d =
     take (nat limit) (sort_key (\<lambda>t. - unixSec (t_StartedAt t)) (filter (\<lambda>t. t_SourceQueueID t = i) (d_tasks d)))"

definition db_FindRunningMoveTask :: "int \<Rightarrow> db \<Rightarrow> move_task option" where
  "db_FindRunningMoveTask i d =
     (case sort_key (\<lambda>t. - unixSec (t_StartedAt t))
             (filter (\<lambda>t. t_SourceQueueID t = i \<and> task_running t) (d_tasks d)) of
        [] \<Rightarrow> None | t # _ \<Rightarrow> Some t)"

definition db_ListRunningMoveTasks :: "db \<Rightarrow> move_task list" where
  "db_ListRunningMoveTasks d = sort_key (\<lambda>t. unixSec (t_StartedAt t)) (filter task_running (d_tasks d))"

section \<open>The methods as calls\<close>

definition ApplyDueQueueMutations :: "gotime \<Rightarrow> unit store_prog" where
  "ApplyDueQueueMutations now = sqlE (db_ApplyDueQueueMutations now)"

definition InsertQueue :: "queue \<Rightarrow> queue store_prog" where
  "InsertQueue q = sqlE (db_InsertQueue q)"

definition UpdateQueue :: "queue \<Rightarrow> unit store_prog" where
  "UpdateQueue q = sqlE (db_updateQueueTx q)"

definition DeleteQueueRow :: "int \<Rightarrow> unit store_prog" where
  "DeleteQueueRow i = sqlE (db_DeleteQueueRow i)"

definition QueueByID :: "int \<Rightarrow> queue option store_prog" where
  "QueueByID i = queryE (db_QueueByID i)"

definition QueueByName :: "string \<Rightarrow> string \<Rightarrow> string \<Rightarrow> queue option store_prog" where
  "QueueByName acc reg name = queryE (db_QueueByName acc reg name)"

definition QueueByURL :: "string \<Rightarrow> queue option store_prog" where
  "QueueByURL url = queryE (db_QueueByURL url)"

definition QueueByARN :: "string \<Rightarrow> queue option store_prog" where
  "QueueByARN arn = queryE (db_QueueByARN arn)"

definition ListQueues :: "string \<Rightarrow> string \<Rightarrow> string \<Rightarrow> queue list store_prog" where
  "ListQueues acc reg pre = queryE (db_ListQueues acc reg pre)"

definition SavePendingAttributes :: "int \<Rightarrow> strmap \<Rightarrow> gotime \<Rightarrow> gotime \<Rightarrow> unit store_prog" where
  "SavePendingAttributes i attrs effectiveAt submittedAt =
     sqlE (db_SavePendingAttributes i attrs effectiveAt submittedAt)"

definition ReplaceTags :: "int \<Rightarrow> strmap \<Rightarrow> unit store_prog" where
  "ReplaceTags i tags = sqlE (db_ReplaceTags i tags)"

definition DeleteTags :: "int \<Rightarrow> string list \<Rightarrow> unit store_prog" where
  "DeleteTags i keys = sqlE (db_DeleteTags i keys)"

definition ListTags :: "int \<Rightarrow> strmap store_prog" where
  "ListTags i = queryE (db_ListTags i)"

definition ListQueuesByRedriveTarget :: "string \<Rightarrow> queue list store_prog" where
  "ListQueuesByRedriveTarget target = queryE (db_ListQueuesByRedriveTarget target)"

definition InsertMoveTask :: "move_task \<Rightarrow> move_task store_prog" where
  "InsertMoveTask t = sqlE (db_InsertMoveTask t)"

definition UpdateMoveTask :: "move_task \<Rightarrow> unit store_prog" where
  "UpdateMoveTask t = sqlE (db_UpdateMoveTask t)"

definition ListMoveTasksBySourceQueue :: "int \<Rightarrow> int \<Rightarrow> move_task list store_prog" where
  "ListMoveTasksBySourceQueue i limit = queryE (db_ListMoveTasksBySourceQueue i limit)"

definition FindRunningMoveTask :: "int \<Rightarrow> move_task option store_prog" where
  "FindRunningMoveTask i = queryE (db_FindRunningMoveTask i)"

definition ListRunningMoveTasks :: "move_task list store_prog" where
  "ListRunningMoveTasks = queryE db_ListRunningMoveTasks"

end
