(* ===== verification/MessageStore.thy ===== *)
theory MessageStore
  imports SqliteStore
begin

text \<open>
  \<open>internal/storage/sqlite/message_store.go\<close>: messages, receipts, the deduplication ledger and
  the cached receive attempts, in the style of \<open>SqliteStore\<close>. Their times keep milliseconds.
\<close>

section \<open>Messages\<close>

text \<open>
  What \<open>scanMessage\<close> returns of the columns that \<open>InsertMessage\<close> or \<open>UpdateMessage\<close> wrote;
  three fields of the struct have no column.
\<close>

definition scanMessage :: "message \<Rightarrow> message" where
  "scanMessage m = m\<lparr>m_MessageAttributes := json_rt_map (m_MessageAttributes m),
     m_SystemAttributes := json_rt_map (m_SystemAttributes m),
     m_SentAt := trunc_ms (m_SentAt m), m_OriginalSentAt := trunc_ms (m_OriginalSentAt m),
     m_FirstReceivedAt := map_option trunc_ms (m_FirstReceivedAt m),
     m_AvailableAt := trunc_ms (m_AvailableAt m),
     m_VisibilityDeadline := map_option trunc_ms (m_VisibilityDeadline m),
     m_RetentionDeadline := trunc_ms (m_RetentionDeadline m),
     m_DeletedAt := map_option trunc_ms (m_DeletedAt m),
     m_ReceiveAttemptID := [], m_LastReceiptHandle := [], m_CurrentSourceQueueARN := []\<rparr>"

definition db_InsertMessage :: "message \<Rightarrow> db \<Rightarrow> string + message \<times> db" where
  "db_InsertMessage m d =
     (if \<exists>m' \<in> set (d_messages d). m_MessageID m' = m_MessageID m
      then Inl ''UNIQUE constraint failed: messages.message_id''
      else if \<not> queue_exists d (m_QueueID m) then Inl ''FOREIGN KEY constraint failed''
      else (let i = d_message_seq d + 1; m1 = m\<lparr>m_RowID := i\<rparr>
            in Inr (m1, d\<lparr>d_messages := d_messages d @ [scanMessage m1], d_message_seq := i\<rparr>)))"

definition db_UpdateMessage :: "message \<Rightarrow> db \<Rightarrow> string + unit \<times> db" where
  "db_UpdateMessage m d =
     (if \<forall>r \<in> set (d_messages d). m_RowID r \<noteq> m_RowID m then Inr ((), d)
      else if \<exists>r \<in> set (d_messages d). m_RowID r \<noteq> m_RowID m \<and> m_MessageID r = m_MessageID m
      then Inl ''UNIQUE constraint failed: messages.message_id''
      else if \<not> queue_exists d (m_QueueID m) then Inl ''FOREIGN KEY constraint failed''
      else Inr ((), d\<lparr>d_messages := update_where (\<lambda>r. m_RowID r = m_RowID m) (\<lambda>_. scanMessage m)
             (d_messages d)\<rparr>))"

definition db_MessageByRowID :: "int \<Rightarrow> db \<Rightarrow> message option" where
  "db_MessageByRowID i d = row_by (\<lambda>m. m_RowID m = i) (d_messages d)"

definition db_ListMessagesByQueue :: "int \<Rightarrow> db \<Rightarrow> message list" where
  "db_ListMessagesByQueue i d =
     sort_key (\<lambda>m. (unixMilli (m_SentAt m), m_RowID m)) (filter (\<lambda>m. m_QueueID m = i) (d_messages d))"

definition db_DeleteMessagesByQueueBefore :: "int \<Rightarrow> gotime \<Rightarrow> db \<Rightarrow> string + unit \<times> db" where
  "db_DeleteMessagesByQueueBefore i cutoff d =
     Inr ((), d\<lparr>d_messages := update_where
       (\<lambda>m. m_QueueID m = i \<and> m_DeletedAt m = None \<and> unixMilli (m_SentAt m) \<le> unixMilli cutoff)
       (\<lambda>m. m\<lparr>m_DeletedAt := Some (trunc_ms cutoff)\<rparr>) (d_messages d)\<rparr>)"

definition db_DeleteMessagesByQueue :: "int \<Rightarrow> gotime \<Rightarrow> db \<Rightarrow> string + unit \<times> db" where
  "db_DeleteMessagesByQueue i now d =
     Inr ((), d\<lparr>d_messages := update_where (\<lambda>m. m_QueueID m = i \<and> m_DeletedAt m = None)
       (\<lambda>m. m\<lparr>m_DeletedAt := Some (trunc_ms now)\<rparr>) (d_messages d)\<rparr>)"

section \<open>Receipts\<close>

definition message_exists :: "db \<Rightarrow> int \<Rightarrow> bool" where
  "message_exists d i \<longleftrightarrow> (\<exists>m \<in> set (d_messages d). m_RowID m = i)"

definition scanReceipt :: "receipt \<Rightarrow> receipt" where
  "scanReceipt r = r\<lparr>r_IssuedAt := trunc_ms (r_IssuedAt r),
     r_VisibilityDeadline := trunc_ms (r_VisibilityDeadline r)\<rparr>"

definition db_InsertReceipt :: "receipt \<Rightarrow> db \<Rightarrow> string + receipt \<times> db" where
  "db_InsertReceipt r d =
     (if \<exists>r' \<in> set (d_receipts d). r_Handle r' = r_Handle r
      then Inl ''UNIQUE constraint failed: receipts.handle''
      else if \<not> queue_exists d (r_QueueID r) \<or> \<not> message_exists d (r_MessageRowID r)
      then Inl ''FOREIGN KEY constraint failed''
      else (let i = d_receipt_seq d + 1; r1 = r\<lparr>r_ID := i\<rparr>
            in Inr (r1, d\<lparr>d_receipts := d_receipts d @ [scanReceipt r1], d_receipt_seq := i\<rparr>)))"

definition db_UpdateReceipt :: "receipt \<Rightarrow> db \<Rightarrow> string + unit \<times> db" where
  "db_UpdateReceipt r d =
     (if \<forall>r' \<in> set (d_receipts d). r_ID r' \<noteq> r_ID r then Inr ((), d)
      else if \<exists>r' \<in> set (d_receipts d). r_ID r' \<noteq> r_ID r \<and> r_Handle r' = r_Handle r
      then Inl ''UNIQUE constraint failed: receipts.handle''
      else if \<not> queue_exists d (r_QueueID r) \<or> \<not> message_exists d (r_MessageRowID r)
      then Inl ''FOREIGN KEY constraint failed''
      else Inr ((), d\<lparr>d_receipts := update_where (\<lambda>r'. r_ID r' = r_ID r) (\<lambda>_. scanReceipt r)
             (d_receipts d)\<rparr>))"

definition db_ReceiptByHandle :: "string \<Rightarrow> db \<Rightarrow> receipt option" where
  "db_ReceiptByHandle h d = row_by (\<lambda>r. r_Handle r = h) (d_receipts d)"

definition db_DeactivateReceiptsByMessage :: "int \<Rightarrow> db \<Rightarrow> string + unit \<times> db" where
  "db_DeactivateReceiptsByMessage i d =
     Inr ((), d\<lparr>d_receipts := update_where (\<lambda>r. r_MessageRowID r = i \<and> r_Active r)
       (\<lambda>r. r\<lparr>r_Active := False\<rparr>) (d_receipts d)\<rparr>)"

section \<open>The deduplication ledger\<close>

definition scanDedup :: "dedup_entry \<Rightarrow> dedup_entry" where
  "scanDedup e = e\<lparr>e_Response := json_rt_map (e_Response e), e_ExpiresAt := trunc_ms (e_ExpiresAt e)\<rparr>"

text \<open>\<open>INSERT OR REPLACE\<close> takes the place of the row with the same queue, scope and id.\<close>

definition db_InsertDedupEntry :: "dedup_entry \<Rightarrow> db \<Rightarrow> string + dedup_entry \<times> db" where
  "db_InsertDedupEntry e d =
     (if \<not> queue_exists d (e_QueueID e) then Inl ''FOREIGN KEY constraint failed''
      else (let i = d_dedup_seq d + 1; e1 = e\<lparr>e_ID := i\<rparr>
            in Inr (e1, d\<lparr>d_dedup := filter (\<lambda>r. \<not> (e_QueueID r = e_QueueID e \<and>
                    e_ScopeKey r = e_ScopeKey e \<and> e_DedupID r = e_DedupID e)) (d_dedup d) @ [scanDedup e1],
                  d_dedup_seq := i\<rparr>)))"

definition db_DedupEntry :: "int \<Rightarrow> string \<Rightarrow> string \<Rightarrow> gotime \<Rightarrow> db \<Rightarrow> dedup_entry option" where
  "db_DedupEntry i scope dedup now d =
     row_by (\<lambda>e. e_QueueID e = i \<and> e_ScopeKey e = scope \<and> e_DedupID e = dedup
       \<and> unixMilli (e_ExpiresAt e) > unixMilli now) (d_dedup d)"

definition db_DeleteExpiredDedupEntries :: "gotime \<Rightarrow> db \<Rightarrow> string + unit \<times> db" where
  "db_DeleteExpiredDedupEntries now d =
     Inr ((), d\<lparr>d_dedup := filter (\<lambda>e. \<not> unixMilli (e_ExpiresAt e) \<le> unixMilli now) (d_dedup d)\<rparr>)"

section \<open>Cached receive attempts\<close>

definition scanAttempt :: "receive_attempt \<Rightarrow> receive_attempt" where
  "scanAttempt a = a\<lparr>a_Response := map json_rt_map (a_Response a), a_ExpiresAt := trunc_ms (a_ExpiresAt a),
     a_InvalidatedAt := map_option trunc_ms (a_InvalidatedAt a)\<rparr>"

definition db_InsertReceiveAttempt :: "receive_attempt \<Rightarrow> db \<Rightarrow> string + receive_attempt \<times> db" where
  "db_InsertReceiveAttempt a d =
     (if \<not> queue_exists d (a_QueueID a) then Inl ''FOREIGN KEY constraint failed''
      else (let i = d_attempt_seq d + 1; a1 = a\<lparr>a_ID := i\<rparr>
            in Inr (a1, d\<lparr>d_attempts := filter (\<lambda>r. \<not> (a_QueueID r = a_QueueID a \<and>
                    a_AttemptID r = a_AttemptID a)) (d_attempts d) @ [scanAttempt a1],
                  d_attempt_seq := i\<rparr>)))"

definition db_ReceiveAttempt :: "int \<Rightarrow> string \<Rightarrow> gotime \<Rightarrow> db \<Rightarrow> receive_attempt option" where
  "db_ReceiveAttempt i aid now d =
     row_by (\<lambda>a. a_QueueID a = i \<and> a_AttemptID a = aid
       \<and> unixMilli (a_ExpiresAt a) > unixMilli now \<and> a_InvalidatedAt a = None) (d_attempts d)"

definition db_InvalidateReceiveAttempts :: "int \<Rightarrow> gotime \<Rightarrow> db \<Rightarrow> string + unit \<times> db" where
  "db_InvalidateReceiveAttempts i now d =
     Inr ((), d\<lparr>d_attempts := update_where (\<lambda>a. a_QueueID a = i \<and> a_InvalidatedAt a = None)
       (\<lambda>a. a\<lparr>a_InvalidatedAt := Some (trunc_ms now)\<rparr>) (d_attempts d)\<rparr>)"

section \<open>The methods as calls\<close>

definition InsertMessage :: "message \<Rightarrow> message store_prog" where
  "InsertMessage m = sqlE (db_InsertMessage m)"

definition UpdateMessage :: "message \<Rightarrow> unit store_prog" where
  "UpdateMessage m = sqlE (db_UpdateMessage m)"

definition MessageByRowID :: "int \<Rightarrow> message option store_prog" where
  "MessageByRowID i = queryE (db_MessageByRowID i)"

definition ListMessagesByQueue :: "int \<Rightarrow> message list store_prog" where
  "ListMessagesByQueue i = queryE (db_ListMessagesByQueue i)"

definition DeleteMessagesByQueueBefore :: "int \<Rightarrow> gotime \<Rightarrow> unit store_prog" where
  "DeleteMessagesByQueueBefore i cutoff = sqlE (db_DeleteMessagesByQueueBefore i cutoff)"

text \<open>\<open>DeleteMessagesByQueue\<close> and \<open>InvalidateReceiveAttempts\<close> read the clock themselves.\<close>

definition DeleteMessagesByQueue :: "int \<Rightarrow> unit store_prog" where
  "DeleteMessagesByQueue i = bindE nowE (\<lambda>now. sqlE (db_DeleteMessagesByQueue i now))"

definition InsertReceipt :: "receipt \<Rightarrow> receipt store_prog" where
  "InsertReceipt r = sqlE (db_InsertReceipt r)"

definition UpdateReceipt :: "receipt \<Rightarrow> unit store_prog" where
  "UpdateReceipt r = sqlE (db_UpdateReceipt r)"

definition ReceiptByHandle :: "string \<Rightarrow> receipt option store_prog" where
  "ReceiptByHandle h = queryE (db_ReceiptByHandle h)"

definition DeactivateReceiptsByMessage :: "int \<Rightarrow> unit store_prog" where
  "DeactivateReceiptsByMessage i = sqlE (db_DeactivateReceiptsByMessage i)"

definition InsertDedupEntry :: "dedup_entry \<Rightarrow> dedup_entry store_prog" where
  "InsertDedupEntry e = sqlE (db_InsertDedupEntry e)"

definition DedupEntry :: "int \<Rightarrow> string \<Rightarrow> string \<Rightarrow> gotime \<Rightarrow> dedup_entry option store_prog" where
  "DedupEntry i scope dedup now = queryE (db_DedupEntry i scope dedup now)"

definition DeleteExpiredDedupEntries :: "gotime \<Rightarrow> unit store_prog" where
  "DeleteExpiredDedupEntries now = sqlE (db_DeleteExpiredDedupEntries now)"

definition InsertReceiveAttempt :: "receive_attempt \<Rightarrow> receive_attempt store_prog" where
  "InsertReceiveAttempt a = sqlE (db_InsertReceiveAttempt a)"

definition ReceiveAttempt :: "int \<Rightarrow> string \<Rightarrow> gotime \<Rightarrow> receive_attempt option store_prog" where
  "ReceiveAttempt i aid now = queryE (db_ReceiveAttempt i aid now)"

definition InvalidateReceiveAttempts :: "int \<Rightarrow> unit store_prog" where
  "InvalidateReceiveAttempts i = bindE nowE (\<lambda>now. sqlE (db_InvalidateReceiveAttempts i now))"

end
