(* ===== verification/QueueAttrs.thy ===== *)
theory QueueAttrs
  imports MessageStore
begin

text \<open>
  The pure functions of \<open>internal/service/sqs.go\<close> and \<open>internal/service/messages.go\<close> on
  queue attributes: names, defaults, validation, equivalence, the settings that the message
  operations read, and the redrive policy.
\<close>

section \<open>Names\<close>

text \<open>The character class \<open>[A-Za-z0-9_-]\<close>.\<close>

definition word_char :: "char \<Rightarrow> bool" where
  "word_char c \<longleftrightarrow> (let n = byte c in
     (65 \<le> n \<and> n \<le> 90) \<or> (97 \<le> n \<and> n \<le> 122) \<or> (48 \<le> n \<and> n \<le> 57)) \<or> c = CHR ''_'' \<or> c = CHR ''-''"

definition chars_between :: "(char \<Rightarrow> bool) \<Rightarrow> nat \<Rightarrow> nat \<Rightarrow> string \<Rightarrow> bool" where
  "chars_between P lo hi s \<longleftrightarrow> lo \<le> length s \<and> length s \<le> hi \<and> list_all P s"

definition trimSuffix :: "string \<Rightarrow> string \<Rightarrow> string" where
  "trimSuffix s suf = (if suffix suf s then take (length s - length suf) s else s)"

text \<open>\<open>^[A-Za-z0-9_-]{1,80}(\.fifo)?$\<close>\<close>

definition validQueueName :: "string \<Rightarrow> bool" where
  "validQueueName name \<longleftrightarrow> chars_between word_char 1 80 name
     \<or> (suffix ''.fifo'' name \<and> chars_between word_char 1 80 (trimSuffix name ''.fifo''))"

text \<open>\<open>^[A-Za-z0-9_-]{1,80}$\<close>\<close>

definition batchEntryIDMatches :: "string \<Rightarrow> bool" where
  "batchEntryIDMatches s \<longleftrightarrow> chars_between word_char 1 80 s"

definition queueURL :: "config \<Rightarrow> string \<Rightarrow> string \<Rightarrow> string" where
  "queueURL cfg acc name = cfg_PublicBaseURL cfg @ ''/'' @ acc @ ''/'' @ name"

definition queueARN :: "config \<Rightarrow> string \<Rightarrow> string \<Rightarrow> string" where
  "queueARN cfg acc name = ''arn:aws:sqs:'' @ cfg_Region cfg @ '':'' @ acc @ '':'' @ name"

section \<open>Attributes\<close>

definition defaultQueueAttributes :: strmap where
  "defaultQueueAttributes =
    [(''VisibilityTimeout'', ''30''), (''MaximumMessageSize'', ''1048576''),
     (''MessageRetentionPeriod'', ''345600''), (''DelaySeconds'', ''0''),
     (''ReceiveMessageWaitTimeSeconds'', ''0''), (''Policy'', ''''), (''RedrivePolicy'', ''''),
     (''FifoQueue'', ''false''), (''ContentBasedDeduplication'', ''false''), (''KmsMasterKeyId'', ''''),
     (''KmsDataKeyReusePeriodSeconds'', ''300''), (''DeduplicationScope'', ''queue''),
     (''FifoThroughputLimit'', ''perQueue''), (''RedriveAllowPolicy'', ''''),
     (''SqsManagedSseEnabled'', ''false'')]"

definition intBetween :: "string \<Rightarrow> int \<Rightarrow> int \<Rightarrow> bool" where
  "intBetween raw lo hi = (case parseInt raw of None \<Rightarrow> False | Some v \<Rightarrow> lo \<le> v \<and> v \<le> hi)"

definition attr_bad :: "strmap \<Rightarrow> string \<Rightarrow> int \<Rightarrow> int \<Rightarrow> bool" where
  "attr_bad attrs key lo hi \<longleftrightarrow> sget attrs key \<noteq> [] \<and> \<not> intBetween (sget attrs key) lo hi"

definition validateQueueAttributes :: "string \<Rightarrow> strmap \<Rightarrow> goerr option" where
  "validateQueueAttributes name attrs =
     (let fifo = (sget attrs ''FifoQueue'' = ''true'') in
      if fifo \<and> \<not> suffix ''.fifo'' name then
        Some (invalidParameter ''The name of a FIFO queue can only include alphanumeric characters, hyphens, underscores, and must end with .fifo.'')
      else if \<not> fifo \<and> suffix ''.fifo'' name then
        Some (invalidParameter ''The name of a FIFO queue must end with the .fifo suffix.'')
      else if attr_bad attrs ''VisibilityTimeout'' 0 43200 then Some (EApi ErrInvalidAttributeValue)
      else if attr_bad attrs ''MaximumMessageSize'' 1024 1048576 then Some (EApi ErrInvalidAttributeValue)
      else if attr_bad attrs ''MessageRetentionPeriod'' 60 1209600 then Some (EApi ErrInvalidAttributeValue)
      else if attr_bad attrs ''DelaySeconds'' 0 900 then Some (EApi ErrInvalidAttributeValue)
      else if attr_bad attrs ''ReceiveMessageWaitTimeSeconds'' 0 20 then Some (EApi ErrInvalidAttributeValue)
      else if attr_bad attrs ''KmsDataKeyReusePeriodSeconds'' 60 86400 then Some (EApi ErrInvalidAttributeValue)
      else None)"

definition strip_computed :: "strmap \<Rightarrow> strmap" where
  "strip_computed m = mdel (mdel (mdel m ''CreatedTimestamp'') ''LastModifiedTimestamp'') ''QueueArn''"

definition queueAttributesEquivalent :: "queue \<Rightarrow> strmap \<Rightarrow> bool" where
  "queueAttributesEquivalent existing attrs =
     (let current = strip_computed (q_Attributes existing);
          expected = strip_computed attrs
      in length current = length expected \<and> list_all (\<lambda>(k, v). sget current k = v) expected)"

definition onlyRetention :: "strmap \<Rightarrow> bool" where
  "onlyRetention attrs \<longleftrightarrow> length attrs = 1 \<and> sget attrs ''MessageRetentionPeriod'' \<noteq> []"

definition materialized_static :: "queue \<Rightarrow> strmap" where
  "materialized_static q =
     mcopy (q_Attributes q)
      [(''QueueArn'', q_ARN q), (''CreatedTimestamp'', formatInt (unixSec (q_CreatedAt q))),
       (''LastModifiedTimestamp'', formatInt (unixSec (q_LastModifiedAt q))),
       (''ApproximateNumberOfMessages'', ''0''), (''ApproximateNumberOfMessagesNotVisible'', ''0''),
       (''ApproximateNumberOfMessagesDelayed'', ''0'')]"

section \<open>Settings\<close>

text \<open>The common shape of the settings: a number that satisfies a test, or a default.\<close>

definition int_setting :: "queue \<Rightarrow> string \<Rightarrow> (int \<Rightarrow> bool) \<Rightarrow> int \<Rightarrow> int" where
  "int_setting q key good fallback =
     (case parseInt (sget (q_Attributes q) key) of
        None \<Rightarrow> fallback
      | Some v \<Rightarrow> if good v then v else fallback)"

definition queueVisibilityTimeout :: "queue \<Rightarrow> int" where
  "queueVisibilityTimeout q = int_setting q ''VisibilityTimeout'' (\<lambda>v. 0 \<le> v) 30"

definition queueMaximumMessageSize :: "queue \<Rightarrow> int" where
  "queueMaximumMessageSize q = int_setting q ''MaximumMessageSize'' (\<lambda>v. 0 < v) (1024 * 1024)"

definition queueRetentionSeconds :: "queue \<Rightarrow> int" where
  "queueRetentionSeconds q = int_setting q ''MessageRetentionPeriod'' (\<lambda>v. 0 < v) 345600"

definition queueDelaySeconds :: "queue \<Rightarrow> int" where
  "queueDelaySeconds q = int_setting q ''DelaySeconds'' (\<lambda>v. 0 \<le> v) 0"

definition queueWaitTime :: "queue \<Rightarrow> int" where
  "queueWaitTime q = int_setting q ''ReceiveMessageWaitTimeSeconds'' (\<lambda>v. 0 \<le> v) 0"

definition dedupScopeKey :: "queue \<Rightarrow> string \<Rightarrow> string" where
  "dedupScopeKey q messageGroupID =
     (if sget (q_Attributes q) ''DeduplicationScope'' = ''messageGroup'' then messageGroupID else q_Name q)"

section \<open>The redrive policy\<close>

record redrive_policy =
  rp_TargetARN :: string
  rp_MaxReceiveCount :: int

text \<open>An error, no policy, or a policy.\<close>

definition parseRedrivePolicy :: "string \<Rightarrow> string + redrive_policy option" where
  "parseRedrivePolicy raw =
     (if trimSpace raw = [] then Inr None
      else (case json_unmarshal_map raw of
          None \<Rightarrow> Inl ''invalid JSON''
        | Some decoded \<Rightarrow>
            (case int64Value decoded ''maxReceiveCount'' 0 of
               Inl e \<Rightarrow> Inl e
             | Inr n \<Rightarrow>
                 (let policy = \<lparr>rp_TargetARN = stringValue decoded ''deadLetterTargetArn'', rp_MaxReceiveCount = n\<rparr>
                  in if rp_TargetARN policy = [] \<or> rp_MaxReceiveCount policy \<le> 0 then Inr None
                     else Inr (Some policy)))))"

definition shouldRedrive :: "queue \<Rightarrow> message \<Rightarrow> bool" where
  "shouldRedrive q m =
     (case parseRedrivePolicy (sget (q_Attributes q) ''RedrivePolicy'') of
        Inr (Some policy) \<Rightarrow> rp_MaxReceiveCount policy \<le> m_ReceiveCount m
      | _ \<Rightarrow> False)"

section \<open>Settings are within the bounds that validation enforces\<close>

lemma int_setting_bounds:
  assumes "\<not> attr_bad (q_Attributes q) key lo hi" and "lo \<le> fallback" and "fallback \<le> hi"
  shows "lo \<le> int_setting q key good fallback \<and> int_setting q key good fallback \<le> hi"
proof (cases "sget (q_Attributes q) key = []")
  case True
  then have "parseInt (sget (q_Attributes q) key) = None" by (simp add: parseInt_def)
  with assms show ?thesis by (simp add: int_setting_def)
next
  case False
  with assms show ?thesis
    by (auto simp: attr_bad_def intBetween_def int_setting_def split: option.splits)
qed

lemma validated_attrs:
  assumes "validateQueueAttributes name attrs = None"
  shows "\<not> attr_bad attrs ''VisibilityTimeout'' 0 43200"
    "\<not> attr_bad attrs ''MaximumMessageSize'' 1024 1048576"
    "\<not> attr_bad attrs ''MessageRetentionPeriod'' 60 1209600"
    "\<not> attr_bad attrs ''DelaySeconds'' 0 900"
    "\<not> attr_bad attrs ''ReceiveMessageWaitTimeSeconds'' 0 20"
    "(sget attrs ''FifoQueue'' = ''true'') = suffix ''.fifo'' name"
  using assms by (auto simp: validateQueueAttributes_def Let_def split: if_splits)

text \<open>
  C37. On a queue whose attributes pass validation, every setting that the message operations
  read lies in the range that SQS documents: the visibility timeout in 0 to 43200 seconds, the
  message size limit in 1024 to 1048576 bytes, the retention in 60 to 1209600 seconds, the delay
  in 0 to 900 and the wait time in 0 to 20 seconds.
\<close>

theorem validated_settings_in_range:
  assumes "validateQueueAttributes name (q_Attributes q) = None"
  shows "queueVisibilityTimeout q \<in> {0..43200} \<and> queueMaximumMessageSize q \<in> {1024..1048576}
    \<and> queueRetentionSeconds q \<in> {60..1209600} \<and> queueDelaySeconds q \<in> {0..900}
    \<and> queueWaitTime q \<in> {0..20}"
proof -
  note v = validated_attrs(1-5) [OF assms, THEN int_setting_bounds]
  show ?thesis
    using v(1) [of 30 "\<lambda>v. 0 \<le> v"] v(2) [of "1024 * 1024" "\<lambda>v. 0 < v"] v(3) [of 345600 "\<lambda>v. 0 < v"]
      v(4) [of 0 "\<lambda>v. 0 \<le> v"] v(5) [of 0 "\<lambda>v. 0 \<le> v"]
    by (simp add: queueVisibilityTimeout_def queueMaximumMessageSize_def queueRetentionSeconds_def
        queueDelaySeconds_def queueWaitTime_def)
qed

theorem validated_settings_in_range_witness:
  "queueVisibilityTimeout \<lparr>q_ID = 1, q_AccountID = ''000000000000'', q_Region = ''us-east-1'',
      q_Name = ''jobs'', q_URL = ''http://h/000000000000/jobs'', q_ARN = ''arn:aws:sqs:us-east-1:000000000000:jobs'',
      q_FIFO = False, q_Attributes = [(''VisibilityTimeout'', formatInt 45)], q_CreatedAt = 0,
      q_AvailableAt = 0, q_LastModifiedAt = 0, q_DeletedAt = None, q_ReuseBlockedTill = None,
      q_PurgeRequestedAt = None, q_PurgeExpiresAt = None\<rparr> \<in> {0..43200}"
  (is "queueVisibilityTimeout ?q \<in> _")
proof -
  have "validateQueueAttributes ''jobs'' (q_Attributes ?q) = None"
    by (simp add: validateQueueAttributes_def attr_bad_def sget_def intBetween_def
        parseInt_formatInt int64_range_def suffix_def Let_def)
  then show ?thesis using validated_settings_in_range [of "''jobs''" ?q] by blast
qed

end
