(* ===== verification/QueryDecode.thy ===== *)
theory QueryDecode
  imports RegistryGen QueueAttrs
begin

text \<open>
  \<open>internal/protocol/query/names.go\<close> and \<open>internal/protocol/query/decode.go\<close>: requests of the query
  protocol. \<open>decodeShape\<close> follows the references between shapes, so its recursion is bounded by fuel;
  \<open>None\<close> says that the fuel did not last. The registry of SQS nests at most seven shapes, and
  \<open>default_fuel\<close> is enough for each of its requests (\<open>DecodeTotal\<close>).
\<close>

section \<open>Names on the wire\<close>

definition singularize :: "string \<Rightarrow> string" where
  "singularize name =
     (if suffix ''ies'' name then trimSuffix name ''ies'' @ ''y''
      else if suffix ''sses'' name then trimSuffix name ''es''
      else if suffix ''s'' name then trimSuffix name ''s''
      else name)"

definition collectionWireName :: "string \<Rightarrow> string \<Rightarrow> string" where
  "collectionWireName memberName shapeName =
     (if shapeName = ''QueueAttributeMap'' then ''Attribute''
      else if shapeName = ''MessageBodyAttributeMap'' then ''MessageAttribute''
      else if shapeName = ''MessageSystemAttributeMap'' then ''Attribute''
      else if shapeName = ''MessageSystemAttributeList'' then ''MessageSystemAttributeName''
      else if shapeName = ''TagMap'' then ''Tag''
      else (case cutSuffix shapeName ''List'' of Some before \<Rightarrow> before
        | None \<Rightarrow> (case cutSuffix shapeName ''Map'' of Some before \<Rightarrow> before
        | None \<Rightarrow> singularize memberName)))"

definition memberWireName :: "registry \<Rightarrow> string \<Rightarrow> member_ref \<Rightarrow> goerr + string" where
  "memberWireName reg memberName m =
     (if mb_LocationName m \<noteq> [] then Inr (mb_LocationName m)
      else (case MustShape reg (mb_Shape m) of
          Inl e \<Rightarrow> Inl e
        | Inr s \<Rightarrow> Inr (if sh_Type s \<in> {''list'', ''map''} then collectionWireName memberName (mb_Shape m)
                        else memberName)))"

section \<open>Values\<close>

definition mergeValues :: "string \<Rightarrow> string \<Rightarrow> url_values option" where
  "mergeValues rawQuery body =
     (let add = (\<lambda>text values. if text = [] then Some values
            else (case parseQuery text of (q, failed) \<Rightarrow>
              if failed then None
              else Some (fold (\<lambda>(key, entries) vs. fold (\<lambda>e vs. values_add vs key e) entries vs) q values)))
      in (case add rawQuery [] of None \<Rightarrow> None | Some values \<Rightarrow> add body values))"

definition decodePrimitive :: "shape \<Rightarrow> string \<Rightarrow> goerr + gval" where
  "decodePrimitive s raw =
     (if sh_Type s \<in> {''integer'', ''long''} then
        (case parseInt raw of
           None \<Rightarrow> Inl (EApi (WithCause (api_New ''InvalidParameterValue'' 400 ''A parameter value is invalid.'') ''invalid syntax''))
         | Some v \<Rightarrow> Inr (GInt v))
      else if sh_Type s = ''boolean'' then
        (case parseBool raw of
           None \<Rightarrow> Inl (EApi (WithCause (api_New ''InvalidParameterValue'' 400 ''A parameter value is invalid.'') ''invalid syntax''))
         | Some v \<Rightarrow> Inr (GBool v))
      else Inr (GStr raw))"

definition index_of :: "string \<Rightarrow> string \<Rightarrow> int option" where
  "index_of token key =
     (if prefix token key then parseInt (fst (splitFirst (CHR ''.'') (drop (length token) key))) else None)"

definition collectIndices :: "url_values \<Rightarrow> string \<Rightarrow> int list" where
  "collectIndices values pre =
     sort (remdups (List.map_filter (index_of (pre @ ''.'')) (map fst values)))"

section \<open>Shapes\<close>

text \<open>A result of a decoding that may run out of fuel.\<close>

type_synonym 'a decoding = "(goerr + 'a) option"

definition dbind :: "'a decoding \<Rightarrow> ('a \<Rightarrow> 'b decoding) \<Rightarrow> 'b decoding" where
  "dbind m f = (case m of None \<Rightarrow> None | Some (Inl e) \<Rightarrow> Some (Inl e) | Some (Inr x) \<Rightarrow> f x)"

abbreviation decoded :: "'a \<Rightarrow> 'a decoding" where
  "decoded x \<equiv> Some (Inr x)"

fun dfold :: "('s \<Rightarrow> 'a \<Rightarrow> 's decoding) \<Rightarrow> 's \<Rightarrow> 'a list \<Rightarrow> 's decoding" where
  "dfold f s [] = decoded s"
| "dfold f s (x # xs) = dbind (f s x) (\<lambda>s'. dfold f s' xs)"

text \<open>The shape that a reference names; following a nil reference panics.\<close>

definition ref_shape :: "shape_ref option \<Rightarrow> goerr + string" where
  "ref_shape r = (case r of None \<Rightarrow> Inl (EPanic ''nil pointer dereference'') | Some s \<Rightarrow> Inr (sr_Shape s))"

text \<open>The member of a structure; a missing one is the zero member.\<close>

definition member_of :: "shape \<Rightarrow> string \<Rightarrow> member_ref" where
  "member_of s name = (case mget (sh_Members s) name of Some m \<Rightarrow> m
     | None \<Rightarrow> \<lparr>mb_Shape = [], mb_LocationName = [], mb_Flattened = False\<rparr>)"

text \<open>The primitive at the place of an element that no key of its own describes.\<close>

definition element_primitive :: "registry \<Rightarrow> url_values \<Rightarrow> string \<Rightarrow> string \<Rightarrow> gval option decoding" where
  "element_primitive reg values shapeName key =
     (let raw = values_get values key in
      if raw = [] then decoded None
      else dbind (Some (MustShape reg shapeName)) (\<lambda>s.
           dbind (Some (decodePrimitive s raw)) (\<lambda>v. decoded (Some v))))"

text \<open>The value, if one was found.\<close>

fun decodeShape :: "nat \<Rightarrow> registry \<Rightarrow> url_values \<Rightarrow> string \<Rightarrow> string \<Rightarrow> string \<Rightarrow> gval option decoding" where
  "decodeShape 0 reg values shapeName pre parent = None"
| "decodeShape (Suc fuel) reg values shapeName pre parent =
     dbind (Some (MustShape reg shapeName)) (\<lambda>s.
     if sh_Type s = ''structure'' then
       dbind (dfold (\<lambda>out memberName.
           let m = member_of s memberName in
           dbind (Some (memberWireName reg memberName m)) (\<lambda>wire.
           dbind (decodeShape fuel reg values (mb_Shape m) (if pre \<noteq> [] then pre @ ''.'' @ wire else wire) memberName)
             (\<lambda>v. decoded (case v of None \<Rightarrow> out | Some x \<Rightarrow> mput out memberName x)))) [] (sh_MemberOrder s))
         (\<lambda>out. decoded (if out = [] then None else Some (GMap out)))
     else if sh_Type s = ''list'' then
       (let indices = collectIndices values pre in
        if indices = [] then decoded None
        else
          dbind (dfold (\<lambda>items idx.
              let itemPrefix = pre @ ''.'' @ formatInt idx in
              dbind (Some (ref_shape (sh_Member s))) (\<lambda>elem.
              dbind (decodeShape fuel reg values elem itemPrefix parent) (\<lambda>v.
              dbind (case v of Some x \<Rightarrow> decoded (Some x) | None \<Rightarrow> element_primitive reg values elem itemPrefix) (\<lambda>v'.
              decoded (case v' of None \<Rightarrow> items | Some x \<Rightarrow> items @ [x]))))) [] indices)
            (\<lambda>items. decoded (if items = [] then None else Some (GList items))))
     else if sh_Type s = ''map'' then
       (let indices = collectIndices values pre in
        if indices = [] then decoded None
        else
          dbind (dfold (\<lambda>out idx.
              let key = values_get values (pre @ ''.'' @ formatInt idx @ ''.Name'') in
              if key = [] then decoded out
              else
                (let valuePrefix = pre @ ''.'' @ formatInt idx @ ''.Value'' in
                 dbind (Some (ref_shape (sh_Value s))) (\<lambda>elem.
                 dbind (decodeShape fuel reg values elem valuePrefix parent) (\<lambda>v.
                 dbind (case v of Some x \<Rightarrow> decoded (Some x) | None \<Rightarrow> element_primitive reg values elem valuePrefix) (\<lambda>v'.
                 decoded (case v' of None \<Rightarrow> out | Some x \<Rightarrow> mput out key x)))))) [] indices)
            (\<lambda>out. decoded (if out = [] then None else Some (GMap out))))
     else
       (case mget values pre of
          Some (raw # _) \<Rightarrow> dbind (Some (decodePrimitive s raw)) (\<lambda>v. decoded (Some v))
        | _ \<Rightarrow> decoded None))"

section \<open>Requests\<close>

definition query_DecodeRequest :: "nat \<Rightarrow> registry \<Rightarrow> http_request \<Rightarrow> string \<Rightarrow> (string \<times> gmap) decoding" where
  "query_DecodeRequest fuel reg r body =
     (case mergeValues (hr_RawQuery r) body of
        None \<Rightarrow> Some (Inl (EApi (WithCause (api_New ''MalformedQueryString'' 400 ''The query string is malformed.'') ''parse'')))
      | Some values \<Rightarrow>
         (let action = values_get values ''Action'' in
          if action = [] then Some (Inl (EApi (WithCause ErrUnsupportedOperation ''missing Action'')))
          else (case Operation reg action of
              None \<Rightarrow> Some (Inl (EApi (WithCause ErrUnsupportedOperation (''unknown action '' @ action))))
            | Some op \<Rightarrow>
                if op_InputShape op = [] then decoded (action, [])
                else
                  dbind (Some (MustShape reg (op_InputShape op))) (\<lambda>s.
                  dbind (dfold (\<lambda>input memberName.
                      let m = member_of s memberName in
                      dbind (Some (memberWireName reg memberName m)) (\<lambda>pre.
                      dbind (decodeShape fuel reg values (mb_Shape m) pre memberName) (\<lambda>v.
                      decoded (case v of None \<Rightarrow> input | Some x \<Rightarrow> mput input memberName x)))) [] (sh_MemberOrder s))
                    (\<lambda>input. decoded (action, input))))))"

end
