(* ===== verification/RegistryFacts.thy ===== *)
theory RegistryFacts
  imports RegistryGen
begin

text \<open>
  Facts about the registry \<open>Default\<close>: its names are in ascending order, so every lookup finds its entry,
  the shapes that requests and responses use are all there, and they nest at most seven deep.
\<close>

section \<open>Lookups\<close>

fun ascending :: "string list \<Rightarrow> bool" where
  "ascending (x # y # xs) = (x < y \<and> ascending (y # xs))"
| "ascending xs = True"

lemma ascending_Cons: "ascending (x # xs) \<Longrightarrow> ascending xs \<and> (\<forall>y \<in> set xs. x < y)"
proof (induction xs arbitrary: x)
  case (Cons y ys)
  then have "x < y" "ascending (y # ys)" by simp_all
  with Cons.IH [of y] show ?case by auto
qed simp

lemma ascending_distinct: "ascending xs \<Longrightarrow> distinct xs"
proof (induction xs)
  case (Cons x xs)
  from ascending_Cons [OF Cons.prems] Cons.IH show ?case by auto
qed simp

lemma Shape_names_ascending: "ascending (map fst Default_Shapes)"
  by code_simp

lemma Operation_names_ascending: "ascending (map fst Default_Operations)"
  by code_simp

lemma Shape_found: "(name, s) \<in> set Default_Shapes \<Longrightarrow> Shape Default name = Some s"
  using ascending_distinct [OF Shape_names_ascending] by (simp add: Shape_def Default_def)

lemma Operation_found: "(name, op) \<in> set Default_Operations \<Longrightarrow> Operation Default name = Some op"
  using ascending_distinct [OF Operation_names_ascending] by (simp add: Operation_def Default_def)

text \<open>Every shape is found under its name.\<close>

lemma shape_lookups [simp]:
  "Shape Default ''AWSAccountIdList'' = Some sh_AWSAccountIdList"
  "Shape Default ''ActionNameList'' = Some sh_ActionNameList"
  "Shape Default ''AddPermissionRequest'' = Some sh_AddPermissionRequest"
  "Shape Default ''AttributeNameList'' = Some sh_AttributeNameList"
  "Shape Default ''BatchEntryIdsNotDistinct'' = Some sh_BatchEntryIdsNotDistinct"
  "Shape Default ''BatchRequestTooLong'' = Some sh_BatchRequestTooLong"
  "Shape Default ''BatchResultErrorEntry'' = Some sh_BatchResultErrorEntry"
  "Shape Default ''BatchResultErrorEntryList'' = Some sh_BatchResultErrorEntryList"
  "Shape Default ''Binary'' = Some sh_Binary"
  "Shape Default ''BinaryList'' = Some sh_BinaryList"
  "Shape Default ''Boolean'' = Some sh_Boolean"
  "Shape Default ''BoxedInteger'' = Some sh_BoxedInteger"
  "Shape Default ''CancelMessageMoveTaskRequest'' = Some sh_CancelMessageMoveTaskRequest"
  "Shape Default ''CancelMessageMoveTaskResult'' = Some sh_CancelMessageMoveTaskResult"
  "Shape Default ''ChangeMessageVisibilityBatchRequest'' = Some sh_ChangeMessageVisibilityBatchRequest"
  "Shape Default ''ChangeMessageVisibilityBatchRequestEntry'' = Some sh_ChangeMessageVisibilityBatchRequestEntry"
  "Shape Default ''ChangeMessageVisibilityBatchRequestEntryList'' = Some sh_ChangeMessageVisibilityBatchRequestEntryList"
  "Shape Default ''ChangeMessageVisibilityBatchResult'' = Some sh_ChangeMessageVisibilityBatchResult"
  "Shape Default ''ChangeMessageVisibilityBatchResultEntry'' = Some sh_ChangeMessageVisibilityBatchResultEntry"
  "Shape Default ''ChangeMessageVisibilityBatchResultEntryList'' = Some sh_ChangeMessageVisibilityBatchResultEntryList"
  "Shape Default ''ChangeMessageVisibilityRequest'' = Some sh_ChangeMessageVisibilityRequest"
  "Shape Default ''CreateQueueRequest'' = Some sh_CreateQueueRequest"
  "Shape Default ''CreateQueueResult'' = Some sh_CreateQueueResult"
  "Shape Default ''DeleteMessageBatchRequest'' = Some sh_DeleteMessageBatchRequest"
  "Shape Default ''DeleteMessageBatchRequestEntry'' = Some sh_DeleteMessageBatchRequestEntry"
  "Shape Default ''DeleteMessageBatchRequestEntryList'' = Some sh_DeleteMessageBatchRequestEntryList"
  "Shape Default ''DeleteMessageBatchResult'' = Some sh_DeleteMessageBatchResult"
  "Shape Default ''DeleteMessageBatchResultEntry'' = Some sh_DeleteMessageBatchResultEntry"
  "Shape Default ''DeleteMessageBatchResultEntryList'' = Some sh_DeleteMessageBatchResultEntryList"
  "Shape Default ''DeleteMessageRequest'' = Some sh_DeleteMessageRequest"
  "Shape Default ''DeleteQueueRequest'' = Some sh_DeleteQueueRequest"
  "Shape Default ''EmptyBatchRequest'' = Some sh_EmptyBatchRequest"
  "Shape Default ''ExceptionMessage'' = Some sh_ExceptionMessage"
  "Shape Default ''GetQueueAttributesRequest'' = Some sh_GetQueueAttributesRequest"
  "Shape Default ''GetQueueAttributesResult'' = Some sh_GetQueueAttributesResult"
  "Shape Default ''GetQueueUrlRequest'' = Some sh_GetQueueUrlRequest"
  "Shape Default ''GetQueueUrlResult'' = Some sh_GetQueueUrlResult"
  "Shape Default ''InvalidAddress'' = Some sh_InvalidAddress"
  "Shape Default ''InvalidAttributeName'' = Some sh_InvalidAttributeName"
  "Shape Default ''InvalidAttributeValue'' = Some sh_InvalidAttributeValue"
  "Shape Default ''InvalidBatchEntryId'' = Some sh_InvalidBatchEntryId"
  "Shape Default ''InvalidIdFormat'' = Some sh_InvalidIdFormat"
  "Shape Default ''InvalidMessageContents'' = Some sh_InvalidMessageContents"
  "Shape Default ''InvalidSecurity'' = Some sh_InvalidSecurity"
  "Shape Default ''KmsAccessDenied'' = Some sh_KmsAccessDenied"
  "Shape Default ''KmsDisabled'' = Some sh_KmsDisabled"
  "Shape Default ''KmsInvalidKeyUsage'' = Some sh_KmsInvalidKeyUsage"
  "Shape Default ''KmsInvalidState'' = Some sh_KmsInvalidState"
  "Shape Default ''KmsNotFound'' = Some sh_KmsNotFound"
  "Shape Default ''KmsOptInRequired'' = Some sh_KmsOptInRequired"
  "Shape Default ''KmsThrottled'' = Some sh_KmsThrottled"
  "Shape Default ''ListDeadLetterSourceQueuesRequest'' = Some sh_ListDeadLetterSourceQueuesRequest"
  "Shape Default ''ListDeadLetterSourceQueuesResult'' = Some sh_ListDeadLetterSourceQueuesResult"
  "Shape Default ''ListMessageMoveTasksRequest'' = Some sh_ListMessageMoveTasksRequest"
  "Shape Default ''ListMessageMoveTasksResult'' = Some sh_ListMessageMoveTasksResult"
  "Shape Default ''ListMessageMoveTasksResultEntry'' = Some sh_ListMessageMoveTasksResultEntry"
  "Shape Default ''ListMessageMoveTasksResultEntryList'' = Some sh_ListMessageMoveTasksResultEntryList"
  "Shape Default ''ListQueueTagsRequest'' = Some sh_ListQueueTagsRequest"
  "Shape Default ''ListQueueTagsResult'' = Some sh_ListQueueTagsResult"
  "Shape Default ''ListQueuesRequest'' = Some sh_ListQueuesRequest"
  "Shape Default ''ListQueuesResult'' = Some sh_ListQueuesResult"
  "Shape Default ''Long'' = Some sh_Long"
  "Shape Default ''Message'' = Some sh_Message"
  "Shape Default ''MessageAttributeName'' = Some sh_MessageAttributeName"
  "Shape Default ''MessageAttributeNameList'' = Some sh_MessageAttributeNameList"
  "Shape Default ''MessageAttributeValue'' = Some sh_MessageAttributeValue"
  "Shape Default ''MessageBodyAttributeMap'' = Some sh_MessageBodyAttributeMap"
  "Shape Default ''MessageBodySystemAttributeMap'' = Some sh_MessageBodySystemAttributeMap"
  "Shape Default ''MessageList'' = Some sh_MessageList"
  "Shape Default ''MessageNotInflight'' = Some sh_MessageNotInflight"
  "Shape Default ''MessageSystemAttributeList'' = Some sh_MessageSystemAttributeList"
  "Shape Default ''MessageSystemAttributeMap'' = Some sh_MessageSystemAttributeMap"
  "Shape Default ''MessageSystemAttributeName'' = Some sh_MessageSystemAttributeName"
  "Shape Default ''MessageSystemAttributeNameForSends'' = Some sh_MessageSystemAttributeNameForSends"
  "Shape Default ''MessageSystemAttributeValue'' = Some sh_MessageSystemAttributeValue"
  "Shape Default ''NullableInteger'' = Some sh_NullableInteger"
  "Shape Default ''NullableLong'' = Some sh_NullableLong"
  "Shape Default ''OverLimit'' = Some sh_OverLimit"
  "Shape Default ''PurgeQueueInProgress'' = Some sh_PurgeQueueInProgress"
  "Shape Default ''PurgeQueueRequest'' = Some sh_PurgeQueueRequest"
  "Shape Default ''QueueAttributeMap'' = Some sh_QueueAttributeMap"
  "Shape Default ''QueueAttributeName'' = Some sh_QueueAttributeName"
  "Shape Default ''QueueDeletedRecently'' = Some sh_QueueDeletedRecently"
  "Shape Default ''QueueDoesNotExist'' = Some sh_QueueDoesNotExist"
  "Shape Default ''QueueNameExists'' = Some sh_QueueNameExists"
  "Shape Default ''QueueUrlList'' = Some sh_QueueUrlList"
  "Shape Default ''ReceiptHandleIsInvalid'' = Some sh_ReceiptHandleIsInvalid"
  "Shape Default ''ReceiveMessageRequest'' = Some sh_ReceiveMessageRequest"
  "Shape Default ''ReceiveMessageResult'' = Some sh_ReceiveMessageResult"
  "Shape Default ''RemovePermissionRequest'' = Some sh_RemovePermissionRequest"
  "Shape Default ''RequestThrottled'' = Some sh_RequestThrottled"
  "Shape Default ''ResourceNotFoundException'' = Some sh_ResourceNotFoundException"
  "Shape Default ''SendMessageBatchRequest'' = Some sh_SendMessageBatchRequest"
  "Shape Default ''SendMessageBatchRequestEntry'' = Some sh_SendMessageBatchRequestEntry"
  "Shape Default ''SendMessageBatchRequestEntryList'' = Some sh_SendMessageBatchRequestEntryList"
  "Shape Default ''SendMessageBatchResult'' = Some sh_SendMessageBatchResult"
  "Shape Default ''SendMessageBatchResultEntry'' = Some sh_SendMessageBatchResultEntry"
  "Shape Default ''SendMessageBatchResultEntryList'' = Some sh_SendMessageBatchResultEntryList"
  "Shape Default ''SendMessageRequest'' = Some sh_SendMessageRequest"
  "Shape Default ''SendMessageResult'' = Some sh_SendMessageResult"
  "Shape Default ''SetQueueAttributesRequest'' = Some sh_SetQueueAttributesRequest"
  "Shape Default ''StartMessageMoveTaskRequest'' = Some sh_StartMessageMoveTaskRequest"
  "Shape Default ''StartMessageMoveTaskResult'' = Some sh_StartMessageMoveTaskResult"
  "Shape Default ''String'' = Some sh_String"
  "Shape Default ''StringList'' = Some sh_StringList"
  "Shape Default ''TagKey'' = Some sh_TagKey"
  "Shape Default ''TagKeyList'' = Some sh_TagKeyList"
  "Shape Default ''TagMap'' = Some sh_TagMap"
  "Shape Default ''TagQueueRequest'' = Some sh_TagQueueRequest"
  "Shape Default ''TagValue'' = Some sh_TagValue"
  "Shape Default ''Token'' = Some sh_Token"
  "Shape Default ''TooManyEntriesInBatchRequest'' = Some sh_TooManyEntriesInBatchRequest"
  "Shape Default ''UnsupportedOperation'' = Some sh_UnsupportedOperation"
  "Shape Default ''UntagQueueRequest'' = Some sh_UntagQueueRequest"
  by (rule Shape_found, unfold Default_Shapes_def, (rule list.set_intros(1) | rule list.set_intros(2))+)+

section \<open>Depth\<close>

fun fits :: "nat \<Rightarrow> registry \<Rightarrow> string \<Rightarrow> bool" where
  "fits 0 reg name = False"
| "fits (Suc n) reg name =
     (case Shape reg name of
        None \<Rightarrow> False
      | Some s \<Rightarrow>
          (if sh_Type s = ''structure'' then
             list_all (\<lambda>m. case mget (sh_Members s) m of None \<Rightarrow> False | Some mb \<Rightarrow> fits n reg (mb_Shape mb)) (sh_MemberOrder s)
           else if sh_Type s = ''list'' then (case sh_Member s of None \<Rightarrow> False | Some r \<Rightarrow> fits n reg (sr_Shape r))
           else if sh_Type s = ''map'' then (case sh_Value s of None \<Rightarrow> False | Some r \<Rightarrow> fits n reg (sr_Shape r))
           else True))"

declare fits.simps(2) [simp del]

lemmas shape_simps = zero_shape_def plain_ref_def plain_member_def

lemma fits_1 [simp]:
  "fits (Suc n) Default ''Binary''"
  "fits (Suc n) Default ''Boolean''"
  "fits (Suc n) Default ''BoxedInteger''"
  "fits (Suc n) Default ''Long''"
  "fits (Suc n) Default ''MessageAttributeName''"
  "fits (Suc n) Default ''MessageSystemAttributeName''"
  "fits (Suc n) Default ''NullableInteger''"
  "fits (Suc n) Default ''NullableLong''"
  "fits (Suc n) Default ''QueueAttributeName''"
  "fits (Suc n) Default ''String''"
  "fits (Suc n) Default ''TagKey''"
  "fits (Suc n) Default ''TagValue''"
  "fits (Suc n) Default ''Token''"
  by (subst fits.simps(2), simp add: shape_simps sh_Binary_def sh_Boolean_def
    sh_BoxedInteger_def sh_Long_def sh_MessageAttributeName_def
    sh_MessageSystemAttributeName_def sh_NullableInteger_def sh_NullableLong_def
    sh_QueueAttributeName_def sh_String_def sh_TagKey_def sh_TagValue_def sh_Token_def)+

lemma fits_2 [simp]:
  "fits (Suc (Suc n)) Default ''AWSAccountIdList''"
  "fits (Suc (Suc n)) Default ''ActionNameList''"
  "fits (Suc (Suc n)) Default ''AttributeNameList''"
  "fits (Suc (Suc n)) Default ''BatchResultErrorEntry''"
  "fits (Suc (Suc n)) Default ''BinaryList''"
  "fits (Suc (Suc n)) Default ''CancelMessageMoveTaskRequest''"
  "fits (Suc (Suc n)) Default ''CancelMessageMoveTaskResult''"
  "fits (Suc (Suc n)) Default ''ChangeMessageVisibilityBatchRequestEntry''"
  "fits (Suc (Suc n)) Default ''ChangeMessageVisibilityBatchResultEntry''"
  "fits (Suc (Suc n)) Default ''ChangeMessageVisibilityRequest''"
  "fits (Suc (Suc n)) Default ''CreateQueueResult''"
  "fits (Suc (Suc n)) Default ''DeleteMessageBatchRequestEntry''"
  "fits (Suc (Suc n)) Default ''DeleteMessageBatchResultEntry''"
  "fits (Suc (Suc n)) Default ''DeleteMessageRequest''"
  "fits (Suc (Suc n)) Default ''DeleteQueueRequest''"
  "fits (Suc (Suc n)) Default ''GetQueueUrlRequest''"
  "fits (Suc (Suc n)) Default ''GetQueueUrlResult''"
  "fits (Suc (Suc n)) Default ''ListDeadLetterSourceQueuesRequest''"
  "fits (Suc (Suc n)) Default ''ListMessageMoveTasksRequest''"
  "fits (Suc (Suc n)) Default ''ListMessageMoveTasksResultEntry''"
  "fits (Suc (Suc n)) Default ''ListQueueTagsRequest''"
  "fits (Suc (Suc n)) Default ''ListQueuesRequest''"
  "fits (Suc (Suc n)) Default ''MessageAttributeNameList''"
  "fits (Suc (Suc n)) Default ''MessageSystemAttributeList''"
  "fits (Suc (Suc n)) Default ''MessageSystemAttributeMap''"
  "fits (Suc (Suc n)) Default ''PurgeQueueRequest''"
  "fits (Suc (Suc n)) Default ''QueueAttributeMap''"
  "fits (Suc (Suc n)) Default ''QueueUrlList''"
  "fits (Suc (Suc n)) Default ''RemovePermissionRequest''"
  "fits (Suc (Suc n)) Default ''SendMessageBatchResultEntry''"
  "fits (Suc (Suc n)) Default ''SendMessageResult''"
  "fits (Suc (Suc n)) Default ''StartMessageMoveTaskRequest''"
  "fits (Suc (Suc n)) Default ''StartMessageMoveTaskResult''"
  "fits (Suc (Suc n)) Default ''StringList''"
  "fits (Suc (Suc n)) Default ''TagKeyList''"
  "fits (Suc (Suc n)) Default ''TagMap''"
  by (subst fits.simps(2), simp add: shape_simps sh_AWSAccountIdList_def
    sh_ActionNameList_def sh_AttributeNameList_def sh_BatchResultErrorEntry_def
    sh_BinaryList_def sh_CancelMessageMoveTaskRequest_def sh_CancelMessageMoveTaskResult_def
    sh_ChangeMessageVisibilityBatchRequestEntry_def
    sh_ChangeMessageVisibilityBatchResultEntry_def sh_ChangeMessageVisibilityRequest_def
    sh_CreateQueueResult_def sh_DeleteMessageBatchRequestEntry_def
    sh_DeleteMessageBatchResultEntry_def sh_DeleteMessageRequest_def sh_DeleteQueueRequest_def
    sh_GetQueueUrlRequest_def sh_GetQueueUrlResult_def sh_ListDeadLetterSourceQueuesRequest_def
    sh_ListMessageMoveTasksRequest_def sh_ListMessageMoveTasksResultEntry_def
    sh_ListQueueTagsRequest_def sh_ListQueuesRequest_def sh_MessageAttributeNameList_def
    sh_MessageSystemAttributeList_def sh_MessageSystemAttributeMap_def sh_PurgeQueueRequest_def
    sh_QueueAttributeMap_def sh_QueueUrlList_def sh_RemovePermissionRequest_def
    sh_SendMessageBatchResultEntry_def sh_SendMessageResult_def
    sh_StartMessageMoveTaskRequest_def sh_StartMessageMoveTaskResult_def sh_StringList_def
    sh_TagKeyList_def sh_TagMap_def)+

lemma fits_3 [simp]:
  "fits (Suc (Suc (Suc n))) Default ''AddPermissionRequest''"
  "fits (Suc (Suc (Suc n))) Default ''BatchResultErrorEntryList''"
  "fits (Suc (Suc (Suc n))) Default ''ChangeMessageVisibilityBatchRequestEntryList''"
  "fits (Suc (Suc (Suc n))) Default ''ChangeMessageVisibilityBatchResultEntryList''"
  "fits (Suc (Suc (Suc n))) Default ''CreateQueueRequest''"
  "fits (Suc (Suc (Suc n))) Default ''DeleteMessageBatchRequestEntryList''"
  "fits (Suc (Suc (Suc n))) Default ''DeleteMessageBatchResultEntryList''"
  "fits (Suc (Suc (Suc n))) Default ''GetQueueAttributesRequest''"
  "fits (Suc (Suc (Suc n))) Default ''GetQueueAttributesResult''"
  "fits (Suc (Suc (Suc n))) Default ''ListDeadLetterSourceQueuesResult''"
  "fits (Suc (Suc (Suc n))) Default ''ListMessageMoveTasksResultEntryList''"
  "fits (Suc (Suc (Suc n))) Default ''ListQueueTagsResult''"
  "fits (Suc (Suc (Suc n))) Default ''ListQueuesResult''"
  "fits (Suc (Suc (Suc n))) Default ''MessageAttributeValue''"
  "fits (Suc (Suc (Suc n))) Default ''MessageSystemAttributeValue''"
  "fits (Suc (Suc (Suc n))) Default ''ReceiveMessageRequest''"
  "fits (Suc (Suc (Suc n))) Default ''SendMessageBatchResultEntryList''"
  "fits (Suc (Suc (Suc n))) Default ''SetQueueAttributesRequest''"
  "fits (Suc (Suc (Suc n))) Default ''TagQueueRequest''"
  "fits (Suc (Suc (Suc n))) Default ''UntagQueueRequest''"
  by (subst fits.simps(2), simp add: shape_simps sh_AddPermissionRequest_def
    sh_BatchResultErrorEntryList_def sh_ChangeMessageVisibilityBatchRequestEntryList_def
    sh_ChangeMessageVisibilityBatchResultEntryList_def sh_CreateQueueRequest_def
    sh_DeleteMessageBatchRequestEntryList_def sh_DeleteMessageBatchResultEntryList_def
    sh_GetQueueAttributesRequest_def sh_GetQueueAttributesResult_def
    sh_ListDeadLetterSourceQueuesResult_def sh_ListMessageMoveTasksResultEntryList_def
    sh_ListQueueTagsResult_def sh_ListQueuesResult_def sh_MessageAttributeValue_def
    sh_MessageSystemAttributeValue_def sh_ReceiveMessageRequest_def
    sh_SendMessageBatchResultEntryList_def sh_SetQueueAttributesRequest_def
    sh_TagQueueRequest_def sh_UntagQueueRequest_def)+

lemma fits_4 [simp]:
  "fits (Suc (Suc (Suc (Suc n)))) Default ''ChangeMessageVisibilityBatchRequest''"
  "fits (Suc (Suc (Suc (Suc n)))) Default ''ChangeMessageVisibilityBatchResult''"
  "fits (Suc (Suc (Suc (Suc n)))) Default ''DeleteMessageBatchRequest''"
  "fits (Suc (Suc (Suc (Suc n)))) Default ''DeleteMessageBatchResult''"
  "fits (Suc (Suc (Suc (Suc n)))) Default ''ListMessageMoveTasksResult''"
  "fits (Suc (Suc (Suc (Suc n)))) Default ''MessageBodyAttributeMap''"
  "fits (Suc (Suc (Suc (Suc n)))) Default ''MessageBodySystemAttributeMap''"
  "fits (Suc (Suc (Suc (Suc n)))) Default ''SendMessageBatchResult''"
  by (subst fits.simps(2), simp add: shape_simps sh_ChangeMessageVisibilityBatchRequest_def sh_ChangeMessageVisibilityBatchResult_def
    sh_DeleteMessageBatchRequest_def sh_DeleteMessageBatchResult_def
    sh_ListMessageMoveTasksResult_def sh_MessageBodyAttributeMap_def
    sh_MessageBodySystemAttributeMap_def sh_SendMessageBatchResult_def)+

lemma fits_5 [simp]:
  "fits (Suc (Suc (Suc (Suc (Suc n))))) Default ''Message''"
  "fits (Suc (Suc (Suc (Suc (Suc n))))) Default ''SendMessageBatchRequestEntry''"
  "fits (Suc (Suc (Suc (Suc (Suc n))))) Default ''SendMessageRequest''"
  by (subst fits.simps(2), simp add: shape_simps sh_Message_def
    sh_SendMessageBatchRequestEntry_def sh_SendMessageRequest_def)+

lemma fits_6 [simp]:
  "fits (Suc (Suc (Suc (Suc (Suc (Suc n)))))) Default ''MessageList''"
  "fits (Suc (Suc (Suc (Suc (Suc (Suc n)))))) Default ''SendMessageBatchRequestEntryList''"
  by (subst fits.simps(2), simp add: shape_simps sh_MessageList_def
    sh_SendMessageBatchRequestEntryList_def)+

lemma fits_7 [simp]:
  "fits (Suc (Suc (Suc (Suc (Suc (Suc (Suc n))))))) Default ''ReceiveMessageResult''"
  "fits (Suc (Suc (Suc (Suc (Suc (Suc (Suc n))))))) Default ''SendMessageBatchRequest''"
  by (subst fits.simps(2), simp add: shape_simps sh_ReceiveMessageResult_def
    sh_SendMessageBatchRequest_def)+

text \<open>Every request and every response.\<close>

lemmas operation_simps =
  op_AddPermission_def
  op_CancelMessageMoveTask_def op_ChangeMessageVisibility_def
  op_ChangeMessageVisibilityBatch_def op_CreateQueue_def op_DeleteMessage_def
  op_DeleteMessageBatch_def op_DeleteQueue_def op_GetQueueAttributes_def op_GetQueueUrl_def
  op_ListDeadLetterSourceQueues_def op_ListMessageMoveTasks_def op_ListQueueTags_def
  op_ListQueues_def op_PurgeQueue_def op_ReceiveMessage_def op_RemovePermission_def
  op_SendMessage_def op_SendMessageBatch_def op_SetQueueAttributes_def
  op_StartMessageMoveTask_def op_TagQueue_def op_UntagQueue_def

lemmas all_shape_defs =
  sh_AWSAccountIdList_def
  sh_ActionNameList_def sh_AddPermissionRequest_def sh_AttributeNameList_def
  sh_BatchEntryIdsNotDistinct_def sh_BatchRequestTooLong_def sh_BatchResultErrorEntry_def
  sh_BatchResultErrorEntryList_def sh_Binary_def sh_BinaryList_def sh_Boolean_def
  sh_BoxedInteger_def sh_CancelMessageMoveTaskRequest_def sh_CancelMessageMoveTaskResult_def
  sh_ChangeMessageVisibilityBatchRequest_def sh_ChangeMessageVisibilityBatchRequestEntry_def
  sh_ChangeMessageVisibilityBatchRequestEntryList_def
  sh_ChangeMessageVisibilityBatchResult_def sh_ChangeMessageVisibilityBatchResultEntry_def
  sh_ChangeMessageVisibilityBatchResultEntryList_def sh_ChangeMessageVisibilityRequest_def
  sh_CreateQueueRequest_def sh_CreateQueueResult_def sh_DeleteMessageBatchRequest_def
  sh_DeleteMessageBatchRequestEntry_def sh_DeleteMessageBatchRequestEntryList_def
  sh_DeleteMessageBatchResult_def sh_DeleteMessageBatchResultEntry_def
  sh_DeleteMessageBatchResultEntryList_def sh_DeleteMessageRequest_def
  sh_DeleteQueueRequest_def sh_EmptyBatchRequest_def sh_ExceptionMessage_def
  sh_GetQueueAttributesRequest_def sh_GetQueueAttributesResult_def sh_GetQueueUrlRequest_def
  sh_GetQueueUrlResult_def sh_InvalidAddress_def sh_InvalidAttributeName_def
  sh_InvalidAttributeValue_def sh_InvalidBatchEntryId_def sh_InvalidIdFormat_def
  sh_InvalidMessageContents_def sh_InvalidSecurity_def sh_KmsAccessDenied_def
  sh_KmsDisabled_def sh_KmsInvalidKeyUsage_def sh_KmsInvalidState_def sh_KmsNotFound_def
  sh_KmsOptInRequired_def sh_KmsThrottled_def sh_ListDeadLetterSourceQueuesRequest_def
  sh_ListDeadLetterSourceQueuesResult_def sh_ListMessageMoveTasksRequest_def
  sh_ListMessageMoveTasksResult_def sh_ListMessageMoveTasksResultEntry_def
  sh_ListMessageMoveTasksResultEntryList_def sh_ListQueueTagsRequest_def
  sh_ListQueueTagsResult_def sh_ListQueuesRequest_def sh_ListQueuesResult_def sh_Long_def
  sh_Message_def sh_MessageAttributeName_def sh_MessageAttributeNameList_def
  sh_MessageAttributeValue_def sh_MessageBodyAttributeMap_def
  sh_MessageBodySystemAttributeMap_def sh_MessageList_def sh_MessageNotInflight_def
  sh_MessageSystemAttributeList_def sh_MessageSystemAttributeMap_def
  sh_MessageSystemAttributeName_def sh_MessageSystemAttributeNameForSends_def
  sh_MessageSystemAttributeValue_def sh_NullableInteger_def sh_NullableLong_def
  sh_OverLimit_def sh_PurgeQueueInProgress_def sh_PurgeQueueRequest_def
  sh_QueueAttributeMap_def sh_QueueAttributeName_def sh_QueueDeletedRecently_def
  sh_QueueDoesNotExist_def sh_QueueNameExists_def sh_QueueUrlList_def
  sh_ReceiptHandleIsInvalid_def sh_ReceiveMessageRequest_def sh_ReceiveMessageResult_def
  sh_RemovePermissionRequest_def sh_RequestThrottled_def sh_ResourceNotFoundException_def
  sh_SendMessageBatchRequest_def sh_SendMessageBatchRequestEntry_def
  sh_SendMessageBatchRequestEntryList_def sh_SendMessageBatchResult_def
  sh_SendMessageBatchResultEntry_def sh_SendMessageBatchResultEntryList_def
  sh_SendMessageRequest_def sh_SendMessageResult_def sh_SetQueueAttributesRequest_def
  sh_StartMessageMoveTaskRequest_def sh_StartMessageMoveTaskResult_def sh_String_def
  sh_StringList_def sh_TagKey_def sh_TagKeyList_def sh_TagMap_def sh_TagQueueRequest_def
  sh_TagValue_def sh_Token_def sh_TooManyEntriesInBatchRequest_def sh_UnsupportedOperation_def
  sh_UntagQueueRequest_def

lemma Default_fits:
  assumes "(name, op) \<in> set Default_Operations"
  shows "(op_InputShape op \<noteq> [] \<longrightarrow> fits (Suc (Suc (Suc (Suc (Suc (Suc (Suc 0))))))) Default (op_InputShape op))
    \<and> (op_OutputShape op \<noteq> [] \<longrightarrow> fits (Suc (Suc (Suc (Suc (Suc (Suc (Suc 0))))))) Default (op_OutputShape op))"
  using assms unfolding Default_Operations_def
  by (simp only: list.set insert_iff empty_iff prod.inject) (elim disjE conjE FalseE; simp add: operation_simps)

lemma Default_requests:
  assumes "(name, op) \<in> set Default_Operations" and "op_InputShape op \<noteq> []"
  shows "\<exists>s. Shape Default (op_InputShape op) = Some s \<and> sh_Type s = ''structure''"
  using assms unfolding Default_Operations_def
  by (simp only: list.set insert_iff empty_iff prod.inject)
    (elim disjE conjE FalseE; simp add: operation_simps shape_simps sh_AddPermissionRequest_def
    sh_CancelMessageMoveTaskRequest_def sh_ChangeMessageVisibilityRequest_def
    sh_ChangeMessageVisibilityBatchRequest_def sh_CreateQueueRequest_def
    sh_DeleteMessageRequest_def sh_DeleteMessageBatchRequest_def sh_DeleteQueueRequest_def
    sh_GetQueueAttributesRequest_def sh_GetQueueUrlRequest_def
    sh_ListDeadLetterSourceQueuesRequest_def sh_ListMessageMoveTasksRequest_def
    sh_ListQueueTagsRequest_def sh_ListQueuesRequest_def sh_PurgeQueueRequest_def
    sh_ReceiveMessageRequest_def sh_RemovePermissionRequest_def sh_SendMessageRequest_def
    sh_SendMessageBatchRequest_def sh_SetQueueAttributesRequest_def
    sh_StartMessageMoveTaskRequest_def sh_TagQueueRequest_def sh_UntagQueueRequest_def)

lemma Default_responses:
  assumes "(name, op) \<in> set Default_Operations" and "op_OutputShape op \<noteq> []"
  shows "\<exists>s. Shape Default (op_OutputShape op) = Some s \<and> sh_Type s = ''structure''"
  using assms unfolding Default_Operations_def
  by (simp only: list.set insert_iff empty_iff prod.inject)
    (elim disjE conjE FalseE; simp add: operation_simps shape_simps sh_CancelMessageMoveTaskResult_def
    sh_ChangeMessageVisibilityBatchResult_def sh_CreateQueueResult_def
    sh_DeleteMessageBatchResult_def sh_GetQueueAttributesResult_def sh_GetQueueUrlResult_def
    sh_ListDeadLetterSourceQueuesResult_def sh_ListMessageMoveTasksResult_def
    sh_ListQueueTagsResult_def sh_ListQueuesResult_def sh_ReceiveMessageResult_def
    sh_SendMessageResult_def sh_SendMessageBatchResult_def sh_StartMessageMoveTaskResult_def)

lemma Operation_cases: "Operation Default name = Some op \<Longrightarrow> (name, op) \<in> set Default_Operations"
  by (simp add: Operation_def Default_def map_of_SomeD)

end
