(* ===== verification/DecodeTotal.thy ===== *)
theory DecodeTotal
  imports QueryDecode RegistryFacts
begin

text \<open>
  Decoding a query request ends and never panics: the registry of SQS names only shapes that it
  has, and nests them at most \<open>default_fuel\<close> deep.
\<close>

definition default_fuel :: nat where
  "default_fuel = 7"

text \<open>A decoding that ends without a panic.\<close>

definition settled :: "'a decoding \<Rightarrow> bool" where
  "settled m \<longleftrightarrow> (case m of None \<Rightarrow> False | Some (Inl (EPanic _)) \<Rightarrow> False | Some _ \<Rightarrow> True)"

named_theorems settled \<open>decodings that end without a panic\<close>

lemma settled_decoded [settled]: "settled (decoded x)"
  by (simp add: settled_def)

lemma settled_dbind [settled]: "settled m \<Longrightarrow> (\<And>x. settled (f x)) \<Longrightarrow> settled (dbind m f)"
  by (cases m; cases "the m"; cases "projl (the m)") (simp_all add: settled_def dbind_def)

lemma settled_dfold: "(\<And>s x. x \<in> set xs \<Longrightarrow> settled (f s x)) \<Longrightarrow> settled (dfold f s xs)"
  by (induction xs arbitrary: s) (auto intro!: settled)

lemma settled_option [settled]:
  "settled m \<Longrightarrow> (\<And>x. settled (f x)) \<Longrightarrow> settled (case z of None \<Rightarrow> m | Some x \<Rightarrow> f x)"
  by (cases z) auto

lemma settled_primitive [settled]: "settled (Some (decodePrimitive s raw))"
  by (simp add: settled_def decodePrimitive_def split: option.split)

lemma settled_element [settled]: "Shape reg name \<noteq> None \<Longrightarrow> settled (element_primitive reg values name key)"
  unfolding element_primitive_def Let_def
  by (auto simp: MustShape_def dbind_def split: option.splits intro: settled) (auto simp: settled_def decodePrimitive_def split: option.split sum.split)

lemma fits_shape: "fits n reg name \<Longrightarrow> \<exists>s. Shape reg name = Some s"
  by (cases n) (auto simp: fits.simps(2) split: option.splits)

lemma settled_MustShape: "Shape reg name = Some s \<Longrightarrow> dbind (Some (MustShape reg name)) f = f s"
  by (simp add: MustShape_def dbind_def)

lemma settled_wire: "Shape reg (mb_Shape m) \<noteq> None \<Longrightarrow> settled (Some (memberWireName reg name m))"
  by (auto simp: settled_def memberWireName_def MustShape_def split: option.split)

lemma fits_structure:
  assumes "fits (Suc n) reg name" and "Shape reg name = Some s" and "sh_Type s = ''structure''"
    and "m \<in> set (sh_MemberOrder s)"
  shows "fits n reg (mb_Shape (member_of s m))"
  using assms by (auto simp: fits.simps(2) list_all_iff member_of_def split: option.splits)

lemma settled_decodeShape: "fits n reg name \<Longrightarrow> settled (decodeShape n reg values name pre parent)"
proof (induction n arbitrary: name pre parent)
  case (Suc n)
  obtain s where s: "Shape reg name = Some s" using fits_shape [OF Suc.prems] by blast
  consider "sh_Type s = ''structure''" | "sh_Type s = ''list''" | "sh_Type s = ''map''"
    | "sh_Type s \<notin> {''structure'', ''list'', ''map''}" by blast
  then show ?case
  proof cases
    case 1
    note fit = fits_structure [OF Suc.prems s 1]
    have shape: "m \<in> set (sh_MemberOrder s) \<Longrightarrow> Shape reg (mb_Shape (member_of s m)) \<noteq> None" for m
      using fits_shape [OF fit, of m] by auto
    show ?thesis
      unfolding decodeShape.simps settled_MustShape [OF s] if_P [OF 1] Let_def
      by (intro settled settled_dfold settled_wire Suc.IH fit shape) (auto intro: settled)
  next
    case 2
    with Suc.prems s obtain r where r: "sh_Member s = Some r" "fits n reg (sr_Shape r)"
      by (auto simp: fits.simps(2) split: option.splits)
    have "Shape reg (sr_Shape r) \<noteq> None" using fits_shape [OF r(2)] by auto
    with 2 show ?thesis
      unfolding decodeShape.simps settled_MustShape [OF s] Let_def
      by (auto simp: ref_shape_def r(1) dbind_def [of "Some (Inr _)"] intro!: settled settled_dfold Suc.IH r(2))
  next
    case 3
    with Suc.prems s obtain r where r: "sh_Value s = Some r" "fits n reg (sr_Shape r)"
      by (auto simp: fits.simps(2) split: option.splits)
    have "Shape reg (sr_Shape r) \<noteq> None" using fits_shape [OF r(2)] by auto
    with 3 show ?thesis
      unfolding decodeShape.simps settled_MustShape [OF s] Let_def
      by (auto simp: ref_shape_def r(1) dbind_def [of "Some (Inr _)"] intro!: settled settled_dfold Suc.IH r(2))
  next
    case 4
    then show ?thesis
      unfolding decodeShape.simps settled_MustShape [OF s] Let_def
      by (auto intro!: settled split: option.split list.split)
  qed
qed simp

lemma fits_more: "fits n reg name \<Longrightarrow> fits (Suc n) reg name"
proof (induction n arbitrary: name)
  case (Suc n)
  show ?case
    using Suc.prems unfolding fits.simps(2) [of n reg name]
    by (subst fits.simps(2)) (auto simp: list_all_iff split: option.splits intro: Suc.IH)
qed simp

lemma settled_DecodeRequest:
  "settled (query_DecodeRequest default_fuel Default r body)"
proof (cases "mergeValues (hr_RawQuery r) body")
  case (Some vs)
  show ?thesis
  proof (cases "Operation Default (values_get vs ''Action'')")
    case (Some op)
    note op = Operation_cases [OF Some]
    show ?thesis
    proof (cases "op_InputShape op = []")
      case False
      then obtain s where s: "Shape Default (op_InputShape op) = Some s" "sh_Type s = ''structure''"
        using Default_requests [OF op] by blast
      have "fits (Suc 6) Default (op_InputShape op)"
        using Default_fits [OF op] False by (simp add: numeral_eq_Suc)
      note fit = fits_structure [OF this s]
      have shape: "m \<in> set (sh_MemberOrder s) \<Longrightarrow> Shape Default (mb_Shape (member_of s m)) \<noteq> None" for m
        using fits_shape [OF fit, of m] by auto
      have fuel: "default_fuel = Suc 6" by (simp add: default_fuel_def)
      have "settled (dbind (dfold (\<lambda>input memberName.
          dbind (Some (memberWireName Default memberName (member_of s memberName))) (\<lambda>pre.
          dbind (decodeShape default_fuel Default vs (mb_Shape (member_of s memberName)) pre memberName) (\<lambda>v.
          decoded (case v of None \<Rightarrow> input | Some x \<Rightarrow> mput input memberName x)))) [] (sh_MemberOrder s))
        (\<lambda>input. decoded (values_get vs ''Action'', input)))"
        unfolding fuel by (intro settled settled_dfold settled_wire settled_decodeShape fits_more fit shape)
      with False Some \<open>mergeValues _ _ = _\<close> show ?thesis
        by (simp add: query_DecodeRequest_def settled_MustShape [OF s(1)] Let_def) (simp add: settled_def)
    qed (use Some \<open>mergeValues _ _ = _\<close> in \<open>simp add: query_DecodeRequest_def settled_def Let_def\<close>)
  qed (use Some in \<open>simp add: query_DecodeRequest_def settled_def Let_def\<close>)
qed (simp add: query_DecodeRequest_def settled_def)

lemma dbind_Inr: "dbind m f = Some (Inr y) \<longleftrightarrow> (\<exists>x. m = Some (Inr x) \<and> f x = Some (Inr y))"
  by (simp add: dbind_def split: option.splits sum.splits)

lemma decoded_operation:
  "query_DecodeRequest fuel reg r body = Some (Inr (action, input)) \<Longrightarrow> Operation reg action \<noteq> None"
  by (auto simp: query_DecodeRequest_def Let_def dbind_Inr split: option.splits if_splits)

text \<open>
  C14. A query request is decoded in a bounded number of steps to an operation of the registry with
  its input, or to an error, whatever its parameters: the decoder neither runs on nor panics,
  so no name is looked up that the registry does not have.
\<close>

theorem query_decoding_total:
  "case query_DecodeRequest default_fuel Default r body of
     None \<Rightarrow> False
   | Some (Inl (EPanic _)) \<Rightarrow> False
   | Some (Inl _) \<Rightarrow> True
   | Some (Inr (action, input)) \<Rightarrow> Operation Default action \<noteq> None"
proof (cases "query_DecodeRequest default_fuel Default r body")
  case (Some x)
  then show ?thesis
    using settled_DecodeRequest [of r body] decoded_operation [of default_fuel Default r body]
    by (auto simp: settled_def split: sum.splits goerr.splits)
qed (use settled_DecodeRequest [of r body] in \<open>simp add: settled_def\<close>)

end
