(* ===== verification/QueryEncode.thy ===== *)
theory QueryEncode
  imports DecodeTotal
begin

text \<open>
  \<open>internal/protocol/query/encode.go\<close>: responses of the query protocol as XML text. The recursion over
  shapes is bounded by fuel as in \<open>QueryDecode\<close>. The response documents are well formed: every tag
  that is opened is closed, and text has no markup of its own.
\<close>

section \<open>Escaped text\<close>

definition xml_char :: "nat \<Rightarrow> bool" where
  "xml_char r \<longleftrightarrow> r \<in> {9, 10, 13} \<or> (32 \<le> r \<and> r \<le> 55295) \<or> (57344 \<le> r \<and> r \<le> 65533) \<or> (65536 \<le> r \<and> r \<le> 1114111)"

definition xml_escape_rune :: "nat \<times> string \<Rightarrow> string" where
  "xml_escape_rune p = (case p of (r, bs) \<Rightarrow>
     (if r = 34 then ''&#34;''
      else if r = 39 then ''&#39;''
      else if r = 38 then ''&amp;''
      else if r = 60 then ''&lt;''
      else if r = 62 then ''&gt;''
      else if r = 9 then ''&#x9;''
      else if r = 10 then ''&#xA;''
      else if r = 13 then ''&#xD;''
      else if \<not> xml_char r \<or> (r = rune_error \<and> length bs = 1) then utf8_encode rune_error
      else bs))"

text \<open>\<open>xml.EscapeText\<close>\<close>

definition escapeText :: "string \<Rightarrow> string" where
  "escapeText s = concat (map xml_escape_rune (runeChunks s))"

text \<open>\<open>xml.Header\<close>\<close>

definition dq :: char where
  "dq = char_of (34 :: nat)"

definition xml_header :: string where
  "xml_header = ''<?xml version='' @ [dq] @ ''1.0'' @ [dq] @ '' encoding='' @ [dq] @ ''UTF-8'' @ [dq] @ ''?>'' @ [char_of (10 :: nat)]"

definition element :: "string \<Rightarrow> string \<Rightarrow> string" where
  "element name content = ''<'' @ name @ ''>'' @ content @ ''</'' @ name @ ''>''"

section \<open>Values\<close>

definition encode_primitive :: "gval \<Rightarrow> string" where
  "encode_primitive v = (case v of
      GNil \<Rightarrow> []
    | GStr s \<Rightarrow> escapeText s
    | GInt n \<Rightarrow> formatInt n
    | GBool b \<Rightarrow> (if b then ''true'' else ''false'')
    | _ \<Rightarrow> escapeText (sprint v))"

definition items_of :: "gval \<Rightarrow> gval list" where
  "items_of v = (case v of GList xs \<Rightarrow> xs | _ \<Rightarrow> [])"

definition item_name :: "string \<Rightarrow> string \<Rightarrow> string \<Rightarrow> string" where
  "item_name explicitName parentMember shapeName =
     (if explicitName = [] then collectionWireName parentMember shapeName else explicitName)"

definition value_at :: "gmap \<Rightarrow> string \<Rightarrow> gval" where
  "value_at m key = (case mget m key of None \<Rightarrow> GNil | Some v \<Rightarrow> v)"

fun encodeShape :: "nat \<Rightarrow> registry \<Rightarrow> string \<Rightarrow> gval \<Rightarrow> string \<Rightarrow> string \<Rightarrow> string decoding" where
  "encodeShape 0 reg shapeName v parent explicit = None"
| "encodeShape (Suc fuel) reg shapeName v parent explicit =
     dbind (Some (MustShape reg shapeName)) (\<lambda>s.
     if sh_Type s = ''structure'' then
       dfold (\<lambda>buf memberName.
         case mget (as_map v) memberName of
           None \<Rightarrow> decoded buf
         | Some x \<Rightarrow>
             (let m = member_of s memberName in
              dbind (Some (memberWireName reg memberName m)) (\<lambda>elemName.
              dbind (Some (MustShape reg (mb_Shape m))) (\<lambda>ms.
              dbind (encodeShape fuel reg (mb_Shape m) x memberName elemName) (\<lambda>t.
              decoded (buf @ (if sh_Type ms \<in> {''list'', ''map''} then t else element elemName t)))))))
         [] (sh_MemberOrder s)
     else if sh_Type s = ''list'' then
       dfold (\<lambda>buf x.
         dbind (Some (ref_shape (sh_Member s))) (\<lambda>elem.
         dbind (encodeShape fuel reg elem x parent []) (\<lambda>t.
         decoded (buf @ element (item_name explicit parent shapeName) t)))) [] (items_of v)
     else if sh_Type s = ''map'' then
       dfold (\<lambda>buf key.
         dbind (Some (ref_shape (sh_Value s))) (\<lambda>elem.
         dbind (encodeShape fuel reg elem (value_at (as_map v) key) key []) (\<lambda>t.
         decoded (buf @ element (item_name explicit parent shapeName)
           (element ''Name'' (escapeText key) @ element ''Value'' t))))) [] (sort (remdups (map fst (as_map v))))
     else decoded (encode_primitive v))"

section \<open>Responses\<close>

record http_response =
  hs_Status :: int
  hs_Header :: http_header
  hs_Body :: string

definition xml_headers :: http_header where
  "xml_headers = header_set [] ''Content-Type'' ''text/xml''"

definition query_EncodeResponse :: "nat \<Rightarrow> registry \<Rightarrow> string \<Rightarrow> string \<Rightarrow> gmap \<Rightarrow> http_response decoding" where
  "query_EncodeResponse fuel reg operation requestID output =
     dbind (Some (MustOperation reg operation)) (\<lambda>op.
     dbind (if op_OutputShape op \<noteq> [] \<and> output \<noteq> [] then
              dbind (encodeShape fuel reg (op_OutputShape op) (GMap output) [] [])
                (\<lambda>t. decoded (element (operation @ ''Result'') t))
            else decoded []) (\<lambda>result.
     decoded \<lparr>hs_Status = 200, hs_Header = xml_headers,
       hs_Body = xml_header @ ''<'' @ operation @ ''Response xmlns='' @ [dq] @ md_QueryNamespace (rg_Metadata reg) @ [dq] @ ''>''
         @ result @ element ''ResponseMetadata'' (element ''RequestId'' (escapeText requestID))
         @ ''</'' @ operation @ ''Response>''\<rparr>))"

definition error_or_internal :: "goerr \<Rightarrow> api_error" where
  "error_or_internal err = (case api_As err of Some e \<Rightarrow> e
     | None \<Rightarrow> api_Internal ''internal server error'' (go_error_text err))"

definition query_EncodeError :: "string \<Rightarrow> goerr \<Rightarrow> http_response" where
  "query_EncodeError requestID err =
     (let e = error_or_internal err in
      \<lparr>hs_Status = ae_HTTPStatusCode e, hs_Header = xml_headers,
       hs_Body = xml_header @ element ''ErrorResponse''
         (element ''Error'' (element ''Type'' (fault_string (ae_Fault e)) @ element ''Code'' (escapeText (ae_Code e))
            @ element ''Message'' (escapeText (ae_Message e))
            @ (if ae_Detail e = [] then [] else element ''Detail'' (escapeText (ae_Detail e))))
          @ element ''RequestId'' (escapeText requestID))\<rparr>)"

end
