(* ===== verification/JsonCodec.thy ===== *)
theory JsonCodec
  imports QueryEncode
begin

text \<open>
  \<open>internal/protocol/json/codec.go\<close>: requests and responses of the JSON protocol. Numbers of a request
  are kept as text until \<open>normalizeNumbers\<close> makes them integers where they fit. Marshalling the
  values that handlers answer with does not fail.
\<close>

fun normalizeNumbers :: "gval \<Rightarrow> gval" where
  "normalizeNumbers (GMap m) = GMap (map (\<lambda>(k, v). (k, normalizeNumbers v)) m)"
| "normalizeNumbers (GList vs) = GList (map normalizeNumbers vs)"
| "normalizeNumbers (GNum lit) =
     (case parseInt lit of
        Some n \<Rightarrow> GInt n
      | None \<Rightarrow> (case Option.bind (json_number lit) (\<lambda>(l, _, _). parse_float l) of
            Some v \<Rightarrow> v
          | None \<Rightarrow> GStr lit))"
| "normalizeNumbers v = v"

definition json_DecodeRequest :: "registry \<Rightarrow> http_request \<Rightarrow> string \<Rightarrow> goerr + string \<times> gmap" where
  "json_DecodeRequest reg r body =
     (let target = header_get (hr_Header r) ''X-Amz-Target''
      in case ActionFromTarget reg target of (action, found) \<Rightarrow>
        if \<not> found then Inl (EApi (WithCause ErrUnsupportedOperation (''unknown target '' @ target)))
        else if trimSpace body = [] then Inr (action, [])
        else (case json_decode_map body of
            None \<Rightarrow> Inl (EApi (WithCause (api_New ''MalformedInput'' 400 ''The request body could not be parsed.'') ''json''))
          | Some payload \<Rightarrow> Inr (action, map (\<lambda>(k, v). (k, normalizeNumbers v)) payload)))"

definition json_headers :: "string \<Rightarrow> http_header" where
  "json_headers requestID =
     header_set (header_set [] ''Content-Type'' ''application/x-amz-json-1.0'') ''x-amzn-RequestId'' requestID"

definition json_EncodeResponse :: "registry \<Rightarrow> string \<Rightarrow> string \<Rightarrow> gmap \<Rightarrow> goerr + http_response" where
  "json_EncodeResponse reg operation requestID output =
     (case MustOperation reg operation of
        Inl e \<Rightarrow> Inl e
      | Inr op \<Rightarrow> Inr \<lparr>hs_Status = 200, hs_Header = json_headers requestID,
          hs_Body = (if op_OutputShape op = [] \<or> output = [] then [] else json_marshal (GMap output))\<rparr>)"

definition json_EncodeError :: "string \<Rightarrow> goerr \<Rightarrow> http_response" where
  "json_EncodeError requestID err =
     (let e = error_or_internal err
      in \<lparr>hs_Status = ae_HTTPStatusCode e,
          hs_Header = header_set (json_headers requestID) ''x-amzn-query-error'' (ae_QueryErrorCode e),
          hs_Body = json_marshal (GMap [(''__type'', GStr (''com.amazonaws.sqs#'' @ ae_Code e)),
            (''message'', GStr (ae_Message e))])\<rparr>)"

end
