(* ===== verification/MessageAttrs.thy ===== *)
theory MessageAttrs
  imports QueueAttrs
begin

text \<open>
  The pure functions of \<open>internal/service/messages.go\<close> on message bodies, attributes and
  batches: validation and normalisation, the MD5 digests of the responses, the selection of
  attributes for a receiver, batch entries, receipt handles and sequence numbers.
\<close>

section \<open>Names and characters\<close>

text \<open>\<open>^[A-Za-z0-9_.-]{1,256}$\<close>\<close>

definition attrNameMatches :: "string \<Rightarrow> bool" where
  "attrNameMatches s \<longleftrightarrow> chars_between (\<lambda>c. word_char c \<or> c = CHR ''.'') 1 256 s"

definition validateMessageAttributeName :: "string \<Rightarrow> bool \<Rightarrow> goerr option" where
  "validateMessageAttributeName name system =
     (if \<not> attrNameMatches name then
        Some (invalidParameter ''Value for parameter MessageAttributes is invalid. Reason: attribute names may only contain alphanumeric characters, hyphens, underscores, and periods.'')
      else if prefix ''aws.'' (map ascii_lower name) \<or> prefix ''amazon.'' (map ascii_lower name) then
        Some (invalidParameter ''Value for parameter MessageAttributes is invalid. Reason: attribute names may not start with AWS. or Amazon.'')
      else if prefix ''.'' name \<or> suffix ''.'' name \<or> sublist ''..'' name then
        Some (invalidParameter ''Value for parameter MessageAttributes is invalid. Reason: attribute names must not start or end with a period and may not contain consecutive periods.'')
      else if system \<and> name \<noteq> ''AWSTraceHeader'' then
        Some (invalidParameter ''Value for parameter MessageSystemAttributes is invalid. Reason: only AWSTraceHeader is supported.'')
      else None)"

text \<open>The ranges of \<open>validateMessageCharacters\<close>, on the runes of the body.\<close>

definition rune_allowed :: "nat \<Rightarrow> bool" where
  "rune_allowed r \<longleftrightarrow> r = 0x9 \<or> r = 0xA \<or> r = 0xD \<or> (0x20 \<le> r \<and> r \<le> 0xD7FF)
     \<or> (0xE000 \<le> r \<and> r \<le> 0xFFFD) \<or> (0x10000 \<le> r \<and> r \<le> 0x10FFFF)"

definition validateMessageCharacters :: "string \<Rightarrow> goerr option" where
  "validateMessageCharacters body =
     (if list_all rune_allowed (runes body) then None else Some (EApi ErrInvalidMessageContents))"

definition validateMessageBody :: "string \<Rightarrow> int \<Rightarrow> goerr option" where
  "validateMessageBody body maxBytes =
     (if body = [] then
        Some (invalidParameter ''Value for parameter MessageBody is invalid. Reason: message body must not be empty.'')
      else if int (length body) > maxBytes then
        Some (invalidParameter ''One or more parameters are invalid. Reason: Message must be shorter than the maximum allowed size.'')
      else validateMessageCharacters body)"

section \<open>Normalising attributes\<close>

definition decodeBinaryValue :: "string \<Rightarrow> string option" where
  "decodeBinaryValue raw =
     (case b64_decode b64_std True raw of
        Some decoded \<Rightarrow> Some decoded
      | None \<Rightarrow> b64_decode b64_std False raw)"

text \<open>The \<open>switch\<close> on the data type: the field that carries the content, and the content.\<close>

definition attribute_content :: "gmap \<Rightarrow> string \<Rightarrow> goerr + string \<times> string" where
  "attribute_content value dataType =
     (if prefix ''Binary'' dataType then
       (let rawBinary = stringValue value ''BinaryValue'' in
        if rawBinary = [] then
          Inl (invalidParameter ''Value for parameter MessageAttributes is invalid. Reason: BinaryValue is required.'')
        else if decodeBinaryValue rawBinary = None then
          Inl (EApi (WithCause (api_New ''InvalidParameterValue'' 400 ''Value for parameter MessageAttributes is invalid. Reason: BinaryValue must be valid base64.'')
            ''invalid base64 value''))
        else Inr (''BinaryValue'', rawBinary))
      else
       (let rawString = stringValue value ''StringValue'' in
        if rawString = [] then
          Inl (invalidParameter ''Value for parameter MessageAttributes is invalid. Reason: StringValue is required.'')
        else (case validateMessageCharacters rawString of
            Some e \<Rightarrow> Inl e
          | None \<Rightarrow> Inr (''StringValue'', rawString))))"

text \<open>
  The body of the loop of \<open>normalizeMessageAttributeMap\<close>: the normalized attribute and what it
  adds to the size.
\<close>

definition normalize_structure :: "bool \<Rightarrow> string \<Rightarrow> gmap \<Rightarrow> goerr + gmap \<times> nat" where
  "normalize_structure system name value =
     (let dataType = stringValue value ''DataType'' in
      if dataType = [] then
        Inl (invalidParameter ''Value for parameter MessageAttributes is invalid. Reason: DataType is required.'')
      else if anySliceValue value ''StringListValues'' \<noteq> [] then
        Inl (invalidParameter ''Value for parameter MessageAttributes is invalid. Reason: StringListValues is not implemented.'')
      else if anySliceValue value ''BinaryListValues'' \<noteq> [] then
        Inl (invalidParameter ''Value for parameter MessageAttributes is invalid. Reason: BinaryListValues is not implemented.'')
      else
        (case attribute_content value dataType of
           Inl e \<Rightarrow> Inl e
         | Inr (field, content) \<Rightarrow>
             if system \<and> name \<noteq> ''AWSTraceHeader'' then
               Inl (invalidParameter ''Value for parameter MessageSystemAttributes is invalid. Reason: only AWSTraceHeader is supported.'')
             else if system \<and> \<not> prefix ''String'' dataType then
               Inl (invalidParameter ''Value for parameter MessageSystemAttributes is invalid. Reason: AWSTraceHeader must use the String data type.'')
             else Inr ([(''DataType'', GStr dataType), (field, GStr content)],
                       length name + length dataType + length content)))"

definition normalize_attribute :: "bool \<Rightarrow> string \<Rightarrow> gval \<Rightarrow> goerr + gmap \<times> nat" where
  "normalize_attribute system name raw =
     (case validateMessageAttributeName name system of
        Some e \<Rightarrow> Inl e
      | None \<Rightarrow>
          (case raw of
             GMap value \<Rightarrow> normalize_structure system name value
           | _ \<Rightarrow> Inl (invalidParameter ''Value for parameter MessageAttributes is invalid. Reason: message attribute value must be a structure.'')))"

text \<open>The loop, over the names in their order, with the map built so far and its size.\<close>

fun normalize_loop :: "bool \<Rightarrow> gmap \<Rightarrow> string list \<Rightarrow> gmap \<Rightarrow> nat \<Rightarrow> goerr + gmap \<times> nat" where
  "normalize_loop system raw [] out sz = Inr (out, sz)"
| "normalize_loop system raw (name # names) out sz =
     (case normalize_attribute system name (case mget raw name of Some v \<Rightarrow> v | None \<Rightarrow> GNil) of
        Inl e \<Rightarrow> Inl e
      | Inr (normalized, n) \<Rightarrow>
          normalize_loop system raw names (mput out name (GMap normalized)) (sz + n))"

definition normalizeMessageAttributeMap :: "gmap \<Rightarrow> bool \<Rightarrow> goerr + gmap \<times> nat" where
  "normalizeMessageAttributeMap raw system =
     (if raw = [] then Inr ([], 0)
      else if length raw > 10 \<and> \<not> system then
        Inl (invalidParameter ''Value for parameter MessageAttributes is invalid. Reason: a maximum of 10 message attributes is allowed.'')
      else normalize_loop system raw (sort (map fst raw)) [] 0)"

definition estimateMessageSize :: "string \<Rightarrow> gmap \<Rightarrow> nat" where
  "estimateMessageSize body attrs =
     length body + sum_list (map (\<lambda>(name, raw). length name + length (stringValue (as_map raw) ''DataType'')
       + length (stringValue (as_map raw) ''StringValue'') + length (stringValue (as_map raw) ''BinaryValue'')) attrs)"

section \<open>Digests\<close>

definition md5Hex :: "string \<Rightarrow> string" where
  "md5Hex value = hexEncode (md5 value)"

text \<open>The bytes that \<open>writeWithLength\<close> appends.\<close>

definition writeWithLength :: "string \<Rightarrow> string" where
  "writeWithLength value = be32 (length value mod 2 ^ 32) @ value"

text \<open>The bytes of one attribute in the buffer of \<open>md5OfAttributeMap\<close>.\<close>

definition attribute_bytes :: "string \<Rightarrow> gval \<Rightarrow> string + string" where
  "attribute_bytes name raw =
     (case raw of
        GMap value \<Rightarrow>
          (let dataType = stringValue value ''DataType'';
               head = writeWithLength name @ writeWithLength dataType
           in if prefix ''Binary'' dataType then
                (case decodeBinaryValue (stringValue value ''BinaryValue'') of
                   None \<Rightarrow> Inl ''invalid base64 value''
                 | Some decoded \<Rightarrow> Inr (head @ [char_of (2::nat)] @ writeWithLength decoded))
              else Inr (head @ [char_of (1::nat)] @ writeWithLength (stringValue value ''StringValue'')))
      | _ \<Rightarrow> Inl (''attribute '' @ name @ '' is not a structure''))"

fun attribute_buffer :: "gmap \<Rightarrow> string list \<Rightarrow> string + string" where
  "attribute_buffer attrs [] = Inr []"
| "attribute_buffer attrs (name # names) =
     (case attribute_bytes name (case mget attrs name of Some v \<Rightarrow> v | None \<Rightarrow> GNil) of
        Inl e \<Rightarrow> Inl e
      | Inr bs \<Rightarrow> (case attribute_buffer attrs names of Inl e \<Rightarrow> Inl e | Inr rest \<Rightarrow> Inr (bs @ rest)))"

definition md5OfAttributeMap :: "gmap \<Rightarrow> string + string" where
  "md5OfAttributeMap attrs =
     (case attribute_buffer attrs (sort (map fst attrs)) of
        Inl e \<Rightarrow> Inl e
      | Inr buf \<Rightarrow> Inr (md5Hex buf))"

section \<open>What a receiver sees of a message\<close>

definition containsWildcard :: "string list \<Rightarrow> string \<Rightarrow> bool" where
  "containsWildcard values needle \<longleftrightarrow> needle \<in> set values"

definition matchesAttributeSelector :: "string \<Rightarrow> string list \<Rightarrow> bool" where
  "matchesAttributeSelector name selectors \<longleftrightarrow>
     list_ex (\<lambda>selector. selector = name
       \<or> (suffix ''.*'' selector \<and> prefix (trimSuffix selector ''*'') name)) selectors"

definition filterMessageAttributes :: "gmap \<Rightarrow> string list \<Rightarrow> gmap" where
  "filterMessageAttributes attrs names =
     (if attrs = [] \<or> names = [] then []
      else filter (\<lambda>(key, _). containsWildcard names ''All'' \<or> containsWildcard names ''.*''
             \<or> matchesAttributeSelector key names) attrs)"

fun pick_strings :: "strmap \<Rightarrow> string list \<Rightarrow> strmap \<Rightarrow> strmap" where
  "pick_strings values [] out = out"
| "pick_strings values (name # names) out =
     pick_strings values names
       (case mget values name of Some value \<Rightarrow> mput out name value | None \<Rightarrow> out)"

definition filterStringMap :: "strmap \<Rightarrow> string list \<Rightarrow> strmap" where
  "filterStringMap values names =
     (if values = [] \<or> names = [] then []
      else if containsWildcard names ''All'' then mcopy [] values
      else pick_strings values names [])"

definition buildSystemAttributes :: "message \<Rightarrow> strmap" where
  "buildSystemAttributes m =
     [(''SentTimestamp'', formatInt (unixMilli (m_SentAt m))),
      (''ApproximateReceiveCount'', formatInt (m_ReceiveCount m)), (''SenderId'', ''AIDALOCALTEST'')]
     @ (case m_FirstReceivedAt m of None \<Rightarrow> []
        | Some t \<Rightarrow> [(''ApproximateFirstReceiveTimestamp'', formatInt (unixMilli t))])
     @ (if m_SequenceNumber m = [] then [] else [(''SequenceNumber'', m_SequenceNumber m)])
     @ (if m_GroupID m = [] then [] else [(''MessageGroupId'', m_GroupID m)])
     @ (if m_DedupID m = [] then [] else [(''MessageDeduplicationId'', m_DedupID m)])
     @ (if m_DeadLetterSourceARN m = [] then []
        else [(''DeadLetterQueueSourceArn'', m_DeadLetterSourceARN m)])
     @ (case mget (m_SystemAttributes m) ''AWSTraceHeader'' of
          Some (GMap attr) \<Rightarrow>
            (if stringValue attr ''StringValue'' = [] then []
             else [(''AWSTraceHeader'', stringValue attr ''StringValue'')])
        | _ \<Rightarrow> [])"

fun dedup_from :: "string list \<Rightarrow> string list \<Rightarrow> string list" where
  "dedup_from seen [] = []"
| "dedup_from seen (v # vs) =
     (if v \<in> set seen then dedup_from seen vs else v # dedup_from (v # seen) vs)"

definition unionStringSets :: "string list \<Rightarrow> string list \<Rightarrow> string list" where
  "unionStringSets left right = (if left = [] then right else dedup_from [] (left @ right))"

section \<open>Batches\<close>

definition batchFailure :: "string \<Rightarrow> goerr \<Rightarrow> gmap" where
  "batchFailure i err =
     (let apiErr = (case api_As err of Some e \<Rightarrow> e
                    | None \<Rightarrow> api_Internal ''internal server error'' (go_error_text err))
      in [(''Id'', GStr i), (''Code'', GStr (ae_Code apiErr)), (''Message'', GStr (ae_Message apiErr)),
          (''SenderFault'', GBool (ae_Fault apiErr = SenderFault))])"

fun batch_entries :: "string list \<Rightarrow> gval list \<Rightarrow> goerr + gmap list" where
  "batch_entries seen [] = Inr []"
| "batch_entries seen (raw # raws) =
     (case raw of
        GMap entry \<Rightarrow>
          (let i = stringValue entry ''Id'' in
           if \<not> batchEntryIDMatches i then Inl (EApi ErrInvalidBatchEntryID)
           else if i \<in> set seen then Inl (EApi ErrBatchEntryIDsNotDistinct)
           else (case batch_entries (i # seen) raws of
               Inl e \<Rightarrow> Inl e
             | Inr out \<Rightarrow> Inr (entry # out)))
      | _ \<Rightarrow> Inl (EApi ErrInvalidBatchEntryID))"

definition validateBatchRequestEntries :: "gval list \<Rightarrow> goerr + gmap list" where
  "validateBatchRequestEntries entries =
     (if entries = [] then Inl (EApi ErrEmptyBatchRequest)
      else if length entries > 10 then Inl (EApi ErrTooManyEntriesInBatch)
      else batch_entries [] entries)"

section \<open>Handles and sequence numbers\<close>

definition uint64_bytes :: "int \<Rightarrow> string" where
  "uint64_bytes n = be64 (nat (n mod 2 ^ 64))"

definition newReceiptHandle :: "int \<Rightarrow> int \<Rightarrow> (world, 'e, string) prog" where
  "newReceiptHandle queueID messageRowID =
     bindE (randRead 8) (\<lambda>r.
     bindE (case r of Some bs \<Rightarrow> ok bs | None \<Rightarrow> bindE newUUID (\<lambda>u. ok (take 8 u))) (\<lambda>salt.
     ok (rawURLEncode (uint64_bytes queueID @ uint64_bytes messageRowID @ salt))))"

definition newSequenceNumber :: "(world, 'e, string) prog" where
  "newSequenceNumber =
     bindE (randRead 16) (\<lambda>r. case r of
         Some bs \<Rightarrow> ok (formatInt (int (be_value bs)))
       | None \<Rightarrow> bindE nowE (\<lambda>t. ok (formatInt (wrap64 t))))"

section \<open>Normalized attributes\<close>

lemma mput_fresh: "k \<notin> fst ` set m \<Longrightarrow> mput m k v = m @ [(k, v)]"
  by (induction m) auto

text \<open>The value of a normalized attribute.\<close>

definition normal_attribute :: "gval \<Rightarrow> bool" where
  "normal_attribute v \<longleftrightarrow> (\<exists>dataType field content.
     v = GMap [(''DataType'', GStr dataType), (field, GStr content)] \<and> dataType \<noteq> [] \<and> content \<noteq> []
     \<and> (if prefix ''Binary'' dataType then field = ''BinaryValue'' \<and> decodeBinaryValue content \<noteq> None
        else field = ''StringValue'' \<and> validateMessageCharacters content = None))"

lemma attribute_content_ok:
  assumes "attribute_content value dataType = Inr (field, content)"
  shows "content \<noteq> [] \<and> (if prefix ''Binary'' dataType
    then field = ''BinaryValue'' \<and> decodeBinaryValue content \<noteq> None
    else field = ''StringValue'' \<and> validateMessageCharacters content = None)"
  using assms by (auto simp: attribute_content_def Let_def split: if_splits option.splits)

lemma normalize_structure_ok:
  assumes "normalize_structure system name value = Inr (normalized, n)"
  obtains dataType field content where
    "normalized = [(''DataType'', GStr dataType), (field, GStr content)]"
    "n = length name + length dataType + length content" "dataType \<noteq> []"
    "attribute_content value dataType = Inr (field, content)"
  using assms by (auto simp: normalize_structure_def Let_def split: if_splits sum.splits)

lemma normalize_attribute_ok:
  assumes "normalize_attribute system name raw = Inr (normalized, n)"
  shows "normal_attribute (GMap normalized) \<and> n = estimateMessageSize [] [(name, GMap normalized)]
    \<and> validateMessageAttributeName name system = None"
proof -
  from assms obtain va where v: "validateMessageAttributeName name system = None"
    and "normalize_structure system name va = Inr (normalized, n)"
    by (auto simp: normalize_attribute_def split: option.splits gval.splits)
  from this(2) obtain dataType field content where
    n: "normalized = [(''DataType'', GStr dataType), (field, GStr content)]"
      "n = length name + length dataType + length content" "dataType \<noteq> []"
    and c: "attribute_content va dataType = Inr (field, content)"
    by (rule normalize_structure_ok)
  note c = attribute_content_ok [OF c]
  then have "normal_attribute (GMap normalized)" using n by (auto simp: normal_attribute_def)
  moreover have "n = estimateMessageSize [] [(name, GMap normalized)]"
    using n c by (cases "prefix ''Binary'' dataType") (simp_all add: estimateMessageSize_def as_map_def)
  ultimately show ?thesis using v by blast
qed

lemma estimateMessageSize_append:
  "estimateMessageSize b (xs @ ys) = estimateMessageSize b xs + estimateMessageSize [] ys"
  by (simp add: estimateMessageSize_def)

lemma estimateMessageSize_body: "estimateMessageSize b xs = length b + estimateMessageSize [] xs"
  by (simp add: estimateMessageSize_def)

lemma normalize_loop_ok:
  assumes "normalize_loop system raw names out n = Inr (out', n')"
    and "distinct names" and "set names \<inter> fst ` set out = {}"
  shows "\<exists>new. out' = out @ new \<and> map fst new = names \<and> n' = n + estimateMessageSize [] new
    \<and> (\<forall>(k, v) \<in> set new. normal_attribute v \<and> validateMessageAttributeName k system = None)"
  using assms
proof (induction names arbitrary: out n)
  case Nil
  then show ?case by (simp add: estimateMessageSize_def)
next
  case (Cons name names)
  from Cons.prems(1) obtain normalized k where
    a: "normalize_attribute system name (case mget raw name of Some v \<Rightarrow> v | None \<Rightarrow> GNil) = Inr (normalized, k)"
    and l: "normalize_loop system raw names (out @ [(name, GMap normalized)]) (n + k) = Inr (out', n')"
    using Cons.prems(3) by (auto simp: mput_fresh split: sum.splits)
  have d: "distinct names" "set names \<inter> fst ` set (out @ [(name, GMap normalized)]) = {}"
    using Cons.prems(2,3) by auto
  from Cons.IH [OF l d] obtain new where
    new: "out' = (out @ [(name, GMap normalized)]) @ new" "map fst new = names"
      "n' = n + k + estimateMessageSize [] new"
      "\<forall>(k, v) \<in> set new. normal_attribute v \<and> validateMessageAttributeName k system = None"
    by blast
  have "n' = n + estimateMessageSize [] ((name, GMap normalized) # new)"
    using new(3) normalize_attribute_ok [OF a]
      estimateMessageSize_append [of "[]" "[(name, GMap normalized)]" new] by simp
  moreover have "\<forall>(k, v) \<in> set ((name, GMap normalized) # new).
      normal_attribute v \<and> validateMessageAttributeName k system = None"
    using new(4) normalize_attribute_ok [OF a] by simp
  ultimately show ?case
    using new(1,2) by (intro exI [of _ "(name, GMap normalized) # new"]) simp
qed

lemma normalizeMessageAttributeMap_ok:
  assumes "normalizeMessageAttributeMap raw system = Inr (out, n)" and "distinct (map fst raw)"
  shows "map fst out = sort (map fst raw) \<and> n = estimateMessageSize [] out
    \<and> (\<forall>(k, v) \<in> set out. normal_attribute v \<and> validateMessageAttributeName k system = None)"
proof (cases "raw = []")
  case True
  with assms show ?thesis by (simp add: normalizeMessageAttributeMap_def estimateMessageSize_def)
next
  case False
  with assms(1) have "normalize_loop system raw (sort (map fst raw)) [] 0 = Inr (out, n)"
    by (simp add: normalizeMessageAttributeMap_def split: if_splits)
  from normalize_loop_ok [OF this] assms(2) show ?thesis by auto
qed

section \<open>The digest of attributes\<close>

lemma normal_attribute_bytes:
  "normal_attribute v \<Longrightarrow> \<exists>bs. attribute_bytes name v = Inr bs"
  by (auto simp: normal_attribute_def attribute_bytes_def Let_def split: if_splits)

lemma attribute_buffer_total:
  assumes "\<And>n. n \<in> set names \<Longrightarrow> \<exists>v. mget attrs n = Some v \<and> normal_attribute v"
  shows "\<exists>buf. attribute_buffer attrs names = Inr buf"
  using assms
proof (induction names)
  case (Cons n names)
  then obtain v where v: "mget attrs n = Some v" "normal_attribute v" by auto
  obtain bs where bs: "attribute_bytes n v = Inr bs" using normal_attribute_bytes [OF v(2)] by blast
  obtain buf where "attribute_buffer attrs names = Inr buf" using Cons by auto
  then show ?case by (simp add: v bs)
qed simp

lemma md5OfAttributeMap_total:
  assumes "\<forall>(k, v) \<in> set attrs. normal_attribute v"
  shows "\<exists>d. md5OfAttributeMap attrs = Inr d"
proof -
  have "\<exists>v. mget attrs n = Some v \<and> normal_attribute v" if "n \<in> set (sort (map fst attrs))" for n
  proof -
    from that have "n \<in> fst ` set attrs" by simp
    then have "mget attrs n \<noteq> None" by (simp add: map_of_eq_None_iff)
    then obtain v where "mget attrs n = Some v" by blast
    with assms show ?thesis by (auto dest: map_of_SomeD)
  qed
  then obtain buf where "attribute_buffer attrs (sort (map fst attrs)) = Inr buf"
    using attribute_buffer_total by blast
  then show ?thesis by (simp add: md5OfAttributeMap_def)
qed

text \<open>What the digest of an attribute depends on.\<close>

definition attribute_view :: "string \<Rightarrow> gval \<Rightarrow> string \<times> string \<times> string" where
  "attribute_view name raw =
     (let value = as_map raw; dataType = stringValue value ''DataType''
      in (name, dataType,
          if prefix ''Binary'' dataType
          then (case decodeBinaryValue (stringValue value ''BinaryValue'') of Some d \<Rightarrow> d | None \<Rightarrow> [])
          else stringValue value ''StringValue''))"

definition short_view :: "string \<times> string \<times> string \<Rightarrow> bool" where
  "short_view v \<longleftrightarrow> length (fst v) < 2 ^ 32 \<and> length (fst (snd v)) < 2 ^ 32 \<and> length (snd (snd v)) < 2 ^ 32"

lemma writeWithLength_inj:
  assumes "writeWithLength v @ x = writeWithLength v' @ x'" and "length v < 2 ^ 32" and "length v' < 2 ^ 32"
  shows "v = v' \<and> x = x'"
proof -
  have eq: "be32 (length v) @ v @ x = be32 (length v') @ v' @ x'"
    using assms by (simp add: writeWithLength_def)
  then have "be32 (length v) = be32 (length v')" and r: "v @ x = v' @ x'" by auto
  then have "length v = length v'" by (metis assms(2,3) be_value_be32)
  with r show ?thesis by auto
qed

lemma attribute_bytes_view:
  assumes "attribute_bytes name raw = Inr bs"
  shows "\<exists>c. bs = writeWithLength name @ writeWithLength (fst (snd (attribute_view name raw))) @ c #
    writeWithLength (snd (snd (attribute_view name raw)))"
  using assms
  by (auto simp: attribute_bytes_def attribute_view_def as_map_def Let_def
      split: gval.splits if_splits option.splits)

lemma attribute_bytes_inj:
  assumes "attribute_bytes n v = Inr bs" and "attribute_bytes n' v' = Inr bs'" and "bs @ r = bs' @ r'"
    and s: "short_view (attribute_view n v)" "short_view (attribute_view n' v')"
  shows "attribute_view n v = attribute_view n' v' \<and> r = r'"
proof -
  let ?w = "attribute_view n v" and ?w' = "attribute_view n' v'"
  have f: "fst ?w = n" "fst ?w' = n'" by (simp_all add: attribute_view_def Let_def)
  obtain c c' where b: "bs = writeWithLength n @ writeWithLength (fst (snd ?w)) @ c # writeWithLength (snd (snd ?w))"
    "bs' = writeWithLength n' @ writeWithLength (fst (snd ?w')) @ c' # writeWithLength (snd (snd ?w'))"
    using attribute_bytes_view assms(1,2) by meson
  from assms(3) b have
    "writeWithLength n @ (writeWithLength (fst (snd ?w)) @ c # writeWithLength (snd (snd ?w)) @ r) =
     writeWithLength n' @ (writeWithLength (fst (snd ?w')) @ c' # writeWithLength (snd (snd ?w')) @ r')" by simp
  then have 1: "n = n'" and "writeWithLength (fst (snd ?w)) @ (c # writeWithLength (snd (snd ?w)) @ r) =
      writeWithLength (fst (snd ?w')) @ (c' # writeWithLength (snd (snd ?w')) @ r')"
    using writeWithLength_inj s f by (metis short_view_def)+
  then have 2: "fst (snd ?w) = fst (snd ?w')" and "c # writeWithLength (snd (snd ?w)) @ r = c' # writeWithLength (snd (snd ?w')) @ r'"
    using writeWithLength_inj s by (metis short_view_def)+
  then have "snd (snd ?w) = snd (snd ?w') \<and> r = r'"
    using writeWithLength_inj s by (metis list.inject short_view_def)
  with 1 2 f show ?thesis by (metis prod.collapse)
qed

definition views :: "gmap \<Rightarrow> string list \<Rightarrow> (string \<times> string \<times> string) list" where
  "views attrs names =
     map (\<lambda>n. attribute_view n (case mget attrs n of Some v \<Rightarrow> v | None \<Rightarrow> GNil)) names"

lemma attribute_bytes_nonempty: "attribute_bytes n v = Inr bs \<Longrightarrow> bs \<noteq> []"
  by (drule attribute_bytes_view) (auto simp: writeWithLength_def)

lemma attribute_buffer_inj:
  assumes "attribute_buffer a ns = Inr buf" and "attribute_buffer a' ns' = Inr buf"
    and "list_all short_view (views a ns)" and "list_all short_view (views a' ns')"
  shows "views a ns = views a' ns'"
  using assms
proof (induction ns arbitrary: ns' buf)
  case Nil
  then show ?case
    by (cases ns') (auto simp: views_def dest: attribute_bytes_nonempty split: sum.splits)
next
  case (Cons n ns)
  show ?case
  proof (cases ns')
    case Nil
    with Cons.prems show ?thesis by (auto dest: attribute_bytes_nonempty split: sum.splits)
  next
    case ns': (Cons n' ms)
    from Cons.prems ns' obtain bs r bs' r' where
      b: "attribute_bytes n (case mget a n of Some v \<Rightarrow> v | None \<Rightarrow> GNil) = Inr bs"
        "attribute_bytes n' (case mget a' n' of Some v \<Rightarrow> v | None \<Rightarrow> GNil) = Inr bs'"
      and r: "attribute_buffer a ns = Inr r" "attribute_buffer a' ms = Inr r'" and "bs @ r = bs' @ r'"
      by (auto split: sum.splits)
    then show ?thesis
      using attribute_bytes_inj [OF b] Cons.prems(3,4) Cons.IH [of r ms] ns' by (auto simp: views_def)
  qed
qed

section \<open>Normalizing again\<close>

lemma attribute_content_again:
  assumes "dataType \<noteq> []" and "content \<noteq> []"
    and "if prefix ''Binary'' dataType then field = ''BinaryValue'' \<and> decodeBinaryValue content \<noteq> None
        else field = ''StringValue'' \<and> validateMessageCharacters content = None"
  shows "attribute_content [(''DataType'', GStr dataType), (field, GStr content)] dataType = Inr (field, content)"
  using assms by (cases "prefix ''Binary'' dataType") (simp_all add: attribute_content_def)

lemma normalize_attribute_again:
  assumes "normal_attribute v" and "validateMessageAttributeName name False = None"
  shows "\<exists>m. v = GMap m \<and> normalize_attribute False name v = Inr (m, estimateMessageSize [] [(name, v)])"
proof -
  from assms(1) obtain dataType field content where
    v: "v = GMap [(''DataType'', GStr dataType), (field, GStr content)]" and ne: "dataType \<noteq> []" "content \<noteq> []"
    and f: "if prefix ''Binary'' dataType then field = ''BinaryValue'' \<and> decodeBinaryValue content \<noteq> None
        else field = ''StringValue'' \<and> validateMessageCharacters content = None"
    by (auto simp: normal_attribute_def)
  have "anySliceValue [(''DataType'', GStr dataType), (field, GStr content)] k = []" for k
    by (simp add: anySliceValue_def)
  with attribute_content_again [OF ne f] ne(1)
  have "normalize_structure False name [(''DataType'', GStr dataType), (field, GStr content)] =
      Inr ([(''DataType'', GStr dataType), (field, GStr content)], length name + length dataType + length content)"
    by (simp add: normalize_structure_def)
  then show ?thesis
    using f by (cases "prefix ''Binary'' dataType")
      (simp_all add: normalize_attribute_def v assms(2) estimateMessageSize_def as_map_def)
qed

lemma normalize_loop_again:
  assumes "\<forall>(k, v) \<in> set rest. mget raw k = Some v \<and> normal_attribute v
      \<and> validateMessageAttributeName k False = None"
    and "distinct (map fst (acc @ rest))"
  shows "normalize_loop False raw (map fst rest) acc n = Inr (acc @ rest, n + estimateMessageSize [] rest)"
  using assms
proof (induction rest arbitrary: acc n)
  case Nil
  then show ?case by (simp add: estimateMessageSize_def)
next
  case (Cons p rest)
  obtain k v where p: "p = (k, v)" by (cases p)
  with Cons.prems have "normal_attribute v" and "validateMessageAttributeName k False = None" by auto
  from normalize_attribute_again [OF this] obtain m where m: "v = GMap m"
    "normalize_attribute False k v = Inr (m, estimateMessageSize [] [(k, v)])" by blast
  have "mput acc k v = acc @ [(k, v)]" using Cons.prems(2) p by (intro mput_fresh) auto
  moreover have "normalize_loop False raw (map fst rest) (acc @ [(k, v)]) (n + estimateMessageSize [] [(k, v)]) =
      Inr ((acc @ [(k, v)]) @ rest, n + estimateMessageSize [] [(k, v)] + estimateMessageSize [] rest)"
    using Cons.prems p by (intro Cons.IH) auto
  moreover have "mget raw k = Some v" using Cons.prems(1) p by auto
  ultimately show ?case
    using m estimateMessageSize_append [of "[]" "[(k, v)]" rest] by (simp add: p)
qed

lemma normalize_again:
  assumes "normalizeMessageAttributeMap raw False = Inr (out, n)" and "distinct (map fst raw)"
  shows "normalizeMessageAttributeMap out False = Inr (out, n)"
proof (cases "raw = []")
  case True
  with assms show ?thesis by (simp add: normalizeMessageAttributeMap_def)
next
  case False
  note ok = normalizeMessageAttributeMap_ok [OF assms]
  then have k: "map fst out = sort (map fst raw)" by blast
  then have d: "distinct (map fst out)" and s: "sort (map fst out) = map fst out"
    using assms(2) by (simp_all add: sort_key_id_if_sorted)
  have l: "length out = length raw" using k by (metis length_map length_sort)
  have "normalize_loop False out (map fst out) [] 0 = Inr ([] @ out, 0 + estimateMessageSize [] out)"
    using ok d by (intro normalize_loop_again) auto
  then show ?thesis
    using ok s l False assms(1) by (auto simp: normalizeMessageAttributeMap_def split: if_splits)
qed

section \<open>Batches\<close>

lemma batch_entries_ok:
  assumes "batch_entries seen raws = Inr out"
  shows "map GMap out = raws \<and> distinct (map (\<lambda>e. stringValue e ''Id'') out)
    \<and> (\<forall>e \<in> set out. batchEntryIDMatches (stringValue e ''Id'') \<and> stringValue e ''Id'' \<notin> set seen)"
  using assms
proof (induction seen raws arbitrary: out rule: batch_entries.induct)
  case (2 seen raw raws)
  from "2.prems" obtain entry rest where
    e: "raw = GMap entry" "batchEntryIDMatches (stringValue entry ''Id'')" "stringValue entry ''Id'' \<notin> set seen"
    and r: "batch_entries (stringValue entry ''Id'' # seen) raws = Inr rest" and o: "out = entry # rest"
    by (auto simp: Let_def split: gval.splits if_splits sum.splits)
  from "2.IH" [OF e(1) refl _ _ r] e show ?case by (auto simp: o)
qed simp

section \<open>Receipt handles\<close>

lemma int64_mod_inj:
  assumes "a mod 18446744073709551616 = b mod (18446744073709551616::int)" and "int64_range a" and "int64_range b"
  shows "a = b"
proof -
  have "18446744073709551616 dvd a - b" using assms(1) by (simp add: mod_eq_dvd_iff)
  then obtain k where k: "a - b = 18446744073709551616 * k" by (rule dvdE)
  have "-9223372036854775808 \<le> a \<and> a < 9223372036854775808 \<and> -9223372036854775808 \<le> b \<and> b < 9223372036854775808"
    using assms(2,3) by (simp add: int64_range_def)
  with k have "k = 0" by linarith
  with k show ?thesis by simp
qed

lemma uint64_bytes_inj:
  assumes "uint64_bytes a = uint64_bytes b" and "int64_range a" and "int64_range b"
  shows "a = b"
proof (rule int64_mod_inj [OF _ assms(2,3)])
  have "nat (x mod 2 ^ 64) < 2 ^ 64" for x :: int by (simp add: nat_less_iff)
  with assms(1) have "nat (a mod 2 ^ 64) = nat (b mod 2 ^ 64)"
    unfolding uint64_bytes_def using be64_inj by blast
  then show "a mod 18446744073709551616 = b mod 18446744073709551616"
    by (simp add: eq_nat_nat_iff)
qed

lemma newReceiptHandle_form:
  assumes "newReceiptHandle q m w = (Inr h, w')"
  shows "\<exists>salt. h = rawURLEncode (uint64_bytes q @ uint64_bytes m @ salt)"
  using assms unfolding newReceiptHandle_def
  by (auto elim!: bindE_Inr_cases split: option.splits)

lemma newReceiptHandle_total: "\<exists>h w'. newReceiptHandle q m w = (Inr h, w')"
  by (auto simp: newReceiptHandle_def run_bindE randRead_def newUUID_def split: prod.splits sum.splits option.splits)

section \<open>Properties\<close>

text \<open>
  C36. What \<open>normalizeMessageAttributeMap\<close> accepts, it returns under the same names in their
  order, with exactly the size that the batch limit estimates for it; the digest of the result
  exists, so that the error branch of the digest in \<open>sendMessageEntry\<close> is never taken; and
  user attributes that are normalized already pass unchanged.
\<close>

theorem normalized_attributes:
  assumes "normalizeMessageAttributeMap raw system = Inr (out, n)" and "distinct (map fst raw)"
  shows "map fst out = sort (map fst raw) \<and> n = estimateMessageSize [] out
    \<and> (\<exists>digest. md5OfAttributeMap out = Inr digest)
    \<and> (\<not> system \<longrightarrow> normalizeMessageAttributeMap out False = Inr (out, n))"
  using normalizeMessageAttributeMap_ok [OF assms] normalize_again [OF _ assms(2), of out n] assms(1)
    md5OfAttributeMap_total [of out] by (cases system) auto

lemma attribute_example:
  "validateMessageAttributeName ''Tenant'' False = None" "validateMessageCharacters ''acme'' = None"
  by (simp_all add: validateMessageAttributeName_def attrNameMatches_def chars_between_def word_char_def
      Let_def ascii_lower_def suffix_def sublist_Cons_right validateMessageCharacters_def runes_def
      runeChunks_ascii ascii_def rune_allowed_def)

theorem normalized_attributes_witness:
  "normalizeMessageAttributeMap [(''Tenant'', GMap [(''StringValue'', GStr ''acme''), (''DataType'', GStr ''String'')])] False
      = Inr ([(''Tenant'', GMap [(''DataType'', GStr ''String''), (''StringValue'', GStr ''acme'')])], 16)
    \<and> (\<exists>digest. md5OfAttributeMap [(''Tenant'', GMap [(''DataType'', GStr ''String''), (''StringValue'', GStr ''acme'')])]
        = Inr digest)"
proof -
  have n: "normalizeMessageAttributeMap [(''Tenant'', GMap [(''StringValue'', GStr ''acme''), (''DataType'', GStr ''String'')])] False
      = Inr ([(''Tenant'', GMap [(''DataType'', GStr ''String''), (''StringValue'', GStr ''acme'')])], 16)"
    by (simp add: normalizeMessageAttributeMap_def normalize_attribute_def normalize_structure_def
        attribute_content_def attribute_example anySliceValue_def Let_def)
  then show ?thesis using normalized_attributes [OF n] by simp
qed

text \<open>
  C31. The digest input of attributes is unambiguous: two attribute maps with the same input
  bytes have the same names, data types and contents, in the same order, as long as no part is
  longer than a 32-bit length can say.
\<close>

theorem attribute_digest_input_unambiguous:
  assumes "attribute_buffer a (sort (map fst a)) = Inr buf"
    and "attribute_buffer b (sort (map fst b)) = Inr buf"
    and "list_all short_view (views a (sort (map fst a)))"
    and "list_all short_view (views b (sort (map fst b)))"
  shows "views a (sort (map fst a)) = views b (sort (map fst b))"
  by (rule attribute_buffer_inj [OF assms])

theorem attribute_digest_input_unambiguous_witness:
  "views [(''T'', GMap [(''DataType'', GStr ''String''), (''StringValue'', GStr ''a'')])] [''T''] =
   views [(''T'', GMap [(''StringValue'', GStr ''a''), (''DataType'', GStr ''String'')])] [''T'']"
proof -
  let ?a = "[(''T'', GMap [(''DataType'', GStr ''String''), (''StringValue'', GStr ''a'')])]"
  let ?b = "[(''T'', GMap [(''StringValue'', GStr ''a''), (''DataType'', GStr ''String'')])]"
  let ?buf = "writeWithLength ''T'' @ writeWithLength ''String'' @ [char_of (1::nat)] @ writeWithLength ''a''"
  have "attribute_buffer ?a (sort (map fst ?a)) = Inr ?buf" "attribute_buffer ?b (sort (map fst ?b)) = Inr ?buf"
    by (simp_all add: attribute_bytes_def Let_def)
  moreover have "list_all short_view (views ?a (sort (map fst ?a)))" "list_all short_view (views ?b (sort (map fst ?b)))"
    by (simp_all add: views_def attribute_view_def as_map_def short_view_def Let_def)
  ultimately have "views ?a (sort (map fst ?a)) = views ?b (sort (map fst ?b))"
    by (rule attribute_digest_input_unambiguous)
  then show ?thesis by simp
qed

text \<open>
  C34. A batch that \<open>validateBatchRequestEntries\<close> accepts has between one and ten entries, all of
  them structures and handed on in their order, with well-formed and pairwise different ids.
\<close>

theorem validated_batch:
  assumes "validateBatchRequestEntries entries = Inr out"
  shows "length out \<in> {1..10} \<and> map GMap out = entries
    \<and> distinct (map (\<lambda>e. stringValue e ''Id'') out)
    \<and> list_all (\<lambda>e. batchEntryIDMatches (stringValue e ''Id'')) out"
proof -
  from assms have n: "entries \<noteq> []" "length entries \<le> 10" and b: "batch_entries [] entries = Inr out"
    by (auto simp: validateBatchRequestEntries_def split: if_splits)
  from batch_entries_ok [OF b] have m: "map GMap out = entries" by blast
  then have "length out = length entries" by auto
  moreover have "1 \<le> length entries" using n(1) by (cases entries) auto
  ultimately show ?thesis
    using n m batch_entries_ok [OF b] by (simp add: list_all_iff)
qed

theorem validated_batch_witness:
  "length [[(''Id'', GStr ''a'')], [(''Id'', GStr ''b'')]] \<in> {1..10}
    \<and> distinct (map (\<lambda>e. stringValue e ''Id'') [[(''Id'', GStr ''a'')], [(''Id'', GStr ''b'')]])"
proof -
  have "validateBatchRequestEntries [GMap [(''Id'', GStr ''a'')], GMap [(''Id'', GStr ''b'')]] =
      Inr [[(''Id'', GStr ''a'')], [(''Id'', GStr ''b'')]]"
    by (simp add: validateBatchRequestEntries_def batchEntryIDMatches_def chars_between_def word_char_def Let_def)
  from validated_batch [OF this] show ?thesis by blast
qed

text \<open>
  C38. A receipt handle names its message: handles made for different queues or different
  messages differ, whatever the random source gives.
\<close>

theorem receipt_handles_differ:
  assumes "newReceiptHandle q m w = (Inr h, w1)" and "newReceiptHandle q' m' w' = (Inr h', w2)"
    and "int64_range q" "int64_range m" "int64_range q'" "int64_range m'"
    and "(q, m) \<noteq> (q', m')"
  shows "h \<noteq> h'"
proof
  assume "h = h'"
  obtain s s' where "h = rawURLEncode (uint64_bytes q @ uint64_bytes m @ s)"
    "h' = rawURLEncode (uint64_bytes q' @ uint64_bytes m' @ s')"
    using newReceiptHandle_form assms(1,2) by meson
  with \<open>h = h'\<close> have "uint64_bytes q @ uint64_bytes m @ s = uint64_bytes q' @ uint64_bytes m' @ s'"
    by (metis option.inject rawURLDecode_encode)
  then have "uint64_bytes q = uint64_bytes q'" and "uint64_bytes m = uint64_bytes m'"
    by (simp_all add: uint64_bytes_def)
  with uint64_bytes_inj assms(3-7) show False by blast
qed

theorem receipt_handles_differ_witness:
  "\<forall>w. fst (newReceiptHandle 1 7 w :: (goerr + string) \<times> world) \<noteq> fst (newReceiptHandle 1 8 w)"
proof
  fix w
  obtain h w1 where h: "newReceiptHandle 1 7 w = (Inr h :: goerr + string, w1)"
    using newReceiptHandle_total by meson
  obtain h' w2 where h': "newReceiptHandle 1 8 w = (Inr h' :: goerr + string, w2)"
    using newReceiptHandle_total by meson
  have "h \<noteq> h'" by (rule receipt_handles_differ [OF h h']) (simp_all add: int64_range_def)
  with h h' show "fst (newReceiptHandle 1 7 w :: (goerr + string) \<times> world) \<noteq> fst (newReceiptHandle 1 8 w)" by simp
qed

end
