(* ===== verification/Lookup.thy ===== *)
theory Lookup
  imports MessageAttrs
begin

text \<open>
  Requests (\<open>internal/protocol/types.go\<close>) and the lookup of the queue that a request names
  (\<open>lookupQueueForRequest\<close>, \<open>queueURLFromRequest\<close> and \<open>ensureQueueReady\<close> of
  \<open>internal/service/messages.go\<close>, \<open>lookupQueueByURL\<close> and \<open>lookupQueueByARN\<close> of
  \<open>internal/service/sqs.go\<close>). A handler returns the \<open>Output\<close> map of its response; no handler of
  the service sets headers. The HTTP request and the context are not part of a request here: the
  context's cancellation is the world's.
\<close>

record identity =
  i_AccessKeyID :: string
  i_AccountID :: string
  i_PrincipalARN :: string
  i_PrincipalID :: string
  i_SessionToken :: string
  i_Region :: string
  i_Service :: string

datatype wire_protocol = WireProtocolJSON | WireProtocolQuery

record request =
  rq_WireProtocol :: wire_protocol
  rq_Operation :: string
  rq_Input :: gmap
  rq_RequestID :: string
  rq_ReceivedAt :: gotime
  rq_Identity :: identity
  rq_QueuePathHint :: string

text \<open>\<open>if err != nil { return apierrors.Internal(message, err) }\<close> after a call to the store\<close>

definition orInternal :: "string \<Rightarrow> 'a store_prog \<Rightarrow> 'a handler" where
  "orInternal message m = mapErr (internalError message) m"

definition throwApi :: "api_error \<Rightarrow> 'a handler" where
  "throwApi e = throw (EApi e)"

text \<open>The check of a validation that gives an error or nothing.\<close>

definition checkE :: "goerr option \<Rightarrow> unit handler" where
  "checkE r = (case r of None \<Rightarrow> ok () | Some e \<Rightarrow> throw e)"

section \<open>Queues\<close>

definition lookupQueueByURL :: "string \<Rightarrow> queue handler" where
  "lookupQueueByURL url =
     bindE (orInternal ''failed to lookup queue'' (QueueByURL url)) (\<lambda>found.
     case found of
       None \<Rightarrow> throwApi ErrQueueDoesNotExist
     | Some q \<Rightarrow> if q_DeletedAt q \<noteq> None then throwApi ErrQueueDoesNotExist else ok q)"

definition lookupQueueByARN :: "string \<Rightarrow> queue handler" where
  "lookupQueueByARN arn =
     bindE (orInternal ''failed to lookup queue'' (QueueByARN arn)) (\<lambda>found.
     case found of
       None \<Rightarrow> throwApi ErrResourceNotFoundException
     | Some q \<Rightarrow> if q_DeletedAt q \<noteq> None then throwApi ErrResourceNotFoundException else ok q)"

definition queueURLFromRequest :: "config \<Rightarrow> request \<Rightarrow> string" where
  "queueURLFromRequest cfg req =
     (let raw = stringValue (rq_Input req) ''QueueUrl''
      in if raw \<noteq> [] then trimRight (CHR ''/'') raw
         else (let hint = trimBoth (CHR ''/'') (rq_QueuePathHint req)
               in if hint = [] then [] else cfg_PublicBaseURL cfg @ ''/'' @ hint))"

definition lookupQueueForRequest :: "config \<Rightarrow> request \<Rightarrow> queue handler" where
  "lookupQueueForRequest cfg req =
     (let url = queueURLFromRequest cfg req
      in if url = [] then throwApi ErrQueueDoesNotExist else lookupQueueByURL url)"

definition ensureQueueReady :: "queue \<Rightarrow> gotime \<Rightarrow> unit handler" where
  "ensureQueueReady q now =
     (if q_DeletedAt q \<noteq> None \<or> now < q_AvailableAt q then throwApi ErrQueueDoesNotExist else ok ())"

section \<open>Running on a store that does not fail\<close>

lemma run_sqlE_Inr [simp]:
  "\<not> w_faults w (w_calls w) \<Longrightarrow> f (w_db w) = Inr (x, d) \<Longrightarrow>
   sqlE f w = (Inr x, w\<lparr>w_calls := Suc (w_calls w), w_db := d\<rparr>)"
  by (simp add: sqlE_def Let_def)

lemma run_sqlE_Inl [simp]:
  "\<not> w_faults w (w_calls w) \<Longrightarrow> f (w_db w) = Inl e \<Longrightarrow>
   sqlE f w = (Inl e, w\<lparr>w_calls := Suc (w_calls w)\<rparr>)"
  by (simp add: sqlE_def Let_def)

lemma run_queryE [simp]:
  "\<not> w_faults w (w_calls w) \<Longrightarrow> queryE f w = (Inr (f (w_db w)), w\<lparr>w_calls := Suc (w_calls w)\<rparr>)"
  by (simp add: queryE_def)

lemma run_orInternal_Inr [simp]: "m w = (Inr x, w') \<Longrightarrow> orInternal msg m w = (Inr x, w')"
  by (simp add: orInternal_def)

lemma run_orInternal_Inl [simp]: "m w = (Inl e, w') \<Longrightarrow> orInternal msg m w = (Inl (internalError msg e), w')"
  by (simp add: orInternal_def)

lemma run_throwApi [simp]: "throwApi e w = (Inl (EApi e), w)"
  by (simp add: throwApi_def)

lemma run_checkE [simp]: "checkE r w = ((case r of None \<Rightarrow> Inr () | Some e \<Rightarrow> Inl e), w)"
  by (simp add: checkE_def split: option.splits)

lemma run_nowE [simp]: "nowE w = (Inr (w_clock w (w_ticks w)), w\<lparr>w_ticks := Suc (w_ticks w)\<rparr>)"
  by (simp add: nowE_def)

lemma run_newUUID [simp]: "newUUID w = (Inr (w_uuid w (w_uuids w)), w\<lparr>w_uuids := Suc (w_uuids w)\<rparr>)"
  by (simp add: newUUID_def)

lemma healthy_faults [simp]: "healthy w \<Longrightarrow> \<not> w_faults w i"
  by (simp add: healthy_def)

lemma healthy_update [simp]:
  "healthy (w\<lparr>w_db := d\<rparr>) = healthy w" "healthy (w\<lparr>w_calls := n\<rparr>) = healthy w"
  "healthy (w\<lparr>w_ticks := n\<rparr>) = healthy w" "healthy (w\<lparr>w_uuids := n\<rparr>) = healthy w"
  "healthy (w\<lparr>w_randpos := n\<rparr>) = healthy w" "healthy (w\<lparr>w_reads := n\<rparr>) = healthy w"
  "healthy (w\<lparr>w_waits := n\<rparr>) = healthy w"
  by (simp_all add: healthy_def)

lemma sqlE_Inr: "sqlE f w = (Inr x, w') \<Longrightarrow> f (w_db w) = Inr (x, w_db w')"
  by (auto simp: sqlE_def Let_def split: if_splits sum.splits)

lemma sqlE_Inl: "sqlE f w = (Inl e, w') \<Longrightarrow> w_db w' = w_db w"
  by (auto simp: sqlE_def Let_def split: if_splits sum.splits)

lemma queryE_Inr: "queryE f w = (Inr x, w') \<Longrightarrow> x = f (w_db w) \<and> w_db w' = w_db w"
  by (auto simp: queryE_def dest: sqlE_Inr)

text \<open>Programs that do not touch the database, whatever their result.\<close>

definition db_same :: "(world, 'e, 'a) prog \<Rightarrow> bool" where
  "db_same m \<longleftrightarrow> (\<forall>w. w_db (snd (m w)) = w_db w)"

lemma db_sameD: "db_same m \<Longrightarrow> m w = (r, w') \<Longrightarrow> w_db w' = w_db w"
  by (metis db_same_def snd_conv)

lemma db_same_steps: "db_same m = steps (dbrel (\<lambda>d d'. d' = d)) m"
  by (simp add: db_same_def steps_def dbrel_def)

interpretation same: db_relation "\<lambda>d d'. d' = d"
  by (rule db_relationI) simp_all

text \<open>A query does not change the database, whatever happens.\<close>

lemma queryE_db: "queryE f w = (r, w') \<Longrightarrow> w_db w' = w_db w"
  by (auto simp: queryE_def sqlE_def Let_def split: if_splits)

lemma orInternal_Inr: "orInternal msg m w = (Inr x, w') \<Longrightarrow> m w = (Inr x, w')"
  by (auto simp: orInternal_def run_mapErr split: prod.splits sum.splits)

lemma orInternal_Inl: "orInternal msg m w = (Inl e, w') \<Longrightarrow> \<exists>e'. e = internalError msg e' \<and> m w = (Inl e', w')"
  by (auto simp: orInternal_def run_mapErr split: prod.splits sum.splits)

section \<open>Lookups leave every relation alone\<close>

context db_relation
begin

lemma steps_orInternal [effects]: "steps (dbrel R) m \<Longrightarrow> steps (dbrel R) (orInternal msg m)"
  unfolding orInternal_def by (rule steps_mapErr)

lemma steps_throwApi [effects]: "steps (dbrel R) (throwApi e)"
  unfolding throwApi_def by (rule steps_throw)

lemma steps_checkE [effects]: "steps (dbrel R) (checkE r)"
  unfolding checkE_def by (intro effects)

lemma steps_lookupQueueByURL [effects]: "steps (dbrel R) (lookupQueueByURL url)"
  unfolding lookupQueueByURL_def QueueByURL_def by (intro effects)

lemma steps_lookupQueueByARN [effects]: "steps (dbrel R) (lookupQueueByARN arn)"
  unfolding lookupQueueByARN_def QueueByARN_def by (intro effects)

lemma steps_lookupQueueForRequest [effects]: "steps (dbrel R) (lookupQueueForRequest cfg req)"
  unfolding lookupQueueForRequest_def by (intro effects)

lemma steps_ensureQueueReady [effects]: "steps (dbrel R) (ensureQueueReady q now)"
  unfolding ensureQueueReady_def by (intro effects)

lemma steps_newReceiptHandle [effects]: "steps (dbrel R) (newReceiptHandle q m)"
  unfolding newReceiptHandle_def by (intro effects)

lemma steps_newSequenceNumber [effects]: "steps (dbrel R) newSequenceNumber"
  unfolding newSequenceNumber_def by (intro effects)

end

end
