(* ===== verification/Auth.thy ===== *)
theory Auth
  imports Lookup
begin

text \<open>
  \<open>internal/auth/auth.go\<close>: the credentials, and the check of AWS Signature Version 4 in the
  \<open>Authorization\<close> header or in the query. The digests are computed (\<open>GoCrypto\<close>), not assumed. The clock
  is the world's; every call of \<open>clock.Now\<close> is a step of it. The causes of the errors are
  logged only, and their texts are shortened.
\<close>

section \<open>Credentials\<close>

record credential =
  cr_AccessKeyID :: string
  cr_SecretAccessKey :: string
  cr_SessionToken :: string
  cr_AccountID :: string
  cr_PrincipalARN :: string
  cr_PrincipalID :: string
  cr_ExpiresAt :: "gotime option"

type_synonym credentials = "(string \<times> credential) list"

definition cred_Put :: "credentials \<Rightarrow> credential \<Rightarrow> credentials" where
  "cred_Put r cred = mput r (cr_AccessKeyID cred) cred"

definition cred_Get :: "credentials \<Rightarrow> string \<Rightarrow> credential option" where
  "cred_Get r accessKeyID = mget r accessKeyID"

definition user_arn :: "string \<Rightarrow> string \<Rightarrow> string" where
  "user_arn account user = ''arn:aws:iam::'' @ account @ '':user/'' @ user"

definition or_default :: "string \<Rightarrow> string \<Rightarrow> string" where
  "or_default s d = (if s = [] then d else s)"

definition seed_credential :: "string \<Rightarrow> credential \<Rightarrow> credential" where
  "seed_credential defaultAccountID cred =
     (let account = or_default (cr_AccountID cred) defaultAccountID
      in cred\<lparr>cr_AccessKeyID := or_default (cr_AccessKeyID cred) ''test'',
              cr_SecretAccessKey := or_default (cr_SecretAccessKey cred) ''test'',
              cr_AccountID := account,
              cr_PrincipalARN := or_default (cr_PrincipalARN cred) (user_arn account ''local-test''),
              cr_PrincipalID := or_default (cr_PrincipalID cred) ''LOCALTEST''\<rparr>)"

definition zero_credential :: credential where
  "zero_credential = \<lparr>cr_AccessKeyID = [], cr_SecretAccessKey = [], cr_SessionToken = [], cr_AccountID = [],
     cr_PrincipalARN = [], cr_PrincipalID = [], cr_ExpiresAt = None\<rparr>"

text \<open>\<open>NewRegistry\<close>: without a seed the credential is the one that the defaults give.\<close>

definition auth_NewRegistry :: "string \<Rightarrow> credential list \<Rightarrow> credentials" where
  "auth_NewRegistry defaultAccountID seed =
     cred_Put [] (seed_credential defaultAccountID (case seed of [] \<Rightarrow> zero_credential | cred # _ \<Rightarrow> cred))"

text \<open>
  \<open>json.Unmarshal\<close> into a \<open>Credential\<close>: fields are found by name whatever the case of their ASCII letters,
  \<open>null\<close> leaves a field as it is, other fields are skipped. Not covered are objects that have a
  field twice, and escapes in the text of \<open>expiresAt\<close>.
\<close>

definition decode_field :: "string \<Rightarrow> gval \<Rightarrow> credential \<Rightarrow> credential option" where
  "decode_field key v cred =
     (let str = (\<lambda>upd. case v of GNil \<Rightarrow> Some cred | GStr s \<Rightarrow> Some (upd s) | _ \<Rightarrow> None)
      in if equalFold key ''accessKeyId'' then str (\<lambda>s. cred\<lparr>cr_AccessKeyID := s\<rparr>)
         else if equalFold key ''secretAccessKey'' then str (\<lambda>s. cred\<lparr>cr_SecretAccessKey := s\<rparr>)
         else if equalFold key ''sessionToken'' then str (\<lambda>s. cred\<lparr>cr_SessionToken := s\<rparr>)
         else if equalFold key ''accountId'' then str (\<lambda>s. cred\<lparr>cr_AccountID := s\<rparr>)
         else if equalFold key ''principalArn'' then str (\<lambda>s. cred\<lparr>cr_PrincipalARN := s\<rparr>)
         else if equalFold key ''principalId'' then str (\<lambda>s. cred\<lparr>cr_PrincipalID := s\<rparr>)
         else if equalFold key ''expiresAt'' then
           (case v of GNil \<Rightarrow> Some (cred\<lparr>cr_ExpiresAt := None\<rparr>)
            | GStr s \<Rightarrow> map_option (\<lambda>t. cred\<lparr>cr_ExpiresAt := Some t\<rparr>) (parse_rfc3339 s) | _ \<Rightarrow> None)
         else Some cred)"

definition decode_credential :: "gval \<Rightarrow> credential option" where
  "decode_credential v = (case v of
      GNil \<Rightarrow> Some zero_credential
    | GMap m \<Rightarrow> fold (\<lambda>(k, x) c. Option.bind c (decode_field k x)) m (Some zero_credential)
    | _ \<Rightarrow> None)"

definition decode_credentials :: "gval \<Rightarrow> credential list option" where
  "decode_credentials v = (case v of
      GNil \<Rightarrow> Some []
    | GList xs \<Rightarrow> those (map decode_credential xs)
    | _ \<Rightarrow> None)"

definition decode_wrapped :: "gval \<Rightarrow> credential list option" where
  "decode_wrapped v = (case v of
      GNil \<Rightarrow> Some []
    | GMap m \<Rightarrow> fold (\<lambda>(k, x) cs. Option.bind cs
         (\<lambda>cs. if equalFold k ''credentials'' then (if x = GNil then Some [] else decode_credentials x) else Some cs)) m (Some [])
    | _ \<Rightarrow> None)"

text \<open>
  \<open>LoadFile\<close>: \<open>file\<close> is what \<open>os.ReadFile\<close> gives, \<open>None\<close> for an error. Numbers are kept as text, as
  fields that are skipped are not converted.
\<close>

definition auth_LoadFile :: "credentials \<Rightarrow> string \<Rightarrow> string option \<Rightarrow> string + credentials" where
  "auth_LoadFile r path file =
     (if path = [] then Inr r
      else (case file of
          None \<Rightarrow> Inl ''read''
        | Some raw \<Rightarrow>
            (case json_value as_number (json_fuel raw) 0 raw of
               Some (v, rest) \<Rightarrow>
                 (if skip_ws rest \<noteq> [] then Inl ''syntax''
                  else (case decode_credentials v of
                      Some direct \<Rightarrow> Inr (fold (\<lambda>cred r. cred_Put r cred) direct r)
                    | None \<Rightarrow> (case decode_wrapped v of
                          Some wrapped \<Rightarrow> Inr (fold (\<lambda>cred r. cred_Put r cred) wrapped r)
                        | None \<Rightarrow> Inl ''type'')))
             | None \<Rightarrow> Inl ''syntax'')))"

section \<open>The signed text\<close>

record credential_scope =
  cs_AccessKeyID :: string
  cs_Date :: string
  cs_Region :: string
  cs_Service :: string
  cs_Terminal :: string

definition parseCredentialScope :: "string \<Rightarrow> credential_scope option" where
  "parseCredentialScope raw = (case splitOn (CHR ''/'') raw of
      [key, date, region, service, terminal] \<Rightarrow>
        Some \<lparr>cs_AccessKeyID = key, cs_Date = date, cs_Region = region, cs_Service = service, cs_Terminal = terminal\<rparr>
    | _ \<Rightarrow> None)"

definition parseAuthFields :: "string \<Rightarrow> strmap" where
  "parseAuthFields raw =
     fold (\<lambda>field fs. case splitFirst (CHR ''='') (trimSpace field) of
         (k, Some v) \<Rightarrow> mput fs k v | (k, None) \<Rightarrow> fs) (splitOn (CHR '','') raw) []"

definition hex_upper :: string where
  "hex_upper = ''0123456789ABCDEF''"

definition unreserved :: "char \<Rightarrow> bool" where
  "unreserved c \<longleftrightarrow> in_range 65 90 c \<or> in_range 97 122 c \<or> in_range 48 57 c \<or> c \<in> set ''-_.~''"

definition encode_byte :: "char \<Rightarrow> string" where
  "encode_byte c = (if unreserved c then [c]
     else [CHR ''%'', hex_upper ! (byte c div 16), hex_upper ! (byte c mod 16)])"

definition awsPercentEncode :: "string \<Rightarrow> string" where
  "awsPercentEncode raw = concat (map encode_byte raw)"

definition query_pairs :: "url_values \<Rightarrow> bool \<Rightarrow> (string \<times> string) list" where
  "query_pairs values presigned =
     concat (map (\<lambda>(key, rawValues). if presigned \<and> key = ''X-Amz-Signature'' then []
       else map (\<lambda>value. (awsPercentEncode key, awsPercentEncode value)) rawValues) values)"

definition buildCanonicalQueryString :: "url_values \<Rightarrow> bool \<Rightarrow> string" where
  "buildCanonicalQueryString values presigned =
     joinWith ''&'' (map (\<lambda>(k, v). k @ ''='' @ v) (sort (query_pairs values presigned)))"

definition canonicalizeHeaderValue :: "string \<Rightarrow> string" where
  "canonicalizeHeaderValue value = joinWith '' '' (stringFields (trimSpace value))"

definition newline :: string where
  "newline = [char_of (10 :: nat)]"

fun buildCanonicalHeaders :: "http_request \<Rightarrow> string list \<Rightarrow> string option" where
  "buildCanonicalHeaders r [] = Some []"
| "buildCanonicalHeaders r (raw # names) =
     (let name = trimSpace (toLower raw)
      in if name = [] then buildCanonicalHeaders r names
         else
           (let value = (if name = ''host'' then hr_Host r else header_get (hr_Header r) name)
            in if value = [] then None
               else map_option (\<lambda>t. name @ '':'' @ canonicalizeHeaderValue value @ newline @ t)
                 (buildCanonicalHeaders r names)))"

definition payload_hash :: "http_request \<Rightarrow> string \<Rightarrow> string" where
  "payload_hash r body =
     (let h = header_get (hr_Header r) ''X-Amz-Content-Sha256'';
          q = values_get (url_query r) ''X-Amz-Content-Sha256''
      in if h \<noteq> [] then h else if q \<noteq> [] then q else sha256Hex body)"

definition buildCanonicalRequest :: "http_request \<Rightarrow> string \<Rightarrow> string list \<Rightarrow> bool \<Rightarrow> string option" where
  "buildCanonicalRequest r body signedHeaders presigned =
     (let path = (if hr_EscapedPath r = [] then ''/'' else hr_EscapedPath r);
          queryString = buildCanonicalQueryString (url_query r) presigned
      in case buildCanonicalHeaders r signedHeaders of
           None \<Rightarrow> None
         | Some headers \<Rightarrow> Some (hr_Method r @ newline @ path @ newline @ queryString @ newline @ headers @ newline
             @ joinWith '';'' signedHeaders @ newline @ payload_hash r body))"

definition buildStringToSign :: "gotime \<Rightarrow> credential_scope \<Rightarrow> string \<Rightarrow> string" where
  "buildStringToSign requestTime scope canonicalRequest =
     joinWith newline [''AWS4-HMAC-SHA256'', format_stamp requestTime,
       cs_Date scope @ ''/'' @ cs_Region scope @ ''/'' @ cs_Service scope @ ''/'' @ cs_Terminal scope,
       sha256Hex canonicalRequest]"

definition signStringToSign :: "string \<Rightarrow> credential_scope \<Rightarrow> string \<Rightarrow> string" where
  "signStringToSign secret scope stringToSign =
     (let dateKey = hmac_sha256 (''AWS4'' @ secret) (cs_Date scope);
          regionKey = hmac_sha256 dateKey (cs_Region scope);
          serviceKey = hmac_sha256 regionKey (cs_Service scope);
          signingKey = hmac_sha256 serviceKey (cs_Terminal scope)
      in hexEncode (hmac_sha256 signingKey stringToSign))"

section \<open>The service\<close>

record auth_service =
  as_mode :: string
  as_registry :: credentials
  as_allowedRegions :: "string list"
  as_fallbackRegion :: string
  as_accountID :: string

definition auth_NewService :: "string \<Rightarrow> credentials \<Rightarrow> string list \<Rightarrow> string \<Rightarrow> string \<Rightarrow> auth_service" where
  "auth_NewService mode reg allowedRegions fallbackRegion accountID =
     \<lparr>as_mode = mode, as_registry = reg, as_allowedRegions = remdups allowedRegions,
      as_fallbackRegion = fallbackRegion, as_accountID = accountID\<rparr>"

text \<open>Every refusal is \<open>ErrInvalidSecurity\<close> with its cause.\<close>

definition refuse :: "string \<Rightarrow> 'a handler" where
  "refuse cause = throwApi (WithCause ErrInvalidSecurity cause)"

definition cred_identity :: "credential \<Rightarrow> identity" where
  "cred_identity cred =
     \<lparr>i_AccessKeyID = cr_AccessKeyID cred, i_AccountID = cr_AccountID cred, i_PrincipalARN = cr_PrincipalARN cred,
      i_PrincipalID = cr_PrincipalID cred, i_SessionToken = cr_SessionToken cred, i_Region = [], i_Service = []\<rparr>"

definition lookupIdentity :: "auth_service \<Rightarrow> string \<Rightarrow> string \<Rightarrow> (credential \<times> identity) handler" where
  "lookupIdentity s accessKeyID sessionToken =
     (case cred_Get (as_registry s) accessKeyID of
        None \<Rightarrow> refuse ''unknown access key''
      | Some cred \<Rightarrow>
          bindE (case cr_ExpiresAt cred of None \<Rightarrow> ok False | Some expiry \<Rightarrow> bindE nowE (\<lambda>now. ok (expiry < now))) (\<lambda>expired.
          if expired then refuse ''credential expired''
          else if cr_SessionToken cred \<noteq> [] \<and> cr_SessionToken cred \<noteq> sessionToken then refuse ''session token mismatch''
          else ok (cred, cred_identity cred)))"

definition max_skew :: int where
  "max_skew = 15 * 60 * nsSecond"

definition validateScope :: "auth_service \<Rightarrow> credential_scope \<Rightarrow> gotime \<Rightarrow> unit handler" where
  "validateScope s scope requestTime =
     (if cs_Service scope \<noteq> ''sqs'' then refuse ''unexpected service''
      else if as_allowedRegions s \<noteq> [] \<and> cs_Region scope \<notin> set (as_allowedRegions s) then refuse ''unexpected region''
      else bindE nowE (\<lambda>now.
        if requestTime < now - max_skew \<or> now + max_skew < requestTime then refuse ''request time skew too large''
        else if format_date requestTime \<noteq> cs_Date scope then refuse ''credential scope date mismatch''
        else ok ()))"

text \<open>The last step of both ways: the signature of the canonical request.\<close>

definition check_signature :: "http_request \<Rightarrow> string \<Rightarrow> string list \<Rightarrow> bool \<Rightarrow> string \<Rightarrow> gotime \<Rightarrow> credential_scope
    \<Rightarrow> credential \<times> identity \<Rightarrow> identity handler" where
  "check_signature r body signedHeaders presigned signature requestTime scope p =
     (case buildCanonicalRequest r body signedHeaders presigned of
        None \<Rightarrow> refuse ''missing signed header''
      | Some canonicalRequest \<Rightarrow>
          (let expectedSig = signStringToSign (cr_SecretAccessKey (fst p)) scope (buildStringToSign requestTime scope canonicalRequest)
           in if expectedSig \<noteq> signature then refuse ''signature mismatch''
              else ok ((snd p)\<lparr>i_Region := cs_Region scope, i_Service := cs_Service scope\<rparr>)))"

definition authenticateHeaderSigned :: "auth_service \<Rightarrow> http_request \<Rightarrow> string \<Rightarrow> string \<Rightarrow> identity handler" where
  "authenticateHeaderSigned s r body authz =
     (if \<not> prefix ''AWS4-HMAC-SHA256 '' authz then refuse ''unsupported algorithm''
      else
        (let fs = parseAuthFields (drop (length ''AWS4-HMAC-SHA256 '') authz);
             credentialValue = sget fs ''Credential'';
             signedHeadersValue = sget fs ''SignedHeaders'';
             signatureValue = sget fs ''Signature''
         in if credentialValue = [] \<or> signedHeadersValue = [] \<or> signatureValue = []
            then refuse ''malformed authorization header''
            else (case parseCredentialScope credentialValue of
                None \<Rightarrow> refuse ''invalid credential scope''
              | Some scope \<Rightarrow>
                  bindE (lookupIdentity s (cs_AccessKeyID scope) (header_get (hr_Header r) ''X-Amz-Security-Token'')) (\<lambda>p.
                  (let amzDate = header_get (hr_Header r) ''X-Amz-Date''
                   in if amzDate = [] then refuse ''missing X-Amz-Date''
                      else (case parse_stamp amzDate of
                          None \<Rightarrow> refuse ''parsing time''
                        | Some requestTime \<Rightarrow>
                            seqE (validateScope s scope requestTime)
                              (check_signature r body (splitOn (CHR '';'') signedHeadersValue) False signatureValue
                                 requestTime scope p)))))))"

definition authenticateQuerySigned :: "auth_service \<Rightarrow> http_request \<Rightarrow> string \<Rightarrow> identity handler" where
  "authenticateQuerySigned s r body =
     (let values = url_query r
      in if values_get values ''X-Amz-Algorithm'' \<noteq> ''AWS4-HMAC-SHA256'' then refuse ''unsupported presign algorithm''
         else (case parseCredentialScope (values_get values ''X-Amz-Credential'') of
             None \<Rightarrow> refuse ''invalid credential scope''
           | Some scope \<Rightarrow>
               bindE (lookupIdentity s (cs_AccessKeyID scope) (values_get values ''X-Amz-Security-Token'')) (\<lambda>p.
               (case parse_stamp (values_get values ''X-Amz-Date'') of
                  None \<Rightarrow> refuse ''parsing time''
                | Some requestTime \<Rightarrow>
                    seqE (validateScope s scope requestTime)
                      (let expiresRaw = values_get values ''X-Amz-Expires''
                       in if expiresRaw = [] then refuse ''missing X-Amz-Expires''
                          else (case parseDuration (expiresRaw @ ''s'') of
                              None \<Rightarrow> refuse ''invalid duration''
                            | Some expires \<Rightarrow>
                                bindE nowE (\<lambda>now.
                                if requestTime + expires < now then refuse ''presigned request expired''
                                else check_signature r body (splitOn (CHR '';'') (values_get values ''X-Amz-SignedHeaders''))
                                  True (values_get values ''X-Amz-Signature'') requestTime scope p)))))))"

definition bypass_identity :: "auth_service \<Rightarrow> identity" where
  "bypass_identity s =
     \<lparr>i_AccessKeyID = ''bypass'', i_AccountID = as_accountID s, i_PrincipalARN = user_arn (as_accountID s) ''bypass'',
      i_PrincipalID = ''BYPASS'', i_SessionToken = [], i_Region = as_fallbackRegion s, i_Service = ''sqs''\<rparr>"

definition Authenticate :: "auth_service \<Rightarrow> http_request \<Rightarrow> string \<Rightarrow> identity handler" where
  "Authenticate s r body =
     (let authz = header_get (hr_Header r) ''Authorization''
      in if as_mode s = ''bypass'' then ok (bypass_identity s)
         else if authz \<noteq> [] then authenticateHeaderSigned s r body authz
         else if values_get (url_query r) ''X-Amz-Algorithm'' \<noteq> [] then authenticateQuerySigned s r body
         else refuse ''missing signature'')"

end
