(* ===== verification/Samples.thy ===== *)
theory Samples
  imports Lookup
begin

text \<open>
  Concrete values on which the theorems are applied: queues, messages, receipts and a world whose
  store never fails, whose clock stands still and whose request is never cancelled.
\<close>

definition sample_queue :: "int \<Rightarrow> string \<Rightarrow> bool \<Rightarrow> strmap \<Rightarrow> queue" where
  "sample_queue i name fifo attrs =
     \<lparr>q_ID = i, q_AccountID = ''0'', q_Region = ''r'', q_Name = name, q_URL = ''http://h/0/'' @ name,
      q_ARN = ''arn:aws:sqs:r:0:'' @ name, q_FIFO = fifo, q_Attributes = attrs, q_CreatedAt = 0,
      q_AvailableAt = 0, q_LastModifiedAt = 0, q_DeletedAt = None, q_ReuseBlockedTill = None,
      q_PurgeRequestedAt = None, q_PurgeExpiresAt = None\<rparr>"

definition sample_message :: "int \<Rightarrow> int \<Rightarrow> string \<Rightarrow> gotime \<Rightarrow> message" where
  "sample_message i queue gid sent =
     \<lparr>m_RowID = i, m_QueueID = queue, m_MessageID = formatInt i, m_Body = ''x'', m_BodyMD5 = [],
      m_MessageAttributes = [], m_SystemAttributes = [], m_SentAt = sent, m_OriginalSentAt = sent,
      m_FirstReceivedAt = None, m_ReceiveCount = 0, m_AvailableAt = sent, m_VisibilityDeadline = None,
      m_RetentionDeadline = sent + 1000000000000, m_DeletedAt = None, m_GroupID = gid, m_DedupID = [],
      m_SequenceNumber = [], m_DeadLetterSourceARN = [], m_EncryptionKeyID = [], m_ReceiveAttemptID = [],
      m_LastReceiptHandle = [], m_CurrentSourceQueueARN = []\<rparr>"

definition sample_receipt :: "int \<Rightarrow> int \<Rightarrow> int \<Rightarrow> string \<Rightarrow> gotime \<Rightarrow> receipt" where
  "sample_receipt i queue msg handle deadline =
     \<lparr>r_ID = i, r_QueueID = queue, r_MessageRowID = msg, r_Handle = handle, r_IssuedAt = 0,
      r_VisibilityDeadline = deadline, r_Active = True, r_ReceiveAttemptID = []\<rparr>"

definition sample_world :: "db \<Rightarrow> gotime \<Rightarrow> world" where
  "sample_world d t =
     \<lparr>w_db = d, w_faults = (\<lambda>_. False), w_calls = 0, w_clock = (\<lambda>_. t), w_ticks = 0,
      w_rand = (\<lambda>_. CHR ''A''), w_randpos = 0, w_randfail = (\<lambda>_. False), w_reads = 0,
      w_uuid = (\<lambda>i. ''id-'' @ formatInt (int i)), w_uuids = 0, w_cancel = (\<lambda>_. False), w_waits = 0\<rparr>"

lemma healthy_sample_world: "healthy (sample_world d t)"
  by (simp add: healthy_def sample_world_def)

definition sample_db :: "queue \<Rightarrow> db" where
  "sample_db q = db_Init\<lparr>d_queues := [q], d_queue_seq := q_ID q\<rparr>"

definition sample_delivery :: "queue \<Rightarrow> message \<Rightarrow> receipt \<Rightarrow> db" where
  "sample_delivery q m r = (sample_db q)\<lparr>d_messages := [m], d_message_seq := m_RowID m,
     d_receipts := [r], d_receipt_seq := r_ID r\<rparr>"

definition sample_config :: config where
  "sample_config = \<lparr>cfg_ListenAddr = '':9324'', cfg_PublicBaseURL = ''http://h'', cfg_Region = ''r'',
     cfg_AllowedRegions = [''r''], cfg_AccountID = ''0'', cfg_SQLitePath = ''x.db'', cfg_DataSource = [],
     cfg_AuthMode = ''bypass'', cfg_CredentialsFile = [], cfg_DefaultAccessKeyID = ''a'',
     cfg_DefaultSecretAccessKey = ''b'', cfg_DefaultSessionToken = [], cfg_AllowInsecureBypass = True,
     cfg_LogLevel = ''info'', cfg_CreatePropagation = 0, cfg_DeleteCooldown = 60000000000,
     cfg_PurgeCooldown = 60000000000, cfg_AttributePropagation = 60000000000,
     cfg_RetentionPropagation = 900000000000, cfg_StatsRefreshInterval = 1, cfg_ReaperInterval = 1,
     cfg_MoveTaskPollInterval = 1, cfg_LongPollWakeFrequency = 1\<rparr>"

definition sample_request :: "string \<Rightarrow> gmap \<Rightarrow> request" where
  "sample_request op input =
     \<lparr>rq_WireProtocol = WireProtocolJSON, rq_Operation = op, rq_Input = input, rq_RequestID = ''1'',
      rq_ReceivedAt = 0,
      rq_Identity = \<lparr>i_AccessKeyID = ''a'', i_AccountID = ''0'', i_PrincipalARN = [], i_PrincipalID = [],
        i_SessionToken = [], i_Region = ''r'', i_Service = ''sqs''\<rparr>,
      rq_QueuePathHint = []\<rparr>"

end
