(* ===== verification/Signatures.thy ===== *)
theory Signatures
  imports Auth Samples
begin

text \<open>
  What the signature check of \<open>Auth\<close> guarantees: an identity is given only to a request whose
  signature is the one that a registered credential makes for it, a request signed that way is
  accepted, and the signed query text determines the parameters.
\<close>

section \<open>Splitting\<close>

lemma splitOn_none: "c \<notin> set s \<Longrightarrow> splitOn c s = [s]"
  by (induction s) auto

lemma splitOn_append: "c \<notin> set s \<Longrightarrow> splitOn c (s @ c # t) = s # splitOn c t"
  by (induction s) auto

lemma splitOn_joinWith:
  assumes "xs \<noteq> []" and "\<And>x. x \<in> set xs \<Longrightarrow> c \<notin> set x"
  shows "splitOn c (joinWith [c] xs) = xs"
  using assms by (induction "[c]" xs rule: joinWith.induct) (simp_all add: splitOn_none splitOn_append)

lemma splitFirst_append: "c \<notin> set s \<Longrightarrow> splitFirst c (s @ c # t) = (s, Some t)"
  by (simp add: splitFirst_def dropWhile_append takeWhile_append)

lemma set_joinWith: "set (joinWith sep xs) \<subseteq> set sep \<union> \<Union> (set ` set xs)"
  by (induction sep xs rule: joinWith.induct) auto

section \<open>Percent encoding\<close>

lemma hex_val_upper: "d < 16 \<Longrightarrow> hex_val (hex_upper ! d) = Some d"
proof -
  assume "d < 16"
  then have "d \<in> set [0..<16]" by simp
  then show ?thesis
    by (simp add: upt_rec hex_upper_def hex_val_def in_range_def) (elim disjE; simp)
qed

lemma queryUnescape_encode_byte: "queryUnescape (encode_byte c @ s) = map_option ((#) c) (queryUnescape s)"
proof (cases "unreserved c")
  case True
  then have "c \<noteq> CHR ''%''" "c \<noteq> CHR ''+''" by (auto simp: unreserved_def in_range_def)
  with True show ?thesis by (simp add: encode_byte_def)
next
  case False
  have "byte c < 256" by (rule byte_less)
  then have "byte c div 16 < 16" by (simp add: less_mult_imp_div_less)
  then show ?thesis using False
    by (simp add: encode_byte_def hex_val_upper)
qed

lemma queryUnescape_awsPercentEncode: "queryUnescape (awsPercentEncode s) = Some s"
  by (induction s) (simp_all add: awsPercentEncode_def queryUnescape_encode_byte)

lemma awsPercentEncode_inj: "awsPercentEncode s = awsPercentEncode t \<longleftrightarrow> s = t"
  by (metis queryUnescape_awsPercentEncode option.inject)

lemma hex_upper_unreserved: "d < 16 \<Longrightarrow> unreserved (hex_upper ! d)"
proof -
  assume "d < 16"
  then have "d \<in> set [0..<16]" by simp
  then show ?thesis
    by (simp add: upt_rec hex_upper_def unreserved_def in_range_def) (elim disjE; simp)
qed

lemma awsPercentEncode_chars: "c \<in> set (awsPercentEncode s) \<Longrightarrow> unreserved c \<or> c = CHR ''%''"
  using byte_less
  by (auto simp: awsPercentEncode_def encode_byte_def hex_upper_unreserved less_mult_imp_div_less split: if_splits)

lemma separators_not_encoded: "CHR ''='' \<notin> set (awsPercentEncode s)" "CHR ''&'' \<notin> set (awsPercentEncode s)"
  using awsPercentEncode_chars by (auto simp: unreserved_def in_range_def dest!: awsPercentEncode_chars)

section \<open>The canonical query string\<close>

text \<open>The parameters of a query, one pair for each value.\<close>

definition parameters :: "url_values \<Rightarrow> (string \<times> string) list" where
  "parameters values = concat (map (\<lambda>(key, vs). map (Pair key) vs) values)"

definition encode_pair :: "string \<times> string \<Rightarrow> string \<times> string" where
  "encode_pair = map_prod awsPercentEncode awsPercentEncode"

definition pair_text :: "string \<times> string \<Rightarrow> string" where
  "pair_text p = (case p of (k, v) \<Rightarrow> k @ ''='' @ v)"

lemma query_pairs_parameters: "query_pairs values False = map encode_pair (parameters values)"
  by (induction "values") (auto simp: query_pairs_def parameters_def encode_pair_def)

lemma pair_text_encoded:
  "p \<in> range encode_pair \<Longrightarrow> CHR ''&'' \<notin> set (pair_text p) \<and> pair_text p \<noteq> [] \<and> splitFirst (CHR ''='') (pair_text p) = (fst p, Some (snd p))"
  by (auto simp: encode_pair_def pair_text_def separators_not_encoded splitFirst_append)

lemma joined_pairs_inj:
  assumes "set ps \<subseteq> range encode_pair" and "set qs \<subseteq> range encode_pair"
    and "joinWith ''&'' (map pair_text ps) = joinWith ''&'' (map pair_text qs)"
  shows "ps = qs"
proof -
  have split: "splitOn (CHR ''&'') (joinWith ''&'' (map pair_text xs)) = (if xs = [] then [[]] else map pair_text xs)"
    if "set xs \<subseteq> range encode_pair" for xs
  proof (cases "xs = []")
    case False
    have "CHR ''&'' \<notin> set t" if "t \<in> pair_text ` set xs" for t
      using that \<open>set xs \<subseteq> _\<close> pair_text_encoded by blast
    with False show ?thesis using splitOn_joinWith [of "map pair_text xs" "CHR ''&''"] by simp
  qed simp
  have "[[]] \<noteq> map pair_text xs" if "set xs \<subseteq> range encode_pair" for xs
  proof
    assume "[[]] = map pair_text xs"
    then obtain x where "xs = [x]" "pair_text x = []" by (auto simp: map_eq_Cons_conv)
    with that pair_text_encoded [of x] show False by simp
  qed
  note ne = this
  have "(if ps = [] then [[]] else map pair_text ps) = (if qs = [] then [[]] else map pair_text qs)"
    by (simp only: split [OF assms(1), symmetric] split [OF assms(2), symmetric] assms(3))
  then have eq: "map pair_text ps = map pair_text qs"
    using ne [OF assms(1)] ne [OF assms(2)] by (cases "ps = []"; cases "qs = []"; simp)
  have "inj_on pair_text (set ps \<union> set qs)"
  proof (rule inj_onI)
    fix p q assume "p \<in> set ps \<union> set qs" "q \<in> set ps \<union> set qs" "pair_text p = pair_text q"
    then have "(fst p, Some (snd p)) = (fst q, Some (snd q))"
      using pair_text_encoded assms(1,2) by (metis (no_types, lifting) UnE subsetD)
    then show "p = q" by (simp add: prod_eq_iff)
  qed
  with eq show ?thesis by (rule map_inj_on)
qed

text \<open>
  C32. The canonical query string that is signed determines the parameters of the query: two queries
  with the same canonical string have the same keys and values, as often, in some order. Neither a
  separator nor a percent sign inside a key or a value can be moved across.
\<close>

theorem canonical_query_determines_parameters:
  assumes "buildCanonicalQueryString values False = buildCanonicalQueryString values' False"
  shows "mset (parameters values) = mset (parameters values')"
proof -
  have encoded: "set (sort (query_pairs vs False)) \<subseteq> range encode_pair" for vs
    by (auto simp: query_pairs_parameters)
  have "sort (query_pairs values False) = sort (query_pairs values' False)"
    by (rule joined_pairs_inj [OF encoded encoded])
      (use assms in \<open>simp add: buildCanonicalQueryString_def pair_text_def [abs_def]\<close>)
  then have "image_mset encode_pair (mset (parameters values)) = image_mset encode_pair (mset (parameters values'))"
    by (metis mset_sort mset_map query_pairs_parameters)
  then have "image_mset (inv encode_pair \<circ> encode_pair) (mset (parameters values))
      = image_mset (inv encode_pair \<circ> encode_pair) (mset (parameters values'))"
    by (simp only: multiset.map_comp [symmetric])
  moreover have "inj encode_pair"
    unfolding encode_pair_def by (rule prod.inj_map) (auto intro!: injI simp: awsPercentEncode_inj)
  ultimately show ?thesis by simp
qed

theorem canonical_query_determines_parameters_witness:
  "mset (parameters [(''b'', [''1'']), (''a'', [''2''])]) = mset (parameters [(''a'', [''2'']), (''b'', [''1''])])"
  by (rule canonical_query_determines_parameters)
    (simp add: buildCanonicalQueryString_def query_pairs_def awsPercentEncode_def encode_byte_def unreserved_def in_range_def)

section \<open>What an accepted request has\<close>

text \<open>A clock that is read moves on, and nothing else changes.\<close>

definition ticked :: "world \<Rightarrow> world \<Rightarrow> bool" where
  "ticked w w' \<longleftrightarrow> w_ticks w \<le> w_ticks w' \<and> w' = w\<lparr>w_ticks := w_ticks w'\<rparr>"

lemma ticked_refl [simp]: "ticked w w"
  by (simp add: ticked_def)

lemma ticked_trans: "ticked u v \<Longrightarrow> ticked v w \<Longrightarrow> ticked u w"
  unfolding ticked_def by (cases u, cases v, cases w) auto

lemma ticked_clock: "ticked w w' \<Longrightarrow> w_clock w' = w_clock w"
  unfolding ticked_def by (metis world.select_convs(4) world.surjective world.update_convs(5))

lemma run_refuse [simp]: "refuse cause w = (Inl (EApi (WithCause ErrInvalidSecurity cause)), w)"
  by (simp add: refuse_def throwApi_def)

lemma bindE_nowE: "bindE nowE f w = f (w_clock w (w_ticks w)) (w\<lparr>w_ticks := Suc (w_ticks w)\<rparr>)"
  by (simp add: run_nowE)

lemma lookupIdentity_accepts:
  assumes "lookupIdentity svc key token w = (Inr p, w')"
  shows "\<exists>cred. p = (cred, cred_identity cred) \<and> cred_Get (as_registry svc) key = Some cred
    \<and> (\<forall>expiry. cr_ExpiresAt cred = Some expiry \<longrightarrow> w_clock w (w_ticks w) \<le> expiry)
    \<and> (cr_SessionToken cred = [] \<or> cr_SessionToken cred = token) \<and> ticked w w'"
  using assms
  by (auto simp: lookupIdentity_def bindE_nowE run_bindE ticked_def split: option.splits if_splits prod.splits)

lemma validateScope_accepts:
  assumes "validateScope svc scope t w = (Inr u, w')"
  shows "cs_Service scope = ''sqs'' \<and> (as_allowedRegions svc = [] \<or> cs_Region scope \<in> set (as_allowedRegions svc))
    \<and> \<bar>t - w_clock w (w_ticks w)\<bar> \<le> max_skew \<and> format_date t = cs_Date scope \<and> ticked w w' \<and> w_ticks w < w_ticks w'"
  using assms by (auto simp: validateScope_def bindE_nowE ticked_def split: if_splits)

lemma check_signature_accepts:
  assumes "check_signature r body names presigned signature t scope p w = (Inr identity, w')"
  shows "w' = w \<and> identity = (snd p)\<lparr>i_Region := cs_Region scope, i_Service := cs_Service scope\<rparr>
    \<and> (\<exists>canonical. buildCanonicalRequest r body names presigned = Some canonical
        \<and> signature = signStringToSign (cr_SecretAccessKey (fst p)) scope (buildStringToSign t scope canonical))"
  using assms by (auto simp: check_signature_def Let_def split: option.splits if_splits)

text \<open>
  What is behind an identity: a credential of the registry for the key in the scope that has not
  expired, a scope for SQS in an allowed region on the day of the request, a time of the request
  that the clock confirms, and the signature of that credential over the canonical request.
\<close>

definition signed_by :: "auth_service \<Rightarrow> world \<Rightarrow> world \<Rightarrow> http_request \<Rightarrow> string \<Rightarrow> bool \<Rightarrow> string \<Rightarrow> credential
    \<Rightarrow> credential_scope \<Rightarrow> gotime \<Rightarrow> string list \<Rightarrow> bool" where
  "signed_by svc w w' r body presigned signature cred scope t names \<longleftrightarrow>
     cred_Get (as_registry svc) (cs_AccessKeyID scope) = Some cred
     \<and> (\<forall>expiry. cr_ExpiresAt cred = Some expiry \<longrightarrow> w_clock w (w_ticks w) \<le> expiry)
     \<and> cs_Service scope = ''sqs'' \<and> (as_allowedRegions svc = [] \<or> cs_Region scope \<in> set (as_allowedRegions svc))
     \<and> (\<exists>i. w_ticks w \<le> i \<and> i < w_ticks w' \<and> \<bar>t - w_clock w i\<bar> \<le> max_skew)
     \<and> format_date t = cs_Date scope
     \<and> (\<exists>canonical. buildCanonicalRequest r body names presigned = Some canonical
          \<and> signature = signStringToSign (cr_SecretAccessKey cred) scope (buildStringToSign t scope canonical))"

lemma verified_signature:
  assumes lookup: "lookupIdentity svc (cs_AccessKeyID scope) token w = (Inr p, w1)"
    and scope: "validateScope svc scope t w1 = (Inr (), w2)"
    and later: "ticked w2 w3"
    and signed: "check_signature r body names presigned signature t scope p w3 = (Inr identity, w')"
  shows "ticked w w' \<and> signed_by svc w w' r body presigned signature (fst p) scope t names
    \<and> (cr_SessionToken (fst p) = [] \<or> cr_SessionToken (fst p) = token)
    \<and> identity = (cred_identity (fst p))\<lparr>i_Region := cs_Region scope, i_Service := ''sqs''\<rparr>"
proof -
  note l = lookupIdentity_accepts [OF lookup] and v = validateScope_accepts [OF scope]
    and c = check_signature_accepts [OF signed]
  have t: "ticked w w1" "ticked w1 w2" "w' = w3" using l v c by auto
  then have "ticked w w'" using later ticked_trans by blast
  moreover have "\<exists>i. w_ticks w \<le> i \<and> i < w_ticks w' \<and> \<bar>t - w_clock w i\<bar> \<le> max_skew"
    by (rule exI [of _ "w_ticks w1"]) (use t v later ticked_clock [of w w1] in \<open>auto simp: ticked_def\<close>)
  ultimately show ?thesis using l v c by (auto simp: signed_by_def)
qed

section \<open>Signed requests are accepted\<close>

abbreviation plain :: "string \<Rightarrow> bool" where
  "plain s \<equiv> s \<noteq> [] \<and> list_all unreserved s"

lemma plain_byte: "unreserved c \<Longrightarrow> byte c < 128 \<and> \<not> is_space (byte c)"
  by (auto simp: unreserved_def in_range_def is_space_def)

lemma plain_separators:
  "list_all unreserved s \<Longrightarrow> CHR ''/'' \<notin> set s \<and> CHR '','' \<notin> set s \<and> CHR '';'' \<notin> set s \<and> CHR ''='' \<notin> set s"
  by (auto simp: list_all_iff unreserved_def in_range_def)

lemma digit_unreserved: "digit_val c = Some d \<Longrightarrow> unreserved c"
  by (auto simp: digit_val_def unreserved_def in_range_def Let_def split: if_splits)

lemma unreserved_digits: "list_all unreserved (dec_digits n)"
  using digit_val_dec_digits [of _ n] digit_unreserved by (fastforce simp: list_all_iff)

lemma unreserved_zero_pad: "list_all unreserved (zero_pad w n)"
  using unreserved_digits
  by (auto simp: zero_pad_def Let_def list_all_iff) (simp_all add: unreserved_def in_range_def)

lemma plain_format_date: "plain (format_date t)"
proof -
  have "zero_pad w n \<noteq> []" for w n by (simp add: zero_pad_def Let_def)
  then show ?thesis by (simp add: format_date_def unreserved_zero_pad split: prod.splits)
qed

lemma hex_lower_unreserved: "d < 16 \<Longrightarrow> unreserved (hex_lower ! d)"
proof -
  assume "d < 16"
  then have "d \<in> set [0..<16]" by simp
  then show ?thesis
    by (simp add: upt_rec hex_lower_def unreserved_def in_range_def) (elim disjE; simp)
qed

lemma unreserved_hexEncode: "list_all unreserved (hexEncode s)"
  using byte_less by (induction s) (simp_all add: hexEncode_def hex_lower_unreserved less_mult_imp_div_less)

lemma hmac_nonempty: "hexEncode (hmac_sha256 key msg) \<noteq> []"
proof -
  have "length (hmac_sha256 key msg) = 32" by (simp add: hmac_sha256_def Let_def length_sha256)
  then show ?thesis using length_hexEncode [of "hmac_sha256 key msg"] by auto
qed

lemma trimSpace_ascii:
  assumes "ascii s"
  shows "trimSpace s = rev (dropWhile (\<lambda>c. is_space (byte c)) (rev (dropWhile (\<lambda>c. is_space (byte c)) s)))"
  by (simp add: trimSpace_def runeChunks_ascii [OF assms] dropWhile_map comp_def rev_map)

text \<open>A field of the header: a name, \<open>=\<close>, and visible text.\<close>

definition visible :: "string \<Rightarrow> bool" where
  "visible s \<longleftrightarrow> s \<noteq> [] \<and> list_all (\<lambda>c. byte c < 128 \<and> \<not> is_space (byte c) \<and> c \<noteq> CHR '','') s"

lemma trimSpace_visible: "visible s \<Longrightarrow> trimSpace s = s \<and> trimSpace (CHR '' '' # s) = s"
proof -
  assume v: "visible s"
  then have a: "ascii s" "ascii (CHR '' '' # s)" by (auto simp: visible_def ascii_def list_all_iff)
  have d: "dropWhile (\<lambda>c. is_space (byte c)) t = t" if "set t \<subseteq> set s" for t
    using v that by (cases t) (auto simp: visible_def list_all_iff)
  have "is_space (byte (CHR '' ''))" by (simp add: is_space_def)
  then show ?thesis using a by (simp add: trimSpace_ascii d)
qed

lemma plain_visible: "plain s \<Longrightarrow> visible s"
  using plain_byte plain_separators [of s] by (fastforce simp: visible_def list_all_iff)

lemma visible_append: "visible s \<Longrightarrow> visible t \<Longrightarrow> visible (s @ t)"
  by (simp add: visible_def)

lemma visible_char: "byte c < 128 \<Longrightarrow> \<not> is_space (byte c) \<Longrightarrow> c \<noteq> CHR '','' \<Longrightarrow> visible [c]"
  by (simp add: visible_def)

lemma visible_join:
  assumes "xs \<noteq> []" and "\<forall>x \<in> set xs. plain x"
  shows "visible (joinWith '';'' xs)"
proof -
  have "visible (joinWith [CHR '';''] xs)"
    using assms
  proof (induction "[CHR '';'']" xs rule: joinWith.induct)
    case (3 x y ys)
    then show ?case
      using visible_append [OF plain_visible visible_append [OF visible_char], of x "CHR '';''"]
      by (simp add: is_space_def)
  qed (simp_all add: plain_visible)
  then show ?thesis .
qed

lemma parse_three_fields:
  assumes "visible a" and "visible b" and "visible c"
  shows "parseAuthFields (''Credential='' @ a @ '', SignedHeaders='' @ b @ '', Signature='' @ c)
    = [(''Credential'', a), (''SignedHeaders'', b), (''Signature'', c)]"
proof -
  have n: "visible (''Credential'' @ ''='')" "visible (''SignedHeaders'' @ ''='')" "visible (''Signature'' @ ''='')"
    by (simp_all add: visible_def is_space_def)
  note f = visible_append [OF n(1) assms(1)] visible_append [OF n(2) assms(2)] visible_append [OF n(3) assms(3)]
  have comma: "CHR '','' \<notin> set s" if "visible s" for s using that by (auto simp: visible_def list_all_iff)
  have "splitOn (CHR '','') ((''Credential='' @ a) @ CHR '','' # ((CHR '' '' # ''SignedHeaders='' @ b) @ CHR '','' # (CHR '' '' # ''Signature='' @ c)))
      = [''Credential='' @ a, CHR '' '' # ''SignedHeaders='' @ b, CHR '' '' # ''Signature='' @ c]"
    using f [THEN comma] by (subst splitOn_append, simp)+ (simp add: splitOn_none)
  then have "splitOn (CHR '','') (''Credential='' @ a @ '', SignedHeaders='' @ b @ '', Signature='' @ c)
      = [''Credential='' @ a, CHR '' '' # ''SignedHeaders='' @ b, CHR '' '' # ''Signature='' @ c]"
    by simp
  moreover have "splitFirst (CHR ''='') (''Credential='' @ a) = (''Credential'', Some a)"
    "splitFirst (CHR ''='') (''SignedHeaders='' @ b) = (''SignedHeaders'', Some b)"
    "splitFirst (CHR ''='') (''Signature='' @ c) = (''Signature'', Some c)"
    by (simp_all add: splitFirst_def)
  moreover have "trimSpace (''Credential='' @ a) = ''Credential='' @ a"
    "trimSpace (CHR '' '' # ''SignedHeaders='' @ b) = ''SignedHeaders='' @ b"
    "trimSpace (CHR '' '' # ''Signature='' @ c) = ''Signature='' @ c"
    using f [THEN trimSpace_visible] by simp_all
  ultimately show ?thesis by (simp add: parseAuthFields_def)
qed

definition sqs_scope :: "string \<Rightarrow> gotime \<Rightarrow> string \<Rightarrow> credential_scope" where
  "sqs_scope key t region = \<lparr>cs_AccessKeyID = key, cs_Date = format_date t, cs_Region = region, cs_Service = ''sqs'',
     cs_Terminal = ''aws4_request''\<rparr>"

text \<open>The header that a client makes: scope, signed headers, and the signature of the canonical request.\<close>

definition authorization :: "credential \<Rightarrow> credential_scope \<Rightarrow> gotime \<Rightarrow> string list \<Rightarrow> string \<Rightarrow> string" where
  "authorization cred scope t names canonical =
     ''AWS4-HMAC-SHA256 '' @ ''Credential='' @ joinWith ''/'' [cs_AccessKeyID scope, cs_Date scope, cs_Region scope,
        cs_Service scope, cs_Terminal scope] @ '', SignedHeaders='' @ joinWith '';'' names @ '', Signature=''
     @ signStringToSign (cr_SecretAccessKey cred) scope (buildStringToSign t scope canonical)"

lemma parse_sqs_scope:
  assumes "plain key" and "plain region"
  shows "parseCredentialScope (joinWith ''/'' [key, format_date t, region, ''sqs'', ''aws4_request'']) = Some (sqs_scope key t region)"
    and "visible (joinWith ''/'' [key, format_date t, region, ''sqs'', ''aws4_request''])"
proof -
  have p: "plain ''sqs''" "plain ''aws4_request''" by (simp_all add: unreserved_def in_range_def)
  have "splitOn (CHR ''/'') (joinWith [CHR ''/''] [key, format_date t, region, ''sqs'', ''aws4_request''])
      = [key, format_date t, region, ''sqs'', ''aws4_request'']"
    by (rule splitOn_joinWith) (use assms plain_format_date [of t] p plain_separators in auto)
  then show "parseCredentialScope (joinWith ''/'' [key, format_date t, region, ''sqs'', ''aws4_request'']) = Some (sqs_scope key t region)"
    by (simp add: parseCredentialScope_def sqs_scope_def)
  have slash: "visible ''/''" by (rule visible_char) (simp_all add: is_space_def)
  have "visible (key @ ''/'' @ format_date t @ ''/'' @ region @ ''/'' @ ''sqs'' @ ''/'' @ ''aws4_request'')"
    by (intro visible_append slash plain_visible assms plain_format_date p)
  then show "visible (joinWith ''/'' [key, format_date t, region, ''sqs'', ''aws4_request''])" by simp
qed

lemma signature_visible: "visible (signStringToSign secret scope msg)"
  by (simp add: signStringToSign_def Let_def plain_visible unreserved_hexEncode hmac_nonempty)

lemma header_signature_accepted:
  assumes cred: "cred_Get (as_registry svc) key = Some cred"
    and alive: "\<And>expiry. cr_ExpiresAt cred = Some expiry \<Longrightarrow> w_clock w (w_ticks w) \<le> expiry"
    and token: "cr_SessionToken cred = [] \<or> cr_SessionToken cred = header_get (hr_Header r) ''X-Amz-Security-Token''"
    and region: "as_allowedRegions svc = [] \<or> region \<in> set (as_allowedRegions svc)"
    and date: "parse_stamp (header_get (hr_Header r) ''X-Amz-Date'') = Some t"
    and skew: "\<And>i. i = w_ticks w \<or> i = Suc (w_ticks w) \<Longrightarrow> \<bar>t - w_clock w i\<bar> \<le> max_skew"
    and plain: "plain key" "plain region" and names: "names \<noteq> []" "\<forall>n \<in> set names. plain n"
    and canonical: "buildCanonicalRequest r body names False = Some canonical"
  shows "\<exists>w'. authenticateHeaderSigned svc r body (authorization cred (sqs_scope key t region) t names canonical) w
    = (Inr ((cred_identity cred)\<lparr>i_Region := region, i_Service := ''sqs''\<rparr>), w') \<and> ticked w w'"
proof -
  let ?scope = "sqs_scope key t region"
  let ?sig = "signStringToSign (cr_SecretAccessKey cred) ?scope (buildStringToSign t ?scope canonical)"
  define cv where "cv = joinWith ''/'' [key, format_date t, region, ''sqs'', ''aws4_request'']"
  note scope = parse_sqs_scope [OF plain, of t, folded cv_def] and vis = visible_join [OF names] and sv = signature_visible
  have f: "drop (length ''AWS4-HMAC-SHA256 '') (authorization cred ?scope t names canonical)
      = ''Credential='' @ cv @ '', SignedHeaders='' @ joinWith '';'' names @ '', Signature='' @ ?sig"
    by (simp add: authorization_def sqs_scope_def cv_def)
  have pre: "prefix ''AWS4-HMAC-SHA256 '' (authorization cred ?scope t names canonical)"
    by (simp add: authorization_def)
  have split: "splitOn (CHR '';'') (joinWith [CHR '';''] names) = names"
    by (rule splitOn_joinWith) (use names plain_separators in blast)+
  define w1 where "w1 = (if cr_ExpiresAt cred = None then w else w\<lparr>w_ticks := Suc (w_ticks w)\<rparr>)"
  have lookup: "lookupIdentity svc key (header_get (hr_Header r) ''X-Amz-Security-Token'') w = (Inr (cred, cred_identity cred), w1)"
    using cred alive token by (auto simp: lookupIdentity_def w1_def bindE_nowE run_bindE not_less split: option.splits)
  have "\<bar>t - w_clock w1 (w_ticks w1)\<bar> \<le> max_skew" using skew by (simp add: w1_def)
  then have valid: "validateScope svc ?scope t w1 = (Inr (), w1\<lparr>w_ticks := Suc (w_ticks w1)\<rparr>)"
    using region by (auto simp: validateScope_def sqs_scope_def bindE_nowE)
  have signed: "check_signature r body names False ?sig t ?scope (cred, cred_identity cred) w2
      = (Inr ((cred_identity cred)\<lparr>i_Region := region, i_Service := ''sqs''\<rparr>), w2)" for w2
    by (simp add: check_signature_def canonical) (simp add: sqs_scope_def)
  have ne: "visible x \<Longrightarrow> x \<noteq> []" for x by (simp add: visible_def)
  have amz: "header_get (hr_Header r) ''X-Amz-Date'' \<noteq> []"
    using date by (auto simp: parse_stamp_def parse_time_def long_year_def)
  have key: "cs_AccessKeyID ?scope = key" by (simp add: sqs_scope_def)
  let ?fs = "[(''Credential'', cv), (''SignedHeaders'', joinWith '';'' names), (''Signature'', ?sig)]"
  have fs: "sget ?fs ''Credential'' = cv" "sget ?fs ''SignedHeaders'' = joinWith '';'' names" "sget ?fs ''Signature'' = ?sig"
    by (simp_all add: sget_def)
  have "authenticateHeaderSigned svc r body (authorization cred ?scope t names canonical) w
      = (Inr ((cred_identity cred)\<lparr>i_Region := region, i_Service := ''sqs''\<rparr>), w1\<lparr>w_ticks := Suc (w_ticks w1)\<rparr>)"
    unfolding authenticateHeaderSigned_def f parse_three_fields [OF scope(2) vis sv] Let_def fs
    using pre ne [OF scope(2)] ne [OF vis] ne [OF sv] amz split
    by (simp add: scope(1) key lookup date valid signed)
  moreover have "ticked w (w1\<lparr>w_ticks := Suc (w_ticks w1)\<rparr>)" by (simp add: ticked_def w1_def)
  ultimately show ?thesis by blast
qed

text \<open>A signed request: the credential of the default registry, one signed header, noon of a leap day.\<close>

definition sample_auth :: auth_service where
  "sample_auth = auth_NewService ''strict'' (auth_NewRegistry ''000000000000'' []) [''us-east-1''] ''us-east-1'' ''000000000000''"

definition sample_noon :: gotime where
  "sample_noon = 1709208000000000000"

definition unsigned_request :: "http_header \<Rightarrow> http_request" where
  "unsigned_request h = \<lparr>hr_Method = ''POST'', hr_Path = ''/'', hr_EscapedPath = ''/'', hr_RawQuery = [], hr_Host = ''h'',
     hr_Header = h, hr_Body = Some []\<rparr>"

definition sample_canonical :: string where
  "sample_canonical = the (buildCanonicalRequest (unsigned_request []) [] [''host''] False)"

definition sample_credential :: credential where
  "sample_credential = seed_credential ''000000000000'' zero_credential"

definition sample_signed :: http_request where
  "sample_signed = unsigned_request [(''X-Amz-Date'', [''20240229T120000Z'']),
     (''Authorization'', [authorization sample_credential (sqs_scope ''test'' sample_noon ''us-east-1'') sample_noon
        [''host''] sample_canonical])]"

lemma sample_headers:
  "canonicalHeaderKey ''X-Amz-Date'' = ''X-Amz-Date''" "canonicalHeaderKey ''Authorization'' = ''Authorization''"
  "canonicalHeaderKey ''X-Amz-Content-Sha256'' = ''X-Amz-Content-Sha256''"
  "canonicalHeaderKey ''X-Amz-Security-Token'' = ''X-Amz-Security-Token''"
  by (simp_all add: canonicalHeaderKey_def token_char_def ascii_upper_def ascii_lower_def Let_def)

lemma sample_date: "parse_stamp ''20240229T120000Z'' = Some sample_noon"
  by (simp add: parse_stamp_def parse_time_def long_year_def skip_literal_def getnum_in_def getnum_def frac_seconds_def zone_literal_def
      digit_val_def time_Date_def days_of_civil_def year_start_def epoch_day_def nsDay_def nsSecond_def daysIn_def leap_year_def
      sample_noon_def)

lemma sample_query: "url_query (unsigned_request h) = []"
  by (simp add: url_query_def unsigned_request_def parseQuery_def query_limit_def add_setting_def parse_setting_def)

lemma sample_canonical_request:
  "hr_Header r = [(''X-Amz-Date'', d), (''Authorization'', a)] \<Longrightarrow> r = unsigned_request (hr_Header r) \<Longrightarrow>
   buildCanonicalRequest r [] [''host''] False = Some sample_canonical"
proof -
  have l: "toLower ''host'' = ''host''" "trimSpace ''host'' = ''host''"
    using trimSpace_visible [of "''host''"]
    by (simp_all add: toLower_def runeChunks_ascii ascii_def lower_rune_def ascii_lower_def visible_def is_space_def)
  have h: "hr_Host (unsigned_request hs) = ''h''" "hr_Method (unsigned_request hs) = ''POST''"
    "hr_EscapedPath (unsigned_request hs) = ''/''" "hr_Header (unsigned_request hs) = hs" for hs
    by (simp_all add: unsigned_request_def)
  have "buildCanonicalHeaders (unsigned_request hs) [''host''] = Some (''host:'' @ canonicalizeHeaderValue ''h'' @ newline)" for hs
    by (simp add: l h Let_def)
  moreover have "payload_hash (unsigned_request hs) [] = sha256Hex []" if "hs = [] \<or> hs = [(''X-Amz-Date'', d), (''Authorization'', a)]" for hs
    using that by (auto simp: payload_hash_def h header_get_def sample_headers sample_query values_get_def)
  moreover assume "hr_Header r = [(''X-Amz-Date'', d), (''Authorization'', a)]" "r = unsigned_request (hr_Header r)"
  ultimately show ?thesis
    by (metis (no_types, lifting) buildCanonicalRequest_def h option.sel sample_canonical_def sample_query option.simps(5))
qed

lemma sample_credential_simps:
  "cr_AccessKeyID sample_credential = ''test''" "cr_ExpiresAt sample_credential = None" "cr_SessionToken sample_credential = []"
  by (simp_all add: sample_credential_def seed_credential_def zero_credential_def or_default_def Let_def)

lemma sample_auth_simps:
  "cred_Get (as_registry sample_auth) ''test'' = Some sample_credential" "as_mode sample_auth = ''strict''"
  "as_allowedRegions sample_auth = [''us-east-1'']"
  using sample_credential_simps(1)
  by (simp_all add: sample_auth_def auth_NewService_def auth_NewRegistry_def cred_Get_def cred_Put_def sample_credential_def)

lemma sample_signed_headers:
  "header_get (hr_Header sample_signed) ''Authorization''
     = authorization sample_credential (sqs_scope ''test'' sample_noon ''us-east-1'') sample_noon [''host''] sample_canonical"
  "parse_stamp (header_get (hr_Header sample_signed) ''X-Amz-Date'') = Some sample_noon"
  "buildCanonicalRequest sample_signed [] [''host''] False = Some sample_canonical"
  by (simp_all add: sample_signed_def unsigned_request_def header_get_def sample_headers sample_date)
    (rule sample_canonical_request, simp_all add: unsigned_request_def)

lemma sample_accepted:
  "\<exists>w'. Authenticate sample_auth sample_signed [] (sample_world db_Init sample_noon)
     = (Inr ((cred_identity sample_credential)\<lparr>i_Region := ''us-east-1'', i_Service := ''sqs''\<rparr>), w')"
proof -
  let ?authz = "authorization sample_credential (sqs_scope ''test'' sample_noon ''us-east-1'') sample_noon [''host''] sample_canonical"
  have "\<exists>w'. authenticateHeaderSigned sample_auth sample_signed [] ?authz (sample_world db_Init sample_noon)
      = (Inr ((cred_identity sample_credential)\<lparr>i_Region := ''us-east-1'', i_Service := ''sqs''\<rparr>), w')
        \<and> ticked (sample_world db_Init sample_noon) w'"
    by (rule header_signature_accepted)
      (simp_all add: sample_auth_simps sample_credential_simps sample_signed_headers sample_world_def max_skew_def nsSecond_def
        unreserved_def in_range_def)
  moreover have "?authz \<noteq> []" by (simp add: authorization_def)
  ultimately show ?thesis unfolding Authenticate_def sample_signed_headers Let_def by (auto simp: sample_auth_simps)
qed

section \<open>Claims\<close>

text \<open>The signature and the session token that a request carries, in the header or in the query.\<close>

definition given_signature :: "http_request \<Rightarrow> bool \<Rightarrow> string" where
  "given_signature r presigned = (if presigned then values_get (url_query r) ''X-Amz-Signature''
     else sget (parseAuthFields (drop (length ''AWS4-HMAC-SHA256 '') (header_get (hr_Header r) ''Authorization''))) ''Signature'')"

definition given_token :: "http_request \<Rightarrow> bool \<Rightarrow> string" where
  "given_token r presigned = (if presigned then values_get (url_query r) ''X-Amz-Security-Token''
     else header_get (hr_Header r) ''X-Amz-Security-Token'')"

lemma header_identity:
  assumes "authenticateHeaderSigned svc r body (header_get (hr_Header r) ''Authorization'') w = (Inr identity, w')"
  shows "\<exists>cred scope t names. ticked w w' \<and> signed_by svc w w' r body False (given_signature r False) cred scope t names
    \<and> (cr_SessionToken cred = [] \<or> cr_SessionToken cred = given_token r False)
    \<and> identity = (cred_identity cred)\<lparr>i_Region := cs_Region scope, i_Service := ''sqs''\<rparr>"
proof -
  obtain scope t names p w1 w2 where *: "lookupIdentity svc (cs_AccessKeyID scope) (given_token r False) w = (Inr p, w1)"
    "validateScope svc scope t w1 = (Inr (), w2)"
    "check_signature r body names False (given_signature r False) t scope p w2 = (Inr identity, w')"
    using assms unfolding authenticateHeaderSigned_def Let_def given_signature_def given_token_def
    by (fastforce split: if_splits option.splits elim!: bindE_Inr_cases)
  show ?thesis using verified_signature [OF *(1,2) ticked_refl *(3)] by blast
qed

lemma query_identity:
  assumes "authenticateQuerySigned svc r body w = (Inr identity, w')"
  shows "\<exists>cred scope t names. ticked w w' \<and> signed_by svc w w' r body True (given_signature r True) cred scope t names
    \<and> (cr_SessionToken cred = [] \<or> cr_SessionToken cred = given_token r True)
    \<and> identity = (cred_identity cred)\<lparr>i_Region := cs_Region scope, i_Service := ''sqs''\<rparr>"
proof -
  obtain scope t names p w1 w2 where *: "lookupIdentity svc (cs_AccessKeyID scope) (given_token r True) w = (Inr p, w1)"
    "validateScope svc scope t w1 = (Inr (), w2)"
    "check_signature r body names True (given_signature r True) t scope p (w2\<lparr>w_ticks := Suc (w_ticks w2)\<rparr>) = (Inr identity, w')"
    using assms unfolding authenticateQuerySigned_def Let_def given_signature_def given_token_def
    by (fastforce split: if_splits option.splits elim!: bindE_Inr_cases simp: bindE_nowE)
  have "ticked w2 (w2\<lparr>w_ticks := Suc (w_ticks w2)\<rparr>)" by (simp add: ticked_def)
  from verified_signature [OF *(1,2) this *(3)] show ?thesis by blast
qed

text \<open>
  C10. Outside bypass mode an identity is given only to a request that is signed by the credential
  it stands for: the credential is registered and has not expired, its session token is
  presented, the scope names SQS, an allowed region and the day of the request, the clock
  confirms the time within fifteen minutes, and the signature of the request is the one that
  the secret key makes for the canonical request. Authentication changes nothing but the clock.
\<close>

theorem accepted_requests_are_signed:
  assumes "Authenticate svc r body w = (Inr identity, w')" and "as_mode svc \<noteq> ''bypass''"
  shows "\<exists>presigned cred scope t names. ticked w w'
    \<and> signed_by svc w w' r body presigned (given_signature r presigned) cred scope t names
    \<and> (cr_SessionToken cred = [] \<or> cr_SessionToken cred = given_token r presigned)
    \<and> identity = (cred_identity cred)\<lparr>i_Region := cs_Region scope, i_Service := ''sqs''\<rparr>"
proof (cases "header_get (hr_Header r) ''Authorization'' = []")
  case True
  with assms have "authenticateQuerySigned svc r body w = (Inr identity, w')"
    by (auto simp: Authenticate_def Let_def split: if_splits)
  then show ?thesis using query_identity by blast
next
  case False
  with assms have "authenticateHeaderSigned svc r body (header_get (hr_Header r) ''Authorization'') w = (Inr identity, w')"
    by (simp add: Authenticate_def Let_def)
  then show ?thesis using header_identity by blast
qed

theorem accepted_requests_are_signed_witness:
  "\<exists>w' presigned cred scope t names. signed_by sample_auth (sample_world db_Init sample_noon) w' sample_signed [] presigned
     (given_signature sample_signed presigned) cred scope t names"
proof -
  obtain identity w' where "Authenticate sample_auth sample_signed [] (sample_world db_Init sample_noon) = (Inr identity, w')"
    using sample_accepted by blast
  moreover have "as_mode sample_auth \<noteq> ''bypass''" by (simp add: sample_auth_simps)
  ultimately show ?thesis using accepted_requests_are_signed by blast
qed

text \<open>
  C11. A request that is signed as the protocol says, with an \<open>Authorization\<close> header over the canonical
  request by a registered credential that has not expired, for an allowed region and within
  fifteen minutes of the clock, is accepted and gets the identity of the credential.
\<close>

theorem signed_requests_are_accepted:
  assumes "as_mode svc \<noteq> ''bypass''" and "cred_Get (as_registry svc) key = Some cred"
    and "\<And>expiry. cr_ExpiresAt cred = Some expiry \<Longrightarrow> w_clock w (w_ticks w) \<le> expiry"
    and "cr_SessionToken cred = [] \<or> cr_SessionToken cred = header_get (hr_Header r) ''X-Amz-Security-Token''"
    and "as_allowedRegions svc = [] \<or> region \<in> set (as_allowedRegions svc)"
    and "parse_stamp (header_get (hr_Header r) ''X-Amz-Date'') = Some t"
    and "\<And>i. i = w_ticks w \<or> i = Suc (w_ticks w) \<Longrightarrow> \<bar>t - w_clock w i\<bar> \<le> max_skew"
    and "plain key" and "plain region" and "names \<noteq> []" and "\<forall>n \<in> set names. plain n"
    and "buildCanonicalRequest r body names False = Some canonical"
    and "header_get (hr_Header r) ''Authorization'' = authorization cred (sqs_scope key t region) t names canonical"
  shows "\<exists>w'. Authenticate svc r body w = (Inr ((cred_identity cred)\<lparr>i_Region := region, i_Service := ''sqs''\<rparr>), w')"
proof -
  have "header_get (hr_Header r) ''Authorization'' \<noteq> []" using assms(13) by (simp add: authorization_def)
  then show ?thesis
    using header_signature_accepted [OF assms(2-12)] assms(1,13) unfolding Authenticate_def Let_def by auto
qed

theorem signed_requests_are_accepted_witness:
  "\<exists>w'. Authenticate sample_auth sample_signed [] (sample_world db_Init sample_noon)
     = (Inr ((cred_identity sample_credential)\<lparr>i_Region := ''us-east-1'', i_Service := ''sqs''\<rparr>), w')"
  by (rule signed_requests_are_accepted [where key = "''test''" and names = "[''host'']"])
    (simp_all add: sample_auth_simps sample_credential_simps sample_signed_headers sample_world_def max_skew_def nsSecond_def
      unreserved_def in_range_def)

text \<open>
  The body is covered by the signature through its digest, but only when the request gives no
  digest of its own: a given \<open>X-Amz-Content-Sha256\<close> is signed without being compared with the body.
\<close>

lemma body_digest_signed:
  "header_get (hr_Header r) ''X-Amz-Content-Sha256'' = [] \<Longrightarrow> values_get (url_query r) ''X-Amz-Content-Sha256'' = []
   \<Longrightarrow> payload_hash r body = sha256Hex body"
  by (simp add: payload_hash_def)

lemma given_digest_not_checked:
  assumes "header_get (hr_Header r) ''X-Amz-Content-Sha256'' \<noteq> []"
  shows "Authenticate svc r body = Authenticate svc r body'"
proof -
  have "payload_hash r body = payload_hash r body'" using assms by (simp add: payload_hash_def)
  then have "buildCanonicalRequest r body names presigned = buildCanonicalRequest r body' names presigned" for names presigned
    by (simp add: buildCanonicalRequest_def split: option.splits)
  then have "check_signature r body names presigned = check_signature r body' names presigned" for names presigned
    by (intro ext) (simp add: check_signature_def split: option.splits)
  then show ?thesis
    unfolding Authenticate_def authenticateHeaderSigned_def authenticateQuerySigned_def by (simp only:)
qed

end
