(* ===== verification/StoreContract.thy ===== *)
theory StoreContract
  imports Lookup
begin

text \<open>
  The contract between the service and the store: a relation between databases that the
  methods of \<open>storage.Store\<close> keep. \<open>message_core\<close> is what maintenance and sending use of the
  store, \<open>message_plane\<close> adds the writing of receipts, \<open>queue_plane\<close> the methods that create and
  remove queues, tags, patches and tasks, and \<open>store_contract\<close> is all of them. The handlers are proved once to keep every such relation; the interpretations below
  give the relations that the store's methods do keep: the integrity of the schema, ids that are
  never used again, and what the message operations leave alone.
\<close>

section \<open>The contract\<close>

definition keeps :: "(db \<Rightarrow> db \<Rightarrow> bool) \<Rightarrow> (db \<Rightarrow> string + 'a \<times> db) \<Rightarrow> bool" where
  "keeps R f \<longleftrightarrow> (\<forall>d x d'. f d = Inr (x, d') \<longrightarrow> R d d')"

lemma keepsI: "(\<And>d x d'. f d = Inr (x, d') \<Longrightarrow> R d d') \<Longrightarrow> keeps R f"
  by (simp add: keeps_def)

lemma keepsD: "keeps R f \<Longrightarrow> f d = Inr (x, d') \<Longrightarrow> R d d'"
  by (auto simp: keeps_def)

locale message_core = db_relation R for R +
  assumes keep_ApplyDueQueueMutations: "keeps R (db_ApplyDueQueueMutations now)"
    and keep_UpdateQueue: "keeps R (db_updateQueueTx q)"
    and keep_UpdateMoveTask: "keeps R (db_UpdateMoveTask t)"
    and keep_InsertMessage: "keeps R (db_InsertMessage m)"
    and keep_UpdateMessage: "keeps R (db_UpdateMessage m)"
    and keep_DeleteMessagesByQueueBefore: "keeps R (db_DeleteMessagesByQueueBefore i now)"
    and keep_DeactivateReceiptsByMessage: "keeps R (db_DeactivateReceiptsByMessage i)"
    and keep_InsertDedupEntry: "keeps R (db_InsertDedupEntry e)"
    and keep_DeleteExpiredDedupEntries: "keeps R (db_DeleteExpiredDedupEntries now)"
    and keep_InsertReceiveAttempt: "keeps R (db_InsertReceiveAttempt a)"
    and keep_InvalidateReceiveAttempts: "keeps R (db_InvalidateReceiveAttempts i now)"
begin

lemma steps_kept: "keeps R f \<Longrightarrow> steps (dbrel R) (sqlE f)"
  by (rule steps_sqlE) (auto intro: db_refl dest: keepsD)

lemma steps_ApplyDueQueueMutations [effects]: "steps (dbrel R) (ApplyDueQueueMutations now)"
  unfolding ApplyDueQueueMutations_def by (intro steps_kept keep_ApplyDueQueueMutations)

lemma steps_UpdateQueue [effects]: "steps (dbrel R) (UpdateQueue q)"
  unfolding UpdateQueue_def by (intro steps_kept keep_UpdateQueue)

lemma steps_UpdateMoveTask [effects]: "steps (dbrel R) (UpdateMoveTask t)"
  unfolding UpdateMoveTask_def by (intro steps_kept keep_UpdateMoveTask)

lemma steps_InsertMessage [effects]: "steps (dbrel R) (InsertMessage m)"
  unfolding InsertMessage_def by (intro steps_kept keep_InsertMessage)

lemma steps_UpdateMessage [effects]: "steps (dbrel R) (UpdateMessage m)"
  unfolding UpdateMessage_def by (intro steps_kept keep_UpdateMessage)

lemma steps_DeleteMessagesByQueueBefore [effects]: "steps (dbrel R) (DeleteMessagesByQueueBefore i t)"
  unfolding DeleteMessagesByQueueBefore_def by (intro steps_kept keep_DeleteMessagesByQueueBefore)

lemma steps_DeactivateReceiptsByMessage [effects]: "steps (dbrel R) (DeactivateReceiptsByMessage i)"
  unfolding DeactivateReceiptsByMessage_def by (intro steps_kept keep_DeactivateReceiptsByMessage)

lemma steps_InsertDedupEntry [effects]: "steps (dbrel R) (InsertDedupEntry e)"
  unfolding InsertDedupEntry_def by (intro steps_kept keep_InsertDedupEntry)

lemma steps_DeleteExpiredDedupEntries [effects]: "steps (dbrel R) (DeleteExpiredDedupEntries now)"
  unfolding DeleteExpiredDedupEntries_def by (intro steps_kept keep_DeleteExpiredDedupEntries)

lemma steps_InsertReceiveAttempt [effects]: "steps (dbrel R) (InsertReceiveAttempt a)"
  unfolding InsertReceiveAttempt_def by (intro steps_kept keep_InsertReceiveAttempt)

lemma steps_InvalidateReceiveAttempts [effects]: "steps (dbrel R) (InvalidateReceiveAttempts i)"
  unfolding InvalidateReceiveAttempts_def by (intro effects steps_kept keep_InvalidateReceiveAttempts)

lemma steps_queries [effects]:
  "steps (dbrel R) (QueueByID i)" "steps (dbrel R) (QueueByName a b c)" "steps (dbrel R) (QueueByURL u)"
  "steps (dbrel R) (QueueByARN u)" "steps (dbrel R) (ListQueues a b c)"
  "steps (dbrel R) (ListMessagesByQueue i)" "steps (dbrel R) (MessageByRowID i)"
  "steps (dbrel R) (ReceiptByHandle h)" "steps (dbrel R) (DedupEntry i a b now)"
  "steps (dbrel R) (ReceiveAttempt i a now)" "steps (dbrel R) ListRunningMoveTasks"
  "steps (dbrel R) (FindRunningMoveTask i)" "steps (dbrel R) (ListMoveTasksBySourceQueue i n)"
  "steps (dbrel R) (ListTags i)" "steps (dbrel R) (ListQueuesByRedriveTarget arn)"
  unfolding QueueByID_def QueueByName_def QueueByURL_def QueueByARN_def ListQueues_def
    ListMessagesByQueue_def MessageByRowID_def ReceiptByHandle_def DedupEntry_def ReceiveAttempt_def
    ListRunningMoveTasks_def FindRunningMoveTask_def ListMoveTasksBySourceQueue_def ListTags_def
    ListQueuesByRedriveTarget_def
  by (rule steps_query)+

end

locale message_plane = message_core R for R +
  assumes keep_InsertReceipt: "keeps R (db_InsertReceipt r)"
    and keep_UpdateReceipt: "keeps R (db_UpdateReceipt r)"
begin

lemma steps_InsertReceipt [effects]: "steps (dbrel R) (InsertReceipt r)"
  unfolding InsertReceipt_def by (intro steps_kept keep_InsertReceipt)

lemma steps_UpdateReceipt [effects]: "steps (dbrel R) (UpdateReceipt r)"
  unfolding UpdateReceipt_def by (intro steps_kept keep_UpdateReceipt)

end

locale queue_plane = message_core R for R +
  assumes keep_InsertQueue: "keeps R (db_InsertQueue q)"
    and keep_DeleteQueueRow: "keeps R (db_DeleteQueueRow i)"
    and keep_SavePendingAttributes: "keeps R (db_SavePendingAttributes i attrs t u)"
    and keep_ReplaceTags: "keeps R (db_ReplaceTags i tags)"
    and keep_DeleteTags: "keeps R (db_DeleteTags i keys)"
    and keep_InsertMoveTask: "keeps R (db_InsertMoveTask task)"
begin

lemma steps_InsertQueue [effects]: "steps (dbrel R) (InsertQueue q)"
  unfolding InsertQueue_def by (intro steps_kept keep_InsertQueue)

lemma steps_DeleteQueueRow [effects]: "steps (dbrel R) (DeleteQueueRow i)"
  unfolding DeleteQueueRow_def by (intro steps_kept keep_DeleteQueueRow)

lemma steps_SavePendingAttributes [effects]: "steps (dbrel R) (SavePendingAttributes i attrs t u)"
  unfolding SavePendingAttributes_def by (intro steps_kept keep_SavePendingAttributes)

lemma steps_ReplaceTags [effects]: "steps (dbrel R) (ReplaceTags i tags)"
  unfolding ReplaceTags_def by (intro steps_kept keep_ReplaceTags)

lemma steps_DeleteTags [effects]: "steps (dbrel R) (DeleteTags i keys)"
  unfolding DeleteTags_def by (intro steps_kept keep_DeleteTags)

lemma steps_InsertMoveTask [effects]: "steps (dbrel R) (InsertMoveTask t)"
  unfolding InsertMoveTask_def by (intro steps_kept keep_InsertMoveTask)

end

locale store_contract = message_plane R + queue_plane R for R

section \<open>Tables\<close>

text \<open>The ids of a table: pairwise different and at most the counter that gives new ones.\<close>

definition ids_below :: "('r \<Rightarrow> int) \<Rightarrow> int \<Rightarrow> 'r list \<Rightarrow> bool" where
  "ids_below key n rows \<longleftrightarrow> distinct (map key rows) \<and> (\<forall>r \<in> set rows. key r \<le> n)"

lemma ids_below_Nil [simp]: "ids_below key n []"
  by (simp add: ids_below_def)

lemma ids_below_snoc: "ids_below key n rows \<Longrightarrow> key r = n + 1 \<Longrightarrow> ids_below key (n + 1) (rows @ [r])"
proof -
  assume r: "ids_below key n rows" "key r = n + 1"
  then have "key r \<notin> key ` set rows" by (auto simp: ids_below_def)
  with r show ?thesis by (auto simp: ids_below_def)
qed

lemma ids_below_filter: "ids_below key n rows \<Longrightarrow> ids_below key n (filter P rows)"
  by (auto simp: ids_below_def distinct_map_filter)

lemma map_update_where: "(\<And>r. P r \<Longrightarrow> key (f r) = key r) \<Longrightarrow> map key (update_where P f rows) = map key rows"
  by (simp add: update_where_def)

lemma set_update_where:
  "set (update_where P f rows) = (\<lambda>r. if P r then f r else r) ` set rows"
  by (auto simp: update_where_def)

lemma ids_below_keys: "ids_below key n rows \<longleftrightarrow> distinct (map key rows) \<and> (\<forall>k \<in> set (map key rows). k \<le> n)"
  by (simp add: ids_below_def)

lemma ids_below_map: "map key rows' = map key rows \<Longrightarrow> ids_below key n rows' = ids_below key n rows"
  by (simp only: ids_below_keys)

lemma distinct_replace:
  assumes "distinct (map f rows)" and "\<And>r. r \<in> set rows \<Longrightarrow> key r \<noteq> k \<Longrightarrow> f r \<noteq> f new"
    and "distinct (map key rows)"
  shows "distinct (map f (update_where (\<lambda>r. key r = k) (\<lambda>_. new) rows))"
  using assms
proof (induction rows)
  case (Cons r rows)
  show ?case
  proof (cases "key r = k")
    case True
    with Cons.prems(3) have "k \<notin> key ` set rows" by simp
    then have "\<forall>r' \<in> set rows. key r' \<noteq> k" by blast
    then have "update_where (\<lambda>r. key r = k) (\<lambda>_. new) rows = rows"
      by (simp add: update_where_def map_idI)
    moreover have "f new \<notin> f ` set rows"
      using Cons.prems(2) \<open>\<forall>r' \<in> set rows. key r' \<noteq> k\<close> by (metis imageE list.set_intros(2))
    ultimately show ?thesis using True Cons.prems(1) by (simp add: update_where_def)
  next
    case False
    let ?rest = "update_where (\<lambda>r. key r = k) (\<lambda>_. new) rows"
    have "f r \<noteq> f x" if "x \<in> set ?rest" for x
      using that Cons.prems(1) Cons.prems(2) [of r] False by (auto simp: set_update_where split: if_splits)
    then have "f r \<notin> f ` set ?rest" by blast
    moreover have "distinct (map f ?rest)" using Cons by simp
    moreover have "update_where (\<lambda>r. key r = k) (\<lambda>_. new) (r # rows) = r # ?rest"
      using False by (simp add: update_where_def)
    ultimately show ?thesis by simp
  qed
qed (simp add: update_where_def)

text \<open>Looking a row up after it has been replaced.\<close>

lemma row_by_update_where:
  assumes "row_by P rows = Some r" and "P new"
  shows "row_by P (update_where (\<lambda>x. key x = key r) (\<lambda>_. new) rows) = Some new"
  using assms
proof (induction rows)
  case (Cons x rows)
  then show ?case by (cases "P x") (auto simp: row_by_def update_where_def)
qed (simp add: row_by_def)

lemma row_by_update_other:
  "j \<noteq> k \<Longrightarrow> key new = k \<Longrightarrow>
   row_by (\<lambda>r. key r = j) (update_where (\<lambda>r. key r = k) (\<lambda>_. new) rows) = row_by (\<lambda>r. key r = j) rows"
  by (induction rows) (auto simp: row_by_def update_where_def)

lemma row_byD: "row_by P rows = Some r \<Longrightarrow> P r \<and> r \<in> set rows"
  by (auto simp: row_by_def find_Some_iff)

lemma row_by_cong: "(\<And>r. r \<in> set rows \<Longrightarrow> P r = Q r) \<Longrightarrow> row_by P rows = row_by Q rows"
  by (auto simp: row_by_def intro: find_cong)

lemma row_by_unique:
  "distinct (map key rows) \<Longrightarrow> r \<in> set rows \<Longrightarrow> row_by (\<lambda>x. key x = key r) rows = Some r"
proof (induction rows)
  case (Cons x rows)
  then show ?case by (cases "x = r") (auto simp: row_by_def)
qed simp

lemma row_by_snoc: "\<forall>r \<in> set rows. \<not> P r \<Longrightarrow> row_by P (rows @ [x]) = (if P x then Some x else None)"
  by (induction rows) (auto simp: row_by_def)

end
