(* ===== verification/Integrity.thy ===== *)
theory Integrity
  imports StoreContract
begin

text \<open>
  The integrity of the database: what the schema's primary keys, unique constraints and foreign
  keys promise, kept by every method of the store, and the relations that the methods keep
  between the databases before and after: ids only grow, and the message plane leaves queues,
  tags and tasks in place. Each is an interpretation of the contract.
\<close>

section \<open>The integrity of the tables\<close>

definition wf_queues :: "db \<Rightarrow> bool" where
  "wf_queues d \<longleftrightarrow> ids_below q_ID (d_queue_seq d) (d_queues d)
     \<and> (\<forall>q \<in> set (d_queues d). \<forall>q' \<in> set (d_queues d). q_ID q \<noteq> q_ID q' \<longrightarrow> \<not> queue_conflict q q')"

definition wf_pending :: "db \<Rightarrow> bool" where
  "wf_pending d \<longleftrightarrow> ids_below p_ID (d_pending_seq d) (d_pending d)
     \<and> (\<forall>p \<in> set (d_pending d). queue_exists d (p_QueueID p))"

definition wf_tags :: "db \<Rightarrow> bool" where
  "wf_tags d \<longleftrightarrow> distinct (map (\<lambda>(i, k, _). (i, k)) (d_tags d))
     \<and> (\<forall>(i, _) \<in> set (d_tags d). queue_exists d i)"

definition wf_tasks :: "db \<Rightarrow> bool" where
  "wf_tasks d \<longleftrightarrow> ids_below t_ID (d_task_seq d) (d_tasks d) \<and> distinct (map t_TaskHandle (d_tasks d))
     \<and> (\<forall>t \<in> set (d_tasks d). queue_exists d (t_SourceQueueID t) \<and> destination_ok d t)"

definition wf_messages :: "db \<Rightarrow> bool" where
  "wf_messages d \<longleftrightarrow> ids_below m_RowID (d_message_seq d) (d_messages d)
     \<and> distinct (map m_MessageID (d_messages d))
     \<and> (\<forall>m \<in> set (d_messages d). queue_exists d (m_QueueID m))"

definition wf_receipts :: "db \<Rightarrow> bool" where
  "wf_receipts d \<longleftrightarrow> ids_below r_ID (d_receipt_seq d) (d_receipts d)
     \<and> distinct (map r_Handle (d_receipts d))
     \<and> (\<forall>r \<in> set (d_receipts d). queue_exists d (r_QueueID r) \<and> message_exists d (r_MessageRowID r))"

definition dedup_key :: "dedup_entry \<Rightarrow> int \<times> string \<times> string" where
  "dedup_key e = (e_QueueID e, e_ScopeKey e, e_DedupID e)"

definition wf_dedup :: "db \<Rightarrow> bool" where
  "wf_dedup d \<longleftrightarrow> ids_below e_ID (d_dedup_seq d) (d_dedup d) \<and> distinct (map dedup_key (d_dedup d))
     \<and> (\<forall>e \<in> set (d_dedup d). queue_exists d (e_QueueID e))"

definition attempt_key :: "receive_attempt \<Rightarrow> int \<times> string" where
  "attempt_key a = (a_QueueID a, a_AttemptID a)"

definition wf_attempts :: "db \<Rightarrow> bool" where
  "wf_attempts d \<longleftrightarrow> ids_below a_ID (d_attempt_seq d) (d_attempts d) \<and> distinct (map attempt_key (d_attempts d))
     \<and> (\<forall>a \<in> set (d_attempts d). queue_exists d (a_QueueID a))"

definition db_wf :: "db \<Rightarrow> bool" where
  "db_wf d \<longleftrightarrow> wf_queues d \<and> wf_pending d \<and> wf_tags d \<and> wf_tasks d \<and> wf_messages d
     \<and> wf_receipts d \<and> wf_dedup d \<and> wf_attempts d"

lemmas wf_defs = wf_queues_def wf_pending_def wf_tags_def wf_tasks_def wf_messages_def wf_receipts_def
  wf_dedup_def wf_attempts_def

lemma db_wf_Init: "db_wf db_Init"
  by (simp add: db_wf_def wf_defs db_Init_def)

text \<open>The relation that an invariant gives.\<close>

definition wf_rel :: "db \<Rightarrow> db \<Rightarrow> bool" where
  "wf_rel d d' \<longleftrightarrow> (db_wf d \<longrightarrow> db_wf d')"

lemma wf_keepsI: "(\<And>d x d'. f d = Inr (x, d') \<Longrightarrow> db_wf d \<Longrightarrow> db_wf d') \<Longrightarrow> keeps wf_rel f"
  by (simp add: keeps_def wf_rel_def)

section \<open>What a table's integrity depends on\<close>

definition queue_ids :: "db \<Rightarrow> int set" where
  "queue_ids d = q_ID ` set (d_queues d)"

definition message_ids :: "db \<Rightarrow> int set" where
  "message_ids d = m_RowID ` set (d_messages d)"

lemma queue_exists_ids: "queue_exists d i \<longleftrightarrow> i \<in> queue_ids d"
  by (auto simp: queue_exists_def queue_ids_def)

lemma message_exists_ids: "message_exists d i \<longleftrightarrow> i \<in> message_ids d"
  by (auto simp: message_exists_def message_ids_def)

lemma destination_ok_mono: "queue_ids d \<subseteq> queue_ids d' \<Longrightarrow> destination_ok d t \<Longrightarrow> destination_ok d' t"
  by (auto simp: destination_ok_def queue_exists_ids split: option.splits)

lemma wf_queues_cong:
  "wf_queues d \<Longrightarrow> d_queues d' = d_queues d \<Longrightarrow> d_queue_seq d' = d_queue_seq d \<Longrightarrow> wf_queues d'"
  by (simp add: wf_queues_def)

lemma wf_pending_cong:
  "wf_pending d \<Longrightarrow> d_pending d' = d_pending d \<Longrightarrow> d_pending_seq d' = d_pending_seq d \<Longrightarrow>
   queue_ids d \<subseteq> queue_ids d' \<Longrightarrow> wf_pending d'"
  by (auto simp: wf_pending_def queue_exists_ids)

lemma wf_tags_cong: "wf_tags d \<Longrightarrow> d_tags d' = d_tags d \<Longrightarrow> queue_ids d \<subseteq> queue_ids d' \<Longrightarrow> wf_tags d'"
  by (auto simp: wf_tags_def queue_exists_ids)

lemma wf_tasks_cong:
  "wf_tasks d \<Longrightarrow> d_tasks d' = d_tasks d \<Longrightarrow> d_task_seq d' = d_task_seq d \<Longrightarrow>
   queue_ids d \<subseteq> queue_ids d' \<Longrightarrow> wf_tasks d'"
  by (auto simp: wf_tasks_def queue_exists_ids destination_ok_mono)

lemma wf_messages_cong:
  "wf_messages d \<Longrightarrow> d_messages d' = d_messages d \<Longrightarrow> d_message_seq d' = d_message_seq d \<Longrightarrow>
   queue_ids d \<subseteq> queue_ids d' \<Longrightarrow> wf_messages d'"
  by (auto simp: wf_messages_def queue_exists_ids)

lemma wf_receipts_cong:
  "wf_receipts d \<Longrightarrow> d_receipts d' = d_receipts d \<Longrightarrow> d_receipt_seq d' = d_receipt_seq d \<Longrightarrow>
   queue_ids d \<subseteq> queue_ids d' \<Longrightarrow> message_ids d \<subseteq> message_ids d' \<Longrightarrow> wf_receipts d'"
  by (auto simp: wf_receipts_def queue_exists_ids message_exists_ids)

lemma wf_dedup_cong:
  "wf_dedup d \<Longrightarrow> d_dedup d' = d_dedup d \<Longrightarrow> d_dedup_seq d' = d_dedup_seq d \<Longrightarrow>
   queue_ids d \<subseteq> queue_ids d' \<Longrightarrow> wf_dedup d'"
  by (auto simp: wf_dedup_def queue_exists_ids)

lemma wf_attempts_cong:
  "wf_attempts d \<Longrightarrow> d_attempts d' = d_attempts d \<Longrightarrow> d_attempt_seq d' = d_attempt_seq d \<Longrightarrow>
   queue_ids d \<subseteq> queue_ids d' \<Longrightarrow> wf_attempts d'"
  by (auto simp: wf_attempts_def queue_exists_ids)

text \<open>A change of some tables keeps the others well-formed.\<close>

lemma db_wfI:
  assumes "db_wf d" and "queue_ids d \<subseteq> queue_ids d'" and "message_ids d \<subseteq> message_ids d'"
    and "wf_queues d' \<or> (d_queues d' = d_queues d \<and> d_queue_seq d' = d_queue_seq d)"
    and "wf_pending d' \<or> (d_pending d' = d_pending d \<and> d_pending_seq d' = d_pending_seq d)"
    and "wf_tags d' \<or> d_tags d' = d_tags d"
    and "wf_tasks d' \<or> (d_tasks d' = d_tasks d \<and> d_task_seq d' = d_task_seq d)"
    and "wf_messages d' \<or> (d_messages d' = d_messages d \<and> d_message_seq d' = d_message_seq d)"
    and "wf_receipts d' \<or> (d_receipts d' = d_receipts d \<and> d_receipt_seq d' = d_receipt_seq d)"
    and "wf_dedup d' \<or> (d_dedup d' = d_dedup d \<and> d_dedup_seq d' = d_dedup_seq d)"
    and "wf_attempts d' \<or> (d_attempts d' = d_attempts d \<and> d_attempt_seq d' = d_attempt_seq d)"
  shows "db_wf d'"
proof -
  note wf = assms(1) [unfolded db_wf_def]
  have "wf_queues d'" using wf assms(4) wf_queues_cong [of d d'] by blast
  moreover have "wf_pending d'" using wf assms(2,5) wf_pending_cong [of d d'] by blast
  moreover have "wf_tags d'" using wf assms(2,6) wf_tags_cong [of d d'] by blast
  moreover have "wf_tasks d'" using wf assms(2,7) wf_tasks_cong [of d d'] by blast
  moreover have "wf_messages d'" using wf assms(2,8) wf_messages_cong [of d d'] by blast
  moreover have "wf_receipts d'" using wf assms(2,3,9) wf_receipts_cong [of d d'] by blast
  moreover have "wf_dedup d'" using wf assms(2,10) wf_dedup_cong [of d d'] by blast
  moreover have "wf_attempts d'" using wf assms(2,11) wf_attempts_cong [of d d'] by blast
  ultimately show ?thesis by (simp add: db_wf_def)
qed

section \<open>Updates in place\<close>

lemma scan_keys [simp]:
  "q_ID (scanQueueRow q) = q_ID q" "m_RowID (scanMessage m) = m_RowID m" "m_MessageID (scanMessage m) = m_MessageID m"
  "m_QueueID (scanMessage m) = m_QueueID m" "r_ID (scanReceipt r) = r_ID r" "r_Handle (scanReceipt r) = r_Handle r"
  "r_QueueID (scanReceipt r) = r_QueueID r" "r_MessageRowID (scanReceipt r) = r_MessageRowID r"
  "e_ID (scanDedup e) = e_ID e" "dedup_key (scanDedup e) = dedup_key e" "e_QueueID (scanDedup e) = e_QueueID e"
  "a_ID (scanAttempt a) = a_ID a" "attempt_key (scanAttempt a) = attempt_key a" "a_QueueID (scanAttempt a) = a_QueueID a"
  "t_ID (scanMoveTask t) = t_ID t" "t_TaskHandle (scanMoveTask t) = t_TaskHandle t"
  "t_SourceQueueID (scanMoveTask t) = t_SourceQueueID t" "t_DestinationQueueID (scanMoveTask t) = t_DestinationQueueID t"
  by (simp_all add: scanQueueRow_def scanMessage_def scanReceipt_def scanDedup_def scanAttempt_def
      scanMoveTask_def dedup_key_def attempt_key_def)

lemma destination_ok_scan [simp]:
  "destination_ok d (scanMoveTask t) = destination_ok d t"
  "destination_ok d (t\<lparr>t_ID := i\<rparr>) = destination_ok d t"
  "destination_ok d (t\<lparr>t_TaskHandle := h, t_SourceQueueID := i\<rparr>) = destination_ok d t"
  by (simp_all add: destination_ok_def)

lemma queue_conflict_scan [simp]:
  "queue_conflict (scanQueueRow q) q' = queue_conflict q q'" "queue_conflict q (scanQueueRow q') = queue_conflict q q'"
  by (simp_all add: queue_conflict_def scanQueueRow_def)

lemma queue_conflict_sym: "queue_conflict q q' \<longleftrightarrow> queue_conflict q' q"
  by (auto simp: queue_conflict_def)

lemma queue_conflict_id [simp]: "queue_conflict (q\<lparr>q_ID := i\<rparr>) q' = queue_conflict q q'"
  "queue_conflict q (q'\<lparr>q_ID := i\<rparr>) = queue_conflict q q'"
  by (simp_all add: queue_conflict_def)

lemma update_where_ids: "(\<And>r. P r \<Longrightarrow> key (f r) = key r) \<Longrightarrow> key ` set (update_where P f rows) = key ` set rows"
  by (metis map_update_where set_map)

section \<open>Every method keeps the integrity\<close>

lemma updateQueueTx_frame:
  assumes "db_updateQueueTx q d = Inr (x, d')"
  shows "map q_ID (d_queues d') = map q_ID (d_queues d)"
    and "\<exists>qs. d' = d\<lparr>d_queues := qs\<rparr>"
  using assms by (auto simp: db_updateQueueTx_def update_where_def split: if_splits)

lemma wf_queues_updateQueueTx:
  assumes "db_updateQueueTx q d = Inr (x, d')" and "wf_queues d"
  shows "wf_queues d'"
proof -
  from assms(1) have d': "d_queues d' = update_where (\<lambda>r. q_ID r = q_ID q) (\<lambda>_. scanQueueRow q) (d_queues d)"
    "d_queue_seq d' = d_queue_seq d"
    and c: "\<not> (queue_exists d (q_ID q) \<and> (\<exists>q' \<in> set (d_queues d). q_ID q' \<noteq> q_ID q \<and> queue_conflict q q'))"
    by (auto simp: db_updateQueueTx_def split: if_splits)
  have key: "\<not> queue_conflict a b"
    if "a \<in> set (d_queues d')" "b \<in> set (d_queues d)" "q_ID a \<noteq> q_ID b" for a b
  proof (cases "q_ID a = q_ID q")
    case True
    then have "a = scanQueueRow q \<and> queue_exists d (q_ID q)"
      using that(1) by (auto simp: d' set_update_where queue_exists_def split: if_splits)
    then show ?thesis using c that by auto
  next
    case False
    then have "a \<in> set (d_queues d)" using that(1) by (auto simp: d' set_update_where split: if_splits)
    then show ?thesis using assms(2) that by (simp add: wf_queues_def)
  qed
  have "\<not> queue_conflict a b" if ab: "a \<in> set (d_queues d')" "b \<in> set (d_queues d')" "q_ID a \<noteq> q_ID b" for a b
  proof (cases "q_ID b = q_ID q")
    case True
    then have "q_ID a \<noteq> q_ID q" using ab(3) by simp
    then have "a \<in> set (d_queues d)" using ab(1) by (auto simp: d' set_update_where split: if_splits)
    then have "\<not> queue_conflict b a" using key [OF ab(2)] ab(3) by metis
    then show ?thesis by (metis queue_conflict_sym)
  next
    case False
    then have "b \<in> set (d_queues d)" using ab(2) by (auto simp: d' set_update_where split: if_splits)
    then show ?thesis using key [OF ab(1)] ab(3) by blast
  qed
  then show ?thesis
    using assms(2) ids_below_map [OF updateQueueTx_frame(1) [OF assms(1)]]
    by (simp add: wf_queues_def d'(2))
qed

lemma wf_updateQueueTx:
  assumes "db_updateQueueTx q d = Inr (x, d')" and "db_wf d"
  shows "db_wf d'"
proof -
  have "queue_ids d' = queue_ids d"
    using updateQueueTx_frame(1) [OF assms(1)] by (metis queue_ids_def set_map)
  moreover have "wf_queues d'" using wf_queues_updateQueueTx assms by (auto simp: db_wf_def)
  moreover obtain qs where "d' = d\<lparr>d_queues := qs\<rparr>" using updateQueueTx_frame(2) [OF assms(1)] by blast
  ultimately show ?thesis
    by (intro db_wfI [OF assms(2)]) (simp_all add: message_ids_def)
qed

lemma wf_InsertQueue:
  assumes "db_InsertQueue q d = Inr (x, d')" and "db_wf d"
  shows "db_wf d'"
proof -
  let ?q = "q\<lparr>q_ID := d_queue_seq d + 1\<rparr>"
  from assms(1) have d': "d' = d\<lparr>d_queues := d_queues d @ [scanQueueRow ?q], d_queue_seq := d_queue_seq d + 1\<rparr>"
    and c: "\<forall>q' \<in> set (d_queues d). \<not> queue_conflict q q'"
    by (auto simp: db_InsertQueue_def Let_def split: if_splits)
  have "ids_below q_ID (d_queue_seq d + 1) (d_queues d @ [scanQueueRow ?q])"
    using assms(2) by (intro ids_below_snoc) (simp_all add: db_wf_def wf_queues_def)
  moreover have "\<forall>q' \<in> set (d_queues d). \<not> queue_conflict q' q" using c queue_conflict_sym by metis
  ultimately have "wf_queues d'"
    using assms(2) c by (auto simp: db_wf_def wf_queues_def d')
  moreover have "queue_ids d \<subseteq> queue_ids d'" by (auto simp: d' queue_ids_def)
  ultimately show ?thesis
    by (intro db_wfI [OF assms(2)]) (simp_all add: message_ids_def d')
qed

lemma wf_DeleteQueueRow:
  assumes "db_DeleteQueueRow i d = Inr (x, d')" and "db_wf d"
  shows "db_wf d'"
proof -
  from assms(1) have
    q: "d_queues d' = filter (\<lambda>q. q_ID q \<noteq> i) (d_queues d)" "d_queue_seq d' = d_queue_seq d"
    and p: "d_pending d' = filter (\<lambda>p. p_QueueID p \<noteq> i) (d_pending d)" "d_pending_seq d' = d_pending_seq d"
    and g: "d_tags d' = filter (\<lambda>(k, _). k \<noteq> i) (d_tags d)"
    and k: "d_tasks d' = map (\<lambda>t. if t_DestinationQueueID t = Some i then t\<lparr>t_DestinationQueueID := None\<rparr> else t)
      (filter (\<lambda>t. t_SourceQueueID t \<noteq> i) (d_tasks d))" "d_task_seq d' = d_task_seq d"
    and m: "d_messages d' = filter (\<lambda>m. m_QueueID m \<noteq> i) (d_messages d)" "d_message_seq d' = d_message_seq d"
    and r: "d_receipts d' = filter (\<lambda>r. r_QueueID r \<noteq> i \<and>
      r_MessageRowID r \<notin> m_RowID ` set (filter (\<lambda>m. m_QueueID m = i) (d_messages d))) (d_receipts d)"
      "d_receipt_seq d' = d_receipt_seq d"
    and e: "d_dedup d' = filter (\<lambda>e. e_QueueID e \<noteq> i) (d_dedup d)" "d_dedup_seq d' = d_dedup_seq d"
    and a: "d_attempts d' = filter (\<lambda>a. a_QueueID a \<noteq> i) (d_attempts d)" "d_attempt_seq d' = d_attempt_seq d"
    by (auto simp: db_DeleteQueueRow_def Let_def)
  have ex: "queue_exists d' j \<longleftrightarrow> queue_exists d j \<and> j \<noteq> i" for j by (auto simp: queue_exists_def q)
  have mx: "message_exists d' j \<longleftrightarrow> (\<exists>m \<in> set (d_messages d). m_RowID m = j \<and> m_QueueID m \<noteq> i)" for j
    by (auto simp: message_exists_def m)
  have mk: "message_exists d' j"
    if "message_exists d j" "j \<notin> m_RowID ` set (filter (\<lambda>m. m_QueueID m = i) (d_messages d))" for j
    unfolding mx using that by (auto simp: message_exists_def)
  note wf = assms(2) [unfolded db_wf_def]
  have "wf_queues d'" using wf by (auto simp: wf_queues_def q ids_below_filter)
  moreover have "wf_pending d'" using wf by (auto simp: wf_pending_def p ids_below_filter ex)
  moreover have "wf_tags d'" using wf by (auto simp: wf_tags_def g ex distinct_map_filter)
  moreover have "wf_messages d'" using wf by (auto simp: wf_messages_def m ids_below_filter ex distinct_map_filter)
  moreover have "wf_receipts d'"
    using wf mk by (simp add: wf_receipts_def r ids_below_filter ex distinct_map_filter)
  moreover have "wf_dedup d'" using wf by (auto simp: wf_dedup_def e ids_below_filter ex distinct_map_filter)
  moreover have "wf_attempts d'" using wf by (auto simp: wf_attempts_def a ids_below_filter ex distinct_map_filter)
  moreover have "wf_tasks d'"
  proof -
    let ?kept = "filter (\<lambda>t. t_SourceQueueID t \<noteq> i) (d_tasks d)"
    have "map t_ID (d_tasks d') = map t_ID ?kept" "map t_TaskHandle (d_tasks d') = map t_TaskHandle ?kept"
      by (simp_all add: k)
    moreover have "ids_below t_ID (d_task_seq d) ?kept" "distinct (map t_TaskHandle ?kept)"
      using wf by (simp_all add: wf_tasks_def ids_below_filter distinct_map_filter)
    moreover have "\<forall>t \<in> set (d_tasks d'). queue_exists d' (t_SourceQueueID t) \<and> destination_ok d' t"
      using wf by (auto simp: wf_tasks_def k ex destination_ok_def split: option.splits)
    ultimately show ?thesis
      using ids_below_map [of t_ID "d_tasks d'" ?kept] by (simp add: wf_tasks_def k(2))
  qed
  ultimately show ?thesis by (simp add: db_wf_def)
qed

lemma wf_apply_patches:
  "apply_patches now ps d = Inr d' \<Longrightarrow> db_wf d \<Longrightarrow> db_wf d'"
proof (induction ps arbitrary: d)
  case (Cons p ps)
  from Cons.prems(1) obtain d1 where d1: "apply_patch now p d = Inr d1" "apply_patches now ps d1 = Inr d'"
    by (auto split: sum.splits)
  have "db_wf d1"
  proof (cases "db_QueueByID (p_QueueID p) d")
    case None
    with d1(1) Cons.prems(2) show ?thesis by (simp add: apply_patch_def)
  next
    case (Some q)
    with d1(1) obtain x d2 where d2: "db_updateQueueTx (patch_queue p now q) d = Inr (x, d2)"
      and e: "d1 = d2\<lparr>d_pending := filter (\<lambda>r. p_ID r \<noteq> p_ID p) (d_pending d2)\<rparr>"
      by (auto simp: apply_patch_def split: sum.splits)
    have wf: "db_wf d2" by (rule wf_updateQueueTx [OF d2 Cons.prems(2)])
    then have "wf_pending d1"
      by (auto simp: db_wf_def wf_pending_def e ids_below_filter queue_exists_ids queue_ids_def)
    then show ?thesis by (intro db_wfI [OF wf]) (simp_all add: e queue_ids_def message_ids_def)
  qed
  with Cons.IH d1(2) show ?case by blast
qed simp

lemma wf_ApplyDueQueueMutations:
  "db_ApplyDueQueueMutations now d = Inr (x, d') \<Longrightarrow> db_wf d \<Longrightarrow> db_wf d'"
  using wf_apply_patches [of now "due_patches now d" d d']
  by (auto simp: db_ApplyDueQueueMutations_def split: sum.splits)

lemma wf_SavePendingAttributes:
  assumes "db_SavePendingAttributes i attrs t u d = Inr (x, d')" and "db_wf d"
  shows "db_wf d'"
proof -
  from assms(1) obtain p where d': "d' = d\<lparr>d_pending := d_pending d @ [p], d_pending_seq := d_pending_seq d + 1\<rparr>"
    and p: "p_ID p = d_pending_seq d + 1" "queue_exists d (p_QueueID p)"
    by (auto simp: db_SavePendingAttributes_def Let_def split: if_splits)
  have "wf_pending d'"
    using assms(2) p ids_below_snoc [of p_ID "d_pending_seq d" "d_pending d" p]
    by (auto simp: db_wf_def wf_pending_def d' queue_exists_ids queue_ids_def)
  then show ?thesis by (intro db_wfI [OF assms(2)]) (simp_all add: d' queue_ids_def message_ids_def)
qed

lemma wf_ReplaceTags:
  assumes "db_ReplaceTags i tags d = Inr (x, d')" and "db_wf d"
  shows "db_wf d'"
proof -
  let ?key = "\<lambda>(i :: int, k :: string, _ :: string). (i, k)"
  from assms have d': "d_tags d' = filter (\<lambda>(k, _). k \<noteq> i) (d_tags d) @ map (\<lambda>(k, v). (i, k, v)) tags"
    and new: "distinct (map fst tags)" "tags \<noteq> [] \<longrightarrow> queue_exists d i" and q: "d_queues d' = d_queues d"
    by (auto simp: db_ReplaceTags_def split: if_splits)
  have "map ?key (map (\<lambda>(k, v). (i, k, v)) tags) = map (Pair i) (map fst tags)" by auto
  then have "distinct (map ?key (map (\<lambda>(k, v). (i, k, v)) tags))"
    using new(1) by (simp only:) (simp add: distinct_map inj_on_def)
  moreover have "distinct (map ?key (filter (\<lambda>(k, _). k \<noteq> i) (d_tags d)))"
    using assms(2) by (simp add: db_wf_def wf_tags_def distinct_map_filter)
  ultimately have "distinct (map ?key (d_tags d'))" unfolding d' by (auto simp: distinct_append)
  with assms(2) new(2) have "wf_tags d'"
    by (auto simp: d' db_wf_def wf_tags_def queue_exists_ids queue_ids_def q)
  then show ?thesis using assms(1)
    by (intro db_wfI [OF assms(2)]) (auto simp: db_ReplaceTags_def queue_ids_def message_ids_def split: if_splits)
qed

lemma wf_DeleteTags:
  assumes "db_DeleteTags i keys d = Inr (x, d')" and "db_wf d"
  shows "db_wf d'"
proof -
  from assms have "wf_tags d'"
    by (auto simp: db_DeleteTags_def db_wf_def wf_tags_def queue_exists_ids queue_ids_def distinct_map_filter)
  then show ?thesis using assms(1)
    by (intro db_wfI [OF assms(2)]) (auto simp: db_DeleteTags_def queue_ids_def message_ids_def)
qed

lemma wf_InsertMoveTask:
  assumes "db_InsertMoveTask t d = Inr (x, d')" and "db_wf d"
  shows "db_wf d'"
proof -
  let ?t = "scanMoveTask (t\<lparr>t_ID := d_task_seq d + 1\<rparr>)"
  from assms(1) have d': "d' = d\<lparr>d_tasks := d_tasks d @ [?t], d_task_seq := d_task_seq d + 1\<rparr>"
    and c: "t_TaskHandle t \<notin> t_TaskHandle ` set (d_tasks d)" "queue_exists d (t_SourceQueueID t)" "destination_ok d t"
    by (auto simp: db_InsertMoveTask_def Let_def split: if_splits)
  have q: "queue_ids d' = queue_ids d" by (simp add: d' queue_ids_def)
  have "destination_ok d ?t" using c(3) by simp
  then have "destination_ok d' ?t" by (rule destination_ok_mono [of d, rotated]) (simp add: q)
  moreover have "\<forall>r \<in> set (d_tasks d). queue_exists d' (t_SourceQueueID r) \<and> destination_ok d' r"
    using assms(2) destination_ok_mono [of d d'] by (auto simp: db_wf_def wf_tasks_def queue_exists_ids q)
  ultimately have "wf_tasks d'"
    using assms(2) c ids_below_snoc [of t_ID "d_task_seq d" "d_tasks d" ?t]
    by (auto simp: db_wf_def wf_tasks_def d' queue_exists_ids queue_ids_def)
  then show ?thesis by (intro db_wfI [OF assms(2)]) (simp_all add: d' queue_ids_def message_ids_def)
qed

lemma wf_UpdateMoveTask:
  assumes "db_UpdateMoveTask t d = Inr (x, d')" and "db_wf d"
  shows "db_wf d'"
proof -
  let ?f = "\<lambda>r. (scanMoveTask t)\<lparr>t_TaskHandle := t_TaskHandle r, t_SourceQueueID := t_SourceQueueID r\<rparr>"
  from assms(1) have d': "d' = d\<lparr>d_tasks := update_where (\<lambda>r. t_ID r = t_ID t) ?f (d_tasks d)\<rparr>"
    and c: "\<And>r. r \<in> set (d_tasks d) \<Longrightarrow> t_ID r = t_ID t \<Longrightarrow> destination_ok d t"
    by (auto simp: db_UpdateMoveTask_def split: if_splits)
  have ids: "map t_ID (d_tasks d') = map t_ID (d_tasks d)"
    and handles: "map t_TaskHandle (d_tasks d') = map t_TaskHandle (d_tasks d)"
    by (simp_all add: d' update_where_def)
  have "queue_exists d (t_SourceQueueID r) \<and> destination_ok d r" if "r \<in> set (d_tasks d')" for r
    using that assms(2) c by (auto simp: d' set_update_where db_wf_def wf_tasks_def)
  moreover have q: "queue_ids d' = queue_ids d" by (simp add: d' queue_ids_def)
  ultimately have "\<forall>r \<in> set (d_tasks d'). queue_exists d' (t_SourceQueueID r) \<and> destination_ok d' r"
    using destination_ok_mono [of d d'] by (auto simp: queue_exists_ids)
  then have "wf_tasks d'"
    using assms(2) ids_below_map [OF ids] handles by (simp add: db_wf_def wf_tasks_def d')
  then show ?thesis by (intro db_wfI [OF assms(2)]) (simp_all add: d' queue_ids_def message_ids_def)
qed

section \<open>The methods on messages\<close>

lemma wf_InsertMessage:
  assumes "db_InsertMessage m d = Inr (x, d')" and "db_wf d"
  shows "db_wf d'"
proof -
  let ?m = "scanMessage (m\<lparr>m_RowID := d_message_seq d + 1\<rparr>)"
  from assms(1) have d': "d' = d\<lparr>d_messages := d_messages d @ [?m], d_message_seq := d_message_seq d + 1\<rparr>"
    and c: "m_MessageID m \<notin> m_MessageID ` set (d_messages d)" "queue_exists d (m_QueueID m)"
    by (auto simp: db_InsertMessage_def Let_def split: if_splits)
  have "wf_messages d'"
    using assms(2) c ids_below_snoc [of m_RowID "d_message_seq d" "d_messages d" ?m]
    by (auto simp: db_wf_def wf_messages_def d' queue_exists_ids queue_ids_def)
  then show ?thesis by (intro db_wfI [OF assms(2)]) (auto simp: d' queue_ids_def message_ids_def)
qed

lemma wf_UpdateMessage:
  assumes "db_UpdateMessage m d = Inr (x, d')" and "db_wf d"
  shows "db_wf d'"
proof (cases "\<forall>r \<in> set (d_messages d). m_RowID r \<noteq> m_RowID m")
  case True
  with assms show ?thesis by (simp add: db_UpdateMessage_def)
next
  case False
  with assms(1) have d': "d' = d\<lparr>d_messages := update_where (\<lambda>r. m_RowID r = m_RowID m) (\<lambda>_. scanMessage m) (d_messages d)\<rparr>"
    and c: "\<And>r. r \<in> set (d_messages d) \<Longrightarrow> m_RowID r \<noteq> m_RowID m \<Longrightarrow> m_MessageID r \<noteq> m_MessageID (scanMessage m)"
      "queue_exists d (m_QueueID m)"
    by (auto simp: db_UpdateMessage_def split: if_splits)
  note wf = assms(2) [unfolded db_wf_def wf_messages_def]
  have ids: "map m_RowID (d_messages d') = map m_RowID (d_messages d)"
    by (simp add: d' update_where_def)
  have "distinct (map m_MessageID (d_messages d'))"
    unfolding d' using wf c(1) by (auto simp: ids_below_def intro!: distinct_replace)
  moreover have "\<forall>r \<in> set (d_messages d'). queue_exists d' (m_QueueID r)"
    using wf c(2) by (auto simp: d' set_update_where queue_exists_ids queue_ids_def)
  ultimately have "wf_messages d'"
    using wf ids_below_map [OF ids] by (simp add: wf_messages_def d')
  moreover have "message_ids d' = message_ids d" using ids by (metis message_ids_def set_map)
  ultimately show ?thesis by (intro db_wfI [OF assms(2)]) (simp_all add: d' queue_ids_def)
qed

text \<open>A change of a message that keeps its row id, its message id and its queue.\<close>

lemma wf_touch_messages:
  assumes "db_wf d" and "map (\<lambda>m. (m_RowID m, m_MessageID m, m_QueueID m)) ms =
    map (\<lambda>m. (m_RowID m, m_MessageID m, m_QueueID m)) (d_messages d)"
  shows "db_wf (d\<lparr>d_messages := ms\<rparr>)"
proof -
  have f: "map f ms = map f (d_messages d)" if "\<And>m. f m = g (m_RowID m, m_MessageID m, m_QueueID m)" for f g
  proof -
    have "f = (\<lambda>m. g (m_RowID m, m_MessageID m, m_QueueID m))" by (rule ext) (rule that)
    with arg_cong [OF assms(2), of "map g"] show ?thesis by (simp add: comp_def)
  qed
  have ids: "map m_RowID ms = map m_RowID (d_messages d)" by (rule f [of _ fst]) simp
  have mid: "map m_MessageID ms = map m_MessageID (d_messages d)" by (rule f [of _ "\<lambda>p. fst (snd p)"]) simp
  have "map m_QueueID ms = map m_QueueID (d_messages d)" by (rule f [of _ "\<lambda>p. snd (snd p)"]) simp
  then have "m_QueueID ` set ms = m_QueueID ` set (d_messages d)" by (metis set_map)
  moreover have "m_QueueID ` set (d_messages d) \<subseteq> queue_ids d"
    using assms(1) by (auto simp: db_wf_def wf_messages_def queue_exists_ids)
  ultimately have "\<forall>m \<in> set ms. m_QueueID m \<in> queue_ids d" by blast
  then have "wf_messages (d\<lparr>d_messages := ms\<rparr>)"
    using assms(1) mid ids_below_map [OF ids] by (simp add: db_wf_def wf_messages_def queue_exists_ids queue_ids_def)
  moreover have "message_ids (d\<lparr>d_messages := ms\<rparr>) = message_ids d"
    using ids by (simp add: message_ids_def) (metis set_map)
  ultimately show ?thesis by (intro db_wfI [OF assms(1)]) (simp_all add: queue_ids_def)
qed

lemma wf_DeleteMessagesByQueueBefore:
  "db_DeleteMessagesByQueueBefore i t d = Inr (x, d') \<Longrightarrow> db_wf d \<Longrightarrow> db_wf d'"
  by (auto simp: db_DeleteMessagesByQueueBefore_def intro!: wf_touch_messages map_update_where)

section \<open>The methods on receipts and the ledgers\<close>

lemma wf_InsertReceipt:
  assumes "db_InsertReceipt r d = Inr (x, d')" and "db_wf d"
  shows "db_wf d'"
proof -
  let ?r = "scanReceipt (r\<lparr>r_ID := d_receipt_seq d + 1\<rparr>)"
  from assms(1) have d': "d' = d\<lparr>d_receipts := d_receipts d @ [?r], d_receipt_seq := d_receipt_seq d + 1\<rparr>"
    and c: "r_Handle r \<notin> r_Handle ` set (d_receipts d)" "queue_exists d (r_QueueID r)"
      "message_exists d (r_MessageRowID r)"
    by (auto simp: db_InsertReceipt_def Let_def split: if_splits)
  have "wf_receipts d'"
    using assms(2) c ids_below_snoc [of r_ID "d_receipt_seq d" "d_receipts d" ?r]
    by (auto simp: db_wf_def wf_receipts_def d' queue_exists_ids queue_ids_def message_exists_ids message_ids_def)
  then show ?thesis by (intro db_wfI [OF assms(2)]) (simp_all add: d' queue_ids_def message_ids_def)
qed

lemma wf_UpdateReceipt:
  assumes "db_UpdateReceipt r d = Inr (x, d')" and "db_wf d"
  shows "db_wf d'"
proof (cases "\<forall>r' \<in> set (d_receipts d). r_ID r' \<noteq> r_ID r")
  case True
  with assms show ?thesis by (simp add: db_UpdateReceipt_def)
next
  case False
  with assms(1) have d': "d' = d\<lparr>d_receipts := update_where (\<lambda>r'. r_ID r' = r_ID r) (\<lambda>_. scanReceipt r) (d_receipts d)\<rparr>"
    and c: "\<And>r'. r' \<in> set (d_receipts d) \<Longrightarrow> r_ID r' \<noteq> r_ID r \<Longrightarrow> r_Handle r' \<noteq> r_Handle (scanReceipt r)"
      "queue_exists d (r_QueueID r)" "message_exists d (r_MessageRowID r)"
    by (auto simp: db_UpdateReceipt_def split: if_splits)
  note wf = assms(2) [unfolded db_wf_def wf_receipts_def]
  have ids: "map r_ID (d_receipts d') = map r_ID (d_receipts d)" by (simp add: d' update_where_def)
  have "distinct (map r_Handle (d_receipts d'))"
    unfolding d' using wf c(1) by (auto simp: ids_below_def intro!: distinct_replace)
  moreover have "\<forall>r' \<in> set (d_receipts d'). queue_exists d' (r_QueueID r') \<and> message_exists d' (r_MessageRowID r')"
    using wf c(2,3)
    by (auto simp: d' set_update_where queue_exists_ids queue_ids_def message_exists_ids message_ids_def)
  ultimately have "wf_receipts d'"
    using wf ids_below_map [OF ids] by (simp add: wf_receipts_def d')
  then show ?thesis by (intro db_wfI [OF assms(2)]) (simp_all add: d' queue_ids_def message_ids_def)
qed

lemma wf_DeactivateReceiptsByMessage:
  assumes "db_DeactivateReceiptsByMessage i d = Inr (x, d')" and "db_wf d"
  shows "db_wf d'"
proof -
  let ?rs = "update_where (\<lambda>r. r_MessageRowID r = i \<and> r_Active r) (\<lambda>r. r\<lparr>r_Active := False\<rparr>) (d_receipts d)"
  from assms(1) have d': "d' = d\<lparr>d_receipts := ?rs\<rparr>" by (simp add: db_DeactivateReceiptsByMessage_def)
  have ids: "map r_ID ?rs = map r_ID (d_receipts d)" "map r_Handle ?rs = map r_Handle (d_receipts d)"
    by (simp_all add: update_where_def)
  have "\<forall>r \<in> set ?rs. queue_exists d (r_QueueID r) \<and> message_exists d (r_MessageRowID r)"
    using assms(2) by (auto simp: set_update_where db_wf_def wf_receipts_def)
  then have "wf_receipts d'"
    using assms(2) ids(2) ids_below_map [OF ids(1)]
    by (simp add: db_wf_def wf_receipts_def d' queue_exists_ids queue_ids_def message_exists_ids message_ids_def)
  then show ?thesis by (intro db_wfI [OF assms(2)]) (simp_all add: d' queue_ids_def message_ids_def)
qed

lemma wf_InsertDedupEntry:
  assumes "db_InsertDedupEntry e d = Inr (x, d')" and "db_wf d"
  shows "db_wf d'"
proof -
  let ?e = "scanDedup (e\<lparr>e_ID := d_dedup_seq d + 1\<rparr>)"
  let ?kept = "filter (\<lambda>r. dedup_key r \<noteq> dedup_key e) (d_dedup d)"
  have "(\<lambda>r. \<not> (e_QueueID r = e_QueueID e \<and> e_ScopeKey r = e_ScopeKey e \<and> e_DedupID r = e_DedupID e))
      = (\<lambda>r. dedup_key r \<noteq> dedup_key e)"
    by (simp add: dedup_key_def fun_eq_iff)
  with assms(1) have d': "d' = d\<lparr>d_dedup := ?kept @ [?e], d_dedup_seq := d_dedup_seq d + 1\<rparr>"
    and c: "queue_exists d (e_QueueID e)"
    by (auto simp: db_InsertDedupEntry_def Let_def split: if_splits)
  note wf = assms(2) [unfolded db_wf_def wf_dedup_def]
  have "ids_below e_ID (d_dedup_seq d + 1) (?kept @ [?e])"
    using wf by (intro ids_below_snoc ids_below_filter) auto
  moreover have "dedup_key ?e = dedup_key e" by simp (simp add: dedup_key_def)
  then have "distinct (map dedup_key (?kept @ [?e]))"
    using wf by (auto simp: distinct_map_filter)
  ultimately have "wf_dedup d'"
    using wf c by (auto simp: wf_dedup_def d' queue_exists_ids queue_ids_def)
  then show ?thesis by (intro db_wfI [OF assms(2)]) (simp_all add: d' queue_ids_def message_ids_def)
qed

lemma wf_DeleteExpiredDedupEntries:
  assumes "db_DeleteExpiredDedupEntries now d = Inr (x, d')" and "db_wf d"
  shows "db_wf d'"
proof -
  have "wf_dedup d'"
    using assms by (auto simp: db_DeleteExpiredDedupEntries_def db_wf_def wf_dedup_def ids_below_filter
        distinct_map_filter queue_exists_ids queue_ids_def)
  then show ?thesis using assms(1)
    by (intro db_wfI [OF assms(2)]) (auto simp: db_DeleteExpiredDedupEntries_def queue_ids_def message_ids_def)
qed

lemma wf_InsertReceiveAttempt:
  assumes "db_InsertReceiveAttempt a d = Inr (x, d')" and "db_wf d"
  shows "db_wf d'"
proof -
  let ?a = "scanAttempt (a\<lparr>a_ID := d_attempt_seq d + 1\<rparr>)"
  let ?kept = "filter (\<lambda>r. attempt_key r \<noteq> attempt_key a) (d_attempts d)"
  have "(\<lambda>r. \<not> (a_QueueID r = a_QueueID a \<and> a_AttemptID r = a_AttemptID a))
      = (\<lambda>r. attempt_key r \<noteq> attempt_key a)"
    by (simp add: attempt_key_def fun_eq_iff)
  with assms(1) have d': "d' = d\<lparr>d_attempts := ?kept @ [?a], d_attempt_seq := d_attempt_seq d + 1\<rparr>"
    and c: "queue_exists d (a_QueueID a)"
    by (auto simp: db_InsertReceiveAttempt_def Let_def split: if_splits)
  note wf = assms(2) [unfolded db_wf_def wf_attempts_def]
  have "ids_below a_ID (d_attempt_seq d + 1) (?kept @ [?a])"
    using wf by (intro ids_below_snoc ids_below_filter) auto
  moreover have "attempt_key ?a = attempt_key a" by simp (simp add: attempt_key_def)
  then have "distinct (map attempt_key (?kept @ [?a]))"
    using wf by (auto simp: distinct_map_filter)
  ultimately have "wf_attempts d'"
    using wf c by (auto simp: wf_attempts_def d' queue_exists_ids queue_ids_def)
  then show ?thesis by (intro db_wfI [OF assms(2)]) (simp_all add: d' queue_ids_def message_ids_def)
qed

lemma wf_InvalidateReceiveAttempts:
  assumes "db_InvalidateReceiveAttempts i now d = Inr (x, d')" and "db_wf d"
  shows "db_wf d'"
proof -
  let ?as = "update_where (\<lambda>a. a_QueueID a = i \<and> a_InvalidatedAt a = None)
    (\<lambda>a. a\<lparr>a_InvalidatedAt := Some (trunc_ms now)\<rparr>) (d_attempts d)"
  from assms(1) have d': "d' = d\<lparr>d_attempts := ?as\<rparr>" by (simp add: db_InvalidateReceiveAttempts_def)
  have ids: "map a_ID ?as = map a_ID (d_attempts d)" and k: "map attempt_key ?as = map attempt_key (d_attempts d)"
    by (simp_all add: update_where_def attempt_key_def)
  have "\<forall>a \<in> set ?as. queue_exists d (a_QueueID a)"
    using assms(2) by (auto simp: set_update_where db_wf_def wf_attempts_def)
  then have "wf_attempts d'"
    using assms(2) k ids_below_map [OF ids]
    by (simp add: db_wf_def wf_attempts_def d' queue_exists_ids queue_ids_def)
  then show ?thesis by (intro db_wfI [OF assms(2)]) (simp_all add: d' queue_ids_def message_ids_def)
qed

section \<open>The interpretations\<close>

interpretation wf_core: message_core wf_rel
proof (intro message_core.intro message_core_axioms.intro)
  show "db_relation wf_rel" by (rule db_relationI) (auto simp: wf_rel_def)
qed (rule wf_keepsI, blast intro: wf_ApplyDueQueueMutations wf_updateQueueTx wf_UpdateMoveTask wf_InsertMessage
    wf_UpdateMessage wf_DeleteMessagesByQueueBefore wf_DeactivateReceiptsByMessage wf_InsertDedupEntry
    wf_DeleteExpiredDedupEntries wf_InsertReceiveAttempt wf_InvalidateReceiveAttempts)+

interpretation wf: store_contract wf_rel
  by (unfold_locales; rule wf_keepsI, blast intro: wf_InsertReceipt wf_UpdateReceipt wf_InsertQueue
      wf_DeleteQueueRow wf_SavePendingAttributes wf_ReplaceTags wf_DeleteTags wf_InsertMoveTask)

section \<open>Ids are never used again\<close>

text \<open>
  The counter does not go back, and a row whose id is not above the old counter was there
  before: what has been removed does not come back under its id.
\<close>

definition fresh_ids :: "int \<Rightarrow> int set \<Rightarrow> int \<Rightarrow> int set \<Rightarrow> bool" where
  "fresh_ids n ids n' ids' \<longleftrightarrow> n \<le> n' \<and> (\<forall>i \<in> ids'. i \<le> n \<longrightarrow> i \<in> ids)"

lemma fresh_ids_refl [simp]: "fresh_ids n ids n ids"
  by (simp add: fresh_ids_def)

lemma fresh_ids_trans: "fresh_ids a x b y \<Longrightarrow> fresh_ids b y c z \<Longrightarrow> fresh_ids a x c z"
  by (meson fresh_ids_def order_trans)

lemma fresh_ids_insert: "i = n + 1 \<Longrightarrow> fresh_ids n ids (n + 1) (insert i ids)"
  by (auto simp: fresh_ids_def)

lemma fresh_ids_subset: "ids' \<subseteq> ids \<Longrightarrow> fresh_ids n ids n ids'"
  by (auto simp: fresh_ids_def)

definition fresh_rel :: "db \<Rightarrow> db \<Rightarrow> bool" where
  "fresh_rel d d' \<longleftrightarrow> fresh_ids (d_queue_seq d) (queue_ids d) (d_queue_seq d') (queue_ids d')
     \<and> fresh_ids (d_message_seq d) (message_ids d) (d_message_seq d') (message_ids d')
     \<and> fresh_ids (d_receipt_seq d) (r_ID ` set (d_receipts d)) (d_receipt_seq d') (r_ID ` set (d_receipts d'))"

lemma fresh_rel_trans: "fresh_rel a b \<Longrightarrow> fresh_rel b c \<Longrightarrow> fresh_rel a c"
  unfolding fresh_rel_def by (meson fresh_ids_trans)

section \<open>What the message plane leaves alone\<close>

text \<open>
  No queue or task appears or goes, tags stay, patches are only consumed, and no row of a
  message is removed.
\<close>

definition plane_rel :: "db \<Rightarrow> db \<Rightarrow> bool" where
  "plane_rel d d' \<longleftrightarrow> map q_ID (d_queues d') = map q_ID (d_queues d) \<and> d_queue_seq d' = d_queue_seq d
     \<and> d_tags d' = d_tags d
     \<and> map (\<lambda>t. (t_ID t, t_TaskHandle t, t_SourceQueueID t)) (d_tasks d') =
       map (\<lambda>t. (t_ID t, t_TaskHandle t, t_SourceQueueID t)) (d_tasks d)
     \<and> set (d_pending d') \<subseteq> set (d_pending d)
     \<and> message_ids d \<subseteq> message_ids d'"

lemma plane_rel_refl: "plane_rel d d"
  by (simp add: plane_rel_def)

lemma plane_rel_trans: "plane_rel a b \<Longrightarrow> plane_rel b c \<Longrightarrow> plane_rel a c"
  unfolding plane_rel_def by (simp only:) blast

text \<open>The database without its queues and patches, which is all that applying patches changes.\<close>

definition sans_queues :: "db \<Rightarrow> db" where
  "sans_queues d = d\<lparr>d_queues := [], d_pending := []\<rparr>"

lemma apply_patch_frame:
  assumes "apply_patch now p d = Inr d1"
  shows "map q_ID (d_queues d1) = map q_ID (d_queues d) \<and> set (d_pending d1) \<subseteq> set (d_pending d)
    \<and> sans_queues d1 = sans_queues d"
proof (cases "db_QueueByID (p_QueueID p) d")
  case None
  with assms show ?thesis by (simp add: apply_patch_def)
next
  case (Some q)
  with assms obtain x d2 where d2: "db_updateQueueTx (patch_queue p now q) d = Inr (x, d2)"
    and e: "d1 = d2\<lparr>d_pending := filter (\<lambda>r. p_ID r \<noteq> p_ID p) (d_pending d2)\<rparr>"
    by (auto simp: apply_patch_def split: sum.splits)
  obtain qs where "d2 = d\<lparr>d_queues := qs\<rparr>" using updateQueueTx_frame(2) [OF d2] by blast
  with updateQueueTx_frame(1) [OF d2] show ?thesis by (simp add: e sans_queues_def)
qed

lemma apply_patches_frame:
  "apply_patches now ps d = Inr d' \<Longrightarrow>
   map q_ID (d_queues d') = map q_ID (d_queues d) \<and> set (d_pending d') \<subseteq> set (d_pending d)
   \<and> sans_queues d' = sans_queues d"
proof (induction ps arbitrary: d)
  case (Cons p ps)
  from Cons.prems obtain d1 where "apply_patch now p d = Inr d1" "apply_patches now ps d1 = Inr d'"
    by (auto split: sum.splits)
  with apply_patch_frame Cons.IH show ?case by (metis order_trans)
qed simp

lemma ApplyDue_frame:
  assumes "db_ApplyDueQueueMutations now d = Inr (x, d')"
  shows "map q_ID (d_queues d') = map q_ID (d_queues d) \<and> set (d_pending d') \<subseteq> set (d_pending d)
    \<and> sans_queues d' = sans_queues d"
  using assms by (intro apply_patches_frame) (auto simp: db_ApplyDueQueueMutations_def split: sum.splits)

lemma sans_queuesD:
  assumes "sans_queues d' = sans_queues d"
  shows "d_queue_seq d' = d_queue_seq d" "d_tags d' = d_tags d" "d_tasks d' = d_tasks d"
    "d_messages d' = d_messages d" "d_message_seq d' = d_message_seq d"
    "d_receipts d' = d_receipts d" "d_receipt_seq d' = d_receipt_seq d"
    "d_dedup d' = d_dedup d" "d_attempts d' = d_attempts d"
  using arg_cong [OF assms, of d_queue_seq] arg_cong [OF assms, of d_tags] arg_cong [OF assms, of d_tasks]
    arg_cong [OF assms, of d_messages] arg_cong [OF assms, of d_message_seq]
    arg_cong [OF assms, of d_receipts] arg_cong [OF assms, of d_receipt_seq]
    arg_cong [OF assms, of d_dedup] arg_cong [OF assms, of d_attempts]
  by (simp_all add: sans_queues_def)

lemma queue_ids_map: "map q_ID (d_queues d') = map q_ID (d_queues d) \<Longrightarrow> queue_ids d' = queue_ids d"
  by (metis queue_ids_def set_map)

lemma message_ids_map: "map m_RowID (d_messages d') = map m_RowID (d_messages d) \<Longrightarrow> message_ids d' = message_ids d"
  by (metis message_ids_def set_map)

lemma UpdateMessage_ids:
  assumes "db_UpdateMessage m d = Inr (x, d')"
  shows "map m_RowID (d_messages d') = map m_RowID (d_messages d) \<and> (\<exists>ms. d' = d\<lparr>d_messages := ms\<rparr>)"
proof (cases "d' = d")
  case True
  then show ?thesis by (auto intro: exI [of _ "d_messages d"])
next
  case False
  with assms have "d' = d\<lparr>d_messages := update_where (\<lambda>r. m_RowID r = m_RowID m) (\<lambda>_. scanMessage m) (d_messages d)\<rparr>"
    by (auto simp: db_UpdateMessage_def split: if_splits)
  then show ?thesis by (auto simp: update_where_def)
qed

lemma DeleteMessagesByQueueBefore_ids:
  assumes "db_DeleteMessagesByQueueBefore i t d = Inr (x, d')"
  shows "map m_RowID (d_messages d') = map m_RowID (d_messages d) \<and> (\<exists>ms. d' = d\<lparr>d_messages := ms\<rparr>)"
  using assms by (auto simp: db_DeleteMessagesByQueueBefore_def update_where_def)

lemma UpdateReceipt_ids:
  assumes "db_UpdateReceipt r d = Inr (x, d')"
  shows "map r_ID (d_receipts d') = map r_ID (d_receipts d) \<and> (\<exists>rs. d' = d\<lparr>d_receipts := rs\<rparr>)"
proof (cases "d' = d")
  case True
  then show ?thesis by (auto intro: exI [of _ "d_receipts d"])
next
  case False
  with assms have "d' = d\<lparr>d_receipts := update_where (\<lambda>r'. r_ID r' = r_ID r) (\<lambda>_. scanReceipt r) (d_receipts d)\<rparr>"
    by (auto simp: db_UpdateReceipt_def split: if_splits)
  then show ?thesis by (auto simp: update_where_def)
qed

interpretation plane: message_plane plane_rel
proof (intro message_plane.intro message_core.intro message_plane_axioms.intro message_core_axioms.intro)
  show "db_relation plane_rel" by (rule db_relationI) (rule plane_rel_refl, rule plane_rel_trans)
  show "keeps plane_rel (db_ApplyDueQueueMutations now)" for now
    by (rule keepsI) (auto simp: plane_rel_def message_ids_def dest!: ApplyDue_frame dest: sans_queuesD)
  show "keeps plane_rel (db_updateQueueTx q)" for q
  proof (rule keepsI)
    fix d x d'
    assume u: "db_updateQueueTx q d = Inr (x, d')"
    obtain qs where "d' = d\<lparr>d_queues := qs\<rparr>" using updateQueueTx_frame(2) [OF u] by blast
    with updateQueueTx_frame(1) [OF u] show "plane_rel d d'" by (simp add: plane_rel_def message_ids_def)
  qed
  show "keeps plane_rel (db_UpdateMoveTask t)" for t
    by (rule keepsI) (auto simp: plane_rel_def message_ids_def db_UpdateMoveTask_def update_where_def split: if_splits)
  show "keeps plane_rel (db_InsertMessage m)" for m
    by (rule keepsI) (auto simp: plane_rel_def message_ids_def db_InsertMessage_def Let_def split: if_splits)
  show "keeps plane_rel (db_UpdateMessage m)" for m
  proof (rule keepsI)
    fix d x d'
    assume u: "db_UpdateMessage m d = Inr (x, d')"
    obtain ms where "d' = d\<lparr>d_messages := ms\<rparr>" using UpdateMessage_ids [OF u] by blast
    moreover have "message_ids d' = message_ids d" using UpdateMessage_ids [OF u] message_ids_map by blast
    ultimately show "plane_rel d d'" by (simp add: plane_rel_def)
  qed
  show "keeps plane_rel (db_DeleteMessagesByQueueBefore i t)" for i t
  proof (rule keepsI)
    fix d x d'
    assume u: "db_DeleteMessagesByQueueBefore i t d = Inr (x, d')"
    obtain ms where "d' = d\<lparr>d_messages := ms\<rparr>" using DeleteMessagesByQueueBefore_ids [OF u] by blast
    moreover have "message_ids d' = message_ids d"
      using DeleteMessagesByQueueBefore_ids [OF u] message_ids_map by blast
    ultimately show "plane_rel d d'" by (simp add: plane_rel_def)
  qed
  show "keeps plane_rel (db_InsertReceipt r)" for r
    by (rule keepsI) (auto simp: plane_rel_def message_ids_def db_InsertReceipt_def Let_def split: if_splits)
  show "keeps plane_rel (db_UpdateReceipt r)" for r
    by (rule keepsI) (auto simp: plane_rel_def message_ids_def dest!: UpdateReceipt_ids)
  show "keeps plane_rel (db_DeactivateReceiptsByMessage i)" for i
    by (rule keepsI) (auto simp: plane_rel_def message_ids_def db_DeactivateReceiptsByMessage_def)
  show "keeps plane_rel (db_InsertDedupEntry e)" for e
    by (rule keepsI) (auto simp: plane_rel_def message_ids_def db_InsertDedupEntry_def Let_def split: if_splits)
  show "keeps plane_rel (db_DeleteExpiredDedupEntries now)" for now
    by (rule keepsI) (auto simp: plane_rel_def message_ids_def db_DeleteExpiredDedupEntries_def)
  show "keeps plane_rel (db_InsertReceiveAttempt a)" for a
    by (rule keepsI) (auto simp: plane_rel_def message_ids_def db_InsertReceiveAttempt_def Let_def split: if_splits)
  show "keeps plane_rel (db_InvalidateReceiveAttempts i now)" for i now
    by (rule keepsI) (auto simp: plane_rel_def message_ids_def db_InvalidateReceiveAttempts_def)
qed

lemma fresh_of_frame:
  assumes "map q_ID (d_queues d') = map q_ID (d_queues d)" and "sans_queues d' = sans_queues d"
  shows "fresh_rel d d'"
  using queue_ids_map [OF assms(1)] sans_queuesD [OF assms(2)] by (simp add: fresh_rel_def message_ids_def)

lemma fresh_same:
  "d_queues d' = d_queues d \<Longrightarrow> d_queue_seq d' = d_queue_seq d \<Longrightarrow>
   message_ids d' = message_ids d \<Longrightarrow> d_message_seq d' = d_message_seq d \<Longrightarrow>
   map r_ID (d_receipts d') = map r_ID (d_receipts d) \<Longrightarrow> d_receipt_seq d' = d_receipt_seq d \<Longrightarrow> fresh_rel d d'"
  unfolding fresh_rel_def queue_ids_def by (metis fresh_ids_refl set_map)

interpretation fresh_core: message_core fresh_rel
proof (intro message_core.intro message_core_axioms.intro)
  show "db_relation fresh_rel" by (rule db_relationI) (simp add: fresh_rel_def, rule fresh_rel_trans)
  show "keeps fresh_rel (db_ApplyDueQueueMutations now)" for now
    by (rule keepsI) (blast dest: ApplyDue_frame intro: fresh_of_frame)
  show "keeps fresh_rel (db_updateQueueTx q)" for q
  proof (rule keepsI)
    fix d x d'
    assume u: "db_updateQueueTx q d = Inr (x, d')"
    obtain qs where "d' = d\<lparr>d_queues := qs\<rparr>" using updateQueueTx_frame(2) [OF u] by blast
    with updateQueueTx_frame(1) [OF u] show "fresh_rel d d'"
      by (intro fresh_of_frame) (simp_all add: sans_queues_def)
  qed
  show "keeps fresh_rel (db_UpdateMoveTask t)" for t
    by (rule keepsI, rule fresh_same) (auto simp: db_UpdateMoveTask_def message_ids_def split: if_splits)
  show "keeps fresh_rel (db_InsertMessage m)" for m
    by (rule keepsI) (auto simp: fresh_rel_def db_InsertMessage_def queue_ids_def message_ids_def Let_def
        fresh_ids_insert split: if_splits)
  show "keeps fresh_rel (db_UpdateMessage m)" for m
  proof (rule keepsI)
    fix d x d'
    assume u: "db_UpdateMessage m d = Inr (x, d')"
    obtain ms where "d' = d\<lparr>d_messages := ms\<rparr>" using UpdateMessage_ids [OF u] by blast
    moreover have "message_ids d' = message_ids d" using UpdateMessage_ids [OF u] message_ids_map by blast
    ultimately show "fresh_rel d d'" by (intro fresh_same) simp_all
  qed
  show "keeps fresh_rel (db_DeleteMessagesByQueueBefore i t)" for i t
  proof (rule keepsI)
    fix d x d'
    assume u: "db_DeleteMessagesByQueueBefore i t d = Inr (x, d')"
    obtain ms where "d' = d\<lparr>d_messages := ms\<rparr>" using DeleteMessagesByQueueBefore_ids [OF u] by blast
    moreover have "message_ids d' = message_ids d"
      using DeleteMessagesByQueueBefore_ids [OF u] message_ids_map by blast
    ultimately show "fresh_rel d d'" by (intro fresh_same) simp_all
  qed
  show "keeps fresh_rel (db_DeactivateReceiptsByMessage i)" for i
    by (rule keepsI, rule fresh_same) (auto simp: db_DeactivateReceiptsByMessage_def message_ids_def update_where_def)
  show "keeps fresh_rel (db_InsertDedupEntry e)" for e
    by (rule keepsI, rule fresh_same) (auto simp: db_InsertDedupEntry_def message_ids_def Let_def split: if_splits)
  show "keeps fresh_rel (db_DeleteExpiredDedupEntries now)" for now
    by (rule keepsI, rule fresh_same) (auto simp: db_DeleteExpiredDedupEntries_def message_ids_def)
  show "keeps fresh_rel (db_InsertReceiveAttempt a)" for a
    by (rule keepsI, rule fresh_same) (auto simp: db_InsertReceiveAttempt_def message_ids_def Let_def split: if_splits)
  show "keeps fresh_rel (db_InvalidateReceiveAttempts i now)" for i now
    by (rule keepsI, rule fresh_same) (auto simp: db_InvalidateReceiveAttempts_def message_ids_def)
qed

interpretation fresh: store_contract fresh_rel
proof unfold_locales
  show "keeps fresh_rel (db_InsertReceipt r)" for r
    by (rule keepsI) (auto simp: fresh_rel_def db_InsertReceipt_def queue_ids_def message_ids_def Let_def
        fresh_ids_insert split: if_splits)
  show "keeps fresh_rel (db_UpdateReceipt r)" for r
    by (rule keepsI) (auto simp: message_ids_def dest!: UpdateReceipt_ids intro!: fresh_same)
  show "keeps fresh_rel (db_InsertQueue q)" for q
    by (rule keepsI) (auto simp: fresh_rel_def db_InsertQueue_def queue_ids_def message_ids_def Let_def
        fresh_ids_insert split: if_splits)
  show "keeps fresh_rel (db_DeleteQueueRow i)" for i
    by (rule keepsI) (auto simp: fresh_rel_def db_DeleteQueueRow_def queue_ids_def message_ids_def Let_def
        intro!: fresh_ids_subset)
  show "keeps fresh_rel (db_SavePendingAttributes i attrs t u)" for i attrs t u
    by (rule keepsI, rule fresh_same) (auto simp: db_SavePendingAttributes_def message_ids_def Let_def split: if_splits)
  show "keeps fresh_rel (db_ReplaceTags i tags)" for i tags
    by (rule keepsI, rule fresh_same) (auto simp: db_ReplaceTags_def message_ids_def split: if_splits)
  show "keeps fresh_rel (db_DeleteTags i keys)" for i keys
    by (rule keepsI, rule fresh_same) (auto simp: db_DeleteTags_def message_ids_def)
  show "keeps fresh_rel (db_InsertMoveTask task)" for task
    by (rule keepsI, rule fresh_same) (auto simp: db_InsertMoveTask_def message_ids_def Let_def split: if_splits)
qed

end
