(* ===== verification/Delivery.thy ===== *)
theory Delivery
  imports MessageAttrs Samples
begin

text \<open>
  The choice of the messages that a receiver gets (\<open>candidateMessages\<close>,
  \<open>fifoCandidateMessages\<close>, \<open>liveMessages\<close> and \<open>messageVisible\<close> of
  \<open>internal/service/messages.go\<close>), and what it guarantees: the loops equal short
  specifications, from which order, visibility and the locking of FIFO groups follow.
\<close>

section \<open>Live and visible messages\<close>

definition message_live :: "gotime \<Rightarrow> message \<Rightarrow> bool" where
  "message_live now m \<longleftrightarrow> m_DeletedAt m = None \<and> now < m_RetentionDeadline m"

definition in_flight :: "gotime \<Rightarrow> message \<Rightarrow> bool" where
  "in_flight now m \<longleftrightarrow> (case m_VisibilityDeadline m of None \<Rightarrow> False | Some t \<Rightarrow> now < t)"

definition messageVisible :: "message \<Rightarrow> gotime \<Rightarrow> bool" where
  "messageVisible m now =
     (if \<not> message_live now m then False
      else if now < m_AvailableAt m then False
      else if in_flight now m then False
      else True)"

definition delivery_key :: "message \<Rightarrow> gotime \<times> int" where
  "delivery_key m = (m_SentAt m, m_RowID m)"

definition liveMessages :: "message list \<Rightarrow> gotime \<Rightarrow> message list" where
  "liveMessages ms now = sort_key delivery_key (filter (message_live now) ms)"

section \<open>Standard queues\<close>

fun standard_loop :: "int \<Rightarrow> gotime \<Rightarrow> message list \<Rightarrow> message list \<Rightarrow> message list" where
  "standard_loop maxMessages now out [] = out"
| "standard_loop maxMessages now out (m # ms) =
     (if messageVisible m now then
        (if int (length (out @ [m])) = maxMessages then out @ [m]
         else standard_loop maxMessages now (out @ [m]) ms)
      else standard_loop maxMessages now out ms)"

section \<open>FIFO queues\<close>

text \<open>The maps \<open>lockedGroups\<close> and \<open>groups\<close> and the slice \<open>order\<close> of \<open>fifoCandidateMessages\<close>.\<close>

record fifo_scan =
  fs_locked :: "string list"
  fs_groups :: "(string \<times> message list) list"
  fs_order :: "string list"

definition scan_step :: "gotime \<Rightarrow> message \<Rightarrow> fifo_scan \<Rightarrow> fifo_scan" where
  "scan_step now m st =
     (if m_GroupID m = [] then st
      else
        (let st1 = (if in_flight now m then st\<lparr>fs_locked := m_GroupID m # fs_locked st\<rparr> else st)
         in (case mget (fs_groups st1) (m_GroupID m) of
               None \<Rightarrow> st1\<lparr>fs_groups := mput (fs_groups st1) (m_GroupID m) [m],
                           fs_order := fs_order st1 @ [m_GroupID m]\<rparr>
             | Some ms \<Rightarrow> st1\<lparr>fs_groups := mput (fs_groups st1) (m_GroupID m) (ms @ [m])\<rparr>)))"

definition fifo_scan_of :: "gotime \<Rightarrow> message list \<Rightarrow> fifo_scan" where
  "fifo_scan_of now ms = fold (scan_step now) ms \<lparr>fs_locked = [], fs_groups = [], fs_order = []\<rparr>"

fun take_group :: "int \<Rightarrow> gotime \<Rightarrow> message list \<Rightarrow> message list \<Rightarrow> message list" where
  "take_group maxMessages now out [] = out"
| "take_group maxMessages now out (m # ms) =
     (if int (length out) = maxMessages then out
      else if \<not> messageVisible m now then out
      else take_group maxMessages now (out @ [m]) ms)"

fun take_groups :: "int \<Rightarrow> gotime \<Rightarrow> fifo_scan \<Rightarrow> message list \<Rightarrow> string list \<Rightarrow> message list" where
  "take_groups maxMessages now st out [] = out"
| "take_groups maxMessages now st out (g # gs) =
     (if int (length out) = maxMessages then out
      else if g \<in> set (fs_locked st) then take_groups maxMessages now st out gs
      else (case mget (fs_groups st) g of
              None \<Rightarrow> take_groups maxMessages now st out gs
            | Some ms \<Rightarrow>
                if ms = [] \<or> \<not> messageVisible (hd ms) now then take_groups maxMessages now st out gs
                else take_groups maxMessages now st (take_group maxMessages now out ms) gs))"

definition fifoCandidateMessages :: "message list \<Rightarrow> int \<Rightarrow> gotime \<Rightarrow> message list" where
  "fifoCandidateMessages ms maxMessages now =
     (let st = fifo_scan_of now ms in take_groups maxMessages now st [] (fs_order st))"

definition candidateMessages :: "queue \<Rightarrow> message list \<Rightarrow> int \<Rightarrow> gotime \<Rightarrow> message list" where
  "candidateMessages q ms maxMessages now =
     (let sorted = liveMessages ms now
      in if q_FIFO q then fifoCandidateMessages sorted maxMessages now
         else standard_loop maxMessages now [] sorted)"

section \<open>The standard loop\<close>

lemma standard_loop_eq:
  "int (length out) < maxMessages \<Longrightarrow>
   standard_loop maxMessages now out ms =
     out @ take (nat maxMessages - length out) (filter (\<lambda>m. messageVisible m now) ms)"
proof (induction ms arbitrary: out)
  case (Cons m ms)
  show ?case
  proof (cases "int (length (out @ [m])) = maxMessages")
    case True
    then have n: "nat maxMessages - length out = 1" by simp
    then show ?thesis using Cons True by simp
  next
    case False
    then have n: "nat maxMessages - length out = Suc (nat maxMessages - length (out @ [m]))"
      using Cons.prems by simp
    then show ?thesis using Cons.IH [of "out @ [m]"] Cons.IH [of out] Cons.prems False by simp
  qed
qed simp

section \<open>The FIFO loops\<close>

text \<open>The groups in the order of their first message, and one group's messages.\<close>

definition group_order :: "message list \<Rightarrow> string list" where
  "group_order ms = dedup_from [] (filter (\<lambda>g. g \<noteq> []) (map m_GroupID ms))"

definition group_messages :: "string \<Rightarrow> message list \<Rightarrow> message list" where
  "group_messages g ms = filter (\<lambda>m. m_GroupID m = g) ms"

definition group_locked :: "gotime \<Rightarrow> message list \<Rightarrow> string \<Rightarrow> bool" where
  "group_locked now ms g \<longleftrightarrow> (\<exists>m \<in> set ms. m_GroupID m = g \<and> in_flight now m)"

lemma group_messages_none: "g \<notin> m_GroupID ` set ms \<Longrightarrow> group_messages g ms = []"
  by (auto simp: group_messages_def filter_empty_conv)

lemma group_messages_snoc:
  "group_messages g (ms @ [m]) = group_messages g ms @ (if m_GroupID m = g then [m] else [])"
  by (simp add: group_messages_def)

lemma dedup_from_append:
  "dedup_from seen (xs @ [y]) =
   dedup_from seen xs @ (if y \<in> set seen \<union> set xs then [] else [y])"
  by (induction xs arbitrary: seen) auto

lemma set_dedup_from: "set (dedup_from seen xs) = set xs - set seen"
  by (induction xs arbitrary: seen) auto

lemma distinct_dedup_from: "distinct (dedup_from seen xs)"
  by (induction xs arbitrary: seen) (auto simp: set_dedup_from)

lemma group_order_snoc:
  "group_order (ms @ [m]) = group_order ms @
     (if m_GroupID m = [] \<or> m_GroupID m \<in> m_GroupID ` set ms then [] else [m_GroupID m])"
  by (auto simp: group_order_def dedup_from_append)

lemma set_group_order: "set (group_order ms) = m_GroupID ` set ms - {[]}"
  by (auto simp: group_order_def set_dedup_from)

lemma fifo_scan_snoc: "fifo_scan_of now (ms @ [m]) = scan_step now m (fifo_scan_of now ms)"
  by (simp add: fifo_scan_of_def)

lemma fifo_scan_spec:
  "(\<forall>g. g \<in> set (fs_locked (fifo_scan_of now ms)) \<longleftrightarrow> g \<noteq> [] \<and> group_locked now ms g)
   \<and> fs_order (fifo_scan_of now ms) = group_order ms
   \<and> (\<forall>g. mget (fs_groups (fifo_scan_of now ms)) g =
        (if g \<noteq> [] \<and> g \<in> m_GroupID ` set ms then Some (group_messages g ms) else None))"
proof (induction ms rule: rev_induct)
  case Nil
  then show ?case by (simp add: fifo_scan_of_def group_locked_def group_order_def)
next
  case (snoc m ms)
  let ?st = "fifo_scan_of now ms" and ?st' = "fifo_scan_of now (ms @ [m])"
  have st': "?st' = scan_step now m ?st" by (rule fifo_scan_snoc)
  show ?case
  proof (cases "m_GroupID m = []")
    case True
    then have "?st' = ?st" by (simp add: st' scan_step_def)
    moreover have "group_messages g (ms @ [m]) = group_messages g ms" if "g \<noteq> []" for g
      using that True by (simp add: group_messages_def)
    ultimately show ?thesis
      using snoc True by (auto simp: group_order_snoc group_locked_def)
  next
    case False
    let ?g = "m_GroupID m"
    have lock: "fs_locked ?st' = (if in_flight now m then ?g # fs_locked ?st else fs_locked ?st)"
      using False by (simp add: st' scan_step_def Let_def split: option.splits)
    have ord: "fs_order ?st' = group_order (ms @ [m])"
      using False snoc by (simp add: st' scan_step_def Let_def group_order_snoc split: option.splits if_splits)
    have grp: "mget (fs_groups ?st') g = (if g = ?g
        then Some ((case mget (fs_groups ?st) ?g of None \<Rightarrow> [] | Some l \<Rightarrow> l) @ [m])
        else mget (fs_groups ?st) g)" for g
      using False by (simp add: st' scan_step_def Let_def split: option.splits)
    have "mget (fs_groups ?st') g =
        (if g \<noteq> [] \<and> g \<in> m_GroupID ` set (ms @ [m]) then Some (group_messages g (ms @ [m])) else None)" for g
      using grp [of g] snoc False group_messages_none [of g ms] by (auto simp: group_messages_snoc)
    moreover have "g \<in> set (fs_locked ?st') \<longleftrightarrow> g \<noteq> [] \<and> group_locked now (ms @ [m]) g" for g
      using lock snoc False by (auto simp: group_locked_def)
    ultimately show ?thesis using ord by blast
  qed
qed

lemma take_group_eq:
  "int (length out) \<le> maxMessages \<Longrightarrow>
   take_group maxMessages now out ms =
     take (nat maxMessages) (out @ takeWhile (\<lambda>m. messageVisible m now) ms)"
proof (induction ms arbitrary: out)
  case (Cons m ms)
  show ?case
  proof (cases "int (length out) = maxMessages")
    case True
    then have "nat maxMessages = length out" by simp
    with True show ?thesis by simp
  next
    case False
    then show ?thesis using Cons.IH [of "out @ [m]"] Cons.prems by simp
  qed
qed simp

text \<open>What the FIFO loops compute, before the limit.\<close>

definition fifo_ready :: "gotime \<Rightarrow> message list \<Rightarrow> message list" where
  "fifo_ready now ms = concat (map (\<lambda>g. takeWhile (\<lambda>m. messageVisible m now) (group_messages g ms))
     (filter (\<lambda>g. \<not> group_locked now ms g) (group_order ms)))"

lemma take_take_append: "take n (take n xs @ ys) = take n (xs @ ys)"
  by (cases "length xs \<le> n") (simp_all add: min_def)

lemma take_groups_eq:
  assumes "int (length out) \<le> maxMessages" and "set gs \<subseteq> set (group_order ms)"
  shows "take_groups maxMessages now (fifo_scan_of now ms) out gs =
    take (nat maxMessages) (out @ concat (map (\<lambda>g. takeWhile (\<lambda>m. messageVisible m now) (group_messages g ms))
      (filter (\<lambda>g. \<not> group_locked now ms g) gs)))"
  using assms
proof (induction gs arbitrary: out)
  case (Cons g gs)
  have g: "g \<noteq> []" "g \<in> m_GroupID ` set ms" using Cons.prems(2) by (auto simp: set_group_order)
  have sc: "mget (fs_groups (fifo_scan_of now ms)) g = Some (group_messages g ms)"
    "g \<in> set (fs_locked (fifo_scan_of now ms)) \<longleftrightarrow> group_locked now ms g"
    using fifo_scan_spec [of now ms] g by auto
  have ne: "group_messages g ms \<noteq> []" using g(2) by (auto simp: group_messages_def filter_empty_conv)
  then obtain h t where ht: "group_messages g ms = h # t" by (cases "group_messages g ms") auto
  show ?case
  proof (cases "int (length out) = maxMessages")
    case True
    then have "nat maxMessages = length out" by simp
    with True show ?thesis by simp
  next
    case False
    show ?thesis
    proof (cases "group_locked now ms g \<or> \<not> messageVisible h now")
      case True
      then show ?thesis using Cons False sc ht by auto
    next
      case visible: False
      let ?out = "take_group maxMessages now out (group_messages g ms)"
      have o: "?out = take (nat maxMessages) (out @ takeWhile (\<lambda>m. messageVisible m now) (group_messages g ms))"
        using Cons.prems by (intro take_group_eq)
      then have "int (length ?out) \<le> maxMessages" using Cons.prems(1) by simp
      moreover have "set gs \<subseteq> set (group_order ms)" using Cons.prems(2) by simp
      ultimately have "take_groups maxMessages now (fifo_scan_of now ms) ?out gs = take (nat maxMessages)
          (?out @ concat (map (\<lambda>g. takeWhile (\<lambda>m. messageVisible m now) (group_messages g ms))
            (filter (\<lambda>g. \<not> group_locked now ms g) gs)))"
        by (rule Cons.IH)
      moreover have "take_groups maxMessages now (fifo_scan_of now ms) out (g # gs) =
          take_groups maxMessages now (fifo_scan_of now ms) ?out gs"
        using False visible sc ht by (simp del: take_group.simps)
      ultimately show ?thesis using visible by (simp only: o take_take_append) simp
    qed
  qed
qed simp

section \<open>What is chosen\<close>

lemma candidates_standard:
  "\<not> q_FIFO q \<Longrightarrow> 1 \<le> n \<Longrightarrow>
   candidateMessages q ms n now = take (nat n) (filter (\<lambda>m. messageVisible m now) (liveMessages ms now))"
  by (simp add: candidateMessages_def standard_loop_eq)

lemma candidates_fifo:
  "q_FIFO q \<Longrightarrow> 0 \<le> n \<Longrightarrow> candidateMessages q ms n now = take (nat n) (fifo_ready now (liveMessages ms now))"
  using take_groups_eq [of "[]" n "group_order (liveMessages ms now)" "liveMessages ms now" now]
    fifo_scan_spec [of now "liveMessages ms now"]
  by (simp add: candidateMessages_def fifoCandidateMessages_def fifo_ready_def Let_def)

lemma set_liveMessages [simp]: "set (liveMessages ms now) = {m \<in> set ms. message_live now m}"
  by (auto simp: liveMessages_def)

lemma sorted_liveMessages: "sorted (map delivery_key (liveMessages ms now))"
  by (simp add: liveMessages_def)

lemma distinct_liveMessages: "distinct (map m_RowID ms) \<Longrightarrow> distinct (map m_RowID (liveMessages ms now))"
proof -
  assume "distinct (map m_RowID ms)"
  then have "distinct (map m_RowID (filter (message_live now) ms))" by (simp add: distinct_map_filter)
  moreover have "mset (map m_RowID (liveMessages ms now)) = mset (map m_RowID (filter (message_live now) ms))"
    by (simp add: liveMessages_def)
  ultimately show ?thesis by (metis mset_eq_imp_distinct_iff)
qed

lemma in_take_concat: "x \<in> set (take n (concat xss)) \<Longrightarrow> \<exists>xs \<in> set xss. x \<in> set xs"
  by (auto dest: in_set_takeD)

lemma fifo_readyD:
  assumes "m \<in> set (fifo_ready now ms)"
  shows "m \<in> set ms \<and> messageVisible m now \<and> m_GroupID m \<noteq> [] \<and> \<not> group_locked now ms (m_GroupID m)"
proof -
  from assms obtain g where g: "g \<in> set (group_order ms)" "\<not> group_locked now ms g"
    and m: "m \<in> set (takeWhile (\<lambda>m. messageVisible m now) (group_messages g ms))"
    by (auto simp: fifo_ready_def)
  from m have "m \<in> set (group_messages g ms)" "messageVisible m now" by (auto dest: set_takeWhileD)
  with g show ?thesis by (auto simp: group_messages_def set_group_order)
qed

lemma distinct_map_filter_takeWhile:
  "distinct (map f xs) \<Longrightarrow> distinct (map f (takeWhile P (filter Q xs)))"
  by (metis distinct_map_filter distinct_append map_append takeWhile_dropWhile_id)

lemma distinct_fifo_ready:
  assumes "distinct (map m_RowID ms)"
  shows "distinct (map m_RowID (fifo_ready now ms))"
proof -
  let ?pick = "\<lambda>g. takeWhile (\<lambda>m. messageVisible m now) (group_messages g ms)"
  have "distinct (map m_RowID (concat (map ?pick gs)))" if "distinct gs" for gs
    using that
  proof (induction gs)
    case (Cons g gs)
    have "m_RowID ` set (?pick g) \<inter> m_RowID ` set (concat (map ?pick gs)) = {}"
    proof (rule ccontr)
      assume "\<not> ?thesis"
      then obtain a b h where ab: "a \<in> set (?pick g)" "b \<in> set (?pick h)" "h \<in> set gs" "m_RowID a = m_RowID b"
        by auto
      then have "a \<in> set ms" "b \<in> set ms" "m_GroupID a = g" "m_GroupID b = h"
        by (auto simp: group_messages_def dest: set_takeWhileD)
      with ab(4) assms have "a = b" by (meson distinct_map inj_onD)
      with \<open>m_GroupID a = g\<close> \<open>m_GroupID b = h\<close> ab(3) Cons.prems show False by simp
    qed
    moreover have "distinct (map m_RowID (?pick g))"
      unfolding group_messages_def by (rule distinct_map_filter_takeWhile [OF assms])
    ultimately show ?case using Cons by simp
  qed simp
  then show ?thesis by (simp add: fifo_ready_def group_order_def distinct_dedup_from)
qed

text \<open>Within a FIFO queue, the messages of one group that are ready are the first of the group.\<close>

lemma group_of_fifo_ready:
  assumes "g \<noteq> []"
  shows "group_messages g (fifo_ready now ms) =
    (if g \<in> m_GroupID ` set ms \<and> \<not> group_locked now ms g
     then takeWhile (\<lambda>m. messageVisible m now) (group_messages g ms) else [])"
proof -
  let ?pick = "\<lambda>g. takeWhile (\<lambda>m. messageVisible m now) (group_messages g ms)"
  have own: "group_messages g (?pick h) = (if h = g then ?pick g else [])" for h
    by (auto simp: group_messages_def filter_id_conv filter_empty_conv dest: set_takeWhileD)
  have "group_messages g (concat (map ?pick gs)) = (if g \<in> set gs then ?pick g else [])"
    if "distinct gs" for gs
    using that
  proof (induction gs)
    case (Cons h gs)
    have "group_messages g (concat (map ?pick (h # gs))) =
        group_messages g (?pick h) @ group_messages g (concat (map ?pick gs))"
      by (simp add: group_messages_def)
    then show ?case using Cons own [of h] by (auto split: if_splits)
  qed (simp add: group_messages_def)
  from this [of "filter (\<lambda>g. \<not> group_locked now ms g) (group_order ms)"] assms show ?thesis
    by (simp add: fifo_ready_def group_order_def distinct_dedup_from set_dedup_from)
qed

lemma set_takeWhile_group: "m \<in> set (takeWhile P (filter Q ms)) \<Longrightarrow> m \<in> set ms"
  by (auto dest: set_takeWhileD)

lemma prefix_filter_take: "prefix (filter P (take n xs)) (filter P xs)"
  by (metis append_take_drop_id filter_append prefixI)

lemma group_prefix:
  assumes "g \<noteq> []"
  shows "prefix (group_messages g (take n (fifo_ready now ms))) (group_messages g ms)"
proof -
  have "prefix (group_messages g (take n (fifo_ready now ms))) (group_messages g (fifo_ready now ms))"
    by (simp add: group_messages_def prefix_filter_take)
  moreover have "prefix (group_messages g (fifo_ready now ms)) (group_messages g ms)"
    using takeWhile_is_prefix by (auto simp: group_of_fifo_ready [OF assms])
  ultimately show ?thesis by (rule prefix_order.trans)
qed

lemma sorted_split_take:
  assumes "sorted (map f xs)" and "x \<in> set (take n xs)" and "y \<in> set xs" and "y \<notin> set (take n xs)"
  shows "f x \<le> f y"
proof -
  from assms(3,4) have "y \<in> set (drop n xs)" by (metis Un_iff append_take_drop_id set_append)
  moreover have "sorted (map f (take n xs) @ map f (drop n xs))"
    using assms(1) by (metis append_take_drop_id map_append)
  ultimately show ?thesis using assms(2) by (auto simp: sorted_append)
qed

section \<open>Properties\<close>

lemma candidates_chosen:
  assumes "1 \<le> n" and "distinct (map m_RowID ms)"
  shows "int (length (candidateMessages q ms n now)) \<le> n
    \<and> distinct (map m_RowID (candidateMessages q ms n now))
    \<and> (\<forall>m \<in> set (candidateMessages q ms n now). m \<in> set ms \<and> messageVisible m now)"
proof (cases "q_FIFO q")
  case True
  with assms(1) distinct_liveMessages [OF assms(2)] show ?thesis
    by (auto simp: candidates_fifo take_map [symmetric] distinct_fifo_ready
        dest!: in_set_takeD fifo_readyD)
next
  case False
  with assms(1) distinct_liveMessages [OF assms(2)] show ?thesis
    by (auto simp: candidates_standard take_map [symmetric] distinct_map_filter dest!: in_set_takeD)
qed

text \<open>
  C23. A receiver is offered at most as many messages as it asked for, each once, and only
  messages of the queue's list that are neither deleted nor past their retention, whose delay is
  over and whose visibility deadline, if there is one, has passed.
\<close>

theorem candidates_visible:
  assumes "1 \<le> n" and "distinct (map m_RowID ms)"
  shows "int (length (candidateMessages q ms n now)) \<le> n
    \<and> distinct (map m_RowID (candidateMessages q ms n now))
    \<and> (\<forall>m. m \<in> set (candidateMessages q ms n now) \<longrightarrow> m \<in> set ms \<and> m_DeletedAt m = None
        \<and> now < m_RetentionDeadline m \<and> m_AvailableAt m \<le> now
        \<and> (m_VisibilityDeadline m = None \<or> the (m_VisibilityDeadline m) \<le> now))"
proof -
  have vis: "m_DeletedAt m = None \<and> now < m_RetentionDeadline m \<and> m_AvailableAt m \<le> now
        \<and> (m_VisibilityDeadline m = None \<or> the (m_VisibilityDeadline m) \<le> now)"
    if "messageVisible m now" for m
    using that by (auto simp: messageVisible_def message_live_def in_flight_def split: if_splits option.splits)
  with candidates_chosen [OF assms, of q now] show ?thesis by blast
qed

theorem candidates_visible_witness:
  "int (length (candidateMessages (sample_queue 1 ''jobs'' False [])
      [sample_message 1 1 [] 10, sample_message 2 1 [] 5] 1 20)) \<le> 1"
  using candidates_visible [of 1 "[sample_message 1 1 [] 10, sample_message 2 1 [] 5]"
      "sample_queue 1 ''jobs'' False []" 20]
  by (simp add: sample_message_def)

text \<open>
  C24. On a standard queue the choice is the oldest: a visible message that is not offered was
  sent no earlier than every message that is, and when fewer messages are offered than asked
  for, every visible message is offered.
\<close>

theorem standard_candidates_oldest_first:
  assumes "\<not> q_FIFO q" and "1 \<le> n" and "m \<in> set ms" and "messageVisible m now"
    and "m \<notin> set (candidateMessages q ms n now)"
  shows "int (length (candidateMessages q ms n now)) = n
    \<and> (\<forall>c. c \<in> set (candidateMessages q ms n now) \<longrightarrow> (m_SentAt c, m_RowID c) \<le> (m_SentAt m, m_RowID m))"
proof -
  let ?vis = "filter (\<lambda>m. messageVisible m now) (liveMessages ms now)"
  note c = candidates_standard [OF assms(1,2), of ms now]
  have m: "m \<in> set ?vis" using assms(3,4) by (auto simp: messageVisible_def split: if_splits)
  have s: "sorted (map delivery_key ?vis)" by (rule sorted_filter) (rule sorted_liveMessages)
  have "nat n < length ?vis" using assms(5) m c by (metis not_le take_all)
  moreover have "delivery_key x \<le> delivery_key m" if "x \<in> set (take (nat n) ?vis)" for x
    using sorted_split_take [OF s that m] assms(5) c by simp
  ultimately show ?thesis using c assms(2) by (simp add: delivery_key_def)
qed

theorem standard_candidates_oldest_first_witness:
  "candidateMessages (sample_queue 1 ''jobs'' False []) [sample_message 1 1 [] 10, sample_message 2 1 [] 5] 1 20
      = [sample_message 2 1 [] 5]
    \<and> (m_SentAt (sample_message 2 1 [] 5), m_RowID (sample_message 2 1 [] 5))
      \<le> (m_SentAt (sample_message 1 1 [] 10), m_RowID (sample_message 1 1 [] 10))"
proof -
  have c: "candidateMessages (sample_queue 1 ''jobs'' False [])
      [sample_message 1 1 [] 10, sample_message 2 1 [] 5] 1 20 = [sample_message 2 1 [] 5]"
    by (simp add: candidateMessages_def liveMessages_def message_live_def delivery_key_def
        messageVisible_def in_flight_def sample_queue_def sample_message_def)
  have "messageVisible (sample_message 1 1 [] 10) 20"
    by (simp add: message_live_def messageVisible_def in_flight_def sample_message_def)
  moreover have "sample_message 1 1 [] 10 \<noteq> sample_message 2 1 [] 5" by (simp add: sample_message_def)
  ultimately show ?thesis
    using c standard_candidates_oldest_first [of "sample_queue 1 ''jobs'' False []" 1 "sample_message 1 1 [] 10"
        "[sample_message 1 1 [] 10, sample_message 2 1 [] 5]" 20]
    by (simp add: sample_queue_def)
qed

text \<open>
  C7. A FIFO queue never offers a message of a group that has a live message in flight, and
  never a message without a group.
\<close>

theorem fifo_group_lock:
  assumes "q_FIFO q" and "1 \<le> n" and "m \<in> set (candidateMessages q ms n now)"
    and "m' \<in> set ms" and "m_DeletedAt m' = None" and "now < m_RetentionDeadline m'"
    and "m_VisibilityDeadline m' = Some t" and "now < t"
  shows "m_GroupID m \<noteq> [] \<and> m_GroupID m' \<noteq> m_GroupID m"
proof -
  from assms(1-3) have "m \<in> set (fifo_ready now (liveMessages ms now))"
    by (auto simp: candidates_fifo dest: in_set_takeD)
  then have "m_GroupID m \<noteq> []" "\<not> group_locked now (liveMessages ms now) (m_GroupID m)"
    by (auto dest: fifo_readyD)
  with assms(4-8) show ?thesis
    by (auto simp: group_locked_def message_live_def in_flight_def)
qed

theorem fifo_group_lock_witness:
  "candidateMessages (sample_queue 1 ''a.fifo'' True [])
      [(sample_message 1 1 ''g'' 5)\<lparr>m_VisibilityDeadline := Some 30\<rparr>, sample_message 2 1 ''g'' 6,
       sample_message 3 1 ''h'' 7] 10 20 = [sample_message 3 1 ''h'' 7]
    \<and> m_GroupID (sample_message 1 1 ''g'' 5) \<noteq> m_GroupID (sample_message 3 1 ''h'' 7)"
proof -
  let ?m = "(sample_message 1 1 ''g'' 5)\<lparr>m_VisibilityDeadline := Some 30\<rparr>"
  let ?q = "sample_queue 1 ''a.fifo'' True []"
  have c: "candidateMessages ?q [?m, sample_message 2 1 ''g'' 6, sample_message 3 1 ''h'' 7] 10 20
      = [sample_message 3 1 ''h'' 7]"
    by (simp add: candidateMessages_def liveMessages_def message_live_def delivery_key_def
        messageVisible_def in_flight_def sample_queue_def sample_message_def
        fifoCandidateMessages_def fifo_scan_of_def scan_step_def Let_def)
  then show ?thesis
    using fifo_group_lock [of ?q 10 "sample_message 3 1 ''h'' 7"
        "[?m, sample_message 2 1 ''g'' 6, sample_message 3 1 ''h'' 7]" 20 ?m 30]
    by (simp add: sample_queue_def sample_message_def)
qed

text \<open>
  C6. A FIFO queue keeps the order within each group: the messages of a group that are offered
  are the first live messages of the group by sending time and row id, in that order, so none
  overtakes an earlier one.
\<close>

theorem fifo_group_order:
  assumes "q_FIFO q" and "1 \<le> n" and "g \<noteq> []"
  shows "prefix (filter (\<lambda>m. m_GroupID m = g) (candidateMessages q ms n now))
    (sort_key (\<lambda>m. (m_SentAt m, m_RowID m))
      (filter (\<lambda>m. m_GroupID m = g \<and> m_DeletedAt m = None \<and> now < m_RetentionDeadline m) ms))"
proof -
  have "sort_key (\<lambda>m. (m_SentAt m, m_RowID m))
      (filter (\<lambda>m. m_GroupID m = g \<and> m_DeletedAt m = None \<and> now < m_RetentionDeadline m) ms)
    = group_messages g (liveMessages ms now)"
    by (simp add: group_messages_def liveMessages_def filter_sort [symmetric] delivery_key_def [abs_def]
        message_live_def conj_ac)
  with group_prefix [OF assms(3), of "nat n" now "liveMessages ms now"] assms(1,2)
  show ?thesis by (simp add: candidates_fifo group_messages_def)
qed

theorem fifo_group_order_witness:
  "prefix (filter (\<lambda>m. m_GroupID m = ''g'') (candidateMessages (sample_queue 1 ''a.fifo'' True [])
      [sample_message 1 1 ''g'' 9, sample_message 2 1 ''g'' 6] 1 20))
    (sort_key (\<lambda>m. (m_SentAt m, m_RowID m))
      (filter (\<lambda>m. m_GroupID m = ''g'' \<and> m_DeletedAt m = None \<and> 20 < m_RetentionDeadline m)
        [sample_message 1 1 ''g'' 9, sample_message 2 1 ''g'' 6]))"
  by (rule fifo_group_order) (simp_all add: sample_queue_def)

end
