(* ===== verification/Maintain.thy ===== *)
theory Maintain
  imports Integrity Delivery
begin

text \<open>
  The maintenance that runs at the start of the message operations: \<open>maintain\<close>, \<open>reapQueue\<close>,
  \<open>processMoveTasks\<close>, \<open>processMoveTask\<close> and \<open>resolveMoveDestination\<close> of
  \<open>internal/service/messages.go\<close>.
\<close>

section \<open>Retention and purge\<close>

definition reap_message :: "gotime \<Rightarrow> message \<Rightarrow> unit handler" where
  "reap_message now m =
     (if m_DeletedAt m \<noteq> None then ok ()
      else if \<not> now < m_RetentionDeadline m then
        seqE (orInternal ''failed to expire message''
               (UpdateMessage (m\<lparr>m_DeletedAt := Some now, m_VisibilityDeadline := None\<rparr>)))
             (orInternal ''failed to deactivate expired receipts'' (DeactivateReceiptsByMessage (m_RowID m)))
      else ok ())"

definition purge_queue :: "gotime \<Rightarrow> queue \<Rightarrow> unit handler" where
  "purge_queue now q =
     (case (q_PurgeRequestedAt q, q_PurgeExpiresAt q) of
        (Some _, Some expires) \<Rightarrow>
          seqE (orInternal ''failed to purge queue messages'' (DeleteMessagesByQueueBefore (q_ID q) expires))
               (if \<not> now < expires then
                  orInternal ''failed to clear purge window''
                    (UpdateQueue (q\<lparr>q_PurgeRequestedAt := None, q_PurgeExpiresAt := None\<rparr>))
                else ok ())
      | _ \<Rightarrow> ok ())"

definition reapQueue :: "queue \<Rightarrow> gotime \<Rightarrow> unit handler" where
  "reapQueue q now =
     bindE (orInternal ''failed to list queue messages'' (ListMessagesByQueue (q_ID q))) (\<lambda>messages.
     seqE (forE (reap_message now) messages) (purge_queue now q))"

section \<open>Move tasks\<close>

definition live_queue :: "queue option \<Rightarrow> queue option" where
  "live_queue found = (case found of None \<Rightarrow> None
     | Some q \<Rightarrow> if q_DeletedAt q \<noteq> None then None else Some q)"

definition live_message :: "message option \<Rightarrow> message option" where
  "live_message found = (case found of None \<Rightarrow> None
     | Some m \<Rightarrow> if m_DeletedAt m \<noteq> None then None else Some m)"

definition resolveMoveDestination :: "move_task \<Rightarrow> message \<Rightarrow> queue option handler" where
  "resolveMoveDestination task m =
     (case t_DestinationQueueID task of
        Some i \<Rightarrow>
          bindE (orInternal ''failed to lookup move task destination queue'' (QueueByID i))
            (\<lambda>found. ok (live_queue found))
      | None \<Rightarrow>
          if m_DeadLetterSourceARN m = [] then ok None
          else bindE (orInternal ''failed to lookup original source queue'' (QueueByARN (m_DeadLetterSourceARN m)))
            (\<lambda>found. ok (live_queue found)))"

text \<open>The message as it arrives in its destination.\<close>

definition moved_message :: "queue \<Rightarrow> gotime \<Rightarrow> string \<Rightarrow> message \<Rightarrow> message" where
  "moved_message destination now sequenceNumber m =
     m\<lparr>m_QueueID := q_ID destination, m_SentAt := now, m_OriginalSentAt := now,
       m_FirstReceivedAt := None, m_ReceiveCount := 0, m_AvailableAt := now,
       m_VisibilityDeadline := None, m_RetentionDeadline := now + seconds (queueRetentionSeconds destination),
       m_DeletedAt := None, m_DeadLetterSourceARN := [], m_SequenceNumber := sequenceNumber\<rparr>"

text \<open>One turn of the loop over the source's messages, with the counts \<open>(moved, remaining)\<close>.\<close>

definition move_step :: "move_task \<Rightarrow> gotime \<Rightarrow> int \<Rightarrow> int \<times> int \<Rightarrow> message \<Rightarrow> (int \<times> int) handler" where
  "move_step task now limit counts m =
     (case counts of (moved, remaining) \<Rightarrow>
      if m_DeletedAt m \<noteq> None \<or> \<not> now < m_RetentionDeadline m then ok (moved, remaining)
      else if limit \<le> moved then ok (moved, remaining + 1)
      else bindE (resolveMoveDestination task m) (\<lambda>d.
        case d of
          None \<Rightarrow> ok (moved, remaining + 1)
        | Some destination \<Rightarrow>
            seqE (orInternal ''failed to deactivate receipts during move task''
                   (DeactivateReceiptsByMessage (m_RowID m)))
           (bindE (if q_FIFO destination then newSequenceNumber else ok []) (\<lambda>sequenceNumber.
            seqE (orInternal ''failed to move message''
                   (UpdateMessage (moved_message destination now sequenceNumber m)))
            (ok (moved + 1, remaining))))))"

definition finish_task :: "move_task \<Rightarrow> gotime \<Rightarrow> int \<Rightarrow> int \<Rightarrow> move_task" where
  "finish_task task now moved remaining =
     (let t = task\<lparr>t_Moved := wrap64 (t_Moved task + moved), t_ToMove := Some remaining, t_UpdatedAt := now\<rparr>
      in if t_Status t = ''CANCELLING'' then t\<lparr>t_Status := ''CANCELLED'', t_CompletedAt := Some now\<rparr>
         else if remaining = 0 then t\<lparr>t_Status := ''COMPLETED'', t_CompletedAt := Some now\<rparr>
         else t)"

definition processMoveTask :: "move_task \<Rightarrow> gotime \<Rightarrow> unit handler" where
  "processMoveTask task now =
     bindE (orInternal ''failed to load message move task source queue'' (QueueByID (t_SourceQueueID task))) (\<lambda>found.
     case live_queue found of
       None \<Rightarrow>
         orInternal ''failed to update move task''
           (UpdateMoveTask (task\<lparr>t_Status := ''FAILED'', t_FailureReason := ''Source queue no longer exists.'',
              t_CompletedAt := Some now, t_UpdatedAt := now\<rparr>))
     | Some source \<Rightarrow>
         bindE (orInternal ''failed to list source messages for move task'' (ListMessagesByQueue (q_ID source)))
           (\<lambda>sourceMessages.
         (let limit = (case t_MaxMessagesPerSecond task of
                Some n \<Rightarrow> if 0 < n then n else int (length sourceMessages)
              | None \<Rightarrow> int (length sourceMessages))
          in bindE (foldE (move_step task now limit) (0, 0) sourceMessages) (\<lambda>(moved, remaining).
             orInternal ''failed to update message move task''
               (UpdateMoveTask (finish_task task now moved remaining))))))"

definition processMoveTasks :: "gotime \<Rightarrow> unit handler" where
  "processMoveTasks now =
     bindE (orInternal ''failed to list message move tasks'' ListRunningMoveTasks) (\<lambda>tasks.
     forE (\<lambda>task. processMoveTask task now) tasks)"

section \<open>Maintenance\<close>

definition maintain :: "config \<Rightarrow> gotime \<Rightarrow> unit handler" where
  "maintain cfg now =
     seqE (orInternal ''failed to apply queue mutations'' (ApplyDueQueueMutations now))
    (seqE (orInternal ''failed to reap deduplication ledger'' (DeleteExpiredDedupEntries now))
    (bindE (orInternal ''failed to list queues for maintenance'' (ListQueues (cfg_AccountID cfg) (cfg_Region cfg) []))
      (\<lambda>queues.
     seqE (forE (\<lambda>q. if q_DeletedAt q \<noteq> None then ok () else reapQueue q now) queues)
     (processMoveTasks now))))"

section \<open>Maintenance keeps the contract\<close>

context message_core
begin

lemma steps_reap_message [effects]: "steps (dbrel R) (reap_message now m)"
  unfolding reap_message_def by (intro effects)

lemma steps_purge_queue [effects]: "steps (dbrel R) (purge_queue now q)"
  unfolding purge_queue_def by (intro effects)

lemma steps_reapQueue [effects]: "steps (dbrel R) (reapQueue q now)"
  unfolding reapQueue_def by (intro effects)

lemma steps_resolveMoveDestination [effects]: "steps (dbrel R) (resolveMoveDestination task m)"
  unfolding resolveMoveDestination_def by (intro effects)

lemma steps_move_step [effects]: "steps (dbrel R) (move_step task now limit counts m)"
  unfolding move_step_def by (intro effects)

lemma steps_processMoveTask [effects]: "steps (dbrel R) (processMoveTask task now)"
  unfolding processMoveTask_def by (intro effects)

lemma steps_processMoveTasks [effects]: "steps (dbrel R) (processMoveTasks now)"
  unfolding processMoveTasks_def by (intro effects)

lemma steps_maintain [effects]: "steps (dbrel R) (maintain cfg now)"
  unfolding maintain_def by (intro effects)

end

section \<open>Maintenance with nothing to do\<close>

definition quiet :: "gotime \<Rightarrow> db \<Rightarrow> bool" where
  "quiet now d \<longleftrightarrow> d_pending d = [] \<and> d_dedup d = [] \<and> d_tasks d = []
     \<and> (\<forall>q \<in> set (d_queues d). q_PurgeRequestedAt q = None)
     \<and> (\<forall>m \<in> set (d_messages d). m_DeletedAt m \<noteq> None \<or> now < m_RetentionDeadline m)"

lemma calls_twice [simp]: "w\<lparr>w_calls := n\<rparr>\<lparr>w_calls := m\<rparr> = w\<lparr>w_calls := m\<rparr>"
  by simp

lemma run_query_calls:
  "healthy w \<Longrightarrow> orInternal msg (queryE f) w = (Inr (f (w_db w)), w\<lparr>w_calls := Suc (w_calls w)\<rparr>)"
  by (simp add: orInternal_def)

lemma forE_calls:
  assumes "\<And>x v. x \<in> set xs \<Longrightarrow> healthy v \<Longrightarrow> w_db v = w_db w \<Longrightarrow> \<exists>n. body x v = (Inr (), v\<lparr>w_calls := n\<rparr>)"
    and "healthy w"
  shows "\<exists>n. forE body xs w = (Inr (), w\<lparr>w_calls := n\<rparr>)"
proof -
  have "\<exists>n. forE body xs v = (Inr (), v\<lparr>w_calls := n\<rparr>)" if "healthy v" "w_db v = w_db w" for v
    using assms(1) that
  proof (induction xs arbitrary: v)
    case Nil
    then show ?case by (intro exI [of _ "w_calls v"]) simp
  next
    case (Cons x xs)
    obtain n where "body x v = (Inr (), v\<lparr>w_calls := n\<rparr>)" using Cons.prems by (meson list.set_intros(1))
    moreover obtain k where "forE body xs (v\<lparr>w_calls := n\<rparr>) = (Inr (), v\<lparr>w_calls := n\<rparr>\<lparr>w_calls := k\<rparr>)"
      using Cons.IH [of "v\<lparr>w_calls := n\<rparr>"] Cons.prems by auto
    ultimately show ?case by auto
  qed
  with assms(2) show ?thesis by blast
qed

lemma reapQueue_quiet:
  assumes "healthy w" and "quiet now (w_db w)" and "q \<in> set (d_queues (w_db w))"
  shows "\<exists>n. reapQueue q now w = (Inr (), w\<lparr>w_calls := n\<rparr>)"
proof -
  let ?w = "w\<lparr>w_calls := Suc (w_calls w)\<rparr>"
  let ?ms = "db_ListMessagesByQueue (q_ID q) (w_db w)"
  have "\<exists>n. forE (reap_message now) ?ms ?w = (Inr (), ?w\<lparr>w_calls := n\<rparr>)"
  proof (rule forE_calls)
    fix m v
    assume "m \<in> set ?ms"
    then have "m \<in> set (d_messages (w_db w))" by (auto simp: db_ListMessagesByQueue_def)
    with assms(2) have "m_DeletedAt m \<noteq> None \<or> now < m_RetentionDeadline m" by (simp add: quiet_def)
    then show "\<exists>n. reap_message now m v = (Inr (), v\<lparr>w_calls := n\<rparr>)"
      by (intro exI [of _ "w_calls v"]) (auto simp: reap_message_def)
  qed (simp add: assms(1))
  moreover have "purge_queue now q v = (Inr (), v)" for v
    using assms(2,3) by (simp add: purge_queue_def quiet_def)
  ultimately show ?thesis
    using assms(1) by (auto simp: reapQueue_def ListMessagesByQueue_def run_query_calls)
qed

lemma maintain_quiet:
  assumes "healthy w" and "quiet now (w_db w)"
  shows "\<exists>n. maintain cfg now w = (Inr (), w\<lparr>w_calls := n\<rparr>)"
proof -
  let ?w = "w\<lparr>w_calls := Suc (Suc (Suc (w_calls w)))\<rparr>"
  let ?qs = "db_ListQueues (cfg_AccountID cfg) (cfg_Region cfg) [] (w_db w)"
  have d: "w_db w\<lparr>d_dedup := []\<rparr> = w_db w" using assms(2) by (simp add: quiet_def)
  have "\<exists>n. forE (\<lambda>q. if q_DeletedAt q \<noteq> None then ok () else reapQueue q now) ?qs ?w = (Inr (), ?w\<lparr>w_calls := n\<rparr>)"
  proof (rule forE_calls)
    fix q v
    assume "q \<in> set ?qs" and v: "healthy v" "w_db v = w_db ?w"
    then have "q \<in> set (d_queues (w_db v))" by (auto simp: db_ListQueues_def)
    with reapQueue_quiet [OF v(1), of now q] assms(2) v(2)
    show "\<exists>n. (if q_DeletedAt q \<noteq> None then ok () else reapQueue q now) v = (Inr (), v\<lparr>w_calls := n\<rparr>)"
      by (auto intro: exI [of _ "w_calls v"])
  qed (simp add: assms(1))
  then obtain n where f: "forE (\<lambda>q. if q_DeletedAt q \<noteq> None then ok () else reapQueue q now) ?qs ?w =
      (Inr (), ?w\<lparr>w_calls := n\<rparr>)" by blast
  have "processMoveTasks now (?w\<lparr>w_calls := n\<rparr>) = (Inr (), ?w\<lparr>w_calls := Suc n\<rparr>)"
    using assms by (simp add: processMoveTasks_def ListRunningMoveTasks_def run_query_calls
        db_ListRunningMoveTasks_def quiet_def)
  moreover have "db_ApplyDueQueueMutations now (w_db w) = Inr ((), w_db w)"
    using assms(2) by (simp add: db_ApplyDueQueueMutations_def due_patches_def quiet_def)
  moreover have "db_DeleteExpiredDedupEntries now (w_db w) = Inr ((), w_db w)"
    using assms(2) d by (simp add: db_DeleteExpiredDedupEntries_def quiet_def)
  ultimately show ?thesis
    using assms(1) f by (intro exI [of _ "Suc n"]) (simp add: maintain_def ApplyDueQueueMutations_def DeleteExpiredDedupEntries_def
        ListQueues_def run_query_calls)
qed

end
