(* ===== verification/SendMessage.thy ===== *)
theory SendMessage
  imports Maintain
begin

text \<open>
  Sending: \<open>sendMessageEntry\<close>, \<open>SendMessage\<close> and \<open>SendMessageBatch\<close> of
  \<open>internal/service/messages.go\<close>. The checks of an entry, which touch no state, are
  \<open>check_entry\<close>; the lookup in the deduplication ledger and \<open>store_entry\<close> follow.
\<close>

definition fifoDedupWindow :: int where
  "fifoDedupWindow = 5 * 60 * 1000000000"

section \<open>The checks of an entry\<close>

record outgoing =
  o_body :: string
  o_attributes :: gmap
  o_system :: gmap
  o_delay :: int
  o_group :: string
  o_dedup :: string

text \<open>The delay of the entry, or the queue's.\<close>

definition entry_delay :: "queue \<Rightarrow> gmap \<Rightarrow> goerr + int" where
  "entry_delay q entry =
     (case int64Field entry ''DelaySeconds'' of (given, delaySpecified) \<Rightarrow>
      if q_FIFO q \<and> delaySpecified then
        Inl (invalidParameter ''Value for parameter DelaySeconds is invalid. Reason: The request include parameter that is not valid for this queue type.'')
      else
        (let delaySeconds = (if delaySpecified then given else queueDelaySeconds q)
         in if delaySeconds < 0 \<or> 900 < delaySeconds then
              Inl (invalidParameter ''Value for parameter DelaySeconds is invalid. Reason: must be between 0 and 900, if provided.'')
            else Inr delaySeconds))"

text \<open>The deduplication id, which a FIFO queue may take from the body.\<close>

definition entry_dedup :: "queue \<Rightarrow> gmap \<Rightarrow> string \<Rightarrow> goerr + string" where
  "entry_dedup q entry body =
     (let messageGroupID = stringValue entry ''MessageGroupId'';
          messageDedupID = stringValue entry ''MessageDeduplicationId''
      in if q_FIFO q then
           (if messageGroupID = [] then
              Inl (badRequest ''MissingParameter'' ''The request must contain the parameter MessageGroupId.'')
            else if messageDedupID = [] then
              (if sget (q_Attributes q) ''ContentBasedDeduplication'' = ''true'' then Inr (sha256Hex body)
               else Inl (invalidParameter ''The queue should either have ContentBasedDeduplication enabled or MessageDeduplicationId provided explicitly.''))
            else Inr messageDedupID)
         else if messageDedupID \<noteq> [] then
           Inl (invalidParameter ''Value MessageDeduplicationId for parameter MessageDeduplicationId is invalid. Reason: The request include parameter that is not valid for this queue type.'')
         else Inr messageDedupID)"

definition check_entry :: "queue \<Rightarrow> gmap \<Rightarrow> goerr + outgoing" where
  "check_entry q entry =
     (let body = stringValue entry ''MessageBody'' in
      case validateMessageBody body (queueMaximumMessageSize q) of Some e \<Rightarrow> Inl e | None \<Rightarrow>
     (case normalizeMessageAttributeMap (anyMapValue entry ''MessageAttributes'') False of Inl e \<Rightarrow> Inl e
      | Inr (messageAttributes, attrSize) \<Rightarrow>
     (case normalizeMessageAttributeMap (anyMapValue entry ''MessageSystemAttributes'') True of Inl e \<Rightarrow> Inl e
      | Inr (systemAttributes, _) \<Rightarrow>
      if queueMaximumMessageSize q < int (length body + attrSize) then
        Inl (invalidParameter ''One or more parameters are invalid. Reason: Message must be shorter than the maximum allowed size.'')
      else
     (case entry_delay q entry of Inl e \<Rightarrow> Inl e | Inr delaySeconds \<Rightarrow>
     (case entry_dedup q entry body of Inl e \<Rightarrow> Inl e | Inr messageDedupID \<Rightarrow>
      Inr \<lparr>o_body = body, o_attributes = messageAttributes, o_system = systemAttributes,
           o_delay = delaySeconds, o_group = stringValue entry ''MessageGroupId'',
           o_dedup = messageDedupID\<rparr>)))))"

section \<open>Storing an entry\<close>

definition digest_field :: "string \<Rightarrow> gmap \<Rightarrow> gmap handler" where
  "digest_field key attrs =
     (if attrs = [] then ok []
      else (case md5OfAttributeMap attrs of Inl e \<Rightarrow> throw (EPlain e) | Inr d \<Rightarrow> ok [(key, GStr d)]))"

definition new_message :: "queue \<Rightarrow> outgoing \<Rightarrow> string \<Rightarrow> string \<Rightarrow> gotime \<Rightarrow> message" where
  "new_message q msg messageID sequenceNumber now =
     \<lparr>m_RowID = 0, m_QueueID = q_ID q, m_MessageID = messageID, m_Body = o_body msg,
      m_BodyMD5 = md5Hex (o_body msg), m_MessageAttributes = o_attributes msg, m_SystemAttributes = o_system msg,
      m_SentAt = now, m_OriginalSentAt = now, m_FirstReceivedAt = None, m_ReceiveCount = 0,
      m_AvailableAt = now + seconds (o_delay msg), m_VisibilityDeadline = None,
      m_RetentionDeadline = now + seconds (queueRetentionSeconds q), m_DeletedAt = None,
      m_GroupID = o_group msg, m_DedupID = o_dedup msg, m_SequenceNumber = sequenceNumber,
      m_DeadLetterSourceARN = [], m_EncryptionKeyID = [], m_ReceiveAttemptID = [],
      m_LastReceiptHandle = [], m_CurrentSourceQueueARN = []\<rparr>"

definition send_response :: "queue \<Rightarrow> outgoing \<Rightarrow> string \<Rightarrow> gmap \<Rightarrow> gmap \<Rightarrow> string \<Rightarrow> gmap" where
  "send_response q msg messageID attrField systemField sequenceNumber =
     [(''MessageId'', GStr messageID), (''MD5OfMessageBody'', GStr (md5Hex (o_body msg)))]
     @ attrField @ systemField @ (if q_FIFO q then [(''SequenceNumber'', GStr sequenceNumber)] else [])"

definition dedup_row :: "queue \<Rightarrow> outgoing \<Rightarrow> gmap \<Rightarrow> gotime \<Rightarrow> dedup_entry" where
  "dedup_row q msg response now =
     \<lparr>e_ID = 0, e_QueueID = q_ID q, e_ScopeKey = dedupScopeKey q (o_group msg), e_DedupID = o_dedup msg,
      e_Response = cloneAnyMap response, e_ExpiresAt = now + fifoDedupWindow\<rparr>"

definition persist_entry :: "queue \<Rightarrow> outgoing \<Rightarrow> message \<Rightarrow> gmap \<Rightarrow> gotime \<Rightarrow> gmap handler" where
  "persist_entry q msg m response now =
     bindE (orInternal ''failed to persist message'' (InsertMessage m)) (\<lambda>_.
     if q_FIFO q then
       bindE (orInternal ''failed to persist deduplication ledger''
         (InsertDedupEntry (dedup_row q msg response now))) (\<lambda>_. ok response)
     else ok response)"

definition store_entry :: "queue \<Rightarrow> outgoing \<Rightarrow> gotime \<Rightarrow> gmap handler" where
  "store_entry q msg now =
     bindE newUUID (\<lambda>messageID.
     bindE (digest_field ''MD5OfMessageAttributes'' (o_attributes msg)) (\<lambda>attrField.
     bindE (digest_field ''MD5OfMessageSystemAttributes'' (o_system msg)) (\<lambda>systemField.
     bindE (if q_FIFO q then newSequenceNumber else ok []) (\<lambda>sequenceNumber.
     persist_entry q msg (new_message q msg messageID sequenceNumber now)
       (send_response q msg messageID attrField systemField sequenceNumber) now))))"

definition sendMessageEntry :: "queue \<Rightarrow> gmap \<Rightarrow> gotime \<Rightarrow> gmap handler" where
  "sendMessageEntry q entry now =
     bindE (liftE (check_entry q entry)) (\<lambda>msg.
     bindE (if q_FIFO q then
              orInternal ''failed to lookup deduplication ledger''
                (DedupEntry (q_ID q) (dedupScopeKey q (o_group msg)) (o_dedup msg) now)
            else ok None) (\<lambda>found.
     case found of
       Some e \<Rightarrow> ok (cloneAnyMap (e_Response e))
     | None \<Rightarrow> store_entry q msg now))"

section \<open>The operations\<close>

text \<open>The common start of the message operations that need a ready queue.\<close>

definition SendMessage :: "config \<Rightarrow> request \<Rightarrow> gmap handler" where
  "SendMessage cfg req =
     bindE nowE (\<lambda>now.
     seqE (maintain cfg now)
    (bindE (lookupQueueForRequest cfg req) (\<lambda>q.
     seqE (ensureQueueReady q now)
    (sendMessageEntry q (rq_Input req) now))))"

text \<open>The loop that checks the ids and adds up the sizes.\<close>

fun batch_size :: "string list \<Rightarrow> gmap list \<Rightarrow> nat \<Rightarrow> goerr + nat" where
  "batch_size seen [] bytes = Inr bytes"
| "batch_size seen (entry # entries) bytes =
     (let i = stringValue entry ''Id'' in
      if \<not> batchEntryIDMatches i then Inl (EApi ErrInvalidBatchEntryID)
      else if i \<in> set seen then Inl (EApi ErrBatchEntryIDsNotDistinct)
      else (case normalizeMessageAttributeMap (anyMapValue entry ''MessageAttributes'') False of
              Inl e \<Rightarrow> Inl e
            | Inr (attrs, _) \<Rightarrow>
                batch_size (i # seen) entries
                  (bytes + estimateMessageSize (stringValue entry ''MessageBody'') attrs)))"

text \<open>The response of an entry as the batch reports it.\<close>

definition batch_success :: "string \<Rightarrow> gmap \<Rightarrow> gmap" where
  "batch_success i out =
     (let out1 = mput out ''Id'' (GStr i)
      in case mget out1 ''MD5OfMessageBody'' of
           Some bodyMD5 \<Rightarrow> mdel (mput out1 ''MD5OfMessageBody'' bodyMD5) ''MD5OfBody''
         | None \<Rightarrow> out1)"

text \<open>The lists \<open>successful\<close> and \<open>failed\<close> after one entry.\<close>

definition send_step :: "queue \<Rightarrow> gotime \<Rightarrow> gval list \<times> gval list \<Rightarrow> gmap \<Rightarrow> (gval list \<times> gval list) handler" where
  "send_step q now acc entry =
     (case acc of (successful, failed) \<Rightarrow>
      let i = stringValue entry ''Id'' in
      bindE (attempt (sendMessageEntry q entry now)) (\<lambda>r.
      case r of
        Inl e \<Rightarrow> ok (successful, failed @ [GMap (batchFailure i e)])
      | Inr out \<Rightarrow>
          ok (successful @ [GMap (batch_success i out)], failed)))"

definition SendMessageBatch :: "config \<Rightarrow> request \<Rightarrow> gmap handler" where
  "SendMessageBatch cfg req =
     bindE nowE (\<lambda>now.
     seqE (maintain cfg now)
    (bindE (lookupQueueForRequest cfg req) (\<lambda>q.
     seqE (ensureQueueReady q now)
    (let rawEntries = sliceOfMaps (anySliceValue (rq_Input req) ''Entries'') in
     if rawEntries = [] then throwApi ErrEmptyBatchRequest
     else if 10 < length rawEntries then throwApi ErrTooManyEntriesInBatch
     else bindE (liftE (batch_size [] rawEntries 0)) (\<lambda>totalBytes.
     if 1024 * 1024 < totalBytes then throwApi ErrBatchRequestTooLong
     else bindE (foldE (send_step q now) ([], []) rawEntries) (\<lambda>(successful, failed).
       ok [(''Successful'', GList successful), (''Failed'', GList failed)]))))))"

section \<open>Sending keeps the contract\<close>

context message_core
begin

lemma steps_digest_field [effects]: "steps (dbrel R) (digest_field key attrs)"
  unfolding digest_field_def by (intro effects)

lemma steps_persist_entry [effects]: "steps (dbrel R) (persist_entry q msg m response now)"
  unfolding persist_entry_def by (intro effects)

lemma steps_store_entry [effects]: "steps (dbrel R) (store_entry q msg now)"
  unfolding store_entry_def by (intro effects)

lemma steps_sendMessageEntry [effects]: "steps (dbrel R) (sendMessageEntry q entry now)"
  unfolding sendMessageEntry_def by (intro effects)

lemma steps_send_step [effects]: "steps (dbrel R) (send_step q now acc entry)"
  unfolding send_step_def by (intro effects)

lemma steps_SendMessage [effects]: "steps (dbrel R) (SendMessage cfg req)"
  unfolding SendMessage_def by (intro effects)

lemma steps_SendMessageBatch [effects]: "steps (dbrel R) (SendMessageBatch cfg req)"
  unfolding SendMessageBatch_def by (intro effects)

end

section \<open>What sending does to the database\<close>

lemma db_same_newSequenceNumber: "db_same newSequenceNumber"
  unfolding db_same_steps by (rule same.steps_newSequenceNumber)

lemma digest_field_world: "digest_field key attrs w = (r, w') \<Longrightarrow> w' = w"
  by (auto simp: digest_field_def split: if_splits sum.splits)

lemma persist_entry_ok:
  assumes "persist_entry q msg m response now w = (Inr r, w')"
  shows "r = response \<and> (\<exists>m' d1. db_InsertMessage m (w_db w) = Inr (m', d1) \<and>
    (if q_FIFO q then \<exists>e. db_InsertDedupEntry (dedup_row q msg response now) d1 = Inr (e, w_db w')
     else w_db w' = d1))"
proof -
  from assms obtain m' w1 where 1: "InsertMessage m w = (Inr m', w1)"
    and r: "(if q_FIFO q then
       bindE (orInternal ''failed to persist deduplication ledger''
         (InsertDedupEntry (dedup_row q msg response now))) (\<lambda>_. ok response)
     else ok response) w1 = (Inr r, w')"
    unfolding persist_entry_def by (blast elim: bindE_Inr_cases dest: orInternal_Inr)
  have "db_InsertMessage m (w_db w) = Inr (m', w_db w1)"
    using 1 unfolding InsertMessage_def by (rule sqlE_Inr)
  moreover have "if q_FIFO q then r = response \<and> (\<exists>e. db_InsertDedupEntry (dedup_row q msg response now) (w_db w1) = Inr (e, w_db w'))
     else r = response \<and> w_db w' = w_db w1"
    using r unfolding InsertDedupEntry_def
    by (auto elim!: bindE_Inr_cases dest!: orInternal_Inr sqlE_Inr)
  ultimately show ?thesis by (auto split: if_splits)
qed

lemma persist_entry_err:
  assumes "persist_entry q msg m response now w = (Inl e, w')"
  shows "w_db w' = w_db w \<or> (q_FIFO q \<and> (\<exists>c. e = internalError ''failed to persist deduplication ledger'' c))"
  using assms unfolding persist_entry_def
  by (auto simp: InsertMessage_def InsertDedupEntry_def elim!: bindE_cases split: if_splits
      dest!: orInternal_Inr orInternal_Inl sqlE_Inl sqlE_Inr)

lemma store_entry_cases:
  assumes "store_entry q msg now w = (r, w')"
  obtains (err) e where "r = Inl e" "w_db w' = w_db w"
  | (persist) messageID a b sn w1 where "w_db w1 = w_db w"
    "persist_entry q msg (new_message q msg messageID sn now) (send_response q msg messageID a b sn) now w1 = (r, w')"
proof -
  have "db_same newUUID" "db_same (digest_field k attrs)" "db_same (if c then newSequenceNumber else ok [])" for k attrs c
    unfolding db_same_steps digest_field_def
    by (intro effects same.steps_newUUID same.steps_newSequenceNumber)+
  note same = this [THEN db_sameD]
  from assms show thesis
    unfolding store_entry_def
    by (elim bindE_cases) (auto dest!: same intro: err persist)
qed

lemma store_entry_ok:
  assumes "store_entry q msg now w = (Inr response, w')"
  obtains messageID sn m d1 where
    "db_InsertMessage (new_message q msg messageID sn now) (w_db w) = Inr (m, d1)"
    "mget response ''MessageId'' = Some (GStr messageID)"
    "mget response ''MD5OfMessageBody'' = Some (GStr (md5Hex (o_body msg)))"
    "if q_FIFO q then (\<exists>e. db_InsertDedupEntry (dedup_row q msg response now) d1 = Inr (e, w_db w'))
     else w_db w' = d1"
  using assms
proof (cases rule: store_entry_cases)
  case (persist messageID a b sn w1)
  from persist_entry_ok [OF persist(2)] obtain m d1 where
    r: "response = send_response q msg messageID a b sn"
    and i: "db_InsertMessage (new_message q msg messageID sn now) (w_db w) = Inr (m, d1)"
    and e: "if q_FIFO q then \<exists>e. db_InsertDedupEntry (dedup_row q msg response now) d1 = Inr (e, w_db w')
      else w_db w' = d1"
    using persist(1) by auto
  have "mget response ''MessageId'' = Some (GStr messageID)"
    "mget response ''MD5OfMessageBody'' = Some (GStr (md5Hex (o_body msg)))"
    by (simp_all add: r send_response_def)
  with i e show thesis by (intro that)
qed simp

lemma InsertDedupEntry_frame:
  assumes "db_InsertDedupEntry e d = Inr (x, d')"
  shows "d_messages d' = d_messages d" "d_receipts d' = d_receipts d" "d_queues d' = d_queues d"
  using assms by (auto simp: db_InsertDedupEntry_def Let_def split: if_splits)

text \<open>The ways in which sending an entry ends.\<close>

lemma sendMessageEntry_cases:
  assumes "sendMessageEntry q entry now w = (r, w')"
  obtains (refused) e where "r = Inl e" "w_db w' = w_db w"
  | (replayed) msg e where "check_entry q entry = Inr msg" "q_FIFO q"
    "db_DedupEntry (q_ID q) (dedupScopeKey q (o_group msg)) (o_dedup msg) now (w_db w) = Some e"
    "r = Inr (cloneAnyMap (e_Response e))" "w_db w' = w_db w"
  | (stored) msg w1 where "check_entry q entry = Inr msg" "w_db w1 = w_db w"
    "q_FIFO q \<Longrightarrow> db_DedupEntry (q_ID q) (dedupScopeKey q (o_group msg)) (o_dedup msg) now (w_db w) = None"
    "store_entry q msg now w1 = (r, w')"
proof (cases "check_entry q entry")
  case (Inl e)
  with assms have "r = Inl e" "w' = w" by (auto simp: sendMessageEntry_def run_bindE)
  then show thesis by (intro refused) simp_all
next
  case (Inr msg)
  with assms have r: "bindE (if q_FIFO q then
              orInternal ''failed to lookup deduplication ledger''
                (DedupEntry (q_ID q) (dedupScopeKey q (o_group msg)) (o_dedup msg) now)
            else ok None) (\<lambda>found.
     case found of
       Some e \<Rightarrow> ok (cloneAnyMap (e_Response e))
     | None \<Rightarrow> store_entry q msg now) w = (r, w')" (is "bindE ?m ?k w = _")
    by (simp add: sendMessageEntry_def)
  from r show thesis
  proof (cases rule: bindE_cases)
    case (err e)
    then show thesis
      by (intro refused) (auto simp: DedupEntry_def dest!: orInternal_Inl queryE_db split: if_splits)
  next
    case (cont found w1)
    have w1: "w_db w1 = w_db w" and f: "found = (if q_FIFO q
        then db_DedupEntry (q_ID q) (dedupScopeKey q (o_group msg)) (o_dedup msg) now (w_db w) else None)"
      using cont(1) by (auto simp: DedupEntry_def dest!: orInternal_Inr queryE_Inr split: if_splits)
    show thesis
    proof (cases found)
      case None
      then have "store_entry q msg now w1 = (r, w')" using cont(2) by simp
      moreover have "q_FIFO q \<Longrightarrow> db_DedupEntry (q_ID q) (dedupScopeKey q (o_group msg)) (o_dedup msg) now (w_db w) = None"
        using f None by simp
      ultimately show thesis using Inr w1 by (intro stored)
    next
      case (Some e)
      then have "r = Inr (cloneAnyMap (e_Response e))" "w' = w1" using cont(2) by auto
      moreover have "q_FIFO q" and
        "db_DedupEntry (q_ID q) (dedupScopeKey q (o_group msg)) (o_dedup msg) now (w_db w) = Some e"
        using f Some by (auto split: if_splits)
      ultimately show thesis using Inr w1 by (intro replayed) simp_all
    qed
  qed
qed

lemma check_entry_ok:
  assumes "check_entry q entry = Inr msg"
  shows "o_body msg = stringValue entry ''MessageBody'' \<and> o_body msg \<noteq> []
    \<and> int (length (o_body msg)) \<le> queueMaximumMessageSize q
    \<and> validateMessageCharacters (o_body msg) = None \<and> 0 \<le> o_delay msg \<and> o_delay msg \<le> 900
    \<and> (q_FIFO q \<longrightarrow> o_group msg \<noteq> [] \<and> o_dedup msg \<noteq> [])"
proof -
  have e: "entry_delay q entry = Inr x \<Longrightarrow> 0 \<le> x \<and> x \<le> 900" for x
    by (auto simp: entry_delay_def Let_def split: prod.splits if_splits)
  have d: "entry_dedup q entry b = Inr x \<Longrightarrow> q_FIFO q \<Longrightarrow> stringValue entry ''MessageGroupId'' \<noteq> [] \<and> x \<noteq> []" for b x
    by (auto simp: entry_dedup_def Let_def split: if_splits)
  have v: "validateMessageBody b n = None \<Longrightarrow> b \<noteq> [] \<and> int (length b) \<le> n \<and> validateMessageCharacters b = None" for b n
    by (auto simp: validateMessageBody_def split: if_splits)
  from assms show ?thesis
    unfolding check_entry_def Let_def
    by (auto dest!: e d v split: option.splits sum.splits prod.splits if_splits)
qed

text \<open>What the checks make of each field of the entry.\<close>

lemma check_entry_fields:
  assumes "check_entry q entry = Inr msg"
  shows "\<exists>size. normalizeMessageAttributeMap (anyMapValue entry ''MessageAttributes'') False = Inr (o_attributes msg, size)"
    and "\<exists>size. normalizeMessageAttributeMap (anyMapValue entry ''MessageSystemAttributes'') True = Inr (o_system msg, size)"
    and "o_delay msg = (case int64Field entry ''DelaySeconds'' of (given, specified) \<Rightarrow>
      if specified then given else queueDelaySeconds q)"
    and "o_group msg = stringValue entry ''MessageGroupId''"
    and "o_dedup msg = (if q_FIFO q \<and> stringValue entry ''MessageDeduplicationId'' = []
      then sha256Hex (stringValue entry ''MessageBody'') else stringValue entry ''MessageDeduplicationId'')"
proof -
  from assms obtain size size' where
    "normalizeMessageAttributeMap (anyMapValue entry ''MessageAttributes'') False = Inr (o_attributes msg, size)"
    "normalizeMessageAttributeMap (anyMapValue entry ''MessageSystemAttributes'') True = Inr (o_system msg, size')"
    and d: "entry_delay q entry = Inr (o_delay msg)"
      "entry_dedup q entry (stringValue entry ''MessageBody'') = Inr (o_dedup msg)"
    and g: "o_group msg = stringValue entry ''MessageGroupId''"
    unfolding check_entry_def Let_def
    by (auto split: option.splits sum.splits prod.splits if_splits)
  then show "\<exists>size. normalizeMessageAttributeMap (anyMapValue entry ''MessageAttributes'') False = Inr (o_attributes msg, size)"
    and "\<exists>size. normalizeMessageAttributeMap (anyMapValue entry ''MessageSystemAttributes'') True = Inr (o_system msg, size)"
    and "o_group msg = stringValue entry ''MessageGroupId''"
    by blast+
  show "o_delay msg = (case int64Field entry ''DelaySeconds'' of (given, specified) \<Rightarrow>
      if specified then given else queueDelaySeconds q)"
    using d(1) by (auto simp: entry_delay_def Let_def split: prod.splits if_splits)
  show "o_dedup msg = (if q_FIFO q \<and> stringValue entry ''MessageDeduplicationId'' = []
      then sha256Hex (stringValue entry ''MessageBody'') else stringValue entry ''MessageDeduplicationId'')"
    using d(2) by (auto simp: entry_dedup_def Let_def split: if_splits)
qed

section \<open>The deduplication ledger\<close>

lemma row_by_filter_snoc:
  "(\<And>r. r \<in> set rows \<Longrightarrow> P r \<Longrightarrow> \<not> Q r) \<Longrightarrow> row_by P (filter Q rows @ [x]) = (if P x then Some x else None)"
  by (induction rows) (auto simp: row_by_def)

lemma dedup_lookup_after_insert:
  assumes "db_InsertDedupEntry e d = Inr (x, d')" and "unixMilli now < unixMilli (e_ExpiresAt e)"
  shows "\<exists>row. db_DedupEntry (e_QueueID e) (e_ScopeKey e) (e_DedupID e) now d' = Some row
    \<and> e_Response row = json_rt_map (e_Response e)"
proof -
  let ?row = "scanDedup (e\<lparr>e_ID := d_dedup_seq d + 1\<rparr>)"
  from assms(1) have d': "d_dedup d' = filter (\<lambda>r. \<not> (e_QueueID r = e_QueueID e \<and>
      e_ScopeKey r = e_ScopeKey e \<and> e_DedupID r = e_DedupID e)) (d_dedup d) @ [?row]"
    by (auto simp: db_InsertDedupEntry_def Let_def split: if_splits)
  have "db_DedupEntry (e_QueueID e) (e_ScopeKey e) (e_DedupID e) now d' = Some ?row"
    unfolding db_DedupEntry_def d' using assms(2)
    by (subst row_by_filter_snoc) (auto simp: scanDedup_def)
  then show ?thesis by (simp add: scanDedup_def)
qed

lemma DedupEntry_run:
  "\<not> w_faults w (w_calls w) \<Longrightarrow>
   DedupEntry i a b now w = (Inr (db_DedupEntry i a b now (w_db w)), w\<lparr>w_calls := Suc (w_calls w)\<rparr>)"
  by (simp add: DedupEntry_def)

lemma DedupEntry_cong: "d_dedup d' = d_dedup d \<Longrightarrow> db_DedupEntry i a b now d' = db_DedupEntry i a b now d"
  by (simp add: db_DedupEntry_def)

lemma sendMessageEntry_replay:
  assumes "\<not> w_faults w (w_calls w)" and "q_FIFO q" and "check_entry q entry = Inr msg"
    and "db_DedupEntry (q_ID q) (dedupScopeKey q (o_group msg)) (o_dedup msg) now (w_db w) = Some e"
  shows "sendMessageEntry q entry now w = (Inr (cloneAnyMap (e_Response e)), w\<lparr>w_calls := Suc (w_calls w)\<rparr>)"
  using assms by (simp add: sendMessageEntry_def DedupEntry_run run_bindE)

section \<open>Batches\<close>

definition entry_id :: "gval \<Rightarrow> string" where
  "entry_id v = stringValue (as_map v) ''Id''"

lemma send_step_ok:
  assumes "send_step q now (s, f) entry w = (r, w')"
  shows "\<exists>s' f'. r = Inr (s @ s', f @ f') \<and>
    mset (map entry_id (s' @ f')) = {#stringValue entry ''Id''#}"
proof -
  obtain r0 w0 where e: "sendMessageEntry q entry now w = (r0, w0)" by (cases "sendMessageEntry q entry now w")
  let ?i = "stringValue entry ''Id''"
  show ?thesis
  proof (cases r0)
    case (Inl err)
    then have "r = Inr (s, f @ [GMap (batchFailure ?i err)])"
      using assms e by (simp add: send_step_def run_bindE Let_def)
    moreover have "entry_id (GMap (batchFailure ?i err)) = ?i"
      by (simp add: entry_id_def as_map_def batchFailure_def Let_def)
    ultimately show ?thesis by (intro exI [of _ "[]"] exI [of _ "[GMap (batchFailure ?i err)]"]) simp
  next
    case (Inr out)
    have "r = Inr (s @ [GMap (batch_success ?i out)], f)"
      using assms e Inr by (simp add: send_step_def run_bindE Let_def)
    moreover have "mget (batch_success ?i out) ''Id'' = Some (GStr ?i)"
      by (simp add: batch_success_def Let_def split: option.splits)
    then have "entry_id (GMap (batch_success ?i out)) = ?i" by (simp add: entry_id_def as_map_def)
    ultimately show ?thesis by (intro exI [of _ "[GMap (batch_success ?i out)]"] exI [of _ "[]"]) simp
  qed
qed

lemma send_steps_ok:
  assumes "foldE (send_step q now) (s, f) entries w = (r, w')"
  shows "\<exists>s' f'. r = Inr (s @ s', f @ f') \<and>
    mset (map entry_id (s' @ f')) = mset (map (\<lambda>e. stringValue e ''Id'') entries)"
  using assms
proof (induction entries arbitrary: s f w)
  case (Cons entry entries)
  obtain r1 w1 where 1: "send_step q now (s, f) entry w = (r1, w1)" by (cases "send_step q now (s, f) entry w")
  from send_step_ok [OF 1] obtain s1 f1 where
    sf: "r1 = Inr (s @ s1, f @ f1) \<and> mset (map entry_id (s1 @ f1)) = {#stringValue entry ''Id''#}"
    by (elim exE)
  with 1 Cons.prems have "foldE (send_step q now) (s @ s1, f @ f1) entries w1 = (r, w')"
    by (simp add: run_bindE)
  from Cons.IH [OF this] obtain s2 f2 where
    sf2: "r = Inr ((s @ s1) @ s2, (f @ f1) @ f2) \<and>
     mset (map entry_id (s2 @ f2)) = mset (map (\<lambda>e. stringValue e ''Id'') entries)"
    by (elim exE)
  have "mset (map entry_id ((s1 @ s2) @ f1 @ f2)) =
      mset (map entry_id (s1 @ f1)) + mset (map entry_id (s2 @ f2))" by (simp add: add_ac)
  also have "\<dots> = {#stringValue entry ''Id''#} + mset (map (\<lambda>e. stringValue e ''Id'') entries)"
    by (simp only: sf sf2)
  finally show ?case using sf2 by - (rule exI [of _ "s1 @ s2"], rule exI [of _ "f1 @ f2"], simp)
qed auto

lemma batch_size_ok:
  assumes "batch_size seen entries n = Inr bytes"
  shows "distinct (map (\<lambda>e. stringValue e ''Id'') entries)
    \<and> (\<forall>e \<in> set entries. batchEntryIDMatches (stringValue e ''Id'') \<and> stringValue e ''Id'' \<notin> set seen)
    \<and> n + sum_list (map (\<lambda>e. length (stringValue e ''MessageBody'')) entries) \<le> bytes"
  using assms
proof (induction seen entries n rule: batch_size.induct)
  case (2 seen entry entries n)
  let ?i = "stringValue entry ''Id''"
  from "2.prems" obtain attrs k where c: "batchEntryIDMatches ?i" "?i \<notin> set seen"
    and a: "normalizeMessageAttributeMap (anyMapValue entry ''MessageAttributes'') False = Inr (attrs, k)"
    and b: "batch_size (?i # seen) entries (n + estimateMessageSize (stringValue entry ''MessageBody'') attrs) = Inr bytes"
    by (auto simp: Let_def split: if_splits sum.splits)
  from "2.IH" [OF refl _ _ a refl b] c show ?case
    using estimateMessageSize_body [of "stringValue entry ''MessageBody''" attrs] by auto
qed simp

section \<open>An example\<close>

definition sample_entry :: "string \<Rightarrow> gmap" where
  "sample_entry dedup = [(''MessageBody'', GStr ''x''), (''MessageGroupId'', GStr ''g''), (''MessageDeduplicationId'', GStr dedup)]"

definition sample_outgoing :: "string \<Rightarrow> outgoing" where
  "sample_outgoing dedup = \<lparr>o_body = ''x'', o_attributes = [], o_system = [], o_delay = 0, o_group = ''g'', o_dedup = dedup\<rparr>"

lemma sample_check:
  "dedup = [] \<or> fifo \<Longrightarrow> fifo \<longrightarrow> dedup \<noteq> [] \<Longrightarrow>
   check_entry (sample_queue 1 name fifo []) (sample_entry dedup) = Inr (sample_outgoing dedup)"
  by (auto simp: check_entry_def sample_entry_def sample_queue_def sample_outgoing_def validateMessageBody_def
      validateMessageCharacters_def runes_def runeChunks_ascii ascii_def rune_allowed_def
      queueMaximumMessageSize_def queueDelaySeconds_def int_setting_def sget_def parseInt_def
      normalizeMessageAttributeMap_def anyMapValue_def entry_delay_def int64Field_def entry_dedup_def Let_def)

lemma sample_send:
  assumes "dedup = [] \<or> fifo" and "fifo \<longrightarrow> dedup \<noteq> []"
  shows "\<exists>response w'. sendMessageEntry (sample_queue 1 name fifo []) (sample_entry dedup) t
      (sample_world (sample_db (sample_queue 1 name fifo [])) t) = (Inr response, w') \<and> healthy w'"
  using sample_check [OF assms, of name]
  by (cases fifo)
    (simp_all add: sendMessageEntry_def sample_outgoing_def sample_world_def DedupEntry_def db_DedupEntry_def
      sample_db_def db_Init_def row_by_def store_entry_def digest_field_def persist_entry_def InsertMessage_def
      db_InsertMessage_def new_message_def sample_queue_def queue_exists_def newSequenceNumber_def randRead_def
      InsertDedupEntry_def db_InsertDedupEntry_def dedup_row_def orInternal_def run_mapErr run_bindE
      healthy_def Let_def)

lemma sample_no_dedup: "db_DedupEntry i a b now (sample_db q) = None"
  by (simp add: db_DedupEntry_def sample_db_def db_Init_def row_by_def)

lemma sample_maintain:
  assumes "w_db w = sample_db (sample_queue 1 name fifo attrs)" and "healthy w"
  shows "\<exists>w'. maintain sample_config t w = (Inr (), w') \<and> w_db w' = w_db w \<and> healthy w'"
  using assms
  by (simp add: maintain_def ApplyDueQueueMutations_def db_ApplyDueQueueMutations_def due_patches_def
      sample_db_def db_Init_def DeleteExpiredDedupEntries_def db_DeleteExpiredDedupEntries_def
      ListQueues_def db_ListQueues_def sample_config_def sample_queue_def reapQueue_def
      ListMessagesByQueue_def db_ListMessagesByQueue_def purge_queue_def processMoveTasks_def
      ListRunningMoveTasks_def db_ListRunningMoveTasks_def orInternal_def run_mapErr run_bindE)

lemma sample_lookup:
  assumes "w_db w = sample_db (sample_queue 1 name fifo attrs)" and "healthy w"
    and "stringValue (rq_Input req) ''QueueUrl'' = ''http://h/0/'' @ name" and "trimRight (CHR ''/'') (''http://h/0/'' @ name) = ''http://h/0/'' @ name"
  shows "\<exists>w'. lookupQueueForRequest sample_config req w = (Inr (sample_queue 1 name fifo attrs), w')
    \<and> w_db w' = w_db w \<and> healthy w'"
  using assms
  by (simp add: lookupQueueForRequest_def queueURLFromRequest_def lookupQueueByURL_def QueueByURL_def
      db_QueueByURL_def row_by_def sample_db_def db_Init_def sample_queue_def orInternal_def run_mapErr run_bindE Let_def)

section \<open>Properties\<close>

text \<open>
  C17. A send that succeeds without a deduplication hit appends exactly one message to the queue, as the
  entry asks for it: with the body and its digest; with the normalised attributes and system
  attributes (as their JSON columns keep them); with the group id, and the deduplication id or, for a
  FIFO queue without one, the digest of the body; available after the entry's \<open>DelaySeconds\<close> or else the
  queue's delay, which lies in 0 to 900 seconds, and retained for the queue's retention period; never
  received, not deleted and not hidden; and the response names it. Receipts and queues are untouched.
\<close>

theorem send_stores_one_message:
  assumes "sendMessageEntry q entry now w = (Inr response, w')"
    and "check_entry q entry = Inr msg"
    and "q_FIFO q \<Longrightarrow> db_DedupEntry (q_ID q) (dedupScopeKey q (o_group msg)) (o_dedup msg) now (w_db w) = None"
    and "body = stringValue entry ''MessageBody''"
    and "dedup = stringValue entry ''MessageDeduplicationId''"
    and "delay = (case int64Field entry ''DelaySeconds'' of (given, specified) \<Rightarrow>
      if specified then given else queueDelaySeconds q)"
  shows "\<exists>m attributes size system size'. d_messages (w_db w') = d_messages (w_db w) @ [m]
    \<and> m_QueueID m = q_ID q \<and> m_Body m = body \<and> m_BodyMD5 m = md5Hex body
    \<and> normalizeMessageAttributeMap (anyMapValue entry ''MessageAttributes'') False = Inr (attributes, size)
    \<and> m_MessageAttributes m = json_rt_map attributes
    \<and> normalizeMessageAttributeMap (anyMapValue entry ''MessageSystemAttributes'') True = Inr (system, size')
    \<and> m_SystemAttributes m = json_rt_map system
    \<and> m_GroupID m = stringValue entry ''MessageGroupId''
    \<and> m_DedupID m = (if q_FIFO q \<and> dedup = [] then sha256Hex body else dedup)
    \<and> 0 \<le> delay \<and> delay \<le> 900 \<and> m_AvailableAt m = trunc_ms (now + delay * 1000000000)
    \<and> m_RetentionDeadline m = trunc_ms (now + seconds (queueRetentionSeconds q))
    \<and> m_SentAt m = trunc_ms now \<and> m_OriginalSentAt m = trunc_ms now
    \<and> m_ReceiveCount m = 0 \<and> m_DeletedAt m = None \<and> m_VisibilityDeadline m = None
    \<and> m_RowID m = d_message_seq (w_db w) + 1
    \<and> mget response ''MessageId'' = Some (GStr (m_MessageID m))
    \<and> d_receipts (w_db w') = d_receipts (w_db w) \<and> d_queues (w_db w') = d_queues (w_db w)"
  using assms(1)
proof (cases rule: sendMessageEntry_cases)
  case (replayed msg' e)
  with assms(2,3) show ?thesis by auto
next
  case (stored msg' w1)
  then have "msg' = msg" using assms(2) by simp
  with stored(4) have "store_entry q msg now w1 = (Inr response, w')" by simp
  then obtain messageID sn m d1 where
    i: "db_InsertMessage (new_message q msg messageID sn now) (w_db w1) = Inr (m, d1)"
    and r: "mget response ''MessageId'' = Some (GStr messageID)"
    and e: "if q_FIFO q then (\<exists>e. db_InsertDedupEntry (dedup_row q msg response now) d1 = Inr (e, w_db w'))
      else w_db w' = d1"
    by (rule store_entry_ok)
  let ?m = "scanMessage ((new_message q msg messageID sn now)\<lparr>m_RowID := d_message_seq (w_db w) + 1\<rparr>)"
  from i stored(2) have d1: "d1 = (w_db w)\<lparr>d_messages := d_messages (w_db w) @ [?m],
      d_message_seq := d_message_seq (w_db w) + 1\<rparr>"
    by (auto simp: db_InsertMessage_def Let_def split: if_splits)
  have w': "d_messages (w_db w') = d_messages d1 \<and> d_receipts (w_db w') = d_receipts d1 \<and> d_queues (w_db w') = d_queues d1"
    using e by (auto split: if_splits dest: InsertDedupEntry_frame)
  note c = check_entry_ok [OF assms(2)]
  note f = check_entry_fields [OF assms(2), folded assms(4-6)]
  from f(1,2) obtain size size' where
    a: "normalizeMessageAttributeMap (anyMapValue entry ''MessageAttributes'') False = Inr (o_attributes msg, size)"
      "normalizeMessageAttributeMap (anyMapValue entry ''MessageSystemAttributes'') True = Inr (o_system msg, size')"
    by blast
  have delay: "0 \<le> delay \<and> delay \<le> 900" using c f(3) by simp
  then have "seconds delay = delay * 1000000000" by (intro seconds_small) auto
  then have "m_AvailableAt ?m = trunc_ms (now + delay * 1000000000)"
    by (simp add: scanMessage_def new_message_def f(3))
  moreover have "m_Body ?m = body" "m_BodyMD5 ?m = md5Hex body" "m_GroupID ?m = stringValue entry ''MessageGroupId''"
    "m_DedupID ?m = (if q_FIFO q \<and> dedup = [] then sha256Hex body else dedup)"
    "m_MessageAttributes ?m = json_rt_map (o_attributes msg)" "m_SystemAttributes ?m = json_rt_map (o_system msg)"
    "m_RetentionDeadline ?m = trunc_ms (now + seconds (queueRetentionSeconds q))"
    "m_SentAt ?m = trunc_ms now" "m_OriginalSentAt ?m = trunc_ms now" "m_QueueID ?m = q_ID q"
    "m_ReceiveCount ?m = 0" "m_DeletedAt ?m = None" "m_VisibilityDeadline ?m = None"
    "m_RowID ?m = d_message_seq (w_db w) + 1" "m_MessageID ?m = messageID"
    using c by (simp_all add: scanMessage_def new_message_def f(4,5) assms(4))
  ultimately show ?thesis
    using w' r d1 a delay
    by (intro exI [of _ ?m] exI [of _ "o_attributes msg"] exI [of _ size] exI [of _ "o_system msg"] exI [of _ size']) simp
qed simp

theorem send_stores_one_message_witness:
  "\<exists>response w' m. sendMessageEntry (sample_queue 1 ''jobs'' False []) (sample_entry []) 7
      (sample_world (sample_db (sample_queue 1 ''jobs'' False [])) 7) = (Inr response, w')
    \<and> d_messages (w_db w') = [m] \<and> m_Body m = ''x'' \<and> m_GroupID m = ''g'' \<and> m_AvailableAt m = 0
    \<and> m_RetentionDeadline m = 345600000000000"
proof -
  let ?q = "sample_queue 1 ''jobs'' False []"
  obtain response w' where s: "sendMessageEntry ?q (sample_entry []) 7 (sample_world (sample_db ?q) 7) = (Inr response, w')"
    using sample_send [of "[]" False "''jobs''" 7] by auto
  have c: "check_entry ?q (sample_entry []) = Inr (sample_outgoing [])" by (rule sample_check) simp_all
  have f: "\<not> q_FIFO ?q" by (simp add: sample_queue_def)
  have d: "(case int64Field (sample_entry []) ''DelaySeconds'' of (given, specified) \<Rightarrow>
      if specified then given else queueDelaySeconds ?q) = 0"
    by (simp add: int64Field_def sample_entry_def queueDelaySeconds_def int_setting_def sget_def sample_queue_def parseInt_def)
  have r: "queueRetentionSeconds ?q = 345600"
    by (simp add: queueRetentionSeconds_def int_setting_def sget_def sample_queue_def parseInt_def)
  have e: "stringValue (sample_entry []) ''MessageBody'' = ''x''" "stringValue (sample_entry []) ''MessageGroupId'' = ''g''"
    "d_messages (w_db (sample_world (sample_db ?q) 7)) = []"
    by (simp_all add: sample_entry_def sample_world_def sample_db_def db_Init_def)
  have t: "trunc_ms (7 + 0 * 1000000000) = 0" "trunc_ms (7 + seconds 345600) = 345600000000000"
    by (simp_all add: trunc_ms_def unixMilli_def seconds_small)
  from send_stores_one_message [OF s c _ refl refl refl] f obtain m where
    "d_messages (w_db w') = [m]" "m_Body m = ''x''" "m_GroupID m = ''g''"
    "m_AvailableAt m = trunc_ms (7 + 0 * 1000000000)" "m_RetentionDeadline m = trunc_ms (7 + seconds 345600)"
    unfolding d e r by auto
  with s t show ?thesis by auto
qed

text \<open>
  C18. A refused send changes nothing: when sending an entry fails the database is as before,
  except when the failure is that of writing the deduplication ledger of a FIFO queue (the
  message is then stored already).
\<close>

theorem send_error_leaves_database:
  assumes "sendMessageEntry q entry now w = (Inl e, w')"
    and "\<not> (q_FIFO q \<and> (\<exists>c. e = internalError ''failed to persist deduplication ledger'' c))"
  shows "w_db w' = w_db w"
  using assms(1)
proof (cases rule: sendMessageEntry_cases)
  case (stored msg w1)
  from stored(4) show ?thesis
  proof (cases rule: store_entry_cases)
    case (persist messageID a b sn w2)
    with persist_entry_err [OF persist(2)] assms(2) stored(2) show ?thesis by auto
  qed (use stored(2) in simp)
qed simp_all

theorem send_error_leaves_database_witness:
  "\<exists>e w'. sendMessageEntry (sample_queue 1 ''jobs'' False []) [] 7
      (sample_world (sample_db (sample_queue 1 ''jobs'' False [])) 7) = (Inl e, w')
    \<and> w_db w' = sample_db (sample_queue 1 ''jobs'' False [])"
proof -
  let ?q = "sample_queue 1 ''jobs'' False []" and ?w = "sample_world (sample_db (sample_queue 1 ''jobs'' False [])) 7"
  obtain e where "check_entry ?q [] = Inl e"
    by (simp add: check_entry_def validateMessageBody_def Let_def)
  then have s: "sendMessageEntry ?q [] 7 ?w = (Inl e, ?w)" by (simp add: sendMessageEntry_def run_bindE)
  have "\<not> q_FIFO ?q" by (simp add: sample_queue_def)
  with send_error_leaves_database [OF s] s show ?thesis by (simp add: sample_world_def)
qed

text \<open>
  C5. Sending to a FIFO queue is exactly-once within the window: after a send has stored its
  message, another send with the same deduplication scope and id less than five minutes later
  stores nothing and answers with the stored response of the first, whatever its body.
\<close>

theorem fifo_send_exactly_once:
  assumes "q_FIFO q" and "check_entry q entry = Inr msg"
    and "db_DedupEntry (q_ID q) (dedupScopeKey q (o_group msg)) (o_dedup msg) now (w_db w) = None"
    and "sendMessageEntry q entry now w = (Inr response, w')"
    and "check_entry q entry' = Inr msg'"
    and "dedupScopeKey q (o_group msg') = dedupScopeKey q (o_group msg)" and "o_dedup msg' = o_dedup msg"
    and "unixMilli now' < unixMilli (now + 5 * 60 * 1000000000)"
    and "d_dedup (w_db v) = d_dedup (w_db w')" and "\<not> w_faults v (w_calls v)"
  shows "\<exists>v'. sendMessageEntry q entry' now' v =
      (Inr (cloneAnyMap (json_rt_map (cloneAnyMap response))), v') \<and> w_db v' = w_db v"
proof -
  from assms(4) obtain w1 where s: "store_entry q msg now w1 = (Inr response, w')"
    by (cases rule: sendMessageEntry_cases) (use assms(2,3) in auto)
  from store_entry_ok [OF s] assms(1) obtain d1 e where
    e: "db_InsertDedupEntry (dedup_row q msg response now) d1 = Inr (e, w_db w')" by metis
  have t: "unixMilli now' < unixMilli (e_ExpiresAt (dedup_row q msg response now))"
    using assms(8) by (simp add: dedup_row_def fifoDedupWindow_def)
  from dedup_lookup_after_insert [OF e t] obtain row where
    "db_DedupEntry (q_ID q) (dedupScopeKey q (o_group msg)) (o_dedup msg) now' (w_db w') = Some row"
    "e_Response row = json_rt_map (cloneAnyMap response)"
    by (auto simp: dedup_row_def)
  then have "db_DedupEntry (q_ID q) (dedupScopeKey q (o_group msg')) (o_dedup msg') now' (w_db v) = Some row"
    using assms(6,7) DedupEntry_cong [OF assms(9)] by simp
  from sendMessageEntry_replay [OF assms(10,1,5) this] show ?thesis
    using \<open>e_Response row = _\<close> by simp
qed

theorem fifo_send_exactly_once_witness:
  "\<exists>response w' again v'. sendMessageEntry (sample_queue 1 ''a.fifo'' True []) (sample_entry ''d'') 7
      (sample_world (sample_db (sample_queue 1 ''a.fifo'' True [])) 7) = (Inr response, w')
    \<and> sendMessageEntry (sample_queue 1 ''a.fifo'' True []) (sample_entry ''d'') 9 w' = (Inr again, v')
    \<and> w_db v' = w_db w'"
proof -
  let ?q = "sample_queue 1 ''a.fifo'' True []"
  obtain response w' where s: "sendMessageEntry ?q (sample_entry ''d'') 7 (sample_world (sample_db ?q) 7) = (Inr response, w')"
    and h: "healthy w'"
    using sample_send [of "''d''" True "''a.fifo''" 7] by auto
  have c: "check_entry ?q (sample_entry ''d'') = Inr (sample_outgoing ''d'')" by (rule sample_check) simp_all
  have f: "q_FIFO ?q" by (simp add: sample_queue_def)
  have n: "db_DedupEntry (q_ID ?q) (dedupScopeKey ?q (o_group (sample_outgoing ''d''))) (o_dedup (sample_outgoing ''d'')) 7
      (w_db (sample_world (sample_db ?q) 7)) = None"
    by (simp add: sample_world_def sample_no_dedup)
  have "unixMilli 9 < unixMilli (7 + 5 * 60 * 1000000000)" by (simp add: unixMilli_def)
  from fifo_send_exactly_once [OF f c n s c refl refl this refl] h s show ?thesis by auto
qed

text \<open>
  C35. A batch that is answered had between one and ten entries with well-formed, pairwise
  different ids and bodies of at most 1 MiB together, and its answer reports every entry exactly
  once, as successful or as failed.
\<close>

theorem send_batch_reports_every_entry:
  assumes "SendMessageBatch cfg req w = (Inr response, w')"
    and "entries = sliceOfMaps (anySliceValue (rq_Input req) ''Entries'')"
  shows "length entries \<in> {1..10} \<and> distinct (map (\<lambda>e. stringValue e ''Id'') entries)
    \<and> sum_list (map (\<lambda>e. length (stringValue e ''MessageBody'')) entries) \<le> 1024 * 1024
    \<and> (\<exists>s f. response = [(''Successful'', GList s), (''Failed'', GList f)]
        \<and> mset (map entry_id (s @ f)) = mset (map (\<lambda>e. stringValue e ''Id'') entries))"
proof -
  from assms obtain q now w1 where
    n: "entries \<noteq> []" "length entries \<le> 10"
    and r: "bindE (liftE (batch_size [] entries 0)) (\<lambda>bytes.
     if 1024 * 1024 < bytes then throwApi ErrBatchRequestTooLong
     else bindE (foldE (send_step q now) ([], []) entries) (\<lambda>(successful, failed).
       ok [(''Successful'', GList successful), (''Failed'', GList failed)])) w1 = (Inr response, w')"
    unfolding SendMessageBatch_def Let_def by (auto elim!: bindE_Inr_cases split: if_splits)
  from r obtain bytes where b: "batch_size [] entries 0 = Inr bytes" "bytes \<le> 1024 * 1024"
    and f: "bindE (foldE (send_step q now) ([], []) entries) (\<lambda>(successful, failed).
       ok [(''Successful'', GList successful), (''Failed'', GList failed)]) w1 = (Inr response, w')"
    by (auto elim!: bindE_Inr_cases split: if_splits)
  from f obtain s f where "response = [(''Successful'', GList s), (''Failed'', GList f)]"
    "mset (map entry_id (s @ f)) = mset (map (\<lambda>e. stringValue e ''Id'') entries)"
    by (elim bindE_Inr_cases) (auto dest!: send_steps_ok)
  moreover have "1 \<le> length entries" using n(1) by (cases entries) auto
  ultimately show ?thesis using n(2) b batch_size_ok [OF b(1)] by auto
qed

theorem send_batch_reports_every_entry_witness:
  "\<exists>response w' s f. SendMessageBatch sample_config (sample_request ''SendMessageBatch''
        [(''QueueUrl'', GStr ''http://h/0/jobs''),
         (''Entries'', GList [GMap [(''Id'', GStr ''a''), (''MessageBody'', GStr ''x'')]])])
      (sample_world (sample_db (sample_queue 1 ''jobs'' False [])) 7) = (Inr response, w')
    \<and> response = [(''Successful'', GList s), (''Failed'', GList f)] \<and> length s + length f = 1"
proof -
  let ?e = "[(''Id'', GStr ''a''), (''MessageBody'', GStr ''x'')] :: gmap"
  let ?req = "sample_request ''SendMessageBatch'' [(''QueueUrl'', GStr ''http://h/0/jobs''), (''Entries'', GList [GMap ?e])]"
  let ?q = "sample_queue 1 ''jobs'' False []" and ?w = "sample_world (sample_db (sample_queue 1 ''jobs'' False [])) 7"
  have "w_db (?w\<lparr>w_ticks := Suc 0\<rparr>) = sample_db ?q" "healthy (?w\<lparr>w_ticks := Suc 0\<rparr>)"
    by (simp_all add: sample_world_def healthy_def)
  from sample_maintain [OF this, of 7] obtain w1 where m: "maintain sample_config 7 (?w\<lparr>w_ticks := Suc 0\<rparr>) = (Inr (), w1)"
    and w1: "w_db w1 = sample_db ?q" "healthy w1" by (auto simp: sample_world_def)
  have "\<exists>w'. lookupQueueForRequest sample_config ?req w1 = (Inr ?q, w') \<and> w_db w' = w_db w1 \<and> healthy w'"
    by (rule sample_lookup [OF w1]) (simp_all add: sample_request_def trimRight_def)
  then obtain w2 where l: "lookupQueueForRequest sample_config ?req w1 = (Inr ?q, w2)" by blast
  have en: "sliceOfMaps (anySliceValue (rq_Input ?req) ''Entries'') = [?e]"
    by (simp add: sample_request_def anySliceValue_def)
  have b: "batch_size [] [?e] 0 = Inr 1"
    by (simp add: batchEntryIDMatches_def chars_between_def word_char_def normalizeMessageAttributeMap_def
        anyMapValue_def estimateMessageSize_def Let_def)
  obtain r w3 where f: "foldE (send_step ?q 7) ([], []) [?e] w2 = (r, w3)"
    by (cases "foldE (send_step ?q 7) ([], []) [?e] w2")
  from send_steps_ok [OF f] obtain s' f' where r: "r = Inr (s', f')" by auto
  have ready: "ensureQueueReady ?q 7 w2 = (Inr (), w2)" by (simp add: ensureQueueReady_def sample_queue_def)
  have now: "nowE ?w = (Inr 7, ?w\<lparr>w_ticks := Suc 0\<rparr>)" by (simp add: sample_world_def)
  have s: "SendMessageBatch sample_config ?req ?w = (Inr [(''Successful'', GList s'), (''Failed'', GList f')], w3)"
    unfolding SendMessageBatch_def
    using f r b by (simp add: now m l ready en Let_def del: run_nowE foldE.simps)
  from send_batch_reports_every_entry [OF s refl] obtain s0 f0 where
    e: "[(''Successful'', GList s'), (''Failed'', GList f')] = [(''Successful'', GList s0), (''Failed'', GList f0)]"
    and n: "mset (map entry_id (s0 @ f0)) = mset (map (\<lambda>e. stringValue e ''Id'') [?e])"
    unfolding en by blast
  have "length s' + length f' = 1" using e arg_cong [OF n, of size] by simp
  with s show ?thesis by blast
qed

end
