(* ===== verification/ReceiptOps.thy ===== *)
theory ReceiptOps
  imports ReceiveMessage
begin

text \<open>
  The operations on a receipt handle: \<open>deleteByReceiptHandle\<close>, \<open>changeVisibilityByReceiptHandle\<close>,
  \<open>DeleteMessage\<close>, \<open>ChangeMessageVisibility\<close> and their batches, of
  \<open>internal/service/messages.go\<close>.
\<close>

definition twelve_hours :: int where
  "twelve_hours = 12 * 3600 * 1000000000"

definition deleteByReceiptHandle :: "queue \<Rightarrow> string \<Rightarrow> gotime \<Rightarrow> unit handler" where
  "deleteByReceiptHandle q handle now =
     bindE (orInternal ''failed to lookup receipt handle'' (ReceiptByHandle handle)) (\<lambda>found.
     case found of None \<Rightarrow> throwApi ErrReceiptHandleIsInvalid | Some receipt \<Rightarrow>
     if r_QueueID receipt \<noteq> q_ID q then throwApi ErrReceiptHandleIsInvalid
     else if \<not> r_Active receipt then ok ()
     else if \<not> now < r_VisibilityDeadline receipt then throwApi ErrMessageNotInflight
     else
       bindE (orInternal ''failed to lookup message'' (MessageByRowID (r_MessageRowID receipt))) (\<lambda>stored.
       case live_message stored of
         None \<Rightarrow> bindE (attempt (UpdateReceipt (receipt\<lparr>r_Active := False\<rparr>))) (\<lambda>_. ok ())
       | Some m \<Rightarrow>
           seqE (orInternal ''failed to delete message''
                  (UpdateMessage (m\<lparr>m_DeletedAt := Some now, m_VisibilityDeadline := None\<rparr>)))
          (seqE (orInternal ''failed to deactivate receipt handle''
                  (UpdateReceipt (receipt\<lparr>r_Active := False\<rparr>)))
          (orInternal ''failed to invalidate receive attempts'' (InvalidateReceiveAttempts (q_ID q))))))"

definition changeVisibilityByReceiptHandle :: "queue \<Rightarrow> string \<Rightarrow> int \<Rightarrow> gotime \<Rightarrow> unit handler" where
  "changeVisibilityByReceiptHandle q handle timeout now =
     bindE (orInternal ''failed to lookup receipt handle'' (ReceiptByHandle handle)) (\<lambda>found.
     case found of None \<Rightarrow> throwApi ErrReceiptHandleIsInvalid | Some receipt \<Rightarrow>
     if r_QueueID receipt \<noteq> q_ID q then throwApi ErrReceiptHandleIsInvalid
     else if \<not> r_Active receipt \<or> \<not> now < r_VisibilityDeadline receipt then throwApi ErrMessageNotInflight
     else if r_IssuedAt receipt + twelve_hours - now < seconds timeout then
       throw (invalidParameter ''Value for parameter VisibilityTimeout is invalid. Reason: Visibility timeout exceeds the maximum time left.'')
     else
       bindE (orInternal ''failed to lookup message'' (MessageByRowID (r_MessageRowID receipt))) (\<lambda>stored.
       case live_message stored of
         None \<Rightarrow> throwApi ErrMessageNotInflight
       | Some m \<Rightarrow>
           (let deadline = now + seconds timeout in
            seqE (orInternal ''failed to update receipt visibility''
                   (UpdateReceipt (receipt\<lparr>r_VisibilityDeadline := deadline\<rparr>)))
           (seqE (orInternal ''failed to update message visibility''
                   (UpdateMessage (m\<lparr>m_VisibilityDeadline := Some deadline\<rparr>)))
           (orInternal ''failed to invalidate receive attempts'' (InvalidateReceiveAttempts (q_ID q)))))))"

section \<open>The operations\<close>

definition timeout_of :: "gmap \<Rightarrow> goerr + int" where
  "timeout_of input = in_range_param input ''VisibilityTimeout'' 0 0 43200
     ''Value for parameter VisibilityTimeout is invalid. Reason: must be between 0 and 43200, if provided.''"

definition DeleteMessage :: "config \<Rightarrow> request \<Rightarrow> gmap handler" where
  "DeleteMessage cfg req =
     bindE nowE (\<lambda>now.
     seqE (maintain cfg now)
    (bindE (lookupQueueForRequest cfg req) (\<lambda>q.
     seqE (deleteByReceiptHandle q (stringValue (rq_Input req) ''ReceiptHandle'') now)
    (ok []))))"

text \<open>One entry of a batch: its id among the successful ones, or its failure.\<close>

definition batch_step :: "(gmap \<Rightarrow> unit handler) \<Rightarrow> gval list \<times> gval list \<Rightarrow> gmap \<Rightarrow> (gval list \<times> gval list) handler" where
  "batch_step body acc entry =
     (case acc of (successful, failed) \<Rightarrow>
      let i = stringValue entry ''Id'' in
      bindE (attempt (body entry)) (\<lambda>r.
      case r of
        Inl e \<Rightarrow> ok (successful, failed @ [GMap (batchFailure i e)])
      | Inr _ \<Rightarrow> ok (successful @ [GMap [(''Id'', GStr i)]], failed)))"

definition DeleteMessageBatch :: "config \<Rightarrow> request \<Rightarrow> gmap handler" where
  "DeleteMessageBatch cfg req =
     bindE nowE (\<lambda>now.
     seqE (maintain cfg now)
    (bindE (lookupQueueForRequest cfg req) (\<lambda>q.
     bindE (liftE (validateBatchRequestEntries (anySliceValue (rq_Input req) ''Entries''))) (\<lambda>entries.
     bindE (foldE (batch_step (\<lambda>entry. deleteByReceiptHandle q (stringValue entry ''ReceiptHandle'') now))
              ([], []) entries) (\<lambda>(successful, failed).
     ok [(''Successful'', GList successful), (''Failed'', GList failed)])))))"

definition ChangeMessageVisibility :: "config \<Rightarrow> request \<Rightarrow> gmap handler" where
  "ChangeMessageVisibility cfg req =
     bindE nowE (\<lambda>now.
     seqE (maintain cfg now)
    (bindE (lookupQueueForRequest cfg req) (\<lambda>q.
     bindE (liftE (timeout_of (rq_Input req))) (\<lambda>timeout.
     seqE (changeVisibilityByReceiptHandle q (stringValue (rq_Input req) ''ReceiptHandle'') timeout now)
    (ok [])))))"

definition ChangeMessageVisibilityBatch :: "config \<Rightarrow> request \<Rightarrow> gmap handler" where
  "ChangeMessageVisibilityBatch cfg req =
     bindE nowE (\<lambda>now.
     seqE (maintain cfg now)
    (bindE (lookupQueueForRequest cfg req) (\<lambda>q.
     bindE (liftE (validateBatchRequestEntries (anySliceValue (rq_Input req) ''Entries''))) (\<lambda>entries.
     bindE (foldE (batch_step (\<lambda>entry.
              bindE (liftE (timeout_of entry)) (\<lambda>timeout.
              changeVisibilityByReceiptHandle q (stringValue entry ''ReceiptHandle'') timeout now)))
              ([], []) entries) (\<lambda>(successful, failed).
     ok [(''Successful'', GList successful), (''Failed'', GList failed)])))))"

section \<open>The receipt operations keep the contract\<close>

locale receipt_plane = receive_plane R for R +
  assumes steps_deleteByReceiptHandle [effects]: "steps (dbrel R) (deleteByReceiptHandle q h now)"
    and steps_changeVisibility [effects]: "steps (dbrel R) (changeVisibilityByReceiptHandle q h v now)"
begin

lemma steps_batch_step: "(\<And>e. steps (dbrel R) (body e)) \<Longrightarrow> steps (dbrel R) (batch_step body acc entry)"
  unfolding batch_step_def by (intro effects)

lemma steps_DeleteMessage [effects]: "steps (dbrel R) (DeleteMessage cfg req)"
  unfolding DeleteMessage_def by (intro effects)

lemma steps_DeleteMessageBatch [effects]: "steps (dbrel R) (DeleteMessageBatch cfg req)"
  unfolding DeleteMessageBatch_def by (intro effects steps_batch_step)

lemma steps_ChangeMessageVisibility [effects]: "steps (dbrel R) (ChangeMessageVisibility cfg req)"
  unfolding ChangeMessageVisibility_def by (intro effects)

lemma steps_ChangeMessageVisibilityBatch [effects]: "steps (dbrel R) (ChangeMessageVisibilityBatch cfg req)"
  unfolding ChangeMessageVisibilityBatch_def by (intro effects steps_batch_step)

end

context message_plane
begin

lemma plane_deleteByReceiptHandle: "steps (dbrel R) (deleteByReceiptHandle q h now)"
  unfolding deleteByReceiptHandle_def by (intro effects)

lemma plane_changeVisibility: "steps (dbrel R) (changeVisibilityByReceiptHandle q h v now)"
  unfolding changeVisibilityByReceiptHandle_def by (intro effects)

end

sublocale message_plane \<subseteq> receipt_plane R
  by unfold_locales (rule plane_deleteByReceiptHandle, rule plane_changeVisibility)

section \<open>What the receipt operations do to the database\<close>

lemma ReceiptByHandle_Inr:
  "orInternal msg (ReceiptByHandle h) w = (Inr x, w') \<Longrightarrow> db_ReceiptByHandle h (w_db w) = x \<and> w_db w' = w_db w"
  by (auto simp: ReceiptByHandle_def dest!: orInternal_Inr queryE_Inr)

lemma MessageByRowID_Inr:
  "orInternal msg (MessageByRowID i) w = (Inr x, w') \<Longrightarrow> db_MessageByRowID i (w_db w) = x \<and> w_db w' = w_db w"
  by (auto simp: MessageByRowID_def dest!: orInternal_Inr queryE_Inr)

lemma UpdateReceipt_Inr:
  "orInternal msg (UpdateReceipt r) w = (Inr x, w') \<Longrightarrow> db_UpdateReceipt r (w_db w) = Inr ((), w_db w')"
  by (auto simp: UpdateReceipt_def dest!: orInternal_Inr sqlE_Inr)

lemma UpdateMessage_Inr:
  "orInternal msg (UpdateMessage m) w = (Inr x, w') \<Longrightarrow> db_UpdateMessage m (w_db w) = Inr ((), w_db w')"
  by (auto simp: UpdateMessage_def dest!: orInternal_Inr sqlE_Inr)

lemma invalidated_all:
  assumes "a \<in> set (update_where (\<lambda>a. a_QueueID a = i \<and> a_InvalidatedAt a = None)
     (\<lambda>a. a\<lparr>a_InvalidatedAt := Some t\<rparr>) rows)" and "a_QueueID a = i"
  shows "a_InvalidatedAt a \<noteq> None"
proof -
  from assms(1) obtain b where
    "a = (if a_QueueID b = i \<and> a_InvalidatedAt b = None then b\<lparr>a_InvalidatedAt := Some t\<rparr> else b)"
    unfolding set_update_where by (rule imageE)
  then show ?thesis
    using assms(2) by (cases "a_QueueID b = i \<and> a_InvalidatedAt b = None") simp_all
qed

lemma InvalidateReceiveAttempts_Inr:
  assumes "orInternal msg (InvalidateReceiveAttempts i) w = (Inr x, w')"
  shows "\<exists>as. w_db w' = (w_db w)\<lparr>d_attempts := as\<rparr> \<and> (\<forall>a \<in> set as. a_QueueID a = i \<longrightarrow> a_InvalidatedAt a \<noteq> None)"
proof -
  from assms obtain t where "db_InvalidateReceiveAttempts i t (w_db w) = Inr (x, w_db w')"
    unfolding InvalidateReceiveAttempts_def
    by (auto elim!: bindE_Inr_cases dest!: orInternal_Inr sqlE_Inr)
  then have "w_db w' = (w_db w)\<lparr>d_attempts := update_where (\<lambda>a. a_QueueID a = i \<and> a_InvalidatedAt a = None)
      (\<lambda>a. a\<lparr>a_InvalidatedAt := Some (trunc_ms t)\<rparr>) (d_attempts (w_db w))\<rparr>" (is "_ = _\<lparr>d_attempts := ?as\<rparr>")
    by (simp add: db_InvalidateReceiveAttempts_def)
  moreover have "\<forall>a \<in> set ?as. a_QueueID a = i \<longrightarrow> a_InvalidatedAt a \<noteq> None"
    using invalidated_all by blast
  ultimately show ?thesis by (intro exI [of _ ?as] conjI)
qed

lemmas receipt_calls = ReceiptByHandle_Inr MessageByRowID_Inr UpdateReceipt_Inr UpdateMessage_Inr

lemma UpdateReceipt_found:
  assumes "db_UpdateReceipt r d = Inr (x, d')" and "r0 \<in> set (d_receipts d)" and "r_ID r = r_ID r0"
  shows "d' = d\<lparr>d_receipts := update_where (\<lambda>r'. r_ID r' = r_ID r0) (\<lambda>_. scanReceipt r) (d_receipts d)\<rparr>"
  using assms by (auto simp: db_UpdateReceipt_def split: if_splits)

lemma UpdateMessage_found:
  assumes "db_UpdateMessage m d = Inr (x, d')" and "m0 \<in> set (d_messages d)" and "m_RowID m = m_RowID m0"
  shows "d' = d\<lparr>d_messages := update_where (\<lambda>m'. m_RowID m' = m_RowID m0) (\<lambda>_. scanMessage m) (d_messages d)\<rparr>"
  using assms by (auto simp: db_UpdateMessage_def split: if_splits)

text \<open>A deletion that succeeds on an active receipt of a live message.\<close>

lemma delete_live:
  assumes "deleteByReceiptHandle q h now w = (Inr x, w')"
    and "db_ReceiptByHandle h (w_db w) = Some r" and "r_Active r"
    and "db_MessageByRowID (r_MessageRowID r) (w_db w) = Some m" and "m_DeletedAt m = None"
  shows "now < r_VisibilityDeadline r \<and> r_QueueID r = q_ID q \<and>
    (\<exists>as. w_db w' = (w_db w)\<lparr>d_messages := update_where (\<lambda>m'. m_RowID m' = m_RowID m)
          (\<lambda>_. scanMessage (m\<lparr>m_DeletedAt := Some now, m_VisibilityDeadline := None\<rparr>)) (d_messages (w_db w)),
        d_receipts := update_where (\<lambda>r'. r_ID r' = r_ID r) (\<lambda>_. scanReceipt (r\<lparr>r_Active := False\<rparr>))
          (d_receipts (w_db w)),
        d_attempts := as\<rparr>
      \<and> (\<forall>a \<in> set as. a_QueueID a = q_ID q \<longrightarrow> a_InvalidatedAt a \<noteq> None))"
proof -
  have rin: "r \<in> set (d_receipts (w_db w))" using assms(2) by (auto simp: db_ReceiptByHandle_def dest: row_byD)
  have min: "m \<in> set (d_messages (w_db w))" using assms(4) by (auto simp: db_MessageByRowID_def dest: row_byD)
  let ?m = "m\<lparr>m_DeletedAt := Some now, m_VisibilityDeadline := None\<rparr>"
  from assms obtain w1 where w1: "w_db w1 = w_db w" and d: "now < r_VisibilityDeadline r" "r_QueueID r = q_ID q"
    and k: "bindE (orInternal ''failed to lookup message'' (MessageByRowID (r_MessageRowID r))) (\<lambda>stored.
       case live_message stored of
         None \<Rightarrow> bindE (attempt (UpdateReceipt (r\<lparr>r_Active := False\<rparr>))) (\<lambda>_. ok ())
       | Some m \<Rightarrow>
           seqE (orInternal ''failed to delete message''
                  (UpdateMessage (m\<lparr>m_DeletedAt := Some now, m_VisibilityDeadline := None\<rparr>)))
          (seqE (orInternal ''failed to deactivate receipt handle''
                  (UpdateReceipt (r\<lparr>r_Active := False\<rparr>)))
          (orInternal ''failed to invalidate receive attempts'' (InvalidateReceiveAttempts (q_ID q))))) w1 = (Inr x, w')"
    unfolding deleteByReceiptHandle_def
    by (elim bindE_Inr_cases) (auto dest!: ReceiptByHandle_Inr split: if_splits)
  from k obtain w2 where w2: "w_db w2 = w_db w" and k2: "seqE (orInternal ''failed to delete message'' (UpdateMessage ?m))
          (seqE (orInternal ''failed to deactivate receipt handle'' (UpdateReceipt (r\<lparr>r_Active := False\<rparr>)))
          (orInternal ''failed to invalidate receive attempts'' (InvalidateReceiveAttempts (q_ID q)))) w2 = (Inr x, w')"
    using assms(4,5) w1 by (elim bindE_Inr_cases) (auto simp: live_message_def dest!: MessageByRowID_Inr)
  from k2 obtain w3 w4 where um: "orInternal ''failed to delete message'' (UpdateMessage ?m) w2 = (Inr (), w3)"
    and ur: "orInternal ''failed to deactivate receipt handle'' (UpdateReceipt (r\<lparr>r_Active := False\<rparr>)) w3 = (Inr (), w4)"
    and i: "orInternal ''failed to invalidate receive attempts'' (InvalidateReceiveAttempts (q_ID q)) w4 = (Inr x, w')"
    by (elim bindE_Inr_cases) simp
  note u = UpdateMessage_Inr [OF um] UpdateReceipt_Inr [OF ur]
  have w3: "w_db w3 = (w_db w)\<lparr>d_messages := update_where (\<lambda>m'. m_RowID m' = m_RowID m) (\<lambda>_. scanMessage ?m)
      (d_messages (w_db w))\<rparr>"
    using UpdateMessage_found [OF u(1), of m] w2 min by simp
  have w4: "w_db w4 = (w_db w3)\<lparr>d_receipts := update_where (\<lambda>r'. r_ID r' = r_ID r)
      (\<lambda>_. scanReceipt (r\<lparr>r_Active := False\<rparr>)) (d_receipts (w_db w))\<rparr>"
    using UpdateReceipt_found [OF u(2), of r] w3 rin by simp
  from InvalidateReceiveAttempts_Inr [OF i] w3 w4 d show ?thesis by auto
qed

text \<open>A change of visibility that succeeds.\<close>

lemma change_ok:
  assumes "changeVisibilityByReceiptHandle q h v now w = (Inr x, w')"
  obtains r m as where
    "db_ReceiptByHandle h (w_db w) = Some r" "r_QueueID r = q_ID q" "r_Active r"
    "now < r_VisibilityDeadline r" "seconds v \<le> r_IssuedAt r + twelve_hours - now"
    "db_MessageByRowID (r_MessageRowID r) (w_db w) = Some m" "m_DeletedAt m = None"
    "w_db w' = (w_db w)\<lparr>d_receipts := update_where (\<lambda>r'. r_ID r' = r_ID r)
        (\<lambda>_. scanReceipt (r\<lparr>r_VisibilityDeadline := now + seconds v\<rparr>)) (d_receipts (w_db w)),
      d_messages := update_where (\<lambda>m'. m_RowID m' = m_RowID m)
        (\<lambda>_. scanMessage (m\<lparr>m_VisibilityDeadline := Some (now + seconds v)\<rparr>)) (d_messages (w_db w)),
      d_attempts := as\<rparr>"
proof -
  let ?k = "\<lambda>r stored. case live_message stored of
         None \<Rightarrow> throwApi ErrMessageNotInflight
       | Some m \<Rightarrow>
           (let deadline = now + seconds v in
            seqE (orInternal ''failed to update receipt visibility''
                   (UpdateReceipt (r\<lparr>r_VisibilityDeadline := deadline\<rparr>)))
           (seqE (orInternal ''failed to update message visibility''
                   (UpdateMessage (m\<lparr>m_VisibilityDeadline := Some deadline\<rparr>)))
           (orInternal ''failed to invalidate receive attempts'' (InvalidateReceiveAttempts (q_ID q)))))"
  from assms obtain found w1 where
    f: "orInternal ''failed to lookup receipt handle'' (ReceiptByHandle h) w = (Inr found, w1)"
    and b: "(case found of None \<Rightarrow> throwApi ErrReceiptHandleIsInvalid | Some receipt \<Rightarrow>
     if r_QueueID receipt \<noteq> q_ID q then throwApi ErrReceiptHandleIsInvalid
     else if \<not> r_Active receipt \<or> \<not> now < r_VisibilityDeadline receipt then throwApi ErrMessageNotInflight
     else if r_IssuedAt receipt + twelve_hours - now < seconds v then
       throw (invalidParameter ''Value for parameter VisibilityTimeout is invalid. Reason: Visibility timeout exceeds the maximum time left.'')
     else
       bindE (orInternal ''failed to lookup message'' (MessageByRowID (r_MessageRowID receipt))) (?k receipt)) w1 = (Inr x, w')"
    unfolding changeVisibilityByReceiptHandle_def by (rule bindE_Inr_cases)
  from b obtain r where found: "found = Some r" by (cases found) auto
  have r: "db_ReceiptByHandle h (w_db w) = Some r" and w1: "w_db w1 = w_db w"
    using ReceiptByHandle_Inr [OF f] found by simp_all
  from b have c: "r_QueueID r = q_ID q" "r_Active r" "now < r_VisibilityDeadline r"
      "seconds v \<le> r_IssuedAt r + twelve_hours - now"
    and k: "bindE (orInternal ''failed to lookup message'' (MessageByRowID (r_MessageRowID r))) (?k r) w1 = (Inr x, w')"
    unfolding found by (simp_all split: if_splits)
  let ?d = "now + seconds v"
  from k obtain m w2 where m: "db_MessageByRowID (r_MessageRowID r) (w_db w) = Some m" "m_DeletedAt m = None"
    and w2: "w_db w2 = w_db w"
    and k2: "seqE (orInternal ''failed to update receipt visibility'' (UpdateReceipt (r\<lparr>r_VisibilityDeadline := ?d\<rparr>)))
           (seqE (orInternal ''failed to update message visibility'' (UpdateMessage (m\<lparr>m_VisibilityDeadline := Some ?d\<rparr>)))
           (orInternal ''failed to invalidate receive attempts'' (InvalidateReceiveAttempts (q_ID q)))) w2 = (Inr x, w')"
    using w1 by (elim bindE_Inr_cases)
      (auto simp: live_message_def Let_def dest!: MessageByRowID_Inr split: option.splits if_splits)
  have rin: "r \<in> set (d_receipts (w_db w))" using r by (auto simp: db_ReceiptByHandle_def dest: row_byD)
  have min: "m \<in> set (d_messages (w_db w))" using m(1) by (auto simp: db_MessageByRowID_def dest: row_byD)
  from k2 obtain w3 w4 where
    ur: "orInternal ''failed to update receipt visibility'' (UpdateReceipt (r\<lparr>r_VisibilityDeadline := ?d\<rparr>)) w2 = (Inr (), w3)"
    and um: "orInternal ''failed to update message visibility'' (UpdateMessage (m\<lparr>m_VisibilityDeadline := Some ?d\<rparr>)) w3 = (Inr (), w4)"
    and i: "orInternal ''failed to invalidate receive attempts'' (InvalidateReceiveAttempts (q_ID q)) w4 = (Inr x, w')"
    by (elim bindE_Inr_cases) simp
  have w3: "w_db w3 = (w_db w)\<lparr>d_receipts := update_where (\<lambda>r'. r_ID r' = r_ID r)
      (\<lambda>_. scanReceipt (r\<lparr>r_VisibilityDeadline := ?d\<rparr>)) (d_receipts (w_db w))\<rparr>"
    using UpdateReceipt_found [OF UpdateReceipt_Inr [OF ur], of r] w2 rin by simp
  have w4: "w_db w4 = (w_db w3)\<lparr>d_messages := update_where (\<lambda>m'. m_RowID m' = m_RowID m)
      (\<lambda>_. scanMessage (m\<lparr>m_VisibilityDeadline := Some ?d\<rparr>)) (d_messages (w_db w))\<rparr>"
    using UpdateMessage_found [OF UpdateMessage_Inr [OF um], of m] w3 min by simp
  from InvalidateReceiveAttempts_Inr [OF i] obtain as where "w_db w' = (w_db w4)\<lparr>d_attempts := as\<rparr>" by blast
  with w3 w4 show thesis using r c m by (intro that) simp_all
qed

lemma receipt_after_update:
  assumes "db_ReceiptByHandle h d = Some r" and "r_Handle new = h"
    and "d_receipts d' = update_where (\<lambda>r'. r_ID r' = r_ID r) (\<lambda>_. new) (d_receipts d)"
  shows "db_ReceiptByHandle h d' = Some new"
  using assms row_by_update_where [of "\<lambda>r. r_Handle r = h" "d_receipts d" r new r_ID]
  by (simp add: db_ReceiptByHandle_def)

lemma message_after_update:
  assumes "db_MessageByRowID i d = Some m" and "m_RowID new = i"
    and "d_messages d' = update_where (\<lambda>m'. m_RowID m' = m_RowID m) (\<lambda>_. new) (d_messages d)"
  shows "db_MessageByRowID i d' = Some new"
  using assms row_by_update_where [of "\<lambda>m. m_RowID m = i" "d_messages d" m new m_RowID]
  by (simp add: db_MessageByRowID_def)

section \<open>Properties\<close>

text \<open>
  C19. Deleting by the active handle of a live message marks exactly that message as deleted and
  its receipt as inactive, leaves every other message as it was, and invalidates the cached
  receive attempts of the queue.
\<close>

theorem delete_marks_message:
  assumes "deleteByReceiptHandle q h now w = (Inr x, w')"
    and "db_ReceiptByHandle h (w_db w) = Some r" and "r_Active r"
    and "db_MessageByRowID (r_MessageRowID r) (w_db w) = Some m" and "m_DeletedAt m = None"
  shows "(\<exists>m'. db_MessageByRowID (r_MessageRowID r) (w_db w') = Some m' \<and> m_DeletedAt m' = Some (trunc_ms now))
    \<and> (\<exists>r'. db_ReceiptByHandle h (w_db w') = Some r' \<and> \<not> r_Active r')
    \<and> (\<forall>i. i \<noteq> r_MessageRowID r \<longrightarrow> db_MessageByRowID i (w_db w') = db_MessageByRowID i (w_db w))
    \<and> (\<forall>a. a \<in> set (d_attempts (w_db w')) \<longrightarrow> a_QueueID a = q_ID q \<longrightarrow> a_InvalidatedAt a \<noteq> None)"
proof -
  let ?m = "scanMessage (m\<lparr>m_DeletedAt := Some now, m_VisibilityDeadline := None\<rparr>)"
  let ?r = "scanReceipt (r\<lparr>r_Active := False\<rparr>)"
  from delete_live [OF assms] obtain as where w': "w_db w' = (w_db w)\<lparr>d_messages :=
        update_where (\<lambda>m'. m_RowID m' = m_RowID m) (\<lambda>_. ?m) (d_messages (w_db w)),
      d_receipts := update_where (\<lambda>r'. r_ID r' = r_ID r) (\<lambda>_. ?r) (d_receipts (w_db w)), d_attempts := as\<rparr>"
    and a: "\<forall>a \<in> set as. a_QueueID a = q_ID q \<longrightarrow> a_InvalidatedAt a \<noteq> None" by blast
  have i: "m_RowID m = r_MessageRowID r" using assms(4) by (auto simp: db_MessageByRowID_def dest: row_byD)
  have h: "r_Handle r = h" using assms(2) by (auto simp: db_ReceiptByHandle_def dest: row_byD)
  have "db_MessageByRowID (r_MessageRowID r) (w_db w') = Some ?m"
    by (rule message_after_update [OF assms(4)]) (simp_all add: i w')
  moreover have "db_ReceiptByHandle h (w_db w') = Some ?r"
    by (rule receipt_after_update [OF assms(2)]) (simp_all add: h w')
  moreover have "db_MessageByRowID j (w_db w') = db_MessageByRowID j (w_db w)" if "j \<noteq> r_MessageRowID r" for j
    using row_by_update_other [of j "m_RowID m" m_RowID ?m "d_messages (w_db w)"] that i
    by (simp add: db_MessageByRowID_def w')
  ultimately show ?thesis using a w' by (simp add: scanMessage_def scanReceipt_def)
qed

theorem delete_marks_message_witness:
  "\<exists>x w'. deleteByReceiptHandle (sample_queue 1 ''jobs'' False []) ''h'' 7000000
      (sample_world (sample_delivery (sample_queue 1 ''jobs'' False []) (sample_message 1 1 [] 0)
         (sample_receipt 1 1 1 ''h'' 9000000)) 7000000) = (Inr x, w')
    \<and> (\<exists>m'. db_MessageByRowID 1 (w_db w') = Some m' \<and> m_DeletedAt m' = Some 7000000)"
proof -
  let ?q = "sample_queue 1 ''jobs'' False []" and ?m = "sample_message 1 1 [] 0"
  let ?r = "sample_receipt 1 1 1 ''h'' 9000000"
  let ?w = "sample_world (sample_delivery ?q ?m ?r) 7000000"
  obtain x w' where d: "deleteByReceiptHandle ?q ''h'' 7000000 ?w = (Inr x, w')"
    by (simp add: deleteByReceiptHandle_def ReceiptByHandle_def db_ReceiptByHandle_def row_by_def sample_world_def
        sample_delivery_def sample_db_def sample_queue_def sample_receipt_def MessageByRowID_def
        db_MessageByRowID_def sample_message_def live_message_def UpdateMessage_def db_UpdateMessage_def
        queue_exists_def UpdateReceipt_def db_UpdateReceipt_def message_exists_def update_where_def
        scanMessage_def InvalidateReceiveAttempts_def db_InvalidateReceiveAttempts_def orInternal_def
        run_mapErr run_bindE)
  have r: "db_ReceiptByHandle ''h'' (w_db ?w) = Some ?r" "r_Active ?r"
    "db_MessageByRowID (r_MessageRowID ?r) (w_db ?w) = Some ?m" "m_DeletedAt ?m = None"
    by (simp_all add: db_ReceiptByHandle_def db_MessageByRowID_def row_by_def sample_world_def
        sample_delivery_def sample_receipt_def sample_message_def)
  from delete_marks_message [OF d r] d show ?thesis
    by (auto simp: sample_receipt_def trunc_ms_def unixMilli_def)
qed

text \<open>
  C39. Deleting again by the same handle succeeds and changes nothing: after a successful
  deletion, the receipt is inactive and a further deletion is a no-op at any later time.
\<close>

theorem delete_again_is_noop:
  assumes "deleteByReceiptHandle q h now w = (Inr x, w')"
    and "db_ReceiptByHandle h (w_db w) = Some r" and "r_Active r"
    and "db_MessageByRowID (r_MessageRowID r) (w_db w) = Some m" and "m_DeletedAt m = None"
    and "w_db v = w_db w'" and "\<not> w_faults v (w_calls v)"
  shows "\<exists>v'. deleteByReceiptHandle q h now' v = (Inr (), v') \<and> w_db v' = w_db v"
proof -
  let ?r = "scanReceipt (r\<lparr>r_Active := False\<rparr>)"
  from delete_live [OF assms(1-5)] have q: "r_QueueID r = q_ID q"
    and d: "d_receipts (w_db w') = update_where (\<lambda>r'. r_ID r' = r_ID r) (\<lambda>_. ?r) (d_receipts (w_db w))" by auto
  have h: "r_Handle r = h" using assms(2) by (auto simp: db_ReceiptByHandle_def dest: row_byD)
  have "db_ReceiptByHandle h (w_db v) = Some ?r"
    unfolding assms(6) by (rule receipt_after_update [OF assms(2) _ d]) (simp add: h)
  then show ?thesis
    using assms(7) q by (simp add: deleteByReceiptHandle_def ReceiptByHandle_def orInternal_def run_mapErr
        run_bindE scanReceipt_def)
qed

theorem delete_again_is_noop_witness:
  "\<exists>x w' v'. deleteByReceiptHandle (sample_queue 1 ''jobs'' False []) ''h'' 7000000
      (sample_world (sample_delivery (sample_queue 1 ''jobs'' False []) (sample_message 1 1 [] 0)
         (sample_receipt 1 1 1 ''h'' 9000000)) 7000000) = (Inr x, w')
    \<and> deleteByReceiptHandle (sample_queue 1 ''jobs'' False []) ''h'' 99000000
      (sample_world (w_db w') 99000000) = (Inr (), v') \<and> w_db v' = w_db w'"
proof -
  let ?q = "sample_queue 1 ''jobs'' False []" and ?m = "sample_message 1 1 [] 0"
  let ?r = "sample_receipt 1 1 1 ''h'' 9000000"
  let ?w = "sample_world (sample_delivery ?q ?m ?r) 7000000"
  obtain x w' where d: "deleteByReceiptHandle ?q ''h'' 7000000 ?w = (Inr x, w')"
    by (simp add: deleteByReceiptHandle_def ReceiptByHandle_def db_ReceiptByHandle_def row_by_def sample_world_def
        sample_delivery_def sample_db_def sample_queue_def sample_receipt_def MessageByRowID_def
        db_MessageByRowID_def sample_message_def live_message_def UpdateMessage_def db_UpdateMessage_def
        queue_exists_def UpdateReceipt_def db_UpdateReceipt_def message_exists_def update_where_def
        scanMessage_def InvalidateReceiveAttempts_def db_InvalidateReceiveAttempts_def orInternal_def
        run_mapErr run_bindE)
  have r: "db_ReceiptByHandle ''h'' (w_db ?w) = Some ?r" "r_Active ?r"
    "db_MessageByRowID (r_MessageRowID ?r) (w_db ?w) = Some ?m" "m_DeletedAt ?m = None"
    by (simp_all add: db_ReceiptByHandle_def db_MessageByRowID_def row_by_def sample_world_def
        sample_delivery_def sample_receipt_def sample_message_def)
  from delete_again_is_noop [OF d r, of "sample_world (w_db w') 99000000" 99000000] d show ?thesis
    by (auto simp: sample_world_def)
qed

text \<open>
  C20. Changing the visibility never extends a lease beyond twelve hours after the receipt was
  issued, and leaves receipt and message with the same new deadline.
\<close>

theorem visibility_change_bounded:
  assumes "changeVisibilityByReceiptHandle q h v now w = (Inr x, w')"
  shows "\<exists>r m. db_ReceiptByHandle h (w_db w') = Some r \<and> r_Active r \<and> r_QueueID r = q_ID q
    \<and> db_MessageByRowID (r_MessageRowID r) (w_db w') = Some m \<and> m_DeletedAt m = None
    \<and> m_VisibilityDeadline m = Some (r_VisibilityDeadline r)
    \<and> r_VisibilityDeadline r = trunc_ms (now + seconds v)
    \<and> (\<exists>r0. db_ReceiptByHandle h (w_db w) = Some r0
        \<and> r_VisibilityDeadline r \<le> r_IssuedAt r0 + 12 * 3600 * 1000000000)"
  using assms
proof (rule change_ok)
  fix r m as
  assume r: "db_ReceiptByHandle h (w_db w) = Some r" "r_QueueID r = q_ID q" "r_Active r"
    and t: "seconds v \<le> r_IssuedAt r + twelve_hours - now"
    and m: "db_MessageByRowID (r_MessageRowID r) (w_db w) = Some m" "m_DeletedAt m = None"
    and w': "w_db w' = (w_db w)\<lparr>d_receipts := update_where (\<lambda>r'. r_ID r' = r_ID r)
        (\<lambda>_. scanReceipt (r\<lparr>r_VisibilityDeadline := now + seconds v\<rparr>)) (d_receipts (w_db w)),
      d_messages := update_where (\<lambda>m'. m_RowID m' = m_RowID m)
        (\<lambda>_. scanMessage (m\<lparr>m_VisibilityDeadline := Some (now + seconds v)\<rparr>)) (d_messages (w_db w)),
      d_attempts := as\<rparr>"
  let ?r = "scanReceipt (r\<lparr>r_VisibilityDeadline := now + seconds v\<rparr>)"
  let ?m = "scanMessage (m\<lparr>m_VisibilityDeadline := Some (now + seconds v)\<rparr>)"
  have i: "m_RowID m = r_MessageRowID r" using m(1) by (auto simp: db_MessageByRowID_def dest: row_byD)
  have h: "r_Handle r = h" using r(1) by (auto simp: db_ReceiptByHandle_def dest: row_byD)
  have "db_ReceiptByHandle h (w_db w') = Some ?r"
    by (rule receipt_after_update [OF r(1)]) (simp_all add: h w')
  moreover have "db_MessageByRowID (r_MessageRowID r) (w_db w') = Some ?m"
    by (rule message_after_update [OF m(1)]) (simp_all add: i w')
  moreover have "trunc_ms (now + seconds v) \<le> r_IssuedAt r + 12 * 3600 * 1000000000"
    using t trunc_ms_le [of "now + seconds v"] by (simp add: twelve_hours_def)
  ultimately show ?thesis
    using r m by (intro exI [of _ ?r] exI [of _ ?m]) (simp add: scanReceipt_def scanMessage_def)
qed

theorem visibility_change_bounded_witness:
  "\<exists>x w'. changeVisibilityByReceiptHandle (sample_queue 1 ''jobs'' False []) ''h'' 30 7000000
      (sample_world (sample_delivery (sample_queue 1 ''jobs'' False []) (sample_message 1 1 [] 0)
         (sample_receipt 1 1 1 ''h'' 9000000)) 7000000) = (Inr x, w')
    \<and> (\<exists>r. db_ReceiptByHandle ''h'' (w_db w') = Some r \<and> r_VisibilityDeadline r = 30007000000)"
proof -
  let ?q = "sample_queue 1 ''jobs'' False []" and ?m = "sample_message 1 1 [] 0"
  let ?r = "sample_receipt 1 1 1 ''h'' 9000000"
  let ?w = "sample_world (sample_delivery ?q ?m ?r) 7000000"
  obtain x w' where d: "changeVisibilityByReceiptHandle ?q ''h'' 30 7000000 ?w = (Inr x, w')"
    by (simp add: changeVisibilityByReceiptHandle_def ReceiptByHandle_def db_ReceiptByHandle_def row_by_def
        sample_world_def sample_delivery_def sample_db_def sample_queue_def sample_receipt_def
        MessageByRowID_def db_MessageByRowID_def sample_message_def live_message_def UpdateMessage_def
        db_UpdateMessage_def queue_exists_def UpdateReceipt_def db_UpdateReceipt_def message_exists_def
        update_where_def scanReceipt_def InvalidateReceiveAttempts_def db_InvalidateReceiveAttempts_def
        orInternal_def run_mapErr run_bindE twelve_hours_def seconds_small Let_def)
  from visibility_change_bounded [OF d] d show ?thesis
    by (auto simp: seconds_small trunc_ms_def unixMilli_def)
qed

text \<open>
  C40. A receipt handle is only good for the queue it was issued on: on any other queue both
  operations answer \<open>ReceiptHandleIsInvalid\<close> and change nothing.
\<close>

theorem handle_of_other_queue_refused:
  assumes "\<forall>r. db_ReceiptByHandle h (w_db w) = Some r \<longrightarrow> r_QueueID r \<noteq> q_ID q"
    and "\<not> w_faults w (w_calls w)"
  shows "\<exists>w'. deleteByReceiptHandle q h now w = (Inl (EApi ErrReceiptHandleIsInvalid), w')
    \<and> changeVisibilityByReceiptHandle q h v now w = (Inl (EApi ErrReceiptHandleIsInvalid), w')
    \<and> w_db w' = w_db w"
  using assms
  by (cases "db_ReceiptByHandle h (w_db w)")
    (simp_all add: deleteByReceiptHandle_def changeVisibilityByReceiptHandle_def ReceiptByHandle_def
      orInternal_def run_mapErr run_bindE)

theorem handle_of_other_queue_refused_witness:
  "\<exists>w'. deleteByReceiptHandle (sample_queue 2 ''other'' False []) ''h'' 7
      (sample_world (sample_delivery (sample_queue 1 ''jobs'' False []) (sample_message 1 1 [] 0)
         (sample_receipt 1 1 1 ''h'' 9)) 7) = (Inl (EApi ErrReceiptHandleIsInvalid), w')"
  using handle_of_other_queue_refused [of "''h''" "sample_world (sample_delivery (sample_queue 1 ''jobs'' False [])
      (sample_message 1 1 [] 0) (sample_receipt 1 1 1 ''h'' 9)) 7" "sample_queue 2 ''other'' False []" 7 0]
  by (auto simp: sample_world_def sample_delivery_def db_ReceiptByHandle_def row_by_def sample_receipt_def
      sample_queue_def)

end
