(* ===== verification/Hoare.thy ===== *)
theory Hoare
  imports Lookup
begin

text \<open>
  What a handler does to the database, as weakest preconditions: \<open>wp m Q E d\<close> says that the
  program, started on the database \<open>d\<close> in any world, leaves a database with \<open>Q\<close> when it
  succeeds and one with \<open>E\<close> when it fails. The rules, one for each way to build a program, are
  collected in \<open>wp\<close>; the loops take an invariant about what is left to do.
\<close>

named_theorems wp \<open>weakest preconditions of programs\<close>

definition wp :: "(world, 'e, 'a) prog \<Rightarrow> ('a \<Rightarrow> db \<Rightarrow> bool) \<Rightarrow> ('e \<Rightarrow> db \<Rightarrow> bool) \<Rightarrow> db \<Rightarrow> bool" where
  "wp m Q E d \<longleftrightarrow> (\<forall>w r w'. w_db w = d \<longrightarrow> m w = (r, w') \<longrightarrow>
     (case r of Inr x \<Rightarrow> Q x (w_db w') | Inl e \<Rightarrow> E e (w_db w')))"

abbreviation always :: "'a \<Rightarrow> 'b \<Rightarrow> bool" where
  "always \<equiv> \<lambda>_ _. True"

lemma wpI:
  assumes "\<And>w x w'. w_db w = d \<Longrightarrow> m w = (Inr x, w') \<Longrightarrow> Q x (w_db w')"
    and "\<And>w e w'. w_db w = d \<Longrightarrow> m w = (Inl e, w') \<Longrightarrow> E e (w_db w')"
  shows "wp m Q E d"
  using assms by (simp add: wp_def split: sum.split)

lemma wp_Inr: "m w = (Inr x, w') \<Longrightarrow> wp m Q E (w_db w) \<Longrightarrow> Q x (w_db w')"
  unfolding wp_def by (metis sum.case(2))

lemma wp_Inl: "m w = (Inl e, w') \<Longrightarrow> wp m Q E (w_db w) \<Longrightarrow> E e (w_db w')"
  unfolding wp_def by (metis sum.case(1))

lemma wp_mono:
  assumes "wp m Q E d" and "\<And>x d'. Q x d' \<Longrightarrow> Q' x d'" and "\<And>e d'. E e d' \<Longrightarrow> E' e d'"
  shows "wp m Q' E' d"
  by (rule wpI) (use assms in \<open>auto dest: wp_Inr wp_Inl\<close>)

text \<open>A program that keeps a relation of the database.\<close>

lemma wp_steps:
  assumes "steps (dbrel R) m"
  shows "wp m (\<lambda>_. R d) (\<lambda>_. R d) d"
  by (rule wpI) (use stepsD [OF assms] in \<open>auto simp: dbrel_def\<close>)

lemma steps_wpI: "(\<And>d. wp m (\<lambda>_. R d) (\<lambda>_. R d) d) \<Longrightarrow> steps (dbrel R) m"
proof (rule stepsI)
  fix w r w'
  assume "\<And>d. wp m (\<lambda>_. R d) (\<lambda>_. R d) d" and "m w = (r, w')"
  then show "dbrel R w w'" by (cases r) (auto simp: dbrel_def dest: wp_Inr wp_Inl)
qed

lemma wp_same: "db_same m \<Longrightarrow> (\<And>x. Q x d) \<Longrightarrow> (\<And>e. E e d) \<Longrightarrow> wp m Q E d"
  by (rule wpI) (auto dest: db_sameD)

section \<open>Building blocks\<close>

lemma wp_ok [wp]: "Q x d \<Longrightarrow> wp (ok x) Q E d"
  by (simp add: wp_def)

lemma wp_throw [wp]: "E e d \<Longrightarrow> wp (throw e) Q E d"
  by (simp add: wp_def)

lemma wp_throwApi [wp]: "E (EApi e) d \<Longrightarrow> wp (throwApi e) Q E d"
  by (simp add: wp_def)

lemma wp_liftE [wp]: "(\<And>x. r = Inr x \<Longrightarrow> Q x d) \<Longrightarrow> (\<And>e. r = Inl e \<Longrightarrow> E e d) \<Longrightarrow> wp (liftE r) Q E d"
  by (auto simp: wp_def split: sum.split)

lemma wp_checkE [wp]:
  "(r = None \<Longrightarrow> Q () d) \<Longrightarrow> (\<And>e. r = Some e \<Longrightarrow> E e d) \<Longrightarrow> wp (checkE r) Q E d"
  by (cases r) (simp_all add: wp_def)

lemma wp_bindE [wp]: "wp m (\<lambda>x. wp (f x) Q E) E d \<Longrightarrow> wp (bindE m f) Q E d"
proof (rule wpI)
  fix w y w'
  assume "wp m (\<lambda>x. wp (f x) Q E) E d" "w_db w = d" "bindE m f w = (Inr y, w')"
  then show "Q y (w_db w')" by (auto elim!: bindE_Inr_cases dest: wp_Inr)
next
  fix w e w'
  assume "wp m (\<lambda>x. wp (f x) Q E) E d" "w_db w = d" "bindE m f w = (Inl e, w')"
  then show "E e (w_db w')" by (auto elim!: bindE_cases dest: wp_Inr wp_Inl)
qed

lemma wp_mapErr [wp]: "wp m Q (\<lambda>e. E (g e)) d \<Longrightarrow> wp (mapErr g m) Q E d"
  by (auto simp: wp_def run_mapErr split: prod.splits sum.splits)

lemma wp_orInternal [wp]: "wp m Q (\<lambda>e. E (internalError msg e)) d \<Longrightarrow> wp (orInternal msg m) Q E d"
  unfolding orInternal_def by (rule wp_mapErr)

lemma wp_attempt [wp]: "wp m (\<lambda>x. Q (Inr x)) (\<lambda>e. Q (Inl e)) d \<Longrightarrow> wp (attempt m) Q E d"
proof (rule wpI, goal_cases)
  case (1 w x w')
  then have "m w = (x, w')" by (cases "m w") (simp add: attempt_def)
  with 1(1,2) show ?case by (cases x) (auto dest: wp_Inr wp_Inl)
next
  case (2 w e w')
  then show ?case by (cases "m w") (simp add: attempt_def)
qed

lemma wp_nowE [wp]: "(\<And>t. Q t d) \<Longrightarrow> wp nowE Q E d"
  by (simp add: wp_def nowE_def)

lemma wp_newUUID [wp]: "(\<And>s. Q s d) \<Longrightarrow> wp newUUID Q E d"
  by (simp add: wp_def newUUID_def)

lemma wp_ctxDone [wp]: "(\<And>b. Q b d) \<Longrightarrow> wp ctxDone Q E d"
  by (simp add: wp_def ctxDone_def)

lemma wp_sqlE [wp]:
  "(\<And>x d'. f d = Inr (x, d') \<Longrightarrow> Q x d') \<Longrightarrow> (\<And>e. E e d) \<Longrightarrow> wp (sqlE f) Q E d"
  by (rule wpI) (auto dest: sqlE_Inr sqlE_Inl)

lemma wp_queryE [wp]: "Q (f d) d \<Longrightarrow> (\<And>e. E e d) \<Longrightarrow> wp (queryE f) Q E d"
  unfolding queryE_def by (rule wp_sqlE) auto

lemma wp_newReceiptHandle [wp]: "(\<And>h. Q h d) \<Longrightarrow> wp (newReceiptHandle q m) Q E d"
  unfolding newReceiptHandle_def randRead_def by (rule wpI)
    (auto simp: run_bindE newUUID_def split: option.splits if_splits prod.splits sum.splits)

lemma wp_newSequenceNumber [wp]: "(\<And>s. Q s d) \<Longrightarrow> wp newSequenceNumber Q E d"
  unfolding newSequenceNumber_def randRead_def by (rule wpI)
    (auto simp: run_bindE nowE_def split: option.splits if_splits prod.splits sum.splits)

section \<open>Branching\<close>

lemma wp_if [wp]: "(b \<Longrightarrow> wp m Q E d) \<Longrightarrow> (\<not> b \<Longrightarrow> wp k Q E d) \<Longrightarrow> wp (if b then m else k) Q E d"
  by simp

lemma wp_option [wp]:
  "(z = None \<Longrightarrow> wp m Q E d) \<Longrightarrow> (\<And>x. z = Some x \<Longrightarrow> wp (f x) Q E d) \<Longrightarrow>
   wp (case z of None \<Rightarrow> m | Some x \<Rightarrow> f x) Q E d"
  by (cases z) simp_all

lemma wp_sum [wp]:
  "(\<And>x. z = Inl x \<Longrightarrow> wp (f x) Q E d) \<Longrightarrow> (\<And>y. z = Inr y \<Longrightarrow> wp (g y) Q E d) \<Longrightarrow>
   wp (case z of Inl x \<Rightarrow> f x | Inr y \<Rightarrow> g y) Q E d"
  by (cases z) simp_all

lemma wp_prod [wp]: "(\<And>x y. z = (x, y) \<Longrightarrow> wp (f x y) Q E d) \<Longrightarrow> wp (case z of (x, y) \<Rightarrow> f x y) Q E d"
  by (cases z) simp

lemma wp_let [wp]: "(\<And>x. x = z \<Longrightarrow> wp (f x) Q E d) \<Longrightarrow> wp (Let z f) Q E d"
  by simp

section \<open>Loops\<close>

lemma wp_forE:
  assumes "I xs d" and "\<And>y ys d. I (y # ys) d \<Longrightarrow> wp (body y) (\<lambda>_. I ys) E d"
    and "\<And>d. I [] d \<Longrightarrow> Q () d"
  shows "wp (forE body xs) Q E d"
  using assms(1)
proof (induction xs arbitrary: d)
  case Nil
  then show ?case by (auto intro: wp assms(3) simp del: run_ok)
next
  case (Cons x xs)
  then show ?case by (auto intro!: wp intro: wp_mono [OF assms(2)] simp del: run_ok)
qed

lemma wp_foldE:
  assumes "I s xs d" and "\<And>s y ys d. I s (y # ys) d \<Longrightarrow> wp (body s y) (\<lambda>s'. I s' ys) E d"
    and "\<And>s d. I s [] d \<Longrightarrow> Q s d"
  shows "wp (foldE body s xs) Q E d"
  using assms(1)
proof (induction xs arbitrary: s d)
  case Nil
  then show ?case by (auto intro: wp assms(3) simp del: run_ok)
next
  case (Cons x xs)
  then show ?case by (auto intro!: wp intro: wp_mono [OF assms(2)] simp del: run_ok)
qed

lemma wp_mapE:
  assumes "I [] xs d" and "\<And>zs y ys d. I zs (y # ys) d \<Longrightarrow> wp (body y) (\<lambda>z. I (zs @ [z]) ys) E d"
    and "\<And>zs d. I zs [] d \<Longrightarrow> Q zs d"
  shows "wp (mapE body xs) Q E d"
proof -
  have "wp (mapE body xs) (\<lambda>zs'. I (zs @ zs') []) E d" if "I zs xs d" for zs
    using that
  proof (induction xs arbitrary: zs d)
    case Nil
    then show ?case by (auto intro: wp simp del: run_ok)
  next
    case (Cons x xs)
    have "wp (bindE (mapE body xs) (\<lambda>ys. ok (z # ys))) (\<lambda>zs'. I (zs @ zs') []) E d'"
      if "I (zs @ [z]) xs d'" for z d'
      using Cons.IH [OF that] by (auto intro!: wp intro: wp_mono simp del: run_ok)
    with wp_mono [OF assms(2) [OF Cons.prems] this] show ?case by (auto intro!: wp_bindE)
  qed
  from this [of "[]"] assms(1) show ?thesis by (auto intro: wp_mono assms(3))
qed

section \<open>Lookups\<close>

lemma wp_lookupQueueByURL [wp]:
  assumes "\<And>q. db_QueueByURL url d = Some q \<Longrightarrow> q_DeletedAt q = None \<Longrightarrow> Q q d" and "\<And>e. E e d"
  shows "wp (lookupQueueByURL url) Q E d"
  unfolding lookupQueueByURL_def QueueByURL_def by (intro wp) (use assms in auto)

lemma wp_lookupQueueByARN [wp]:
  assumes "\<And>q. db_QueueByARN arn d = Some q \<Longrightarrow> q_DeletedAt q = None \<Longrightarrow> Q q d" and "\<And>e. E e d"
  shows "wp (lookupQueueByARN arn) Q E d"
  unfolding lookupQueueByARN_def QueueByARN_def by (intro wp) (use assms in auto)

lemma wp_lookupQueueForRequest [wp]:
  assumes "\<And>q. db_QueueByURL (queueURLFromRequest cfg req) d = Some q \<Longrightarrow> q_DeletedAt q = None \<Longrightarrow> Q q d"
    and "\<And>e. E e d"
  shows "wp (lookupQueueForRequest cfg req) Q E d"
  unfolding lookupQueueForRequest_def Let_def by (intro wp) (use assms in auto)

lemma wp_ensureQueueReady [wp]:
  assumes "q_DeletedAt q = None \<Longrightarrow> q_AvailableAt q \<le> now \<Longrightarrow> Q () d" and "\<And>e. E e d"
  shows "wp (ensureQueueReady q now) Q E d"
  unfolding ensureQueueReady_def by (intro wp) (use assms in auto)

end
