(* ===== verification/QueueOps.thy ===== *)
theory QueueOps
  imports Integrity Delivery Hoare
begin

text \<open>
  The queue operations of \<open>internal/service/sqs.go\<close>, from \<open>CreateQueue\<close> to \<open>PurgeQueue\<close>, with
  the counters of \<open>materializeQueueAttributes\<close> in \<open>internal/service/messages.go\<close>. The service's
  \<open>ListQueues\<close> is \<open>svc_ListQueues\<close>, because the store's method has that name already.
\<close>

section \<open>CreateQueue\<close>

text \<open>The attributes that a request asks for: the defaults, overwritten by what is given.\<close>

definition normalized_patch :: "gmap \<Rightarrow> strmap" where
  "normalized_patch input = map (\<lambda>(k, v). (k, normalizePolicyJSON v)) (stringMapValue input ''Attributes'')"

definition requested_attributes :: "gmap \<Rightarrow> strmap" where
  "requested_attributes input = mcopy defaultQueueAttributes (normalized_patch input)"

definition new_queue :: "config \<Rightarrow> string \<Rightarrow> string \<Rightarrow> strmap \<Rightarrow> gotime \<Rightarrow> queue" where
  "new_queue cfg acc name attrs now =
     (let arn = queueARN cfg acc name in
      \<lparr>q_ID = 0, q_AccountID = acc, q_Region = cfg_Region cfg, q_Name = name,
       q_URL = queueURL cfg acc name, q_ARN = arn, q_FIFO = (sget attrs ''FifoQueue'' = ''true''),
       q_Attributes = mput (mput (mput attrs ''QueueArn'' arn)
         ''CreatedTimestamp'' (formatInt (unixSec now))) ''LastModifiedTimestamp'' (formatInt (unixSec now)),
       q_CreatedAt = now, q_AvailableAt = now + cfg_CreatePropagation cfg, q_LastModifiedAt = now,
       q_DeletedAt = None, q_ReuseBlockedTill = None, q_PurgeRequestedAt = None, q_PurgeExpiresAt = None\<rparr>)"

definition queue_url_output :: "string \<Rightarrow> gmap" where
  "queue_url_output url = [(''QueueUrl'', GStr url)]"

definition insert_queue :: "queue \<Rightarrow> gmap handler" where
  "insert_queue q =
     bindE (orInternal ''failed to create queue'' (InsertQueue q)) (\<lambda>created.
     ok (queue_url_output (q_URL created)))"

text \<open>
  \<open>fmt.Errorf("queue name %q", name)\<close> is only ever logged; its text is not spelled out.
\<close>

definition CreateQueue :: "config \<Rightarrow> request \<Rightarrow> gmap handler" where
  "CreateQueue cfg req =
     bindE nowE (\<lambda>now.
     seqE (orInternal ''failed to apply queue mutations'' (ApplyDueQueueMutations now))
    (let name = stringValue (rq_Input req) ''QueueName'';
         acc = i_AccountID (rq_Identity req);
         attrs = requested_attributes (rq_Input req)
     in if \<not> validQueueName name then
          throwApi (WithCause (api_New ''InvalidParameterValue'' 400
            ''Value for parameter QueueName is invalid. Must be 1 to 80 alphanumeric characters, hyphen, or underscore.'')
            (''queue name '' @ name))
        else
     seqE (checkE (validateQueueAttributes name attrs))
    (bindE (orInternal ''failed to lookup queue'' (QueueByName acc (cfg_Region cfg) name)) (\<lambda>found.
     case found of
       None \<Rightarrow> insert_queue (new_queue cfg acc name attrs now)
     | Some existing \<Rightarrow>
         if q_DeletedAt existing \<noteq> None \<and> (\<exists>t \<in> set_option (q_ReuseBlockedTill existing). now < t) then
           throwApi ErrQueueDeletedRecently
         else if q_DeletedAt existing \<noteq> None then
           seqE (orInternal ''failed to clear queue tombstone'' (DeleteQueueRow (q_ID existing)))
                (insert_queue (new_queue cfg acc name attrs now))
         else if \<not> queueAttributesEquivalent existing attrs then throwApi ErrQueueNameExists
         else ok (queue_url_output (q_URL existing))))))"

section \<open>DeleteQueue, GetQueueURL and PurgeQueue\<close>

text \<open>\<open>queue.LastModifiedAt = now\<close> and the attribute that shows it\<close>

definition touch_queue :: "gotime \<Rightarrow> queue \<Rightarrow> queue" where
  "touch_queue now q = q\<lparr>q_LastModifiedAt := now,
     q_Attributes := mput (q_Attributes q) ''LastModifiedTimestamp'' (formatInt (unixSec now))\<rparr>"

definition DeleteQueue :: "config \<Rightarrow> request \<Rightarrow> gmap handler" where
  "DeleteQueue cfg req =
     bindE (lookupQueueForRequest cfg req) (\<lambda>q.
     bindE nowE (\<lambda>now.
     seqE (orInternal ''failed to delete queue''
            (UpdateQueue ((touch_queue now q)\<lparr>q_DeletedAt := Some now,
               q_ReuseBlockedTill := Some (now + cfg_DeleteCooldown cfg)\<rparr>)))
    (ok [])))"

definition GetQueueURL :: "config \<Rightarrow> request \<Rightarrow> gmap handler" where
  "GetQueueURL cfg req =
     bindE (orInternal ''failed to lookup queue''
       (QueueByName (i_AccountID (rq_Identity req)) (cfg_Region cfg) (stringValue (rq_Input req) ''QueueName'')))
     (\<lambda>found. case found of
        None \<Rightarrow> throwApi ErrQueueDoesNotExist
      | Some q \<Rightarrow> if q_DeletedAt q \<noteq> None then throwApi ErrQueueDoesNotExist
                  else ok (queue_url_output (q_URL q)))"

definition PurgeQueue :: "config \<Rightarrow> request \<Rightarrow> gmap handler" where
  "PurgeQueue cfg req =
     bindE (lookupQueueForRequest cfg req) (\<lambda>q.
     bindE nowE (\<lambda>now.
     if \<exists>t \<in> set_option (q_PurgeExpiresAt q). now < t then throwApi ErrPurgeQueueInProgress
     else
       seqE (orInternal ''failed to purge queue''
              (UpdateQueue ((touch_queue now q)\<lparr>q_PurgeRequestedAt := Some now,
                 q_PurgeExpiresAt := Some (now + cfg_PurgeCooldown cfg)\<rparr>)))
      (ok [])))"

section \<open>Lists of queues\<close>

text \<open>
  The page that starts at an offset, and the token of the next one. Slicing from a negative
  offset panics.
\<close>

definition page_of :: "string list \<Rightarrow> int \<Rightarrow> int \<Rightarrow> goerr + string list \<times> string" where
  "page_of urls offset maxResults =
     (let offset = (if int (length urls) < offset then int (length urls) else offset)
      in if offset < 0 then Inl (EPanic ''slice bounds out of range'')
         else (let page = drop (nat offset) urls
               in if 0 < maxResults \<and> maxResults < int (length page)
                  then Inr (take (nat maxResults) page, encodeNextToken (offset + maxResults))
                  else Inr (page, [])))"

definition page_output :: "string \<Rightarrow> string list \<times> string \<Rightarrow> gmap" where
  "page_output key r = (case r of (page, nextToken) \<Rightarrow>
     (key, GList (toAnySlice page)) # (if nextToken \<noteq> [] then [(''NextToken'', GStr nextToken)] else []))"

text \<open>The two numbers that a request for a page gives.\<close>

definition page_request :: "gmap \<Rightarrow> goerr + int \<times> int" where
  "page_request input =
     (case int64Value input ''MaxResults'' 0 of
        Inl e \<Rightarrow> Inl (EApi (WithCause (api_New ''InvalidParameterValue'' 400
                   ''MaxResults must be a valid integer.'') e))
      | Inr maxResults \<Rightarrow>
          (case decodeNextToken (stringValue input ''NextToken'') of
             Inl e \<Rightarrow> Inl (EApi (WithCause (api_New ''InvalidParameterValue'' 400
                   ''The specified next token is invalid.'') e))
           | Inr offset \<Rightarrow> Inr (maxResults, offset)))"

definition live_urls :: "queue list \<Rightarrow> string list" where
  "live_urls qs = map q_URL (filter (\<lambda>q. q_DeletedAt q = None) qs)"

definition svc_ListQueues :: "config \<Rightarrow> request \<Rightarrow> gmap handler" where
  "svc_ListQueues cfg req =
     bindE nowE (\<lambda>now.
     seqE (orInternal ''failed to apply queue mutations'' (ApplyDueQueueMutations now))
    (bindE (liftE (page_request (rq_Input req))) (\<lambda>(maxResults, offset).
     bindE (orInternal ''failed to list queues''
       (ListQueues (i_AccountID (rq_Identity req)) (cfg_Region cfg) (stringValue (rq_Input req) ''QueueNamePrefix'')))
     (\<lambda>queues.
     bindE (liftE (page_of (live_urls queues) offset maxResults)) (\<lambda>r.
     ok (page_output ''QueueUrls'' r))))))"

definition ListDeadLetterSourceQueues :: "config \<Rightarrow> request \<Rightarrow> gmap handler" where
  "ListDeadLetterSourceQueues cfg req =
     bindE (lookupQueueForRequest cfg req) (\<lambda>q.
     bindE (liftE (page_request (rq_Input req))) (\<lambda>(maxResults, offset).
     bindE (orInternal ''failed to list DLQ sources'' (ListQueuesByRedriveTarget (q_ARN q))) (\<lambda>queues.
     bindE (liftE (page_of (sort (live_urls queues)) offset maxResults)) (\<lambda>r.
     ok (page_output ''queueUrls'' r)))))"

section \<open>Attributes\<close>

text \<open>The counts of visible, hidden and delayed messages, as the switch tells them apart.\<close>

definition count_step :: "gotime \<Rightarrow> message \<Rightarrow> nat \<times> nat \<times> nat \<Rightarrow> nat \<times> nat \<times> nat" where
  "count_step now m counts =
     (case counts of (visible, notVisible, delayed) \<Rightarrow>
      if m_DeletedAt m \<noteq> None \<or> \<not> now < m_RetentionDeadline m then counts
      else if now < m_AvailableAt m then (visible, notVisible, delayed + 1)
      else if in_flight now m then (visible, notVisible + 1, delayed)
      else (visible + 1, notVisible, delayed))"

definition message_counts :: "gotime \<Rightarrow> message list \<Rightarrow> nat \<times> nat \<times> nat" where
  "message_counts now ms = fold (count_step now) ms (0, 0, 0)"

definition materializeQueueAttributes :: "queue \<Rightarrow> gotime \<Rightarrow> strmap handler" where
  "materializeQueueAttributes q now =
     bindE (orInternal ''failed to list queue messages for attributes'' (ListMessagesByQueue (q_ID q))) (\<lambda>messages.
     case message_counts now messages of (visible, notVisible, delayed) \<Rightarrow>
     ok (mput (mput (mput (materialized_static q)
           ''ApproximateNumberOfMessages'' (formatInt (int visible)))
           ''ApproximateNumberOfMessagesNotVisible'' (formatInt (int notVisible)))
           ''ApproximateNumberOfMessagesDelayed'' (formatInt (int delayed))))"

definition selected_attributes :: "string list \<Rightarrow> strmap \<Rightarrow> strmap" where
  "selected_attributes names attrs =
     (let requested = (if names = [] then [''All''] else names)
      in if containsFold requested ''All'' then mcopy [] attrs else pick_strings attrs requested [])"

definition GetQueueAttributes :: "config \<Rightarrow> request \<Rightarrow> gmap handler" where
  "GetQueueAttributes cfg req =
     bindE (lookupQueueForRequest cfg req) (\<lambda>q.
     bindE nowE (\<lambda>t.
     seqE (orInternal ''failed to apply queue mutations'' (ApplyDueQueueMutations t))
    (bindE (lookupQueueByURL (q_URL q)) (\<lambda>q'.
     bindE nowE (\<lambda>now.
     bindE (materializeQueueAttributes q' now) (\<lambda>attrs.
     ok [(''Attributes'', GMap (stringMapToAny
           (selected_attributes (stringSliceValue (rq_Input req) ''AttributeNames'') attrs)))]))))))"

definition SetQueueAttributes :: "config \<Rightarrow> request \<Rightarrow> gmap handler" where
  "SetQueueAttributes cfg req =
     bindE (lookupQueueForRequest cfg req) (\<lambda>q.
     let patch = stringMapValue (rq_Input req) ''Attributes'' in
     if patch = [] then ok []
     else
       seqE (checkE (validateQueueAttributes (q_Name q)
              (mcopy (q_Attributes q) (normalized_patch (rq_Input req)))))
      (bindE nowE (\<lambda>now.
       seqE (orInternal ''failed to update queue metadata'' (UpdateQueue (touch_queue now q)))
      (seqE (orInternal ''failed to save pending attributes''
              (SavePendingAttributes (q_ID q) patch
                (now + (if onlyRetention patch then cfg_RetentionPropagation cfg
                        else cfg_AttributePropagation cfg)) now))
      (ok [])))))"

section \<open>Tags\<close>

definition TagQueue :: "config \<Rightarrow> request \<Rightarrow> gmap handler" where
  "TagQueue cfg req =
     bindE (lookupQueueForRequest cfg req) (\<lambda>q.
     bindE (orInternal ''failed to list tags'' (ListTags (q_ID q))) (\<lambda>current.
     seqE (orInternal ''failed to store tags''
            (ReplaceTags (q_ID q) (mcopy current (stringMapValue (rq_Input req) ''Tags''))))
    (ok [])))"

definition UntagQueue :: "config \<Rightarrow> request \<Rightarrow> gmap handler" where
  "UntagQueue cfg req =
     bindE (lookupQueueForRequest cfg req) (\<lambda>q.
     seqE (orInternal ''failed to remove tags'' (DeleteTags (q_ID q) (stringSliceValue (rq_Input req) ''TagKeys'')))
    (ok []))"

definition ListQueueTags :: "config \<Rightarrow> request \<Rightarrow> gmap handler" where
  "ListQueueTags cfg req =
     bindE (lookupQueueForRequest cfg req) (\<lambda>q.
     bindE (orInternal ''failed to list tags'' (ListTags (q_ID q))) (\<lambda>tags.
     ok [(''Tags'', GMap (stringMapToAny tags))]))"

section \<open>Permissions\<close>

text \<open>The statements of a policy without the one of a label.\<close>

definition statements_of :: "gmap \<Rightarrow> gval list" where
  "statements_of policy = (case mget policy ''Statement'' of Some (GList s) \<Rightarrow> s | _ \<Rightarrow> [])"

definition without_label :: "string \<Rightarrow> gval list \<Rightarrow> gval list" where
  "without_label label statements = filter (\<lambda>s. stringValue (as_map s) ''Sid'' \<noteq> label) statements"

definition allow_statement :: "string \<Rightarrow> string list \<Rightarrow> string list \<Rightarrow> string \<Rightarrow> gval" where
  "allow_statement label accounts actions arn =
     GMap [(''Sid'', GStr label), (''Effect'', GStr ''Allow''),
       (''Principal'', GMap [(''AWS'', GList (toAnySlice accounts))]),
       (''Action'', GList (toAnySlice (map (\<lambda>a. ''sqs:'' @ a) actions))), (''Resource'', GStr arn)]"

definition initial_policy :: "string \<Rightarrow> gmap" where
  "initial_policy arn = [(''Version'', GStr ''2012-10-17''),
     (''Id'', GStr (arn @ ''/SQSDefaultPolicy'')), (''Statement'', GList [])]"

definition add_statement :: "queue \<Rightarrow> string \<Rightarrow> string list \<Rightarrow> string list \<Rightarrow> gmap option \<Rightarrow> gmap" where
  "add_statement q label accounts actions document =
     (let policy = (case document of None \<Rightarrow> initial_policy (q_ARN q)
                    | Some p \<Rightarrow> if p = [] then initial_policy (q_ARN q) else p)
      in mput policy ''Statement'' (GList (without_label label (statements_of policy)
           @ [allow_statement label accounts actions (q_ARN q)])))"

text \<open>\<open>json.Marshal\<close> cannot fail on a document that was decoded from JSON.\<close>

definition store_policy :: "queue \<Rightarrow> gmap \<Rightarrow> gmap handler" where
  "store_policy q policy =
     bindE nowE (\<lambda>now.
     seqE (orInternal ''failed to update queue''
            (UpdateQueue (touch_queue now (q\<lparr>q_Attributes :=
               mput (q_Attributes q) ''Policy'' (json_marshal (GMap policy))\<rparr>))))
    (ok []))"

definition AddPermission :: "config \<Rightarrow> request \<Rightarrow> gmap handler" where
  "AddPermission cfg req =
     bindE (lookupQueueForRequest cfg req) (\<lambda>q.
     let label = stringValue (rq_Input req) ''Label'';
         accounts = stringSliceValue (rq_Input req) ''AWSAccountIds'';
         actions = stringSliceValue (rq_Input req) ''Actions''
     in if \<not> chars_between word_char 1 80 label then
          throw (invalidParameter ''Value for parameter Label is invalid.'')
        else if 7 < length actions then
          throw (badRequest ''OverLimit'' ''An Amazon SQS policy can have a maximum of seven actions per statement.'')
        else (case parseJSONDocument (sget (q_Attributes q) ''Policy'') of
                Inl e \<Rightarrow> throwApi (WithCause ErrInvalidAttributeValue e)
              | Inr document \<Rightarrow> store_policy q (add_statement q label accounts actions document)))"

text \<open>A policy that is the document \<open>null\<close> is the nil map, and the assignment to it panics.\<close>

definition RemovePermission :: "config \<Rightarrow> request \<Rightarrow> gmap handler" where
  "RemovePermission cfg req =
     bindE (lookupQueueForRequest cfg req) (\<lambda>q.
     let label = stringValue (rq_Input req) ''Label''
     in if label = [] then throw (invalidParameter ''Value for parameter Label is invalid.'')
        else (case parseJSONDocument (sget (q_Attributes q) ''Policy'') of
                Inl e \<Rightarrow> throwApi (WithCause ErrInvalidAttributeValue e)
              | Inr None \<Rightarrow> throw (EPanic ''assignment to entry in nil map'')
              | Inr (Some policy) \<Rightarrow>
                  store_policy q (mput policy ''Statement''
                    (GList (without_label label (statements_of policy))))))"

section \<open>The queue operations keep the contract\<close>

lemmas queue_operations = insert_queue_def CreateQueue_def DeleteQueue_def GetQueueURL_def PurgeQueue_def
  svc_ListQueues_def ListDeadLetterSourceQueues_def materializeQueueAttributes_def GetQueueAttributes_def
  SetQueueAttributes_def TagQueue_def UntagQueue_def ListQueueTags_def store_policy_def
  AddPermission_def RemovePermission_def

context queue_plane
begin

lemma steps_queue_operations [effects]:
  "steps (dbrel R) (CreateQueue cfg req)" "steps (dbrel R) (DeleteQueue cfg req)"
  "steps (dbrel R) (GetQueueURL cfg req)" "steps (dbrel R) (PurgeQueue cfg req)"
  "steps (dbrel R) (svc_ListQueues cfg req)" "steps (dbrel R) (ListDeadLetterSourceQueues cfg req)"
  "steps (dbrel R) (GetQueueAttributes cfg req)" "steps (dbrel R) (SetQueueAttributes cfg req)"
  "steps (dbrel R) (TagQueue cfg req)" "steps (dbrel R) (UntagQueue cfg req)"
  "steps (dbrel R) (ListQueueTags cfg req)" "steps (dbrel R) (AddPermission cfg req)"
  "steps (dbrel R) (RemovePermission cfg req)"
  unfolding queue_operations by (intro effects)+

end

section \<open>What the queue operations do\<close>

lemma mget_touch [simp]:
  "q_ID (touch_queue now q) = q_ID q" "q_URL (touch_queue now q) = q_URL q" "q_Name (touch_queue now q) = q_Name q"
  "q_AccountID (touch_queue now q) = q_AccountID q" "q_Region (touch_queue now q) = q_Region q"
  "q_ARN (touch_queue now q) = q_ARN q" "q_FIFO (touch_queue now q) = q_FIFO q"
  by (simp_all add: touch_queue_def)

lemma fold_count_step:
  "fold (count_step now) ms (a, b, c) =
     (a + length (filter (\<lambda>m. messageVisible m now) ms),
      b + length (filter (\<lambda>m. message_live now m \<and> m_AvailableAt m \<le> now \<and> in_flight now m) ms),
      c + length (filter (\<lambda>m. message_live now m \<and> now < m_AvailableAt m) ms))"
  by (induction ms arbitrary: a b c)
    (auto simp: count_step_def messageVisible_def message_live_def in_flight_def)

lemma length_partition3:
  "length (filter P ms) + (length (filter Q ms) + length (filter R ms)) = length (filter S ms)"
  if "\<And>m. S m = (P m \<or> Q m \<or> R m)" "\<And>m. \<not> (P m \<and> Q m)" "\<And>m. \<not> (P m \<and> R m)" "\<And>m. \<not> (Q m \<and> R m)"
  using that by (induction ms) auto

lemma message_counts_eq:
  "message_counts now ms =
     (length (filter (\<lambda>m. messageVisible m now) ms),
      length (filter (\<lambda>m. message_live now m \<and> m_AvailableAt m \<le> now \<and> in_flight now m) ms),
      length (filter (\<lambda>m. message_live now m \<and> now < m_AvailableAt m) ms))"
  by (simp add: message_counts_def fold_count_step)

text \<open>
  C27. The counters that \<open>GetQueueAttributes\<close> shows divide the live messages of the queue: those a
  receiver could get now, those in flight, and those still delayed, each counted once.
\<close>

theorem counters_partition_messages:
  assumes "materializeQueueAttributes q now w = (Inr attrs, w')"
  shows "\<exists>v h c. sget attrs ''ApproximateNumberOfMessages'' = formatInt (int v)
    \<and> sget attrs ''ApproximateNumberOfMessagesNotVisible'' = formatInt (int h)
    \<and> sget attrs ''ApproximateNumberOfMessagesDelayed'' = formatInt (int c)
    \<and> v = length (filter (\<lambda>m. messageVisible m now) (db_ListMessagesByQueue (q_ID q) (w_db w)))
    \<and> h = length (filter (\<lambda>m. message_live now m \<and> m_AvailableAt m \<le> now \<and> in_flight now m)
        (db_ListMessagesByQueue (q_ID q) (w_db w)))
    \<and> v + (h + c) = length (liveMessages (db_ListMessagesByQueue (q_ID q) (w_db w)) now)"
proof -
  let ?ms = "db_ListMessagesByQueue (q_ID q) (w_db w)"
  let ?h = "length (filter (\<lambda>m. message_live now m \<and> m_AvailableAt m \<le> now \<and> in_flight now m) ?ms)"
  let ?c = "length (filter (\<lambda>m. message_live now m \<and> now < m_AvailableAt m) ?ms)"
  have "wp (materializeQueueAttributes q now) (\<lambda>attrs _.
      sget attrs ''ApproximateNumberOfMessages'' = formatInt (int (length (filter (\<lambda>m. messageVisible m now) ?ms)))
    \<and> sget attrs ''ApproximateNumberOfMessagesNotVisible'' = formatInt (int ?h)
    \<and> sget attrs ''ApproximateNumberOfMessagesDelayed'' = formatInt (int ?c)) always (w_db w)"
    unfolding materializeQueueAttributes_def ListMessagesByQueue_def
    by (intro wp) (simp_all add: message_counts_eq)
  note counts = wp_Inr [OF assms this]
  have "length (filter (\<lambda>m. messageVisible m now) ?ms) + (?h + ?c) = length (liveMessages ?ms now)"
    unfolding liveMessages_def length_sort
    by (rule length_partition3) (auto simp: messageVisible_def message_live_def in_flight_def)
  with counts show ?thesis by blast
qed

theorem counters_partition_messages_witness:
  "\<exists>attrs w'. materializeQueueAttributes (sample_queue 1 ''a'' False []) 5
      (sample_world (sample_delivery (sample_queue 1 ''a'' False []) (sample_message 1 1 [] 0)
        (sample_receipt 1 1 1 ''h'' 0)) 5) = (Inr attrs, w')
    \<and> sget attrs ''ApproximateNumberOfMessages'' = formatInt 1"
proof -
  let ?q = "sample_queue 1 ''a'' False []" and ?m = "sample_message 1 1 [] 0"
  let ?w = "sample_world (sample_delivery ?q ?m (sample_receipt 1 1 1 ''h'' 0)) 5"
  obtain attrs w' where r: "materializeQueueAttributes ?q 5 ?w = (Inr attrs, w')"
    by (simp add: materializeQueueAttributes_def ListMessagesByQueue_def run_bindE sample_world_def message_counts_eq)
  have ms: "db_ListMessagesByQueue 1 (w_db ?w) = [?m]"
    by (simp add: db_ListMessagesByQueue_def sample_world_def sample_delivery_def sample_message_def)
  have "messageVisible ?m 5" by (simp add: messageVisible_def message_live_def in_flight_def sample_message_def)
  with counters_partition_messages [OF r] ms have "sget attrs ''ApproximateNumberOfMessages'' = formatInt 1"
    by (auto simp: sample_queue_def)
  with r show ?thesis by blast
qed


section \<open>Pages\<close>

text \<open>All pages, each request with the token of the answer before; the fuel bounds their number.\<close>

fun follow_pages :: "nat \<Rightarrow> config \<Rightarrow> request \<Rightarrow> string \<Rightarrow> gval list option handler" where
  "follow_pages 0 cfg req token = ok None"
| "follow_pages (Suc n) cfg req token =
     bindE (svc_ListQueues cfg (req\<lparr>rq_Input := mput (rq_Input req) ''NextToken'' (GStr token)\<rparr>)) (\<lambda>out.
     case (mget out ''QueueUrls'', mget out ''NextToken'') of
       (Some (GList page), None) \<Rightarrow> ok (Some page)
     | (Some (GList page), Some (GStr next)) \<Rightarrow>
         bindE (follow_pages n cfg req next) (\<lambda>rest. ok (map_option ((@) page) rest))
     | _ \<Rightarrow> ok None)"

lemma int64Value_mput [simp]: "k \<noteq> key \<Longrightarrow> int64Value (mput m k v) key n = int64Value m key n"
  by (simp add: int64Value_def)

lemma stringValue_mput: "stringValue (mput m k v) key = (if k = key then stringValue [(key, v)] key else stringValue m key)"
  by (simp add: stringValue_def)

lemma ApplyDue_none: "d_pending d = [] \<Longrightarrow> db_ApplyDueQueueMutations now d = Inr ((), d)"
  by (simp add: db_ApplyDueQueueMutations_def due_patches_def)

lemma encodeNextToken_Nil [simp]: "encodeNextToken n = [] \<longleftrightarrow> n \<le> 0"
proof -
  have "rawURLEncode (formatInt n) \<noteq> []"
  proof
    assume e: "rawURLEncode (formatInt n) = []"
    have "rawURLEncode [] = []" by simp
    with e have "rawURLDecode (rawURLEncode (formatInt n)) = rawURLDecode (rawURLEncode [])" by simp
    then show False unfolding rawURLDecode_encode by simp
  qed
  then show ?thesis by (simp add: encodeNextToken_def)
qed

text \<open>One request on a store that answers, when no attribute change is pending.\<close>

lemma svc_ListQueues_page:
  assumes "healthy w" and "d_pending (w_db w) = []"
    and "int64Value (rq_Input req) ''MaxResults'' 0 = Inr k" and "decodeNextToken token = Inr offset"
    and "0 \<le> offset"
    and "urls = live_urls (db_ListQueues (i_AccountID (rq_Identity req)) (cfg_Region cfg)
      (stringValue (rq_Input req) ''QueueNamePrefix'') (w_db w))"
  shows "\<exists>w' r. svc_ListQueues cfg (req\<lparr>rq_Input := mput (rq_Input req) ''NextToken'' (GStr token)\<rparr>) w =
      (Inr (page_output ''QueueUrls'' r), w') \<and> page_of urls offset k = Inr r
    \<and> w_db w' = w_db w \<and> healthy w'"
proof -
  have p: "page_of urls offset k = Inr (THE r. page_of urls offset k = Inr r)"
    using assms(5) by (auto simp: page_of_def Let_def)
  then obtain r where r: "page_of urls offset k = Inr r" by blast
  show ?thesis
    using assms r
    by (cases r) (simp add: svc_ListQueues_def ApplyDueQueueMutations_def ApplyDue_none page_request_def
        stringValue_mput ListQueues_def run_bindE)
qed

lemma page_of_cases:
  assumes "page_of urls offset k = Inr (page, nxt)" and "1 \<le> k" and "0 \<le> offset"
  shows "(nxt = [] \<and> page = drop (nat offset) urls) \<or>
    (nxt = encodeNextToken (offset + k) \<and> offset + k < int (length urls) \<and> nxt \<noteq> []
      \<and> page = take (nat k) (drop (nat offset) urls))"
  using assms by (auto simp: page_of_def Let_def split: if_splits)

lemma follow_pages_complete:
  assumes "healthy w" and "d_pending (w_db w) = []"
    and "int64Value (rq_Input req) ''MaxResults'' 0 = Inr k" and "1 \<le> k"
    and "decodeNextToken token = Inr offset" and "0 \<le> offset"
    and "urls = live_urls (db_ListQueues (i_AccountID (rq_Identity req)) (cfg_Region cfg)
      (stringValue (rq_Input req) ''QueueNamePrefix'') (w_db w))"
    and "int (length urls) < 2 ^ 63" and "length urls < n + nat offset" and "0 < n"
  shows "\<exists>w'. follow_pages n cfg req token w = (Inr (Some (toAnySlice (drop (nat offset) urls))), w')
    \<and> w_db w' = w_db w"
  using assms
proof (induction n arbitrary: w token offset)
  case (Suc n)
  obtain page nxt w1 where
    s: "svc_ListQueues cfg (req\<lparr>rq_Input := mput (rq_Input req) ''NextToken'' (GStr token)\<rparr>) w =
      (Inr (page_output ''QueueUrls'' (page, nxt)), w1)"
    and p: "page_of urls offset k = Inr (page, nxt)" and w1: "w_db w1 = w_db w" "healthy w1"
    using svc_ListQueues_page [OF Suc.prems(1-3,5-7)] by auto
  from page_of_cases [OF p Suc.prems(4,6)] show ?case
  proof
    assume "nxt = [] \<and> page = drop (nat offset) urls"
    with s w1 show ?thesis by (simp add: page_output_def)
  next
    assume c: "nxt = encodeNextToken (offset + k) \<and> offset + k < int (length urls) \<and> nxt \<noteq> []
      \<and> page = take (nat k) (drop (nat offset) urls)"
    have d: "decodeNextToken nxt = Inr (offset + k)"
      using c Suc.prems(4,6,8) by (simp add: decodeNextToken_def encodeNextToken_def parseInt_formatInt int64_range_def)
    have "0 < n" using c Suc.prems(4,6,9) by linarith
    moreover have "length urls < n + nat (offset + k)" using Suc.prems(4,6,9) by linarith
    moreover have "0 \<le> offset + k" using Suc.prems(4,6) by simp
    ultimately obtain w2 where f: "follow_pages n cfg req nxt w1 =
        (Inr (Some (toAnySlice (drop (nat (offset + k)) urls))), w2)" "w_db w2 = w_db w1"
      using Suc.IH [OF w1(2) _ Suc.prems(3,4) d _ _ Suc.prems(8)] Suc.prems(2,7) w1(1) by auto
    have "nat (offset + k) = nat k + nat offset" using Suc.prems(4,6) by simp
    then have "page @ drop (nat (offset + k)) urls = drop (nat offset) urls"
      using c by (simp add: append_take_drop_id flip: drop_drop)
    then have "toAnySlice page @ toAnySlice (drop (nat (offset + k)) urls) = toAnySlice (drop (nat offset) urls)"
      by (simp add: toAnySlice_def flip: map_append)
    with s w1 f c Suc.prems(4,6) show ?thesis by (simp add: page_output_def)
  qed
qed simp

text \<open>
  C25. Listing queues by pages is complete: when the store answers and no queue changes in
  between, following the tokens from the first page gives every live queue of the account and
  prefix exactly once and in the order of the names, after at most one request more than there
  are queues.
\<close>

theorem listing_pages_complete:
  assumes "healthy w" and "d_pending (w_db w) = []"
    and "int64Value (rq_Input req) ''MaxResults'' 0 = Inr k" and "1 \<le> k"
    and "urls = live_urls (db_ListQueues (i_AccountID (rq_Identity req)) (cfg_Region cfg)
      (stringValue (rq_Input req) ''QueueNamePrefix'') (w_db w))"
    and "int (length urls) < 2 ^ 63"
  shows "\<exists>w'. follow_pages (Suc (length urls)) cfg req [] w = (Inr (Some (toAnySlice urls)), w')
    \<and> w_db w' = w_db w"
  using follow_pages_complete [OF assms(1-4) _ _ assms(5,6), of "[]" 0 "Suc (length urls)"]
  by (simp add: decodeNextToken_def)

theorem listing_pages_complete_witness:
  "\<exists>w'. follow_pages 2 sample_config (sample_request ''ListQueues'' [(''MaxResults'', GInt 1)]) []
      (sample_world (sample_db (sample_queue 1 ''a'' False [])) 5) =
    (Inr (Some [GStr ''http://h/0/a'']), w')"
proof -
  let ?w = "sample_world (sample_db (sample_queue 1 ''a'' False [])) 5"
  let ?r = "sample_request ''ListQueues'' [(''MaxResults'', GInt 1)]"
  have "live_urls (db_ListQueues (i_AccountID (rq_Identity ?r)) (cfg_Region sample_config)
      (stringValue (rq_Input ?r) ''QueueNamePrefix'') (w_db ?w)) = [''http://h/0/a'']"
    by (simp add: db_ListQueues_def sample_world_def sample_db_def sample_queue_def sample_request_def
        sample_config_def live_urls_def stringValue_def)
  moreover have "d_pending (w_db ?w) = []" by (simp add: sample_world_def sample_db_def db_Init_def)
  moreover have "int64Value (rq_Input ?r) ''MaxResults'' 0 = Inr 1"
    by (simp add: int64Value_def sample_request_def)
  ultimately have "\<exists>w'. follow_pages (Suc (length [''http://h/0/a''])) sample_config ?r [] ?w =
      (Inr (Some (toAnySlice [''http://h/0/a''])), w') \<and> w_db w' = w_db ?w"
    by (intro listing_pages_complete [where k = 1]) (simp_all add: healthy_sample_world)
  then show ?thesis unfolding toAnySlice_def numeral_2_eq_2 list.map list.size add_0_right add_Suc_right by blast
qed

end
