(* ===== verification/MoveTaskOps.thy ===== *)
theory MoveTaskOps
  imports Maintain Hoare
begin

text \<open>
  The operations on message move tasks of \<open>internal/service/sqs.go\<close>: \<open>ListMessageMoveTasks\<close>,
  \<open>StartMessageMoveTask\<close> and \<open>CancelMessageMoveTask\<close>. The moving itself is \<open>processMoveTask\<close> of the
  theory of the maintenance.
\<close>

text \<open>\<open>if err != nil { return ErrResourceNotFoundException }\<close>, whatever went wrong\<close>

definition lookup_source :: "string \<Rightarrow> queue handler" where
  "lookup_source arn = mapErr (\<lambda>_. EApi ErrResourceNotFoundException) (lookupQueueByARN arn)"

section \<open>ListMessageMoveTasks\<close>

definition task_entry :: "queue \<Rightarrow> move_task \<Rightarrow> gmap \<Rightarrow> gmap" where
  "task_entry source task destination =
     [(''Status'', GStr (t_Status task)), (''SourceArn'', GStr (q_ARN source)),
      (''ApproximateNumberOfMessagesMoved'', GInt (t_Moved task)),
      (''StartedTimestamp'', GInt (unixMilli (t_StartedAt task)))]
     @ (if t_Status task = ''RUNNING'' \<or> t_Status task = ''CANCELLING''
        then [(''TaskHandle'', GStr (t_TaskHandle task))] else [])
     @ (case t_MaxMessagesPerSecond task of None \<Rightarrow> [] | Some n \<Rightarrow> [(''MaxNumberOfMessagesPerSecond'', GInt n)])
     @ (case t_ToMove task of None \<Rightarrow> [] | Some n \<Rightarrow> [(''ApproximateNumberOfMessagesToMove'', GInt n)])
     @ destination
     @ (if t_FailureReason task \<noteq> [] then [(''FailureReason'', GStr (t_FailureReason task))] else [])"

text \<open>A destination that cannot be looked up is left out.\<close>

definition list_entry :: "queue \<Rightarrow> move_task \<Rightarrow> gval handler" where
  "list_entry source task =
     (case t_DestinationQueueID task of
        None \<Rightarrow> ok (GMap (task_entry source task []))
      | Some i \<Rightarrow>
          bindE (attempt (QueueByID i)) (\<lambda>r.
          ok (GMap (task_entry source task
            (case r of Inr (Some d) \<Rightarrow> [(''DestinationArn'', GStr (q_ARN d))] | _ \<Rightarrow> [])))))"

definition max_results :: "gmap \<Rightarrow> goerr + int" where
  "max_results input =
     (case int64Value input ''MaxResults'' 1 of
        Inl e \<Rightarrow> Inl (EApi (WithCause (api_New ''InvalidParameterValue'' 400
                   ''MaxResults must be a valid integer.'') e))
      | Inr n \<Rightarrow>
          if n \<le> 0 \<or> 10 < n then
            Inl (invalidParameter ''Value for parameter MaxResults is invalid. Reason: must be between 1 and 10, if provided.'')
          else Inr n)"

definition ListMessageMoveTasks :: "config \<Rightarrow> request \<Rightarrow> gmap handler" where
  "ListMessageMoveTasks cfg req =
     bindE nowE (\<lambda>now.
     seqE (maintain cfg now)
    (bindE (lookup_source (stringValue (rq_Input req) ''SourceArn'')) (\<lambda>source.
     bindE (liftE (max_results (rq_Input req))) (\<lambda>n.
     bindE (orInternal ''failed to list message move tasks'' (ListMoveTasksBySourceQueue (q_ID source) n)) (\<lambda>tasks.
     bindE (mapE (list_entry source) tasks) (\<lambda>results.
     ok [(''Results'', GList results)]))))))"

section \<open>StartMessageMoveTask\<close>

definition new_task :: "queue \<Rightarrow> gotime \<Rightarrow> move_task" where
  "new_task source now =
     \<lparr>t_ID = 0, t_TaskHandle = ''AQEB'' @ encodeNextToken (wrap64 now), t_SourceQueueID = q_ID source,
      t_DestinationQueueID = None, t_Status = ''RUNNING'', t_MaxMessagesPerSecond = None, t_Moved = 0,
      t_ToMove = None, t_FailureReason = [], t_StartedAt = now, t_UpdatedAt = now, t_CompletedAt = None\<rparr>"

definition task_destination :: "gmap \<Rightarrow> int option handler" where
  "task_destination input =
     (let destArn = stringValue input ''DestinationArn'' in
      if destArn = [] then ok None
      else bindE (lookup_source destArn) (\<lambda>d. ok (Some (q_ID d))))"

definition task_rate :: "gmap \<Rightarrow> int option" where
  "task_rate input = (case int64Value input ''MaxNumberOfMessagesPerSecond'' 0 of
      Inl _ \<Rightarrow> None | Inr n \<Rightarrow> if 0 < n then Some n else None)"

text \<open>The number of live messages; a source that cannot be listed leaves it open.\<close>

definition task_remaining :: "queue \<Rightarrow> int option handler" where
  "task_remaining source =
     bindE (attempt (ListMessagesByQueue (q_ID source))) (\<lambda>r.
     case r of
       Inl _ \<Rightarrow> ok None
     | Inr ms \<Rightarrow> bindE nowE (\<lambda>now. ok (Some (int (length (filter (message_live now) ms))))))"

definition StartMessageMoveTask :: "config \<Rightarrow> request \<Rightarrow> gmap handler" where
  "StartMessageMoveTask cfg req =
     bindE nowE (\<lambda>t.
     seqE (maintain cfg t)
    (bindE (lookup_source (stringValue (rq_Input req) ''SourceArn'')) (\<lambda>source.
     bindE (orInternal ''failed to inspect move tasks'' (FindRunningMoveTask (q_ID source))) (\<lambda>found.
     case found of
       Some running \<Rightarrow> ok [(''TaskHandle'', GStr (t_TaskHandle running))]
     | None \<Rightarrow>
         bindE nowE (\<lambda>now.
         bindE (task_destination (rq_Input req)) (\<lambda>destination.
         bindE (task_remaining source) (\<lambda>remaining.
         bindE (orInternal ''failed to create move task''
           (InsertMoveTask ((new_task source now)\<lparr>t_DestinationQueueID := destination,
              t_MaxMessagesPerSecond := task_rate (rq_Input req), t_ToMove := remaining\<rparr>))) (\<lambda>created.
         bindE nowE (\<lambda>u.
         seqE (processMoveTasks u)
        (ok [(''TaskHandle'', GStr (t_TaskHandle created))]))))))))))"

section \<open>CancelMessageMoveTask\<close>

definition cancelled_task :: "gotime \<Rightarrow> move_task \<Rightarrow> move_task" where
  "cancelled_task now task = task\<lparr>t_Status := ''CANCELLED'', t_CompletedAt := Some now, t_UpdatedAt := now\<rparr>"

definition CancelMessageMoveTask :: "config \<Rightarrow> request \<Rightarrow> gmap handler" where
  "CancelMessageMoveTask cfg req =
     bindE nowE (\<lambda>t.
     seqE (maintain cfg t)
    (bindE (lookup_source (stringValue (rq_Input req) ''SourceArn'')) (\<lambda>source.
     bindE (orInternal ''failed to list move tasks'' (ListMoveTasksBySourceQueue (q_ID source) 10)) (\<lambda>tasks.
     case find (\<lambda>task. t_TaskHandle task = stringValue (rq_Input req) ''TaskHandle'') tasks of
       None \<Rightarrow> throwApi ErrResourceNotFoundException
     | Some task \<Rightarrow>
         bindE nowE (\<lambda>now.
         seqE (orInternal ''failed to cancel move task'' (UpdateMoveTask (cancelled_task now task)))
        (ok [(''ApproximateNumberOfMessagesMoved'', GInt (t_Moved task))]))))))"

section \<open>The operations keep the contract\<close>

context db_relation
begin

lemma steps_lookup_source [effects]: "steps (dbrel R) (lookup_source arn)"
  unfolding lookup_source_def by (intro effects)

end

context queue_plane
begin

lemma steps_move_task_operations [effects]:
  "steps (dbrel R) (ListMessageMoveTasks cfg req)" "steps (dbrel R) (StartMessageMoveTask cfg req)"
  "steps (dbrel R) (CancelMessageMoveTask cfg req)"
  unfolding ListMessageMoveTasks_def StartMessageMoveTask_def CancelMessageMoveTask_def list_entry_def
    task_destination_def task_remaining_def by (intro effects)+

end

end
