(* ===== verification/OneActive.thy ===== *)
theory OneActive
  imports ReceiptOps QueueOps MoveTaskOps
begin

text \<open>
  At most one receipt of a message is active: the invariant behind \<open>DeactivateReceiptsByMessage\<close>,
  which the handlers call before they issue a new receipt or move a message. The store's method
  \<open>InsertReceipt\<close> alone does not keep it, so it is an interpretation of the contract at the level
  of the receipt operations.
\<close>

definition active_messages :: "receipt list \<Rightarrow> int list" where
  "active_messages rs = map r_MessageRowID (filter r_Active rs)"

definition active_inv :: "db \<Rightarrow> bool" where
  "active_inv d \<longleftrightarrow> db_wf d \<and> distinct (active_messages (d_receipts d))"

definition active_rel :: "db \<Rightarrow> db \<Rightarrow> bool" where
  "active_rel d d' \<longleftrightarrow> (active_inv d \<longrightarrow> active_inv d')"

definition no_active :: "int \<Rightarrow> db \<Rightarrow> bool" where
  "no_active i d \<longleftrightarrow> i \<notin> set (active_messages (d_receipts d))"

lemma active_inv_Init: "active_inv db_Init"
  using db_wf_Init by (simp add: active_inv_def active_messages_def db_Init_def)

lemma active_inv_wf: "active_inv d \<Longrightarrow> db_wf d"
  by (simp add: active_inv_def)

text \<open>Receipts that are the same, or fewer, or less active.\<close>

lemma distinct_subseq: "subseq xs ys \<Longrightarrow> distinct ys \<Longrightarrow> distinct xs"
  by (metis subseq_conv_nths distinct_nthsI)

lemma active_inv_fewer:
  "active_inv d \<Longrightarrow> db_wf d' \<Longrightarrow> subseq (active_messages (d_receipts d')) (active_messages (d_receipts d)) \<Longrightarrow>
   active_inv d'"
  by (auto simp: active_inv_def intro: distinct_subseq)

lemma active_inv_same: "active_inv d \<Longrightarrow> db_wf d' \<Longrightarrow> d_receipts d' = d_receipts d \<Longrightarrow> active_inv d'"
  by (simp add: active_inv_def)

lemma active_keepsI:
  assumes "keeps wf_rel f" and "\<And>d x d'. f d = Inr (x, d') \<Longrightarrow> d_receipts d' = d_receipts d"
  shows "keeps active_rel f"
proof (rule keepsI)
  fix d x d'
  assume f: "f d = Inr (x, d')"
  have "active_inv d'" if "active_inv d"
    using keepsD [OF assms(1) f] active_inv_wf [OF that] assms(2) [OF f]
    by (intro active_inv_same [OF that]) (simp_all add: wf_rel_def)
  then show "active_rel d d'" by (simp add: active_rel_def)
qed

lemma active_messages_deactivate:
  "active_messages (update_where (\<lambda>r. r_MessageRowID r = i \<and> r_Active r) (\<lambda>r. r\<lparr>r_Active := False\<rparr>) rs) =
   filter (\<lambda>j. j \<noteq> i) (active_messages rs)"
  by (induction rs) (auto simp: active_messages_def update_where_def)

lemma deactivate_receipts:
  assumes "active_inv d" and "db_DeactivateReceiptsByMessage i d = Inr (x, d')"
  shows "active_inv d' \<and> no_active i d' \<and> d_messages d' = d_messages d"
proof -
  have d': "d_receipts d' = update_where (\<lambda>r. r_MessageRowID r = i \<and> r_Active r) (\<lambda>r. r\<lparr>r_Active := False\<rparr>)
      (d_receipts d)" "d_messages d' = d_messages d"
    using assms(2) by (auto simp: db_DeactivateReceiptsByMessage_def)
  have "db_wf d'" by (rule wf_DeactivateReceiptsByMessage [OF assms(2) active_inv_wf [OF assms(1)]])
  with assms(1) show ?thesis
    unfolding active_inv_def no_active_def d' active_messages_deactivate by simp
qed

lemma insert_active_receipt:
  assumes "active_inv d" and "no_active (r_MessageRowID r) d" and "db_InsertReceipt r d = Inr (x, d')"
  shows "active_inv d'"
proof -
  have d': "d_receipts d' = d_receipts d @ [scanReceipt (r\<lparr>r_ID := d_receipt_seq d + 1\<rparr>)]"
    using assms(3) by (auto simp: db_InsertReceipt_def Let_def split: if_splits)
  have "db_wf d'" by (rule wf_InsertReceipt [OF assms(3) active_inv_wf [OF assms(1)]])
  with assms(1,2) show ?thesis
    by (simp add: active_inv_def no_active_def d' active_messages_def scanReceipt_def)
qed

text \<open>Rewriting a receipt for the same message, not more active than before.\<close>

lemma subseq_update_active:
  assumes "\<And>r'. r' \<in> set rs \<Longrightarrow> r_ID r' = k \<Longrightarrow> r_MessageRowID r' = r_MessageRowID new \<and> (r_Active new \<longrightarrow> r_Active r')"
  shows "subseq (active_messages (update_where (\<lambda>r'. r_ID r' = k) (\<lambda>_. new) rs)) (active_messages rs)"
  using assms by (induction rs) (auto simp: active_messages_def update_where_def)

lemma update_active_receipt:
  assumes "active_inv d" and "r0 \<in> set (d_receipts d)" and "r_ID r = r_ID r0"
    and "r_MessageRowID r = r_MessageRowID r0" and "r_Active r \<Longrightarrow> r_Active r0"
    and "db_UpdateReceipt r d = Inr (x, d')"
  shows "active_inv d' \<and> d_messages d' = d_messages d"
proof -
  have d': "d' = d\<lparr>d_receipts := update_where (\<lambda>r'. r_ID r' = r_ID r0) (\<lambda>_. scanReceipt r) (d_receipts d)\<rparr>"
    by (rule UpdateReceipt_found [OF assms(6,2,3)])
  have "inj_on r_ID (set (d_receipts d))"
    using assms(1) by (simp add: active_inv_def db_wf_def wf_receipts_def ids_below_def distinct_map)
  then have one: "r' = r0" if "r' \<in> set (d_receipts d)" "r_ID r' = r_ID r0" for r'
    using that assms(2) by (simp add: inj_onD)
  have "subseq (active_messages (update_where (\<lambda>r'. r_ID r' = r_ID r0) (\<lambda>_. scanReceipt r) (d_receipts d)))
      (active_messages (d_receipts d))"
    by (rule subseq_update_active) (use one assms(4,5) in \<open>auto simp: scanReceipt_def\<close>)
  then have "subseq (active_messages (d_receipts d')) (active_messages (d_receipts d))"
    unfolding d' by simp
  with wf_UpdateReceipt [OF assms(6) active_inv_wf [OF assms(1)]] have "active_inv d'"
    by (intro active_inv_fewer [OF assms(1)])
  then show ?thesis by (simp add: d')
qed

lemma UpdateMessage_receipts: "db_UpdateMessage m d = Inr (x, d') \<Longrightarrow> d_receipts d' = d_receipts d"
  by (auto dest!: UpdateMessage_ids)

lemma ApplyDue_receipts: "db_ApplyDueQueueMutations now d = Inr (x, d') \<Longrightarrow> d_receipts d' = d_receipts d"
  by (auto dest!: ApplyDue_frame sans_queuesD(6))

lemma updateQueueTx_receipts: "db_updateQueueTx q d = Inr (x, d') \<Longrightarrow> d_receipts d' = d_receipts d"
  by (auto simp: db_updateQueueTx_def split: if_splits)

section \<open>The invariant as a contract\<close>

interpretation active_core: message_core active_rel
proof (intro message_core.intro message_core_axioms.intro)
  show "db_relation active_rel" by (rule db_relationI) (auto simp: active_rel_def)
  show "keeps active_rel (db_DeactivateReceiptsByMessage i)" for i
    using deactivate_receipts by (auto simp: keeps_def active_rel_def)
qed (rule active_keepsI, rule wf_core.keep_ApplyDueQueueMutations wf_core.keep_UpdateQueue
    wf_core.keep_UpdateMoveTask wf_core.keep_InsertMessage wf_core.keep_UpdateMessage
    wf_core.keep_DeleteMessagesByQueueBefore wf_core.keep_InsertDedupEntry
    wf_core.keep_DeleteExpiredDedupEntries wf_core.keep_InsertReceiveAttempt
    wf_core.keep_InvalidateReceiveAttempts,
    auto simp: db_UpdateMoveTask_def db_InsertMessage_def db_DeleteMessagesByQueueBefore_def
      db_InsertDedupEntry_def db_DeleteExpiredDedupEntries_def db_InsertReceiveAttempt_def
      db_InvalidateReceiveAttempts_def Let_def dest: ApplyDue_receipts updateQueueTx_receipts
      UpdateMessage_receipts split: if_splits)+


lemma wp_active:
  "(\<And>d. active_inv d \<Longrightarrow> wp m (\<lambda>_. active_inv) (\<lambda>_. active_inv) d) \<Longrightarrow> steps (dbrel active_rel) m"
  by (rule steps_wpI) (auto simp: active_rel_def wp_def split: sum.splits)

lemma update_message_active:
  "db_UpdateMessage m d = Inr (x, d') \<Longrightarrow> active_inv d \<Longrightarrow>
   active_inv d' \<and> d_receipts d' = d_receipts d"
  using UpdateMessage_receipts active_inv_same active_inv_wf wf_UpdateMessage by blast

lemma ReceiptByHandle_row: "db_ReceiptByHandle h d = Some r \<Longrightarrow> r \<in> set (d_receipts d) \<and> r_Handle r = h"
  by (auto simp: db_ReceiptByHandle_def dest: row_byD)

section \<open>The receipt operations\<close>

lemma wp_deactivate:
  assumes "active_inv d" and "\<And>d'. active_inv d' \<Longrightarrow> no_active i d' \<Longrightarrow> Q () d'" and "\<And>e. E e d"
  shows "wp (DeactivateReceiptsByMessage i) Q E d"
  unfolding DeactivateReceiptsByMessage_def
proof (rule wp_sqlE)
  show "Q x d'" if "db_DeactivateReceiptsByMessage i d = Inr (x, d')" for x d'
    using deactivate_receipts [OF assms(1) that] assms(2) by simp
qed (rule assms(3))

lemma wp_update_message:
  assumes "active_inv d" and "\<And>d'. active_inv d' \<Longrightarrow> d_receipts d' = d_receipts d \<Longrightarrow> Q () d'" and "\<And>e. E e d"
  shows "wp (UpdateMessage m) Q E d"
  unfolding UpdateMessage_def
proof (rule wp_sqlE)
  show "Q x d'" if "db_UpdateMessage m d = Inr (x, d')" for x d'
    using update_message_active [OF that assms(1)] assms(2) by simp
qed (rule assms(3))

lemma wp_insert_receipt:
  assumes "active_inv d" and "no_active (r_MessageRowID r) d" and "\<And>x d'. active_inv d' \<Longrightarrow> Q x d'" and "\<And>e. E e d"
  shows "wp (InsertReceipt r) Q E d"
  unfolding InsertReceipt_def
  by (rule wp_sqlE) (use insert_active_receipt [OF assms(1,2)] assms(3,4) in blast)+

lemma wp_update_receipt:
  assumes "active_inv d" and "r0 \<in> set (d_receipts d)" and "r_ID r = r_ID r0"
    and "r_MessageRowID r = r_MessageRowID r0" and "r_Active r \<Longrightarrow> r_Active r0"
    and "\<And>d'. active_inv d' \<Longrightarrow> Q () d'" and "\<And>e. E e d"
  shows "wp (UpdateReceipt r) Q E d"
  unfolding UpdateReceipt_def
proof (rule wp_sqlE)
  show "Q x d'" if "db_UpdateReceipt r d = Inr (x, d')" for x d'
    using update_active_receipt [OF assms(1-5) that] assms(6) by simp
qed (rule assms(7))

lemma wp_invalidate:
  assumes "active_inv d" and "\<And>d'. active_inv d' \<Longrightarrow> Q () d'" and "\<And>e. E e d"
  shows "wp (InvalidateReceiveAttempts i) Q E d"
  unfolding InvalidateReceiveAttempts_def
proof (rule wp_bindE, rule wp_nowE, rule wp_sqlE)
  show "Q x d'" if "db_InvalidateReceiveAttempts i t d = Inr (x, d')" for t x d'
    using keepsD [OF active_core.keep_InvalidateReceiveAttempts that] assms(1,2) by (simp add: active_rel_def)
qed (rule assms(3))

lemmas receipt_wp = wp_deactivate wp_update_message wp_insert_receipt wp_invalidate

text \<open>The new receipt of a delivery comes after all others of the message are inactive.\<close>

lemma active_deliver: "steps (dbrel active_rel) (deliver q rc m)"
  unfolding deliver_def Let_def
  by (rule wp_active, intro wp receipt_wp) (simp_all add: no_active_def)


lemma wp_receipt_by_handle:
  assumes "\<And>r. db_ReceiptByHandle h d = Some r \<Longrightarrow> r \<in> set (d_receipts d) \<Longrightarrow> Q (Some r) d"
    and "Q None d" and "\<And>e. E e d"
  shows "wp (ReceiptByHandle h) Q E d"
  unfolding ReceiptByHandle_def
proof (rule wp_queryE)
  show "Q (db_ReceiptByHandle h d) d"
    using assms(1,2) ReceiptByHandle_row by (cases "db_ReceiptByHandle h d") auto
qed (rule assms(3))

lemma wp_message_by_id: "Q (db_MessageByRowID i d) d \<Longrightarrow> (\<And>e. E e d) \<Longrightarrow> wp (MessageByRowID i) Q E d"
  unfolding MessageByRowID_def by (rule wp_queryE)

lemmas receipt_queries = wp_receipt_by_handle wp_message_by_id

lemma active_delete: "steps (dbrel active_rel) (deleteByReceiptHandle q h now)"
  unfolding deleteByReceiptHandle_def
  by (rule wp_active, intro wp receipt_wp receipt_queries wp_update_receipt) auto

lemma active_change: "steps (dbrel active_rel) (changeVisibilityByReceiptHandle q h v now)"
  unfolding changeVisibilityByReceiptHandle_def Let_def
  by (rule wp_active, intro wp receipt_wp receipt_queries wp_update_receipt) auto

lemma active_replay: "steps (dbrel active_rel) (replay_loop q v now ms)"
proof (rule wp_active)
  show "wp (replay_loop q v now ms) (\<lambda>_. active_inv) (\<lambda>_. active_inv) d" if "active_inv d" for d
    using that
  proof (induction ms arbitrary: d)
    case Nil
    then show ?case by (simp only: replay_loop.simps wp_ok)
  next
    case (Cons m ms)
    then show ?case unfolding replay_loop.simps Let_def
      by (intro wp receipt_wp receipt_queries wp_update_receipt) auto
  qed
qed

interpretation active_receipts: receipt_plane active_rel
  by unfold_locales (rule active_deliver active_replay active_delete active_change)+

interpretation active_queues: queue_plane active_rel
proof (unfold_locales, goal_cases)
  case (2 i)
  show ?case
  proof (rule keepsI)
    fix d x d'
    assume f: "db_DeleteQueueRow i d = Inr (x, d')"
    then have "subseq (active_messages (d_receipts d')) (active_messages (d_receipts d))"
      by (auto simp: db_DeleteQueueRow_def Let_def active_messages_def intro!: subseq_map subseq_filter)
    with wf_DeleteQueueRow [OF f] show "active_rel d d'"
      unfolding active_rel_def using active_inv_fewer active_inv_wf by blast
  qed
qed (rule active_keepsI, rule wf.keep_InsertQueue wf.keep_SavePendingAttributes wf.keep_ReplaceTags
    wf.keep_DeleteTags wf.keep_InsertMoveTask,
    auto simp: db_InsertQueue_def db_SavePendingAttributes_def db_ReplaceTags_def db_DeleteTags_def
      db_InsertMoveTask_def Let_def split: if_splits)+

end
