(* ===== verification/Leases.thy ===== *)
theory Leases
  imports OneActive
begin

text \<open>
  What receiving does: the lease that a delivery gives, when the selection of messages ends, and
  when it does not.
\<close>

section \<open>A delivery\<close>

lemma ReceiptByHandle_inserted:
  assumes "db_InsertReceipt r d = Inr (x, d')"
  shows "db_ReceiptByHandle (r_Handle r) d' = Some (scanReceipt (r\<lparr>r_ID := d_receipt_seq d + 1\<rparr>))"
    and "d_receipts d' = d_receipts d @ [scanReceipt (r\<lparr>r_ID := d_receipt_seq d + 1\<rparr>)]"
    and "d_messages d' = d_messages d" and "r_Handle x = r_Handle r"
proof -
  from assms have d': "d' = d\<lparr>d_receipts := d_receipts d @ [scanReceipt (r\<lparr>r_ID := d_receipt_seq d + 1\<rparr>)],
      d_receipt_seq := d_receipt_seq d + 1\<rparr>" "\<forall>r' \<in> set (d_receipts d). r_Handle r' \<noteq> r_Handle r"
      "x = r\<lparr>r_ID := d_receipt_seq d + 1\<rparr>"
    by (auto simp: db_InsertReceipt_def Let_def split: if_splits)
  then show "db_ReceiptByHandle (r_Handle r) d' = Some (scanReceipt (r\<lparr>r_ID := d_receipt_seq d + 1\<rparr>))"
    by (simp add: db_ReceiptByHandle_def row_by_snoc scanReceipt_def)
  from d' show "d_receipts d' = d_receipts d @ [scanReceipt (r\<lparr>r_ID := d_receipt_seq d + 1\<rparr>)]"
    "d_messages d' = d_messages d" "r_Handle x = r_Handle r" by simp_all
qed

text \<open>The three writes of a delivery, on the database.\<close>

lemma delivery_writes:
  assumes "db_MessageByRowID i d = Some m" and "db_DeactivateReceiptsByMessage i d = Inr (u, d1)"
    and "db_UpdateMessage m1 d1 = Inr (v, d2)" and "m_RowID m1 = i"
    and "db_InsertReceipt r d2 = Inr (x, d3)" and "r_MessageRowID r = i"
  shows "db_MessageByRowID i d3 = Some (scanMessage m1)"
    and "j \<noteq> i \<Longrightarrow> db_MessageByRowID j d3 = db_MessageByRowID j d"
    and "db_ReceiptByHandle (r_Handle r) d3 = Some (scanReceipt (r\<lparr>r_ID := d_receipt_seq d2 + 1\<rparr>))"
    and "r' \<in> set (d_receipts d3) \<Longrightarrow> r_MessageRowID r' = i \<Longrightarrow> r_Active r' \<Longrightarrow>
      r' = scanReceipt (r\<lparr>r_ID := d_receipt_seq d2 + 1\<rparr>)"
proof -
  have m: "m \<in> set (d_messages d)" "m_RowID m = i" using assms(1) by (auto simp: db_MessageByRowID_def dest: row_byD)
  have d1: "d_messages d1 = d_messages d" "d_receipts d1 =
      update_where (\<lambda>r. r_MessageRowID r = i \<and> r_Active r) (\<lambda>r. r\<lparr>r_Active := False\<rparr>) (d_receipts d)"
    using assms(2) by (auto simp: db_DeactivateReceiptsByMessage_def)
  have d2: "d2 = d1\<lparr>d_messages := update_where (\<lambda>m'. m_RowID m' = i) (\<lambda>_. scanMessage m1) (d_messages d)\<rparr>"
    using UpdateMessage_found [OF assms(3), of m] m d1(1) assms(4) by simp
  note ins = ReceiptByHandle_inserted [OF assms(5)]
  have id: "m_RowID (scanMessage m1) = i" using assms(4) by simp
  show "db_MessageByRowID i d3 = Some (scanMessage m1)"
    using row_by_update_where [of "\<lambda>m. m_RowID m = i" "d_messages d" m "scanMessage m1" m_RowID] assms(1) m(2) id
    by (simp add: db_MessageByRowID_def ins(3) d2)
  show "db_MessageByRowID j d3 = db_MessageByRowID j d" if "j \<noteq> i"
    using that id by (simp add: db_MessageByRowID_def ins(3) d2 row_by_update_other)
  show "db_ReceiptByHandle (r_Handle r) d3 = Some (scanReceipt (r\<lparr>r_ID := d_receipt_seq d2 + 1\<rparr>))" by (rule ins(1))
  have "i \<notin> set (active_messages (d_receipts d2))"
    by (simp add: d2 d1(2) active_messages_deactivate)
  then show "r' = scanReceipt (r\<lparr>r_ID := d_receipt_seq d2 + 1\<rparr>)"
    if "r' \<in> set (d_receipts d3)" "r_MessageRowID r' = i" "r_Active r'"
    using that unfolding ins(2) by (auto simp: active_messages_def)
qed

definition leased_to :: "queue \<Rightarrow> receive_params \<Rightarrow> message \<Rightarrow> gmap \<Rightarrow> db \<Rightarrow> db \<Rightarrow> receipt \<Rightarrow> message \<Rightarrow> bool" where
  "leased_to q rc m out d d' r m' \<longleftrightarrow>
     db_MessageByRowID (m_RowID m) d' = Some m' \<and> m_ReceiveCount m' = wrap64 (m_ReceiveCount m + 1)
     \<and> m_VisibilityDeadline m' = Some (r_VisibilityDeadline r) \<and> m_Body m' = m_Body m
     \<and> db_ReceiptByHandle (r_Handle r) d' = Some r \<and> r_Active r \<and> r_MessageRowID r = m_RowID m
     \<and> r_QueueID r = q_ID q
     \<and> (\<exists>t. r_VisibilityDeadline r = trunc_ms (t + seconds (rc_visibility rc)))
     \<and> (\<forall>r'. r' \<in> set (d_receipts d') \<longrightarrow> r_MessageRowID r' = m_RowID m \<longrightarrow> r_Active r' \<longrightarrow> r' = r)
     \<and> (\<forall>j. j \<noteq> m_RowID m \<longrightarrow> db_MessageByRowID j d' = db_MessageByRowID j d)
     \<and> mget out ''ReceiptHandle'' = Some (GStr (r_Handle r)) \<and> mget out ''Body'' = Some (GStr (m_Body m))"

lemma mget_output:
  "mget (receiveMessageOutput m h names system) ''ReceiptHandle'' = Some (GStr h)"
  "mget (receiveMessageOutput m h names system) ''Body'' = Some (GStr (m_Body m))"
  by (simp_all add: receiveMessageOutput_def Let_def)

text \<open>
  C8. A delivery leases the message to one receiver: the message is hidden until the deadline of
  the new receipt, its receive count goes up by one, the new receipt is the only active one of the
  message and the one whose handle is sent with the body, and all other messages stay as they
  were.
\<close>

theorem delivery_leases_message:
  assumes "deliver q rc m w = (Inr out, w')" and "db_MessageByRowID (m_RowID m) (w_db w) = Some m"
  shows "\<exists>r m'. leased_to q rc m out (w_db w) (w_db w') r m'
    \<and> (\<forall>now. now < r_VisibilityDeadline r \<longrightarrow> \<not> messageVisible m' now)"
proof -
  have w: "leased_to q rc m (receiveMessageOutput (leased m f (t + seconds (rc_visibility rc))) (r_Handle x)
        (rc_names rc) (rc_system rc)) (w_db w) d3 (scanReceipt (r\<lparr>r_ID := d_receipt_seq d2 + 1\<rparr>))
        (scanMessage (leased m f (t + seconds (rc_visibility rc))))"
    if d: "db_DeactivateReceiptsByMessage (m_RowID m) (w_db w) = Inr (u, d1)"
      "db_UpdateMessage (leased m f (t + seconds (rc_visibility rc))) d1 = Inr (v, d2)"
      "db_InsertReceipt r d2 = Inr (x, d3)"
      and r: "r = \<lparr>r_ID = 0, r_QueueID = q_ID q, r_MessageRowID = m_RowID m, r_Handle = h,
          r_IssuedAt = s, r_VisibilityDeadline = t + seconds (rc_visibility rc), r_Active = True,
          r_ReceiveAttemptID = rc_attempt rc\<rparr>" for u d1 f t v d2 r x d3 h s
  proof -
    have k: "m_RowID (leased m f (t + seconds (rc_visibility rc))) = m_RowID m" "r_MessageRowID r = m_RowID m"
      by (simp_all add: leased_def r)
    note dw = delivery_writes [OF assms(2) d(1,2) k(1) d(3) k(2)]
    have "r_Handle x = r_Handle r" using ReceiptByHandle_inserted(4) [OF d(3)] .
    with dw show ?thesis
      unfolding leased_to_def by (auto simp: mget_output scanMessage_def leased_def scanReceipt_def r)
  qed
  have "wp (deliver q rc m) (\<lambda>out d'. \<exists>r m'. leased_to q rc m out (w_db w) d' r m') always (w_db w)"
    unfolding deliver_def Let_def DeactivateReceiptsByMessage_def UpdateMessage_def InsertReceipt_def
    by (intro wp) (blast intro: w TrueI)+
  from wp_Inr [OF assms(1) this] obtain r m' where l: "leased_to q rc m out (w_db w) (w_db w') r m'" by blast
  then have "\<not> messageVisible m' now" if "now < r_VisibilityDeadline r" for now
    using that by (simp add: leased_to_def messageVisible_def in_flight_def)
  with l show ?thesis by blast
qed

text \<open>A receive on a sample queue with one message, run to its end.\<close>

definition sample_stock :: db where
  "sample_stock = (sample_db (sample_queue 1 ''a'' False []))\<lparr>d_messages := [sample_message 1 1 [] 0], d_message_seq := 1\<rparr>"

lemma sample_stock_wf: "db_wf sample_stock"
  by (simp add: db_wf_def wf_defs sample_stock_def sample_db_def sample_queue_def sample_message_def db_Init_def
      ids_below_def queue_exists_def)

lemma sample_stock_quiet: "quiet 5 sample_stock"
  by (simp add: quiet_def sample_stock_def sample_db_def sample_queue_def sample_message_def db_Init_def)

lemma sample_stock_message: "db_MessageByRowID 1 sample_stock = Some (sample_message 1 1 [] 0)"
  by (simp add: db_MessageByRowID_def row_by_def sample_stock_def sample_message_def)

lemma sample_stock_receipts: "d_receipts sample_stock = []"
  by (simp add: sample_stock_def sample_db_def db_Init_def)

lemma newReceiptHandle_runs:
  "\<exists>h v'. newReceiptHandle q m v = (Inr h, v') \<and> w_db v' = w_db v \<and> (healthy v \<longrightarrow> healthy v')"
  by (simp add: newReceiptHandle_def run_bindE randRead_def newUUID_def healthy_def split: option.split)

lemma sample_deliver:
  assumes "healthy w" and "w_db w = sample_stock"
  shows "\<exists>out w' r. deliver (sample_queue 1 ''a'' False []) rc (sample_message 1 1 [] 0) w = (Inr out, w')
    \<and> d_receipts (w_db w') = [r] \<and> r_Active r"
proof -
  let ?d = "w_clock w (w_ticks w) + seconds (rc_visibility rc)"
  let ?m = "leased (sample_message 1 1 [] 0) (w_clock w (Suc (w_ticks w))) ?d"
  let ?v = "w\<lparr>w_ticks := Suc (Suc (w_ticks w)), w_calls := Suc (Suc (w_calls w)),
    w_db := sample_stock\<lparr>d_messages := [scanMessage ?m]\<rparr>\<rparr>"
  obtain h v' where h: "newReceiptHandle 1 1 ?v = (Inr h :: goerr + string, v')" and v': "w_db v' = w_db ?v" "healthy v'"
    using newReceiptHandle_runs [of 1 1 ?v] assms(1) by auto
  have m: "m_RowID (sample_message 1 1 [] 0) = 1" "m_FirstReceivedAt (sample_message 1 1 [] 0) = None"
    "q_ID (sample_queue 1 ''a'' False []) = 1" "m_RowID ?m = 1"
    by (simp_all add: sample_message_def sample_queue_def leased_def)
  have d1: "db_DeactivateReceiptsByMessage 1 sample_stock = Inr ((), sample_stock)"
    by (simp add: db_DeactivateReceiptsByMessage_def sample_stock_def sample_db_def db_Init_def update_where_def)
  have d2: "db_UpdateMessage ?m sample_stock = Inr ((), sample_stock\<lparr>d_messages := [scanMessage ?m]\<rparr>)"
    by (simp add: db_UpdateMessage_def sample_stock_def sample_db_def db_Init_def update_where_def queue_exists_def
        sample_message_def sample_queue_def leased_def)
  have d3: "\<exists>x d. db_InsertReceipt \<lparr>r_ID = 0, r_QueueID = 1, r_MessageRowID = 1, r_Handle = h,
      r_IssuedAt = t, r_VisibilityDeadline = ?d, r_Active = True, r_ReceiveAttemptID = rc_attempt rc\<rparr>
      (sample_stock\<lparr>d_messages := [scanMessage ?m]\<rparr>) = Inr (x, d) \<and> (\<exists>r. d_receipts d = [r] \<and> r_Active r)" for t
    by (simp add: db_InsertReceipt_def sample_stock_def sample_db_def db_Init_def queue_exists_def Let_def
        sample_queue_def message_exists_def m(4) scanReceipt_def)
  obtain x d where "db_InsertReceipt \<lparr>r_ID = 0, r_QueueID = 1, r_MessageRowID = 1, r_Handle = h,
      r_IssuedAt = w_clock v' (w_ticks v'), r_VisibilityDeadline = ?d, r_Active = True,
      r_ReceiveAttemptID = rc_attempt rc\<rparr> (w_db v') = Inr (x, d)" and "\<exists>r. d_receipts d = [r] \<and> r_Active r"
    using d3 [of "w_clock v' (w_ticks v')"] v'(1) by auto
  with assms h v'(2) d1 d2 show ?thesis
    by (simp add: deliver_def Let_def run_bindE DeactivateReceiptsByMessage_def UpdateMessage_def
        InsertReceipt_def m)
qed

theorem delivery_leases_message_witness:
  "\<exists>out d' r m'. leased_to (sample_queue 1 ''a'' False []) \<lparr>rc_max = 1, rc_wait = 0, rc_visibility = 30,
      rc_names = [], rc_system = [], rc_attempt = []\<rparr> (sample_message 1 1 [] 0) out sample_stock d' r m'"
proof -
  let ?w = "sample_world sample_stock 5"
  have w: "healthy ?w" "w_db ?w = sample_stock" using healthy_sample_world by (simp_all add: sample_world_def)
  have m: "m_RowID (sample_message 1 1 [] 0) = 1" by (simp add: sample_message_def)
  obtain out w' where "deliver (sample_queue 1 ''a'' False []) \<lparr>rc_max = 1, rc_wait = 0, rc_visibility = 30,
      rc_names = [], rc_system = [], rc_attempt = []\<rparr> (sample_message 1 1 [] 0) ?w = (Inr out, w')"
    using sample_deliver [OF w] by blast
  from delivery_leases_message [OF this] sample_stock_message w(2) m show ?thesis by auto
qed

lemma sample_receive:
  assumes "healthy w" and "w_db w = sample_stock" and "w_clock w = (\<lambda>_. 5)"
  shows "\<exists>out w' r. ReceiveMessage 1 sample_config (sample_request ''ReceiveMessage'' [(''QueueUrl'', GStr ''http://h/0/a'')]) w =
      (Inr (Some out), w') \<and> d_receipts (w_db w') = [r] \<and> r_Active r"
proof -
  let ?q = "sample_queue 1 ''a'' False []" and ?m = "sample_message 1 1 [] 0"
  let ?r = "sample_request ''ReceiveMessage'' [(''QueueUrl'', GStr ''http://h/0/a'')]"
  let ?rc = "\<lparr>rc_max = 1, rc_wait = 0, rc_visibility = 30, rc_names = [], rc_system = [], rc_attempt = []\<rparr>"
  have q: "q_URL ?q = ''http://h/0/a''" "q_DeletedAt ?q = None" "q_AvailableAt ?q = 0" "q_FIFO ?q = False"
    "q_Attributes ?q = []" "q_ID ?q = 1" by (simp_all add: sample_queue_def)
  have quiet: "\<exists>n. maintain sample_config 5 v = (Inr (), v\<lparr>w_calls := n\<rparr>)"
    if "healthy v" "w_db v = sample_stock" for v
    using maintain_quiet [OF that(1), of 5 sample_config] sample_stock_quiet that(2) by simp
  obtain n1 where m1: "maintain sample_config 5 (w\<lparr>w_ticks := Suc (w_ticks w)\<rparr>) =
      (Inr (), w\<lparr>w_ticks := Suc (w_ticks w), w_calls := n1\<rparr>)"
    using quiet [of "w\<lparr>w_ticks := Suc (w_ticks w)\<rparr>"] assms by auto
  let ?w2 = "w\<lparr>w_calls := Suc n1, w_ticks := Suc (Suc (w_ticks w))\<rparr>"
  obtain n2 where m2: "maintain sample_config 5 ?w2 = (Inr (), ?w2\<lparr>w_calls := n2\<rparr>)"
    using quiet [of ?w2] assms by auto
  have url: "queueURLFromRequest sample_config ?r = ''http://h/0/a''"
    by (simp add: queueURLFromRequest_def sample_request_def trimRight_def)
  have byurl: "db_QueueByURL ''http://h/0/a'' sample_stock = Some ?q"
    by (simp add: db_QueueByURL_def row_by_def sample_stock_def sample_db_def q(1))
  have checks: "receive_checks ?q (rq_Input ?r) = Inr ?rc"
    by (simp add: receive_checks_def in_range_param_def sample_request_def int64Value_def queueWaitTime_def
        queueVisibilityTimeout_def int_setting_def q(5) sget_def parseInt_def stringSliceValue_def
        unionStringSets_def stringValue_def)
  have vis: "messageVisible ?m 5" by (simp add: messageVisible_def message_live_def in_flight_def sample_message_def)
  have cand: "candidateMessages ?q [?m] 1 5 = [?m]"
    using vis by (simp add: candidateMessages_def q(4) liveMessages_def messageVisible_def split: if_splits)
  have list: "db_ListMessagesByQueue 1 sample_stock = [?m]"
    by (simp add: db_ListMessagesByQueue_def sample_stock_def sample_message_def)
  have red: "shouldRedrive ?q ?m = False"
    by (simp add: shouldRedrive_def parseRedrivePolicy_def q(5) sget_def trimSpace_def)
  let ?w3 = "?w2\<lparr>w_calls := Suc (Suc n2)\<rparr>"
  obtain out w' r where d: "deliver ?q ?rc ?m ?w3 = (Inr out, w')" and r: "d_receipts (w_db w') = [r]" "r_Active r"
    using sample_deliver [of ?w3 ?rc] assms by auto
  have "ReceiveMessage 1 sample_config ?r w = (Inr (Some (messages_output [out])), w')"
    using assms m1 m2 d
    by (simp add: ReceiveMessage_def run_bindE lookupQueueForRequest_def url lookupQueueByURL_def QueueByURL_def
        byurl q ensureQueueReady_def checks list cand red ListMessagesByQueue_def redrive_step_def record_attempt_def Let_def)
  with r show ?thesis by blast
qed

end
