(* ===== verification/QueueLifecycle.thy ===== *)
theory QueueLifecycle
  imports QueueOps
begin

text \<open>
  What creating, deleting, and changing a queue does: \<open>CreateQueue\<close>, \<open>DeleteQueue\<close>,
  \<open>SetQueueAttributes\<close> with the patches that \<open>ApplyDueQueueMutations\<close> applies later, and the
  permissions in the policy document.
\<close>

section \<open>Creating and deleting\<close>

definition text_map :: "strmap \<Rightarrow> bool" where
  "text_map m \<longleftrightarrow> list_all (\<lambda>(k, v). valid_utf8 k \<and> valid_utf8 v) m"

lemma json_rt_strmap_id: "text_map m \<Longrightarrow> json_rt_strmap m = m"
  by (induction m) (auto simp: text_map_def json_rt_strmap_def to_valid_utf8_id)

lemma text_map_mdel: "text_map m \<Longrightarrow> text_map (mdel m k)"
  by (auto simp: text_map_def list_all_iff AList.delete_eq)

definition text_keys :: "strmap \<Rightarrow> bool" where
  "text_keys m \<longleftrightarrow> list_all (\<lambda>(k, v). valid_utf8 k) m"

lemma text_keys_mdel: "text_keys m \<Longrightarrow> text_keys (mdel m k)"
  by (auto simp: text_keys_def list_all_iff AList.delete_eq)

lemma json_rt_strmap_mdel: "text_keys m \<Longrightarrow> mdel (json_rt_strmap m) k = json_rt_strmap (mdel m k)"
  by (induction m) (auto simp: text_keys_def json_rt_strmap_def to_valid_utf8_id AList.delete_eq)

lemma json_rt_strip: "text_keys m \<Longrightarrow> strip_computed (json_rt_strmap m) = json_rt_strmap (strip_computed m)"
  by (simp add: strip_computed_def json_rt_strmap_mdel text_keys_mdel)

lemma text_keys_mput: "text_keys m \<Longrightarrow> valid_utf8 k \<Longrightarrow> text_keys (mput m k v)"
  by (induction m) (auto simp: text_keys_def)

lemma list_all_sget_self: "distinct (map fst m) \<Longrightarrow> list_all (\<lambda>(k, v). sget m k = v) m"
  by (auto simp: list_all_iff sget_def)

lemma distinct_strip: "distinct (map fst m) \<Longrightarrow> distinct (map fst (strip_computed m))"
  by (simp add: strip_computed_def distinct_delete)

lemma strip_new_attributes:
  "strip_computed (mput (mput (mput attrs ''QueueArn'' a) ''CreatedTimestamp'' t) ''LastModifiedTimestamp'' u)
     = strip_computed attrs"
  by (simp add: strip_computed_def delete_update delete_update_same)

text \<open>A queue that has just been created has exactly the attributes that were asked for.\<close>

lemma stored_attributes:
  assumes "text_map attrs"
  shows "strip_computed (q_Attributes (scanQueueRow ((new_queue cfg acc name attrs now)\<lparr>q_ID := i\<rparr>))) = strip_computed attrs"
proof -
  let ?m = "mput (mput (mput attrs ''QueueArn'' (queueARN cfg acc name))
    ''CreatedTimestamp'' (formatInt (unixSec now))) ''LastModifiedTimestamp'' (formatInt (unixSec now))"
  have names: "valid_utf8 ''QueueArn''" "valid_utf8 ''CreatedTimestamp''" "valid_utf8 ''LastModifiedTimestamp''"
    by (simp_all add: ascii_valid_utf8 ascii_def)
  have keys: "text_keys attrs" using assms by (auto simp: text_keys_def text_map_def list_all_iff)
  have "text_keys ?m"
    using text_keys_mput [OF text_keys_mput [OF text_keys_mput [OF keys]]] names by blast
  then have "strip_computed (json_rt_strmap ?m) = json_rt_strmap (strip_computed ?m)"
    by (rule json_rt_strip)
  also have "\<dots> = strip_computed attrs"
    unfolding strip_new_attributes
    by (rule json_rt_strmap_id) (simp add: strip_computed_def text_map_mdel assms)
  finally show ?thesis by (simp add: scanQueueRow_def new_queue_def Let_def)
qed

lemma equivalent_new_queue:
  assumes "text_map attrs" and "distinct (map fst attrs)"
  shows "queueAttributesEquivalent (scanQueueRow ((new_queue cfg acc name attrs now)\<lparr>q_ID := i\<rparr>)) attrs"
  by (simp add: queueAttributesEquivalent_def Let_def stored_attributes [OF assms(1)]
      list_all_sget_self distinct_strip assms(2))

lemma QueueByName_after_insert:
  assumes "db_InsertQueue q d = Inr (q', d')"
  shows "db_QueueByName (q_AccountID q) (q_Region q) (q_Name q) d' =
    Some (scanQueueRow (q\<lparr>q_ID := d_queue_seq d + 1\<rparr>)) \<and> q_URL q' = q_URL q"
proof -
  let ?P = "\<lambda>r. q_AccountID r = q_AccountID q \<and> q_Region r = q_Region q \<and> q_Name r = q_Name q"
  from assms have n: "\<not> (\<exists>r \<in> set (d_queues d). queue_conflict q r)"
    by (auto simp: db_InsertQueue_def split: if_splits)
  then have "\<forall>r \<in> set (d_queues d). \<not> ?P r" by (auto simp: queue_conflict_def)
  then have "row_by ?P (d_queues d @ [scanQueueRow (q\<lparr>q_ID := d_queue_seq d + 1\<rparr>)]) =
      Some (scanQueueRow (q\<lparr>q_ID := d_queue_seq d + 1\<rparr>))"
    by (simp add: row_by_snoc scanQueueRow_def)
  with assms show ?thesis
    by (auto simp: db_InsertQueue_def db_QueueByName_def Let_def split: if_splits)
qed

lemma wp_insert_queue:
  assumes "\<And>d'. db_QueueByName (q_AccountID q) (q_Region q) (q_Name q) d' =
      Some (scanQueueRow (q\<lparr>q_ID := d_queue_seq d + 1\<rparr>)) \<Longrightarrow> Q (queue_url_output (q_URL q)) d'"
    and "\<And>d e. E e d"
  shows "wp (insert_queue q) Q E d"
  unfolding insert_queue_def InsertQueue_def
  by (intro wp) (use assms QueueByName_after_insert in \<open>force+\<close>)

lemma new_queue_sel [simp]:
  "q_AccountID (new_queue cfg acc name attrs now) = acc" "q_Region (new_queue cfg acc name attrs now) = cfg_Region cfg"
  "q_Name (new_queue cfg acc name attrs now) = name" "q_URL (new_queue cfg acc name attrs now) = queueURL cfg acc name"
  "q_DeletedAt (new_queue cfg acc name attrs now) = None"
  by (simp_all add: new_queue_def Let_def)

lemma scan_sel:
  "q_DeletedAt (scanQueueRow q) = map_option trunc_s (q_DeletedAt q)" "q_URL (scanQueueRow q) = q_URL q"
  "q_ReuseBlockedTill (scanQueueRow q) = map_option trunc_s (q_ReuseBlockedTill q)"
  "q_AccountID (scanQueueRow q) = q_AccountID q" "q_Region (scanQueueRow q) = q_Region q"
  "q_Name (scanQueueRow q) = q_Name q" "q_ARN (scanQueueRow q) = q_ARN q"
  by (simp_all add: scanQueueRow_def)

text \<open>What a successful \<open>CreateQueue\<close> leaves: a live queue of that name with the attributes asked for.\<close>

lemma wp_CreateQueue:
  assumes "text_map (requested_attributes (rq_Input req))"
  shows "wp (CreateQueue cfg req) (\<lambda>out d'.
      validQueueName (stringValue (rq_Input req) ''QueueName'')
    \<and> validateQueueAttributes (stringValue (rq_Input req) ''QueueName'') (requested_attributes (rq_Input req)) = None
    \<and> (\<exists>q. db_QueueByName (i_AccountID (rq_Identity req)) (cfg_Region cfg)
            (stringValue (rq_Input req) ''QueueName'') d' = Some q
        \<and> q_DeletedAt q = None \<and> queueAttributesEquivalent q (requested_attributes (rq_Input req))
        \<and> out = queue_url_output (q_URL q))) always d"
proof -
  let ?a = "requested_attributes (rq_Input req)"
  have "distinct (map fst ?a)"
    by (simp add: requested_attributes_def distinct_mcopy defaultQueueAttributes_def)
  note eq = equivalent_new_queue [OF assms this]
  have q: "wp (insert_queue (new_queue cfg acc name ?a now)) (\<lambda>out d'.
      \<exists>q. db_QueueByName acc (cfg_Region cfg) name d' = Some q \<and> q_DeletedAt q = None
        \<and> queueAttributesEquivalent q ?a \<and> out = queue_url_output (q_URL q)) always d'" for acc name now d'
    by (rule wp_insert_queue) (simp_all add: eq scan_sel)
  show ?thesis
    unfolding CreateQueue_def ApplyDueQueueMutations_def QueueByName_def DeleteQueueRow_def Let_def
    by (intro wp) (auto intro: wp_mono [OF q])
qed

lemma run_CreateQueue_existing:
  assumes "healthy w" and "d_pending (w_db w) = []"
    and "validQueueName (stringValue (rq_Input req) ''QueueName'')"
    and "validateQueueAttributes (stringValue (rq_Input req) ''QueueName'') (requested_attributes (rq_Input req)) = None"
    and "db_QueueByName (i_AccountID (rq_Identity req)) (cfg_Region cfg)
      (stringValue (rq_Input req) ''QueueName'') (w_db w) = Some q"
  shows "\<exists>w'. w_db w' = w_db w \<and> (q_DeletedAt q = None \<longrightarrow> CreateQueue cfg req w =
      ((if queueAttributesEquivalent q (requested_attributes (rq_Input req))
        then Inr (queue_url_output (q_URL q)) else Inl (EApi ErrQueueNameExists)), w'))
    \<and> (\<forall>t. q_DeletedAt q \<noteq> None \<longrightarrow> q_ReuseBlockedTill q = Some t \<longrightarrow> w_clock w (w_ticks w) < t \<longrightarrow>
        CreateQueue cfg req w = (Inl (EApi ErrQueueDeletedRecently), w'))"
  using assms
  by (intro exI [of _ "w\<lparr>w_ticks := Suc (w_ticks w), w_calls := Suc (Suc (w_calls w))\<rparr>"])
    (auto simp: CreateQueue_def ApplyDueQueueMutations_def ApplyDue_none QueueByName_def run_bindE Let_def)

text \<open>
  Two requests ask for the same settings when their attributes agree, those aside that the service
  computes itself. The comparison with a queue and the validation do not tell such requests apart.
\<close>

lemma length_by_keys: "distinct (map fst m) \<Longrightarrow> length m = card (dom (mget m))"
  by (metis distinct_card dom_map_of_conv_image_fst length_map list.set_map)

lemma distinct_requested: "distinct (map fst (requested_attributes input))"
  by (simp add: requested_attributes_def distinct_mcopy defaultQueueAttributes_def)

lemma equivalent_iff:
  assumes "distinct (map fst attrs)"
  shows "queueAttributesEquivalent q attrs \<longleftrightarrow>
      length (strip_computed (q_Attributes q)) = card (dom (mget (strip_computed attrs)))
    \<and> (\<forall>k v. mget (strip_computed attrs) k = Some v \<longrightarrow> sget (strip_computed (q_Attributes q)) k = v)"
proof -
  have d: "distinct (map fst (strip_computed attrs))" by (rule distinct_strip [OF assms])
  show ?thesis
    using map_of_eq_Some_iff [OF d]
    by (auto simp: queueAttributesEquivalent_def Let_def length_by_keys [OF d] list_all_iff)
qed

lemma equivalent_cong:
  assumes "distinct (map fst a)" and "distinct (map fst b)"
    and "\<And>k. mget (strip_computed a) k = mget (strip_computed b) k"
  shows "queueAttributesEquivalent q a = queueAttributesEquivalent q b"
proof -
  have "mget (strip_computed a) = mget (strip_computed b)" using assms(3) by blast
  then show ?thesis by (simp add: equivalent_iff assms(1,2))
qed

lemma validate_cong:
  assumes "\<And>k. mget (strip_computed a) k = mget (strip_computed b) k"
  shows "validateQueueAttributes name a = validateQueueAttributes name b"
proof -
  have same: "sget a k = sget b k" if "k \<notin> {''CreatedTimestamp'', ''LastModifiedTimestamp'', ''QueueArn''}" for k
    using assms [of k] that by (simp add: sget_def strip_computed_def)
  have "sget a ''FifoQueue'' = sget b ''FifoQueue''" "sget a ''VisibilityTimeout'' = sget b ''VisibilityTimeout''"
    "sget a ''MaximumMessageSize'' = sget b ''MaximumMessageSize''"
    "sget a ''MessageRetentionPeriod'' = sget b ''MessageRetentionPeriod''"
    "sget a ''DelaySeconds'' = sget b ''DelaySeconds''"
    "sget a ''ReceiveMessageWaitTimeSeconds'' = sget b ''ReceiveMessageWaitTimeSeconds''"
    "sget a ''KmsDataKeyReusePeriodSeconds'' = sget b ''KmsDataKeyReusePeriodSeconds''"
    by (rule same, simp)+
  then show ?thesis by (simp only: validateQueueAttributes_def attr_bad_def)
qed

text \<open>An attribute without a value counts as absent, so different attributes can pass as equivalent.\<close>

lemma equivalence_ignores_empty_values:
  "queueAttributesEquivalent (q\<lparr>q_Attributes := [(''A'', ''x'')]\<rparr>) [(''B'', '''')]"
  by (simp add: queueAttributesEquivalent_def strip_computed_def sget_def)

lemma run_CreateQueue_free:
  assumes "CreateQueue cfg req w = (Inr out, w')" and "d_pending (w_db w) = []"
    and "db_QueueByName (i_AccountID (rq_Identity req)) (cfg_Region cfg)
      (stringValue (rq_Input req) ''QueueName'') (w_db w) = None"
    and "text_map (requested_attributes (rq_Input req))"
  shows "\<exists>q. db_QueueByName (i_AccountID (rq_Identity req)) (cfg_Region cfg)
      (stringValue (rq_Input req) ''QueueName'') (w_db w') = Some q
    \<and> strip_computed (q_Attributes q) = strip_computed (requested_attributes (rq_Input req))"
proof -
  let ?a = "requested_attributes (rq_Input req)" and ?acc = "i_AccountID (rq_Identity req)"
    and ?name = "stringValue (rq_Input req) ''QueueName''"
  have q: "wp (insert_queue (new_queue cfg ?acc ?name ?a now)) (\<lambda>_ d'.
      \<exists>q. db_QueueByName ?acc (cfg_Region cfg) ?name d' = Some q \<and> strip_computed (q_Attributes q) = strip_computed ?a)
      always d" for now d
    by (rule wp_insert_queue) (simp_all add: stored_attributes [OF assms(4)])
  have "wp (CreateQueue cfg req) (\<lambda>_ d'. \<exists>q. db_QueueByName ?acc (cfg_Region cfg) ?name d' = Some q
      \<and> strip_computed (q_Attributes q) = strip_computed ?a) always (w_db w)"
    unfolding CreateQueue_def ApplyDueQueueMutations_def QueueByName_def DeleteQueueRow_def Let_def
    using assms(2,3) by (intro wp) (auto simp: ApplyDue_none intro: q)
  from wp_Inr [OF assms(1) this] show ?thesis .
qed

text \<open>The defaults pass validation for every name of a standard queue.\<close>

lemma normalize_plain: "normalizePolicyJSON ''k'' = ''k''"
  by (simp add: normalizePolicyJSON_def json_unmarshal_def json_fuel_def Let_def eval_nat_numeral json_literal_def
      skip_ws_def json_ws_def is_digit_def digit_val_def)

lemma default_numbers:
  "parseInt ''30'' = Some 30" "parseInt ''1048576'' = Some 1048576" "parseInt ''345600'' = Some 345600"
  "parseInt ''0'' = Some 0" "parseInt ''300'' = Some 300"
  by (simp_all add: parseInt_def parse_digits_def digit_val_def int64_range_def Let_def)

lemma default_attributes_valid:
  "\<not> suffix ''.fifo'' name \<Longrightarrow> validateQueueAttributes name defaultQueueAttributes = None"
  by (simp add: validateQueueAttributes_def attr_bad_def sget_def intBetween_def defaultQueueAttributes_def
      default_numbers)

text \<open>
  C28. \<open>CreateQueue\<close> is idempotent: after a queue has been created, another request of the account for
  the same name whose attributes are equivalent, however they are written down (defaults spelled out
  or left out, in any order), is answered with the same URL and changes nothing; and when the name
  was free before, a request that differs in the value of an attribute is refused with
  \<open>QueueNameExists\<close> and changes nothing (attribute texts being valid UTF-8, and no attribute change
  pending).
\<close>

theorem create_queue_idempotent:
  assumes "CreateQueue cfg req w = (Inr out, w')" and "text_map (requested_attributes (rq_Input req))"
    and "healthy v" and "w_db v = w_db w'" and "d_pending (w_db w') = []"
    and "i_AccountID (rq_Identity req') = i_AccountID (rq_Identity req)"
    and "stringValue (rq_Input req') ''QueueName'' = stringValue (rq_Input req) ''QueueName''"
    and "attrs = strip_computed (requested_attributes (rq_Input req))"
    and "attrs' = strip_computed (requested_attributes (rq_Input req'))"
  shows "((\<forall>k. mget attrs' k = mget attrs k) \<longrightarrow>
      (\<exists>v'. CreateQueue cfg req' v = (Inr out, v') \<and> w_db v' = w_db v))
    \<and> ((\<exists>k value. mget attrs' k = Some value \<and> sget attrs k \<noteq> value) \<longrightarrow> d_pending (w_db w) = [] \<longrightarrow>
      db_QueueByName (i_AccountID (rq_Identity req)) (cfg_Region cfg)
        (stringValue (rq_Input req) ''QueueName'') (w_db w) = None \<longrightarrow>
      validateQueueAttributes (stringValue (rq_Input req') ''QueueName'') (requested_attributes (rq_Input req')) = None \<longrightarrow>
      (\<exists>v'. CreateQueue cfg req' v = (Inl (EApi ErrQueueNameExists), v') \<and> w_db v' = w_db v))"
proof -
  let ?a = "requested_attributes (rq_Input req)" and ?a' = "requested_attributes (rq_Input req')"
  from wp_Inr [OF assms(1) wp_CreateQueue [OF assms(2)]] obtain q where
    valid: "validQueueName (stringValue (rq_Input req') ''QueueName'')"
      "validateQueueAttributes (stringValue (rq_Input req') ''QueueName'') ?a = None"
    and q: "db_QueueByName (i_AccountID (rq_Identity req')) (cfg_Region cfg)
      (stringValue (rq_Input req') ''QueueName'') (w_db v) = Some q"
      "q_DeletedAt q = None" "queueAttributesEquivalent q ?a" "out = queue_url_output (q_URL q)"
    using assms(4,6,7) by auto
  note run = run_CreateQueue_existing [OF assms(3) _ valid(1) _ q(1)]
  have same: "\<exists>v'. CreateQueue cfg req' v = (Inr out, v') \<and> w_db v' = w_db v" if "\<forall>k. mget attrs' k = mget attrs k"
  proof -
    have same: "mget (strip_computed ?a') k = mget (strip_computed ?a) k" for k using that assms(8,9) by simp
    have "validateQueueAttributes (stringValue (rq_Input req') ''QueueName'') ?a' = None"
      using valid(2) validate_cong [OF same] by simp
    moreover have "queueAttributesEquivalent q ?a'"
      using q(3) equivalent_cong [OF distinct_requested distinct_requested same] by simp
    ultimately show ?thesis using run assms(4,5) q(2,4) by auto
  qed
  have other: "\<exists>v'. CreateQueue cfg req' v = (Inl (EApi ErrQueueNameExists), v') \<and> w_db v' = w_db v"
    if k: "mget attrs' k = Some value" "sget attrs k \<noteq> value" and "d_pending (w_db w) = []"
      and "db_QueueByName (i_AccountID (rq_Identity req)) (cfg_Region cfg)
        (stringValue (rq_Input req) ''QueueName'') (w_db w) = None"
      and "validateQueueAttributes (stringValue (rq_Input req') ''QueueName'') ?a' = None"
    for k "value"
  proof -
    from run_CreateQueue_free [OF assms(1) that(3,4) assms(2)] q(1) have "strip_computed (q_Attributes q) = attrs"
      using assms(4,6-8) by auto
    then have "\<not> queueAttributesEquivalent q ?a'"
      using k assms(9) by (auto simp: equivalent_iff [OF distinct_requested])
    then show ?thesis using run that(5) assms(4,5) q(2) by auto
  qed
  from same other show ?thesis by blast
qed

theorem create_queue_idempotent_witness:
  "\<exists>out w' v' u'. CreateQueue sample_config (sample_request ''CreateQueue'' [(''QueueName'', GStr ''a'')])
      (sample_world db_Init 5) = (Inr out, w')
    \<and> CreateQueue sample_config (sample_request ''CreateQueue'' [(''QueueName'', GStr ''a''),
        (''Attributes'', GMap [(''KmsMasterKeyId'', GStr ''''), (''Policy'', GStr '''')])])
      (sample_world (w_db w') 7) = (Inr out, v') \<and> w_db v' = w_db w'
    \<and> CreateQueue sample_config (sample_request ''CreateQueue'' [(''QueueName'', GStr ''a''),
        (''Attributes'', GMap [(''KmsMasterKeyId'', GStr ''k'')])])
      (sample_world (w_db w') 7) = (Inl (EApi ErrQueueNameExists), u') \<and> w_db u' = w_db w'"
proof -
  let ?r = "sample_request ''CreateQueue'' [(''QueueName'', GStr ''a'')]"
  let ?s = "sample_request ''CreateQueue'' [(''QueueName'', GStr ''a''),
        (''Attributes'', GMap [(''KmsMasterKeyId'', GStr ''''), (''Policy'', GStr '''')])]"
  let ?t = "sample_request ''CreateQueue'' [(''QueueName'', GStr ''a''),
        (''Attributes'', GMap [(''KmsMasterKeyId'', GStr ''k'')])]"
  have attrs: "requested_attributes (rq_Input ?r) = defaultQueueAttributes"
    "requested_attributes (rq_Input ?s) = defaultQueueAttributes"
    "requested_attributes (rq_Input ?t) = mput defaultQueueAttributes ''KmsMasterKeyId'' ''k''"
    by (simp_all add: requested_attributes_def normalized_patch_def sample_request_def stringMapValue_def
        normalize_plain normalizePolicyJSON_def [of "[]"] mcopy_Cons) (simp add: defaultQueueAttributes_def)
  have name: "stringValue (rq_Input ?r) ''QueueName'' = ''a''" "i_AccountID (rq_Identity ?r) = ''0''"
    "stringValue (rq_Input ?s) ''QueueName'' = ''a''" "i_AccountID (rq_Identity ?s) = ''0''"
    "stringValue (rq_Input ?t) ''QueueName'' = ''a''" "i_AccountID (rq_Identity ?t) = ''0''"
    by (simp_all add: sample_request_def)
  have valid: "validQueueName ''a''" by (simp add: validQueueName_def chars_between_def word_char_def)
  have ok: "validateQueueAttributes ''a'' defaultQueueAttributes = None"
    by (rule default_attributes_valid) (simp add: suffix_def)
  have ok7: "validateQueueAttributes ''a'' (mput defaultQueueAttributes ''KmsMasterKeyId'' ''k'') = None"
    by (simp add: validateQueueAttributes_def attr_bad_def sget_def intBetween_def defaultQueueAttributes_def
      default_numbers suffix_def)
  have texts: "text_map defaultQueueAttributes"
    by (simp add: text_map_def defaultQueueAttributes_def ascii_valid_utf8 ascii_def)
  have free: "db_QueueByName acc region ''a'' (w_db (sample_world db_Init 5)) = None" for acc region
    by (simp add: sample_world_def db_QueueByName_def row_by_def db_Init_def)
  obtain out w' where c: "CreateQueue sample_config ?r (sample_world db_Init 5) = (Inr out, w')"
    and p: "d_pending (w_db w') = []"
    using valid ok by (simp add: CreateQueue_def run_bindE ApplyDueQueueMutations_def ApplyDue_none name attrs
        sample_world_def QueueByName_def db_QueueByName_def row_by_def db_Init_def insert_queue_def
        InsertQueue_def db_InsertQueue_def Let_def)
  let ?v = "sample_world (w_db w') 7"
  have v: "healthy ?v" "w_db ?v = w_db w'" by (simp_all add: healthy_sample_world) (simp add: sample_world_def)
  have texts': "text_map (requested_attributes (rq_Input ?r))" using texts attrs by simp
  note two = create_queue_idempotent [OF c texts' v p _ _ refl refl]
  have "\<exists>v'. CreateQueue sample_config ?s ?v = (Inr out, v') \<and> w_db v' = w_db ?v"
    using two [of ?s] by (simp add: name attrs)
  moreover have "\<exists>u'. CreateQueue sample_config ?t ?v = (Inl (EApi ErrQueueNameExists), u') \<and> w_db u' = w_db ?v"
  proof -
    have "mget (strip_computed (mput defaultQueueAttributes ''KmsMasterKeyId'' ''k'')) ''KmsMasterKeyId'' = Some ''k''
        \<and> sget (strip_computed defaultQueueAttributes) ''KmsMasterKeyId'' \<noteq> ''k''"
      by (simp add: strip_computed_def sget_def defaultQueueAttributes_def)
    then have d: "\<exists>k value. mget (strip_computed (mput defaultQueueAttributes ''KmsMasterKeyId'' ''k'')) k = Some value
        \<and> sget (strip_computed defaultQueueAttributes) k \<noteq> value"
      by (intro exI)
    have p0: "d_pending (w_db (sample_world db_Init 5)) = []" by (simp add: sample_world_def db_Init_def)
    show ?thesis
      by (rule two [of ?t, unfolded name attrs, OF refl refl, THEN conjunct2, THEN mp, OF d, THEN mp, OF p0,
            THEN mp, OF free, THEN mp, OF ok7])
  qed
  ultimately show ?thesis using c v(2) by auto
qed

section \<open>Deleting a queue\<close>

lemma queue_unique:
  assumes "db_wf d" and "q \<in> set (d_queues d)" and "q' \<in> set (d_queues d)"
    and "queue_conflict q q' \<or> q_ID q = q_ID q'"
  shows "q' = q"
proof -
  have "q_ID q = q_ID q'" using assms by (auto simp: db_wf_def wf_queues_def)
  moreover have "inj_on q_ID (set (d_queues d))"
    using assms(1) by (simp add: db_wf_def wf_queues_def ids_below_def distinct_map)
  ultimately show ?thesis using assms(2,3) by (simp add: inj_onD)
qed

lemma row_by_replaced:
  assumes "\<And>r. r \<in> set rows \<Longrightarrow> P r \<Longrightarrow> key r = k" and "\<exists>r \<in> set rows. key r = k" and "P new"
  shows "row_by P (update_where (\<lambda>r. key r = k) (\<lambda>_. new) rows) = Some new"
  using assms by (induction rows) (auto simp: row_by_def update_where_def)

text \<open>After a row of the queue table is rewritten under its own names, every lookup finds it.\<close>

definition same_names :: "queue \<Rightarrow> queue \<Rightarrow> bool" where
  "same_names q q' \<longleftrightarrow> q_ID q' = q_ID q \<and> q_URL q' = q_URL q \<and> q_ARN q' = q_ARN q
     \<and> q_AccountID q' = q_AccountID q \<and> q_Region q' = q_Region q \<and> q_Name q' = q_Name q"

definition found_by_names :: "queue \<Rightarrow> queue \<Rightarrow> db \<Rightarrow> bool" where
  "found_by_names q q' d \<longleftrightarrow> db_QueueByURL (q_URL q) d = Some q' \<and> db_QueueByARN (q_ARN q) d = Some q'
     \<and> db_QueueByID (q_ID q) d = Some q'
     \<and> db_QueueByName (q_AccountID q) (q_Region q) (q_Name q) d = Some q'"

lemma lookups_after_update:
  assumes "db_wf d" and "q \<in> set (d_queues d)" and "db_updateQueueTx q' d = Inr (x, d')" and "same_names q q'"
  shows "found_by_names q (scanQueueRow q') d'"
proof -
  have d': "d_queues d' = update_where (\<lambda>r. q_ID r = q_ID q) (\<lambda>_. scanQueueRow q') (d_queues d)"
    using assms(3,4) by (auto simp: db_updateQueueTx_def same_names_def split: if_splits)
  have same: "q_ID r = q_ID q" if "r \<in> set (d_queues d)" and "queue_conflict q r" for r
    using queue_unique [OF assms(1,2) that(1)] that(2) by simp
  have ex: "\<exists>r \<in> set (d_queues d). q_ID r = q_ID q" using assms(2) by blast
  note find = row_by_replaced [OF _ ex]
  have "db_QueueByURL (q_URL q) d' = Some (scanQueueRow q')"
    unfolding db_QueueByURL_def d' using assms(4)
    by (intro find same) (simp_all add: queue_conflict_def scanQueueRow_def same_names_def)
  moreover have "db_QueueByARN (q_ARN q) d' = Some (scanQueueRow q')"
    unfolding db_QueueByARN_def d' using assms(4)
    by (intro find same) (simp_all add: queue_conflict_def scanQueueRow_def same_names_def)
  moreover have "db_QueueByID (q_ID q) d' = Some (scanQueueRow q')"
    unfolding db_QueueByID_def d' using assms(4)
    by (intro find) (simp_all add: scanQueueRow_def same_names_def)
  moreover have "db_QueueByName (q_AccountID q) (q_Region q) (q_Name q) d' = Some (scanQueueRow q')"
    unfolding db_QueueByName_def d' using assms(4)
    by (intro find same) (simp_all add: queue_conflict_def scanQueueRow_def same_names_def)
  ultimately show ?thesis by (simp add: found_by_names_def)
qed

lemma QueueByURL_row: "db_QueueByURL url d = Some q \<Longrightarrow> q \<in> set (d_queues d) \<and> q_URL q = url"
  by (auto simp: db_QueueByURL_def dest: row_byD)

text \<open>What follows the lookup of the queue in a request starts where the request started, one store call later.\<close>

lemma after_lookup:
  assumes "bindE (lookupQueueForRequest cfg req) f w = (Inr y, w')"
    and "db_QueueByURL (queueURLFromRequest cfg req) (w_db w) = Some q"
  shows "f q (w\<lparr>w_calls := Suc (w_calls w)\<rparr>) = (Inr y, w')"
  using assms by (auto simp: lookupQueueForRequest_def lookupQueueByURL_def QueueByURL_def queryE_def sqlE_def
      orInternal_def mapErr_def bindE_def throwApi_def throw_def ok_def Let_def split: if_splits sum.splits)

text \<open>The clock reading of a deletion, or of a change of attributes, is the first one of its request.\<close>

abbreviation first_reading :: "world \<Rightarrow> gotime" where
  "first_reading w \<equiv> w_clock w (w_ticks w)"

definition deleted_queue :: "config \<Rightarrow> gotime \<Rightarrow> queue \<Rightarrow> queue" where
  "deleted_queue cfg now q = (touch_queue now q)\<lparr>q_DeletedAt := Some now,
     q_ReuseBlockedTill := Some (now + cfg_DeleteCooldown cfg)\<rparr>"

lemma run_DeleteQueue:
  assumes "DeleteQueue cfg req w = (Inr out, w')" and "db_wf (w_db w)"
    and "db_QueueByURL (queueURLFromRequest cfg req) (w_db w) = Some q"
  shows "found_by_names q (scanQueueRow (deleted_queue cfg (first_reading w) q)) (w_db w') \<and> db_wf (w_db w')"
proof -
  from after_lookup [OF assms(1) [unfolded DeleteQueue_def] assms(3)] obtain x where
    u: "db_updateQueueTx (deleted_queue cfg (first_reading w) q) (w_db w) = Inr (x, w_db w')"
    by (auto simp: deleted_queue_def UpdateQueue_def elim!: bindE_Inr_cases dest!: orInternal_Inr sqlE_Inr)
  have "same_names q (deleted_queue cfg (first_reading w) q)" by (simp add: same_names_def deleted_queue_def touch_queue_def)
  with lookups_after_update [OF assms(2) _ u] QueueByURL_row [OF assms(3)] wf_updateQueueTx [OF u assms(2)]
  show ?thesis by blast
qed

text \<open>
  C29. A deleted queue is gone at once and its name stays blocked for the cooldown: after a
  \<open>DeleteQueue\<close> that read the clock at \<open>t\<close>, looking the queue up by URL or ARN is refused; creating a
  queue of its name is refused with \<open>QueueDeletedRecently\<close>, and changes nothing, as long as the clock
  has not reached \<open>t\<close> plus the cooldown (to the second that the store keeps); and from then on the
  name can be used again.
\<close>

theorem deleted_queue_blocks_name:
  assumes "DeleteQueue cfg req w = (Inr out, w')" and "db_wf (w_db w)"
    and "db_QueueByURL (queueURLFromRequest cfg req) (w_db w) = Some q"
    and "t = w_clock w (w_ticks w)" and "free = trunc_s (t + cfg_DeleteCooldown cfg)"
    and "healthy v" and "w_db v = w_db w'" and "d_pending (w_db w') = []"
    and "stringValue (rq_Input req') ''QueueName'' = q_Name q" and "i_AccountID (rq_Identity req') = q_AccountID q"
    and "cfg_Region cfg = q_Region q" and "validQueueName (q_Name q)"
    and "q_URL q = queueURL cfg (q_AccountID q) (q_Name q)" and "q_ARN q = queueARN cfg (q_AccountID q) (q_Name q)"
    and "validateQueueAttributes (q_Name q) (requested_attributes (rq_Input req')) = None"
  shows "(\<exists>v'. lookupQueueByURL (q_URL q) v = (Inl (EApi ErrQueueDoesNotExist), v'))
    \<and> (\<exists>v'. lookupQueueByARN (q_ARN q) v = (Inl (EApi ErrResourceNotFoundException), v'))
    \<and> (w_clock v (w_ticks v) < free \<longrightarrow>
        (\<exists>v'. CreateQueue cfg req' v = (Inl (EApi ErrQueueDeletedRecently), v') \<and> w_db v' = w_db v))
    \<and> (free \<le> w_clock v (w_ticks v) \<longrightarrow>
        (\<exists>v'. CreateQueue cfg req' v = (Inr (queue_url_output (q_URL q)), v')))"
proof -
  let ?q = "scanQueueRow (deleted_queue cfg t q)"
  from run_DeleteQueue [OF assms(1-3)] have f: "found_by_names q ?q (w_db v)" and wf: "db_wf (w_db v)"
    by (simp_all add: assms(4,7))
  have n: "db_QueueByName (i_AccountID (rq_Identity req')) (cfg_Region cfg)
      (stringValue (rq_Input req') ''QueueName'') (w_db v) = Some ?q"
    using f by (simp add: found_by_names_def assms(9-11))
  have del: "q_DeletedAt ?q = Some (trunc_s t)" "q_ReuseBlockedTill ?q = Some free"
    by (simp_all add: scan_sel deleted_queue_def assms(5))
  have look: "\<exists>v'. lookupQueueByURL (q_URL q) v = (Inl (EApi ErrQueueDoesNotExist), v')"
    "\<exists>v'. lookupQueueByARN (q_ARN q) v = (Inl (EApi ErrResourceNotFoundException), v')"
    using f del assms(6) by (simp_all add: found_by_names_def lookupQueueByURL_def lookupQueueByARN_def
        QueueByURL_def QueueByARN_def run_bindE)
  have blocked: "\<exists>v'. CreateQueue cfg req' v = (Inl (EApi ErrQueueDeletedRecently), v') \<and> w_db v' = w_db v"
    if "w_clock v (w_ticks v) < free"
    using run_CreateQueue_existing [OF assms(6) _ _ _ n] del that assms(7-9,12,15) by auto
  have "\<exists>v'. CreateQueue cfg req' v = (Inr (queue_url_output (q_URL q)), v')" if late: "free \<le> w_clock v (w_ticks v)"
  proof -
    let ?a = "requested_attributes (rq_Input req')" and ?d = "w_db v"
    let ?new = "new_queue cfg (q_AccountID q) (q_Name q) ?a (w_clock v (w_ticks v))"
    have row: "?q \<in> set (d_queues ?d)" using n by (auto simp: db_QueueByName_def dest: row_byD)
    have names: "q_URL ?new = q_URL ?q" "q_ARN ?new = q_ARN ?q" "q_AccountID ?new = q_AccountID ?q"
      "q_Region ?new = q_Region ?q" "q_Name ?new = q_Name ?q"
      using assms(11,13,14) by (simp_all add: scan_sel deleted_queue_def touch_queue_def) (simp add: new_queue_def Let_def)
    have "\<not> queue_conflict ?new r" if "r \<in> set (d_queues ?d)" and "q_ID r \<noteq> q_ID ?q" for r
      using queue_unique [OF wf row that(1)] that(2) unfolding queue_conflict_def names by blast
    then have no: "\<not> (\<exists>r \<in> set (filter (\<lambda>r. q_ID r \<noteq> q_ID ?q) (d_queues ?d)). queue_conflict ?new r)" by auto
    obtain d1 where d1: "db_DeleteQueueRow (q_ID ?q) ?d = Inr ((), d1)"
      and qs: "d_queues d1 = filter (\<lambda>r. q_ID r \<noteq> q_ID ?q) (d_queues ?d)"
      by (simp add: db_DeleteQueueRow_def Let_def)
    have ins: "\<exists>d2. db_InsertQueue ?new d1 = Inr (?new\<lparr>q_ID := d_queue_seq d1 + 1\<rparr>, d2)"
      using no by (simp add: db_InsertQueue_def qs Let_def)
    show ?thesis
      using ins d1 late assms(6-10,12,13,15) n del
      by (auto simp: CreateQueue_def ApplyDueQueueMutations_def ApplyDue_none QueueByName_def run_bindE
          DeleteQueueRow_def insert_queue_def InsertQueue_def Let_def)
  qed
  with look blocked show ?thesis by blast
qed

lemma sample_url_lookup:
  assumes "q_URL q = ''http://h/0/a''" and "q_DeletedAt q = None" and "\<not> w_faults w (w_calls w)"
    and "d_queues (w_db w) = [q]"
  shows "lookupQueueForRequest cfg (sample_request op ((''QueueUrl'', GStr ''http://h/0/a'') # rest)) w =
      (Inr q, w\<lparr>w_calls := Suc (w_calls w)\<rparr>)"
    "db_QueueByURL (queueURLFromRequest cfg (sample_request op ((''QueueUrl'', GStr ''http://h/0/a'') # rest))) (w_db w) = Some q"
proof -
  have u: "queueURLFromRequest cfg (sample_request op ((''QueueUrl'', GStr ''http://h/0/a'') # rest)) = ''http://h/0/a''"
    by (simp add: queueURLFromRequest_def sample_request_def trimRight_def)
  show "lookupQueueForRequest cfg (sample_request op ((''QueueUrl'', GStr ''http://h/0/a'') # rest)) w =
      (Inr q, w\<lparr>w_calls := Suc (w_calls w)\<rparr>)"
    using assms by (simp add: lookupQueueForRequest_def u lookupQueueByURL_def QueueByURL_def
        db_QueueByURL_def row_by_def run_bindE)
  show "db_QueueByURL (queueURLFromRequest cfg (sample_request op ((''QueueUrl'', GStr ''http://h/0/a'') # rest))) (w_db w) = Some q"
    using assms by (simp add: u db_QueueByURL_def row_by_def)
qed

lemma sample_db_wf: "db_wf (sample_db (sample_queue 1 name fifo attrs))"
  by (simp add: db_wf_def wf_defs sample_db_def sample_queue_def db_Init_def ids_below_def)

theorem deleted_queue_blocks_name_witness:
  "\<exists>w' v1 v2 v3. DeleteQueue sample_config (sample_request ''DeleteQueue'' [(''QueueUrl'', GStr ''http://h/0/a'')])
      (sample_world (sample_db (sample_queue 1 ''a'' False [])) 5) = (Inr [], w')
    \<and> lookupQueueByURL ''http://h/0/a'' (sample_world (w_db w') 7) = (Inl (EApi ErrQueueDoesNotExist), v1)
    \<and> CreateQueue sample_config (sample_request ''CreateQueue'' [(''QueueName'', GStr ''a'')]) (sample_world (w_db w') 7)
      = (Inl (EApi ErrQueueDeletedRecently), v2)
    \<and> CreateQueue sample_config (sample_request ''CreateQueue'' [(''QueueName'', GStr ''a'')]) (sample_world (w_db w') 70000000000)
      = (Inr [(''QueueUrl'', GStr ''http://h/0/a'')], v3)"
proof -
  let ?q = "sample_queue 1 ''a'' False []"
  let ?w = "sample_world (sample_db ?q) 5"
  let ?r = "sample_request ''DeleteQueue'' [(''QueueUrl'', GStr ''http://h/0/a'')]"
  let ?c = "sample_request ''CreateQueue'' [(''QueueName'', GStr ''a'')]"
  have q: "q_URL ?q = ''http://h/0/a''" "q_DeletedAt ?q = None" "q_Name ?q = ''a''" "q_AccountID ?q = ''0''"
    "q_Region ?q = ''r''" by (simp_all add: sample_queue_def)
  have d: "d_queues (w_db ?w) = [?q]" "\<not> w_faults ?w (w_calls ?w)"
    by (simp_all add: sample_world_def sample_db_def)
  note l = sample_url_lookup [OF q(1,2) d(2) d(1)]
  have "\<exists>w'. DeleteQueue sample_config ?r ?w = (Inr [], w') \<and> d_pending (w_db w') = []"
    unfolding DeleteQueue_def
    by (subst run_bindE_Inr, rule l(1)) (simp add: run_bindE UpdateQueue_def db_updateQueueTx_def queue_exists_def sample_world_def
        sample_db_def db_Init_def sample_queue_def touch_queue_def)
  then obtain w' where c: "DeleteQueue sample_config ?r ?w = (Inr [], w')" and p: "d_pending (w_db w') = []"
    by blast
  have attrs: "requested_attributes (rq_Input ?c) = defaultQueueAttributes"
    by (simp add: requested_attributes_def normalized_patch_def sample_request_def stringMapValue_def)
  have name: "stringValue (rq_Input ?c) ''QueueName'' = ''a''" "i_AccountID (rq_Identity ?c) = ''0''"
    "cfg_Region sample_config = ''r''" by (simp_all add: sample_request_def sample_config_def)
  have valid: "validQueueName ''a''" "validateQueueAttributes ''a'' defaultQueueAttributes = None"
    by (simp_all add: validQueueName_def chars_between_def word_char_def default_attributes_valid suffix_def)
  have wf: "db_wf (w_db ?w)" using sample_db_wf by (simp add: sample_world_def)
  have v: "healthy (sample_world (w_db w') s)" "w_db (sample_world (w_db w') s) = w_db w'"
    "w_clock (sample_world (w_db w') s) (w_ticks (sample_world (w_db w') s)) = s" for s
    by (simp_all add: healthy_sample_world) (simp_all add: sample_world_def)
  have free: "trunc_s (w_clock ?w (w_ticks ?w) + cfg_DeleteCooldown sample_config) = 60000000000"
    by (simp add: sample_world_def sample_config_def trunc_s_def unixSec_def)
  have urls: "queueURL sample_config ''0'' ''a'' = ''http://h/0/a''" "q_ARN ?q = queueARN sample_config ''0'' ''a''"
    by (simp_all add: queueURL_def queueARN_def sample_config_def sample_queue_def)
  note gone = deleted_queue_blocks_name [OF c wf l(2) refl refl v(1,2) p, of ?c]
  from gone [of 7] gone [of 70000000000] c show ?thesis
    by (simp add: q name valid attrs urls free v(3) queue_url_output_def) blast
qed

section \<open>Changing attributes\<close>

lemma unixSec_mono: "s \<le> t \<Longrightarrow> unixSec s \<le> unixSec t"
  by (simp add: unixSec_def zdiv_mono1)















end
