(* ===== verification/Dispatcher.thy ===== *)
theory Dispatcher
  imports Leases QueueLifecycle
begin

text \<open>
  \<open>internal/service/dispatcher.go\<close> and \<open>NewSQS\<close> of \<open>internal/service/sqs.go\<close>: the table of
  handlers, the dispatch of a request, and what holds of every database that requests can lead
  to. The operations other than \<open>ReceiveMessage\<close> always answer; its answer is \<open>None\<close> when the
  fuel of its loops is used up.
\<close>

type_synonym action_handler = "request \<Rightarrow> gmap option handler"
type_synonym dispatcher = "(string \<times> action_handler) list"

definition NewDispatcher :: dispatcher where
  "NewDispatcher = []"

definition Register :: "dispatcher \<Rightarrow> string \<Rightarrow> action_handler \<Rightarrow> dispatcher" where
  "Register d action handler = mput d action handler"

definition Dispatch :: "dispatcher \<Rightarrow> action_handler" where
  "Dispatch d req = (case mget d (rq_Operation req) of
      None \<Rightarrow> throwApi ErrUnsupportedOperation
    | Some handler \<Rightarrow> handler req)"

definition answering :: "(request \<Rightarrow> gmap handler) \<Rightarrow> action_handler" where
  "answering h req = bindE (h req) (\<lambda>out. ok (Some out))"

text \<open>The registrations of \<open>NewSQS\<close>, in their order.\<close>

definition sqs_actions :: "nat \<Rightarrow> config \<Rightarrow> (string \<times> action_handler) list" where
  "sqs_actions fuel cfg =
    [(''CreateQueue'', answering (CreateQueue cfg)),
     (''SendMessage'', answering (SendMessage cfg)),
     (''SendMessageBatch'', answering (SendMessageBatch cfg)),
     (''ReceiveMessage'', ReceiveMessage fuel cfg),
     (''DeleteMessage'', answering (DeleteMessage cfg)),
     (''DeleteMessageBatch'', answering (DeleteMessageBatch cfg)),
     (''ChangeMessageVisibility'', answering (ChangeMessageVisibility cfg)),
     (''ChangeMessageVisibilityBatch'', answering (ChangeMessageVisibilityBatch cfg)),
     (''DeleteQueue'', answering (DeleteQueue cfg)),
     (''GetQueueUrl'', answering (GetQueueURL cfg)),
     (''ListQueues'', answering (svc_ListQueues cfg)),
     (''GetQueueAttributes'', answering (GetQueueAttributes cfg)),
     (''SetQueueAttributes'', answering (SetQueueAttributes cfg)),
     (''TagQueue'', answering (TagQueue cfg)),
     (''UntagQueue'', answering (UntagQueue cfg)),
     (''ListQueueTags'', answering (ListQueueTags cfg)),
     (''ListDeadLetterSourceQueues'', answering (ListDeadLetterSourceQueues cfg)),
     (''AddPermission'', answering (AddPermission cfg)),
     (''RemovePermission'', answering (RemovePermission cfg)),
     (''PurgeQueue'', answering (PurgeQueue cfg)),
     (''ListMessageMoveTasks'', answering (ListMessageMoveTasks cfg)),
     (''StartMessageMoveTask'', answering (StartMessageMoveTask cfg)),
     (''CancelMessageMoveTask'', answering (CancelMessageMoveTask cfg))]"

definition NewSQS :: "nat \<Rightarrow> config \<Rightarrow> dispatcher" where
  "NewSQS fuel cfg = fold (\<lambda>(action, handler) d. Register d action handler) (sqs_actions fuel cfg) NewDispatcher"

lemma NewSQS_mcopy: "NewSQS fuel cfg = mcopy [] (sqs_actions fuel cfg)"
  by (simp add: NewSQS_def mcopy_def Register_def [abs_def] NewDispatcher_def)

lemma mget_NewSQS: "mget (NewSQS fuel cfg) action = mget (sqs_actions fuel cfg) action"
proof -
  have "distinct (map fst (sqs_actions fuel cfg))" by (simp add: sqs_actions_def)
  then show ?thesis by (simp add: NewSQS_mcopy mget_mcopy split: option.splits)
qed

section \<open>What every handler keeps, every request keeps\<close>

locale service_contract = receipt_plane R + queue_plane R for R
begin

lemma steps_answering [effects]: "steps (dbrel R) (h req) \<Longrightarrow> steps (dbrel R) (answering h req)"
  unfolding answering_def by (intro effects)

lemma steps_actions: "list_all (\<lambda>(_, handler). steps (dbrel R) (handler req)) (sqs_actions fuel cfg)"
  unfolding sqs_actions_def by (simp only: list.pred_inject prod.case) (intro conjI effects TrueI)

lemma steps_Dispatch: "steps (dbrel R) (Dispatch (NewSQS fuel cfg) req)"
proof (cases "mget (sqs_actions fuel cfg) (rq_Operation req)")
  case None
  then show ?thesis by (simp add: Dispatch_def mget_NewSQS steps_throwApi)
next
  case (Some handler)
  then have "(rq_Operation req, handler) \<in> set (sqs_actions fuel cfg)" by (rule map_of_SomeD)
  with steps_actions [of req fuel cfg] have "steps (dbrel R) (handler req)" by (auto simp: list_all_iff)
  with Some show ?thesis by (simp add: Dispatch_def mget_NewSQS)
qed

end

sublocale store_contract \<subseteq> service_contract R
  by unfold_locales

interpretation active_service: service_contract active_rel
  by unfold_locales


section \<open>The databases that requests lead to\<close>

text \<open>
  One request: any world (any clock, random source, faults of the store and cancellation) over
  the database, any request and any bounds of the loops. \<open>served\<close> are any number of requests,
  one after the other.
\<close>

inductive request_step :: "config \<Rightarrow> db \<Rightarrow> request \<Rightarrow> goerr + gmap option \<Rightarrow> db \<Rightarrow> bool" for cfg where
  answer: "Dispatch (NewSQS fuel cfg) req w = (r, w') \<Longrightarrow> request_step cfg (w_db w) req r (w_db w')"

inductive_cases request_stepE: "request_step cfg d req r d'"

inductive served :: "config \<Rightarrow> db \<Rightarrow> db \<Rightarrow> bool" for cfg where
  served_none: "served cfg d d"
| served_more: "served cfg d d1 \<Longrightarrow> request_step cfg d1 req r d2 \<Longrightarrow> served cfg d d2"

context service_contract
begin

lemma db_trans: "R a b \<Longrightarrow> R b c \<Longrightarrow> R a c"
  using effect_trans [of "undefined\<lparr>w_db := a\<rparr>" "undefined\<lparr>w_db := b\<rparr>" "undefined\<lparr>w_db := c\<rparr>"]
  by (simp add: dbrel_def)

lemma request_step_rel: "request_step cfg d req r d' \<Longrightarrow> R d d'"
  by (erule request_stepE) (use stepsD [OF steps_Dispatch] in \<open>auto simp: dbrel_def\<close>)

lemma served_rel: "served cfg d d' \<Longrightarrow> R d d'"
  by (induction rule: served.induct) (blast intro: db_refl db_trans dest: request_step_rel)+

end

lemma dispatch_served:
  "served cfg (w_db w) (w_db (snd (Dispatch (NewSQS fuel cfg) req w)))"
  by (rule served_more [OF served_none answer]) (rule prod.collapse [symmetric])

text \<open>A request that is answered with a message.\<close>

definition sample_receive_request :: request where
  "sample_receive_request = sample_request ''ReceiveMessage'' [(''QueueUrl'', GStr ''http://h/0/a'')]"

lemma sample_receive_step:
  "\<exists>d out r. request_step sample_config sample_stock sample_receive_request (Inr (Some out)) d
    \<and> d_receipts d = [r] \<and> r_Active r"
proof -
  let ?w = "sample_world sample_stock 5"
  have w: "healthy ?w" "w_db ?w = sample_stock" "w_clock ?w = (\<lambda>_. 5)"
    using healthy_sample_world by (simp_all add: sample_world_def)
  obtain out w' r where r: "ReceiveMessage 1 sample_config sample_receive_request ?w = (Inr (Some out), w')"
    "d_receipts (w_db w') = [r]" "r_Active r"
    using sample_receive [OF w] unfolding sample_receive_request_def by blast
  have "Dispatch (NewSQS 1 sample_config) sample_receive_request ?w = (Inr (Some out), w')"
    using r(1) by (simp add: Dispatch_def mget_NewSQS sqs_actions_def sample_receive_request_def sample_request_def)
  then have "request_step sample_config (w_db ?w) sample_receive_request (Inr (Some out)) (w_db w')"
    by (rule request_step.answer)
  with r w(2) show ?thesis by auto
qed

lemma sample_world_db: "w_db (sample_world d t) = d"
  by (simp add: sample_world_def)

text \<open>
  C1. Whatever requests are served from an empty database, in whatever order and with whatever
  failures in between, the database keeps its integrity: ids and unique columns are distinct, and
  every patch, tag, task, message, receipt, ledger entry and attempt refers to rows that exist.
\<close>

theorem reachable_integrity:
  assumes "served cfg db_Init d"
  shows "db_wf d"
  using wf.served_rel [OF assms] db_wf_Init by (simp add: wf_rel_def)

theorem reachable_integrity_witness:
  "db_wf (w_db (snd (Dispatch (NewSQS 1 sample_config)
     (sample_request ''CreateQueue'' [(''QueueName'', GStr ''a'')]) (sample_world db_Init 5))))"
  by (rule reachable_integrity) (use dispatch_served [of sample_config "sample_world db_Init 5"] in \<open>simp only: sample_world_db\<close>)

text \<open>
  C3. As long as requests are served one after the other, a message has at most one active receipt, in
  every database that they lead to from one without receipts: of two active receipts of the same
  message, both are the same. So at most one receiver holds a handle that can delete or extend the
  message. Handlers that run at the same time can break this: \<open>Interleaving.alternating_deliveries\<close>
  gives two active receipts.
\<close>

theorem reachable_one_active_receipt:
  assumes "served cfg d0 d" and "db_wf d0" and "d_receipts d0 = []"
    and "r \<in> set (d_receipts d)" and "r' \<in> set (d_receipts d)"
    and "r_Active r" and "r_Active r'" and "r_MessageRowID r = r_MessageRowID r'"
  shows "r = r'"
proof -
  have "active_inv d0" using assms(2,3) by (simp add: active_inv_def active_messages_def)
  then have "active_inv d" using active_service.served_rel [OF assms(1)] by (simp add: active_rel_def)
  then have "inj_on r_MessageRowID (set (filter r_Active (d_receipts d)))"
    by (simp add: active_inv_def active_messages_def distinct_map)
  with assms(4-) show ?thesis by (simp add: inj_onD)
qed

theorem reachable_one_active_receipt_witness:
  "\<exists>d r. served sample_config sample_stock d \<and> r \<in> set (d_receipts d) \<and> r_Active r
    \<and> (\<forall>r'. r' \<in> set (d_receipts d) \<longrightarrow> r_Active r' \<longrightarrow> r_MessageRowID r = r_MessageRowID r' \<longrightarrow> r = r')"
proof -
  obtain d out r where d: "request_step sample_config sample_stock sample_receive_request (Inr (Some out)) d"
    "d_receipts d = [r]" "r_Active r" using sample_receive_step by blast
  have "served sample_config sample_stock d" by (rule served_more [OF served_none d(1)])
  note one = reachable_one_active_receipt [OF this sample_stock_wf sample_stock_receipts]
  show ?thesis by (rule exI [of _ d], rule exI [of _ r]) (use \<open>served _ _ _\<close> d one in auto)
qed

text \<open>
  C21. Ids are never used again: a queue, message or receipt of a later database whose id was
  already given out was there before, so what has been removed does not come back under its id
  and no handle can come to name another message.
\<close>

theorem ids_never_reused:
  assumes "served cfg d d'"
  shows "(\<forall>i. i \<in> queue_ids d' \<longrightarrow> i \<le> d_queue_seq d \<longrightarrow> i \<in> queue_ids d)
    \<and> (\<forall>i. i \<in> message_ids d' \<longrightarrow> i \<le> d_message_seq d \<longrightarrow> i \<in> message_ids d)
    \<and> (\<forall>i. i \<in> r_ID ` set (d_receipts d') \<longrightarrow> i \<le> d_receipt_seq d \<longrightarrow> i \<in> r_ID ` set (d_receipts d))"
  using fresh.served_rel [OF assms] by (auto simp: fresh_rel_def fresh_ids_def)

theorem ids_never_reused_witness:
  "1 \<notin> message_ids (w_db (snd (Dispatch (NewSQS 1 sample_config) (sample_request ''ListQueues'' [])
     (sample_world (db_Init\<lparr>d_message_seq := 4\<rparr>) 5))))"
  using ids_never_reused [OF dispatch_served [of sample_config "sample_world (db_Init\<lparr>d_message_seq := 4\<rparr>) 5" 1
      "sample_request ''ListQueues'' []"]]
  by (auto simp: sample_world_def message_ids_def db_Init_def)

section \<open>The message plane\<close>

definition message_actions :: "string list" where
  "message_actions = [''SendMessage'', ''SendMessageBatch'', ''ReceiveMessage'', ''DeleteMessage'',
     ''DeleteMessageBatch'', ''ChangeMessageVisibility'', ''ChangeMessageVisibilityBatch'']"

context receipt_plane
begin

lemma steps_message_actions:
  assumes "rq_Operation req \<in> set message_actions"
  shows "steps (dbrel R) (Dispatch (NewSQS fuel cfg) req)"
proof -
  have "rq_Operation req = ''SendMessage'' \<or> rq_Operation req = ''SendMessageBatch''
    \<or> rq_Operation req = ''ReceiveMessage'' \<or> rq_Operation req = ''DeleteMessage''
    \<or> rq_Operation req = ''DeleteMessageBatch'' \<or> rq_Operation req = ''ChangeMessageVisibility''
    \<or> rq_Operation req = ''ChangeMessageVisibilityBatch''"
    using assms by (simp add: message_actions_def)
  then show ?thesis
    unfolding Dispatch_def mget_NewSQS sqs_actions_def
    by (elim disjE) (simp_all add: answering_def, (intro effects)+)
qed

end

text \<open>
  C22. What message operations cannot do: sending, receiving, deleting and changing visibility create and
  remove no queue and no move task (the ids of the queues, and the ids, handles and sources of the
  tasks stay), change no tag, submit no attribute change, and remove no message row (a deletion only
  marks it). The maintenance that comes first in each of them may apply attribute changes that are
  due, end a purge, and advance the move tasks.
\<close>

theorem message_operations_leave_queues:
  assumes "request_step cfg d req r d'" and "rq_Operation req \<in> set message_actions"
  shows "map q_ID (d_queues d') = map q_ID (d_queues d) \<and> d_queue_seq d' = d_queue_seq d \<and> d_tags d' = d_tags d
    \<and> map (\<lambda>t. (t_ID t, t_TaskHandle t, t_SourceQueueID t)) (d_tasks d') =
        map (\<lambda>t. (t_ID t, t_TaskHandle t, t_SourceQueueID t)) (d_tasks d)
    \<and> set (d_pending d') \<subseteq> set (d_pending d) \<and> message_ids d \<subseteq> message_ids d'"
proof -
  have "plane_rel d d'"
    using assms(1) stepsD [OF plane.steps_message_actions [OF assms(2)]]
    by (auto elim!: request_stepE simp: dbrel_def)
  then show ?thesis by (simp add: plane_rel_def)
qed

theorem message_operations_leave_queues_witness:
  "\<exists>d r. request_step sample_config sample_stock sample_receive_request r d \<and> d_receipts d \<noteq> []
    \<and> map q_ID (d_queues d) = [1]"
proof -
  obtain d out r where d: "request_step sample_config sample_stock sample_receive_request (Inr (Some out)) d"
    "d_receipts d = [r]" using sample_receive_step by blast
  have "rq_Operation sample_receive_request \<in> set message_actions"
    by (simp add: sample_receive_request_def sample_request_def message_actions_def)
  from message_operations_leave_queues [OF d(1) this] have "map q_ID (d_queues d) = [1]"
    by (simp add: sample_stock_def sample_db_def sample_queue_def)
  with d show ?thesis by (intro exI [of _ d]) auto
qed

end
