(* ===== verification/HttpHandler.thy ===== *)
theory HttpHandler
  imports JsonCodec Signatures Dispatcher
begin

text \<open>
  \<open>internal/httpx/handler.go\<close> and \<open>internal/httpx/request_id.go\<close>: one HTTP request from its body to
  the response that is written, through authentication, the decoder of its wire protocol, the
  dispatcher and the encoder. An error of the handler as a program is a panic, after which the
  server drops the connection; no response (\<open>None\<close>) means that a loop is still running when its
  fuel is used up. The logger is left out, and a request whose body cannot be read has none.
\<close>

section \<open>Request ids\<close>

text \<open>The variant and version bits of a random UUID, and its text.\<close>

definition uuid_bytes :: "string \<Rightarrow> string" where
  "uuid_bytes raw = raw
     [6 := char_of (unat (((word_of_nat (byte (raw ! 6)) :: 8 word) AND 0x0f) OR 0x40)),
      8 := char_of (unat (((word_of_nat (byte (raw ! 8)) :: 8 word) AND 0x3f) OR 0x80))]"

definition uuid_text :: "string \<Rightarrow> string" where
  "uuid_text raw = joinWith ''-'' (map hexEncode [take 4 raw, take 2 (drop 4 raw), take 2 (drop 6 raw),
     take 2 (drop 8 raw), take 6 (drop 10 raw)])"

definition NewRequestID :: "(world, 'e, string) prog" where
  "NewRequestID = bindE (randRead 16) (\<lambda>raw. ok (case raw of
       None \<Rightarrow> ''00000000-0000-4000-8000-000000000000''
     | Some bytes \<Rightarrow> uuid_text (uuid_bytes bytes)))"

section \<open>Wire protocols and responses\<close>

definition detectWireProtocol :: "http_request \<Rightarrow> string \<Rightarrow> wire_protocol" where
  "detectWireProtocol r body =
     (let contentType = header_get (hr_Header r) ''Content-Type''
      in if prefix ''AmazonSQS.'' (header_get (hr_Header r) ''X-Amz-Target'') then WireProtocolJSON
         else if contains_str contentType ''application/x-amz-json-1.0'' then WireProtocolJSON
         else if contains_str contentType ''application/x-www-form-urlencoded'' then WireProtocolQuery
         else if contains_str body ''Action='' \<or> values_get (url_query r) ''Action'' \<noteq> [] then WireProtocolQuery
         else WireProtocolJSON)"

text \<open>The headers are added to those of the writer, which has none yet; an empty payload is not written.\<close>

definition writeResponse :: "http_response \<Rightarrow> http_response" where
  "writeResponse resp = resp\<lparr>hs_Header :=
     fold (\<lambda>(key, values) h. fold (\<lambda>value h. header_add h key value) values h) (hs_Header resp) []\<rparr>"

definition writeJSONError :: "string \<Rightarrow> goerr \<Rightarrow> http_response" where
  "writeJSONError requestID err = writeResponse (json_EncodeError requestID err)"

definition writeError :: "wire_protocol \<Rightarrow> string \<Rightarrow> goerr \<Rightarrow> http_response" where
  "writeError wire requestID err =
     (case wire of
        WireProtocolQuery \<Rightarrow> writeResponse (query_EncodeError requestID err)
      | WireProtocolJSON \<Rightarrow> writeJSONError requestID err)"

section \<open>The handler\<close>

record http_handler =
  hh_Registry :: registry
  hh_Auth :: auth_service
  hh_Dispatcher :: dispatcher

text \<open>An error is answered by \<open>answer\<close>; a panic is none.\<close>

definition on_error :: "(goerr \<Rightarrow> http_response) \<Rightarrow> (goerr + 'a) \<Rightarrow> ('a \<Rightarrow> http_response option handler) \<Rightarrow> http_response option handler" where
  "on_error answer r k = (case r of
      Inl (EPanic t) \<Rightarrow> throw (EPanic t)
    | Inl e \<Rightarrow> ok (Some (answer e))
    | Inr x \<Rightarrow> k x)"

definition decode_request :: "nat \<Rightarrow> http_handler \<Rightarrow> wire_protocol \<Rightarrow> http_request \<Rightarrow> string \<Rightarrow> (string \<times> gmap) decoding" where
  "decode_request fuel h wire r body = (case wire of
      WireProtocolJSON \<Rightarrow> Some (json_DecodeRequest (hh_Registry h) r body)
    | WireProtocolQuery \<Rightarrow> query_DecodeRequest fuel (hh_Registry h) r body)"

definition encode_response :: "nat \<Rightarrow> http_handler \<Rightarrow> wire_protocol \<Rightarrow> string \<Rightarrow> string \<Rightarrow> gmap \<Rightarrow> http_response decoding" where
  "encode_response fuel h wire action requestID output = (case wire of
      WireProtocolJSON \<Rightarrow> Some (json_EncodeResponse (hh_Registry h) action requestID output)
    | WireProtocolQuery \<Rightarrow> query_EncodeResponse fuel (hh_Registry h) action requestID output)"

definition protocol_request :: "wire_protocol \<Rightarrow> string \<Rightarrow> gmap \<Rightarrow> string \<Rightarrow> gotime \<Rightarrow> identity \<Rightarrow> http_request \<Rightarrow> request" where
  "protocol_request wire action input requestID receivedAt identity r =
     \<lparr>rq_WireProtocol = wire, rq_Operation = action, rq_Input = input, rq_RequestID = requestID,
      rq_ReceivedAt = receivedAt, rq_Identity = identity, rq_QueuePathHint = trimPrefix (hr_Path r) ''/''\<rparr>"

text \<open>What is made of the dispatcher's result: the response is encoded and written.\<close>

definition answer_dispatch :: "nat \<Rightarrow> http_handler \<Rightarrow> request \<Rightarrow> goerr + gmap option \<Rightarrow> http_response option handler" where
  "answer_dispatch fuel h req resp =
     (let wire = rq_WireProtocol req; requestID = rq_RequestID req in
      on_error (writeError wire requestID) resp (\<lambda>answer.
        (case answer of
           None \<Rightarrow> ok None
         | Some output \<Rightarrow>
             (case encode_response fuel h wire (rq_Operation req) requestID output of
                None \<Rightarrow> ok None
              | Some encoded \<Rightarrow>
                  on_error (\<lambda>e. writeJSONError requestID (internalError ''failed to encode response'' (go_error_text e))) encoded
                    (\<lambda>out. ok (Some (writeResponse out)))))))"

definition serve_action :: "nat \<Rightarrow> http_handler \<Rightarrow> request \<Rightarrow> http_response option handler" where
  "serve_action fuel h req = bindE (attempt (Dispatch (hh_Dispatcher h) req)) (answer_dispatch fuel h req)"

definition ServeHTTP :: "nat \<Rightarrow> http_handler \<Rightarrow> http_request \<Rightarrow> http_response option handler" where
  "ServeHTTP fuel h r =
     bindE NewRequestID (\<lambda>requestID.
     bindE nowE (\<lambda>receivedAt.
     (case hr_Body r of
        None \<Rightarrow> ok (Some (writeJSONError requestID (internalError ''failed to read request body'' ''read'')))
      | Some body \<Rightarrow>
          (let wire = detectWireProtocol r body in
           bindE (attempt (Authenticate (hh_Auth h) r body)) (\<lambda>auth.
           on_error (writeError wire requestID) auth (\<lambda>identity.
             (case decode_request fuel h wire r body of
                None \<Rightarrow> ok None
              | Some parsed \<Rightarrow>
                  on_error (writeError wire requestID) parsed (\<lambda>(action, input).
                    serve_action fuel h (protocol_request wire action input requestID receivedAt identity r)))))))))"

end
