(* ===== verification/HttpRefinement.thy ===== *)
theory HttpRefinement
  imports HttpHandler
begin

text \<open>
  The HTTP layer as a refinement of the dispatcher: every HTTP request either is one request of the
  dispatcher by an authenticated identity, or leaves the database alone and is answered with an
  error.
\<close>

section \<open>Programs that leave the database alone\<close>

lemma ticked_db: "ticked w w' \<Longrightarrow> w_db w' = w_db w"
  unfolding ticked_def by (metis world.select_convs(1) world.surjective world.update_convs(5))

lemma NewRequestID_runs: "\<exists>id w'. NewRequestID w = (Inr id, w') \<and> w_db w' = w_db w"
  by (simp add: NewRequestID_def randRead_def run_bindE)

lemma quiet_refuse: "refuse cause w = (r, w') \<Longrightarrow> w_db w' = w_db w"
  by auto

lemma quiet_lookup: "lookupIdentity svc key token w = (r, w') \<Longrightarrow> w_db w' = w_db w"
  by (auto simp: lookupIdentity_def bindE_nowE run_bindE split: option.splits if_splits prod.splits sum.splits)

lemma quiet_scope: "validateScope svc scope t w = (r, w') \<Longrightarrow> w_db w' = w_db w"
  by (auto simp: validateScope_def bindE_nowE split: if_splits)

lemma quiet_signature: "check_signature r body names presigned signature t scope p w = (res, w') \<Longrightarrow> w_db w' = w_db w"
  by (auto simp: check_signature_def Let_def split: option.splits if_splits)

lemmas quiet_auth = quiet_refuse quiet_lookup quiet_scope quiet_signature

lemma quiet_header: "authenticateHeaderSigned svc r body authz w = (res, w') \<Longrightarrow> w_db w' = w_db w"
  unfolding authenticateHeaderSigned_def Let_def
  by (fastforce split: if_splits option.splits elim!: bindE_cases dest!: quiet_auth)

lemma quiet_query: "authenticateQuerySigned svc r body w = (res, w') \<Longrightarrow> w_db w' = w_db w"
  unfolding authenticateQuerySigned_def Let_def
  by (fastforce split: if_splits option.splits elim!: bindE_cases dest!: quiet_auth simp: bindE_nowE)

lemma Authenticate_quiet: "Authenticate svc r body w = (res, w') \<Longrightarrow> w_db w' = w_db w"
  by (auto simp: Authenticate_def Let_def quiet_header quiet_query split: if_splits)

lemma refuse_error: "refuse cause w = (Inl e, w') \<Longrightarrow> \<exists>a. e = EApi a"
  by auto

lemma Authenticate_error: "Authenticate svc r body w = (Inl e, w') \<Longrightarrow> \<exists>a. e = EApi a"
proof -
  have l: "lookupIdentity svc key token w = (Inl e, w') \<Longrightarrow> \<exists>a. e = EApi a" for key token w w'
    by (auto simp: lookupIdentity_def bindE_nowE run_bindE split: option.splits if_splits)
  have s: "validateScope svc scope t w = (Inl e, w') \<Longrightarrow> \<exists>a. e = EApi a" for scope t w w'
    by (auto simp: validateScope_def bindE_nowE split: if_splits)
  have c: "check_signature r body names presigned signature t scope p w = (Inl e, w') \<Longrightarrow> \<exists>a. e = EApi a"
    for names presigned signature t scope p w w'
    by (auto simp: check_signature_def Let_def split: option.splits if_splits)
  have h: "authenticateHeaderSigned svc r body authz w = (Inl e, w') \<Longrightarrow> \<exists>a. e = EApi a" for authz w
    unfolding authenticateHeaderSigned_def Let_def
    by (fastforce split: if_splits option.splits elim!: bindE_cases dest: l s c)
  have q: "authenticateQuerySigned svc r body w = (Inl e, w') \<Longrightarrow> \<exists>a. e = EApi a" for w
    unfolding authenticateQuerySigned_def Let_def
    by (fastforce split: if_splits option.splits elim!: bindE_cases dest: l s c simp: bindE_nowE)
  assume "Authenticate svc r body w = (Inl e, w')"
  then show ?thesis by (auto simp: Authenticate_def Let_def split: if_splits dest: h q)
qed

lemma answer_dispatch_quiet: "answer_dispatch fuel h req resp w = (res, w') \<Longrightarrow> w' = w"
  by (auto simp: answer_dispatch_def on_error_def Let_def split: sum.splits goerr.splits option.splits)

lemma json_decoding_settled: "settled (Some (json_DecodeRequest reg r body))"
  by (simp add: json_DecodeRequest_def settled_def Let_def split: prod.splits option.splits)

lemma decoding_settled: "hh_Registry h = Default \<Longrightarrow> settled (decode_request default_fuel h wire r body)"
  by (cases wire) (simp_all add: decode_request_def json_decoding_settled settled_DecodeRequest)

lemma on_error_Inr [simp]: "on_error answer (Inr x) k = k x"
  by (simp add: on_error_def)

lemma on_error_EApi [simp]: "on_error answer (Inl (EApi a)) k = ok (Some (answer (EApi a)))"
  by (simp add: on_error_def)

lemma bindE_attempt: "m w = (r, w') \<Longrightarrow> bindE (attempt m) k w = k r w'"
  by (simp add: run_bindE_Inr)

section \<open>The refinement\<close>

text \<open>The request is answered with an error, and nothing was done.\<close>

definition turned_away :: "db \<Rightarrow> goerr + http_response option \<Rightarrow> db \<Rightarrow> bool" where
  "turned_away d res d' \<longleftrightarrow> d' = d \<and> (\<exists>wire requestID e. res = Inr (Some (writeError wire requestID e)))"

text \<open>The request is one request of the dispatcher, by the identity that authentication gave.\<close>

definition dispatched :: "config \<Rightarrow> http_handler \<Rightarrow> http_request \<Rightarrow> db \<Rightarrow> goerr + http_response option \<Rightarrow> db \<Rightarrow> bool" where
  "dispatched cfg h r d res d' \<longleftrightarrow> (\<exists>body req out v v' w'. hr_Body r = Some body
     \<and> Authenticate (hh_Auth h) r body v = (Inr (rq_Identity req), v') \<and> w_db v = d
     \<and> rq_WireProtocol req = detectWireProtocol r body
     \<and> decode_request default_fuel h (rq_WireProtocol req) r body = Some (Inr (rq_Operation req, rq_Input req))
     \<and> request_step cfg d req out d' \<and> answer_dispatch default_fuel h req out w' = (res, w'))"

lemma turned_awayI: "turned_away d (Inr (Some (writeError wire requestID e))) d"
  by (auto simp: turned_away_def)

lemma serve_action_runs:
  assumes "hh_Dispatcher h = NewSQS rounds cfg" and "serve_action fuel h req w = (res, w')"
  shows "\<exists>out. request_step cfg (w_db w) req out (w_db w') \<and> answer_dispatch fuel h req out w' = (res, w')"
proof -
  obtain out w1 where d: "Dispatch (NewSQS rounds cfg) req w = (out, w1)" by force
  then have "answer_dispatch fuel h req out w1 = (res, w')"
    using assms by (simp add: serve_action_def bindE_attempt)
  with answer_dispatch_quiet [OF this] request_step.answer [OF d] show ?thesis by auto
qed

lemma http_step:
  assumes "hh_Dispatcher h = NewSQS rounds cfg" and "hh_Registry h = Default"
    and "ServeHTTP default_fuel h r w = (res, w')"
  shows "turned_away (w_db w) res (w_db w') \<or> dispatched cfg h r (w_db w) res (w_db w')"
proof -
  obtain requestID w1 where id: "NewRequestID w = (Inr requestID :: goerr + string, w1)" "w_db w1 = w_db w"
    using NewRequestID_runs by blast
  define now w2 where "now = w_clock w1 (w_ticks w1)" and "w2 = w1\<lparr>w_ticks := Suc (w_ticks w1)\<rparr>"
  note run = assms(3) [unfolded ServeHTTP_def, simplified run_bindE_Inr [where m = NewRequestID, OF id(1)] bindE_nowE, folded now_def w2_def]
  have d2: "w_db w2 = w_db w" by (simp add: w2_def id)
  show ?thesis
  proof (cases "hr_Body r")
    case None
    then have "res = Inr (Some (writeError WireProtocolJSON requestID (internalError ''failed to read request body'' ''read'')))"
      "w' = w2" using run by (auto simp: writeError_def)
    then show ?thesis using turned_awayI d2 by metis
  next
    case (Some body)
    let ?wire = "detectWireProtocol r body"
    obtain auth w3 where a: "Authenticate (hh_Auth h) r body w2 = (auth, w3)" by force
    have d3: "w_db w3 = w_db w" using Authenticate_quiet [OF a] d2 by simp
    show ?thesis
    proof (cases auth)
      case (Inl e)
      then obtain x where "e = EApi x" using Authenticate_error a by blast
      then have "res = Inr (Some (writeError ?wire requestID e))" "w' = w3"
        using run a Inl by (auto simp: Some bindE_attempt Let_def)
      then show ?thesis using turned_awayI d3 by metis
    next
      case (Inr identity)
      show ?thesis
      proof (cases "decode_request default_fuel h ?wire r body")
        case (Some parsed)
        show ?thesis
        proof (cases parsed)
          case (Inl e)
          with Some decoding_settled [OF assms(2), of ?wire r body] have "on_error (writeError ?wire requestID) parsed k w3
              = (Inr (Some (writeError ?wire requestID e)), w3)" for k :: "string \<times> gmap \<Rightarrow> http_response option handler"
            by (cases e) (simp_all add: settled_def on_error_def)
          then have "res = Inr (Some (writeError ?wire requestID e))" "w' = w3"
            using run a \<open>auth = Inr identity\<close> Some \<open>hr_Body r = Some body\<close> by (auto simp: bindE_attempt Let_def)
          then show ?thesis using turned_awayI d3 by metis
        next
          case (Inr p)
          obtain action input where p: "p = (action, input)" by (cases p)
          let ?req = "protocol_request ?wire action input requestID now identity r"
          have "serve_action default_fuel h ?req w3 = (res, w')"
            using run a \<open>auth = Inr identity\<close> Some Inr p \<open>hr_Body r = Some body\<close> by (simp add: bindE_attempt Let_def)
          then obtain out where "request_step cfg (w_db w) ?req out (w_db w')" "answer_dispatch default_fuel h ?req out w' = (res, w')"
            using serve_action_runs [OF assms(1)] d3 by metis
          moreover have "rq_Identity ?req = identity" "rq_WireProtocol ?req = ?wire" "rq_Operation ?req = action" "rq_Input ?req = input"
            by (simp_all add: protocol_request_def)
          ultimately show ?thesis
            unfolding dispatched_def using a \<open>auth = Inr identity\<close> Some Inr p \<open>hr_Body r = Some body\<close> d2 by metis
        qed
      qed (use decoding_settled [OF assms(2), of ?wire r body] in \<open>simp add: settled_def\<close>)
    qed
  qed
qed

lemma dispatched_served: "dispatched cfg h r d res d' \<Longrightarrow> served cfg d d'"
  by (auto simp: dispatched_def intro: served_more [OF served_none])

lemma turned_away_served: "turned_away d res d' \<Longrightarrow> served cfg d d'"
  by (simp add: turned_away_def served_none)

text \<open>
  C4. Over HTTP nothing reaches the queues but through the dispatcher and for an authenticated
  caller: a request is either turned away with an error response and changes nothing, or it acts
  on the database as one request of the dispatcher, with the identity, operation and input that
  authentication and decoding gave, and the response is the encoding of the dispatcher's answer.
  Everything that holds of the databases that dispatched requests lead to holds over HTTP.
\<close>

theorem http_refines_dispatch:
  assumes "hh_Dispatcher h = NewSQS rounds cfg" and "hh_Registry h = Default"
    and "ServeHTTP default_fuel h r w = (res, w')"
  shows "served cfg (w_db w) (w_db w')
    \<and> (turned_away (w_db w) res (w_db w') \<or> dispatched cfg h r (w_db w) res (w_db w'))"
  using http_step [OF assms] dispatched_served turned_away_served by blast

text \<open>An unsigned request to a strict server.\<close>

definition sample_server :: http_handler where
  "sample_server = \<lparr>hh_Registry = Default, hh_Auth = sample_auth, hh_Dispatcher = NewSQS 1 sample_config\<rparr>"

theorem http_refines_dispatch_witness:
  "\<exists>res w'. ServeHTTP default_fuel sample_server (unsigned_request []) (sample_world sample_stock 5) = (res, w')
    \<and> w_db w' = sample_stock \<and> (\<exists>wire requestID e. res = Inr (Some (writeError wire requestID e)))"
proof -
  obtain res w' where run: "ServeHTTP default_fuel sample_server (unsigned_request []) (sample_world sample_stock 5) = (res, w')" by force
  have "hr_Body (unsigned_request []) = Some body \<Longrightarrow> Authenticate sample_auth (unsigned_request []) body v
      = (Inl (EApi (WithCause ErrInvalidSecurity ''missing signature'')), v)" for body v
    by (simp add: Authenticate_def sample_auth_simps sample_query values_get_def Let_def)
      (simp add: unsigned_request_def header_get_def)
  then have "\<not> dispatched sample_config sample_server (unsigned_request []) (w_db (sample_world sample_stock 5)) res (w_db w')"
    by (auto simp: dispatched_def sample_server_def)
  then have "turned_away (w_db (sample_world sample_stock 5)) res (w_db w')"
    using http_refines_dispatch [OF _ _ run] by (auto simp: sample_server_def)
  with run show ?thesis by (auto simp: turned_away_def sample_world_db)
qed

end
