(* ===== verification/Utf8.thy ===== *)
theory Utf8
  imports GoEncoding
begin

text \<open>
  How \<open>utf8.DecodeRune\<close> reads: the five forms of a rune, the encoding that gives it back, and that
  a rune is determined by its own bytes, whatever follows.
\<close>

lemma decodeRune_1: "byte a < 128 \<Longrightarrow> decodeRune (a # t) = (byte a, 1)"
  by (simp add: decodeRune_def)

lemma decodeRune_2: "194 \<le> byte a \<Longrightarrow> byte a < 224 \<Longrightarrow> decodeRune (a # t) =
    (case t of b # _ \<Rightarrow> if in_range 128 191 b then ((byte a - 192) * 64 + (byte b - 128), 2) else (rune_error, 1)
     | [] \<Rightarrow> (rune_error, 1))"
  by (simp add: decodeRune_def split: list.split)

lemma decodeRune_3: "224 \<le> byte a \<Longrightarrow> byte a < 240 \<Longrightarrow> decodeRune (a # t) =
    (case t of b # c # _ \<Rightarrow> if in_range (if byte a = 224 then 160 else 128) (if byte a = 237 then 159 else 191) b
         \<and> in_range 128 191 c
       then ((byte a - 224) * 4096 + (byte b - 128) * 64 + (byte c - 128), 3) else (rune_error, 1)
     | _ \<Rightarrow> (rune_error, 1))"
  by (simp add: decodeRune_def split: list.split)

lemma decodeRune_4: "240 \<le> byte a \<Longrightarrow> byte a < 245 \<Longrightarrow> decodeRune (a # t) =
    (case t of b # c # e # _ \<Rightarrow> if in_range (if byte a = 240 then 144 else 128) (if byte a = 244 then 143 else 191) b
         \<and> in_range 128 191 c \<and> in_range 128 191 e
       then ((byte a - 240) * 262144 + (byte b - 128) * 4096 + (byte c - 128) * 64 + (byte e - 128), 4)
       else (rune_error, 1)
     | _ \<Rightarrow> (rune_error, 1))"
  by (simp add: decodeRune_def numeral_2_eq_2 numeral_3_eq_3 split: list.split)

lemma decodeRune_bad: "128 \<le> byte a \<Longrightarrow> byte a < 194 \<or> 245 \<le> byte a \<Longrightarrow> decodeRune (a # t) = (rune_error, 1)"
  by (elim disjE) (simp_all add: decodeRune_def)
lemma decodeRune_cases:
  assumes "decodeRune s = (r, n)" and "s \<noteq> []"
  obtains (bad) "r = rune_error" "n = 1"
  | (one) a t where "s = a # t" "byte a < 128" "r = byte a" "n = 1"
  | (two) a b t where "s = a # b # t" "194 \<le> byte a" "byte a < 224" "in_range 128 191 b"
      "r = (byte a - 192) * 64 + (byte b - 128)" "n = 2"
  | (three) a b c t where "s = a # b # c # t" "224 \<le> byte a" "byte a < 240"
      "in_range (if byte a = 224 then 160 else 128) (if byte a = 237 then 159 else 191) b" "in_range 128 191 c"
      "r = (byte a - 224) * 4096 + (byte b - 128) * 64 + (byte c - 128)" "n = 3"
  | (four) a b c e t where "s = a # b # c # e # t" "240 \<le> byte a" "byte a < 245"
      "in_range (if byte a = 240 then 144 else 128) (if byte a = 244 then 143 else 191) b"
      "in_range 128 191 c" "in_range 128 191 e"
      "r = (byte a - 240) * 262144 + (byte b - 128) * 4096 + (byte c - 128) * 64 + (byte e - 128)" "n = 4"
proof -
  obtain a t where s: "s = a # t" using assms(2) by (cases s) auto
  consider "byte a < 128" | "128 \<le> byte a" "byte a < 194 \<or> 245 \<le> byte a" | "194 \<le> byte a" "byte a < 224"
    | "224 \<le> byte a" "byte a < 240" | "240 \<le> byte a" "byte a < 245" by linarith
  then show thesis
  proof cases
    case 1
    with assms(1) s one show ?thesis by (simp add: decodeRune_1)
  next
    case 2
    with assms(1) s bad show ?thesis by (simp add: decodeRune_bad)
  next
    case 3
    note eq = decodeRune_2 [OF 3, of t]
    show ?thesis
    proof (cases "\<exists>b u. t = b # u \<and> in_range 128 191 b")
      case True
      then obtain b u where "t = b # u" "in_range 128 191 b" by blast
      with 3 assms(1) eq s two [of a b u] show ?thesis by simp
    next
      case False
      with assms(1) eq s bad show ?thesis by (simp split: list.splits if_splits)
    qed
  next
    case 4
    note eq = decodeRune_3 [OF 4, of t]
    let ?P = "\<lambda>b c. in_range (if byte a = 224 then 160 else 128) (if byte a = 237 then 159 else 191) b \<and> in_range 128 191 c"
    show ?thesis
    proof (cases "\<exists>b c u. t = b # c # u \<and> ?P b c")
      case True
      then obtain b c u where t: "t = b # c # u" "?P b c" by blast
      from assms(1) eq s t have "r = (byte a - 224) * 4096 + (byte b - 128) * 64 + (byte c - 128)" "n = 3"
        by (simp_all only: list.case if_True) auto
      with 4 s t three [of a b c u] show ?thesis by blast
    next
      case False
      have "decodeRune (a # t) = (rune_error, 1)" unfolding eq
        by (rule list.exhaust [of t]; rule list.exhaust [of "tl t"]) (use False in auto)
      with assms(1) s bad show ?thesis by simp
    qed
  next
    case 5
    note eq = decodeRune_4 [OF 5, of t]
    let ?P = "\<lambda>b c e. in_range (if byte a = 240 then 144 else 128) (if byte a = 244 then 143 else 191) b
      \<and> in_range 128 191 c \<and> in_range 128 191 e"
    show ?thesis
    proof (cases "\<exists>b c e u. t = b # c # e # u \<and> ?P b c e")
      case True
      then obtain b c e u where t: "t = b # c # e # u" "?P b c e" by blast
      from assms(1) eq s t have "r = (byte a - 240) * 262144 + (byte b - 128) * 4096 + (byte c - 128) * 64 + (byte e - 128)" "n = 4"
        by (simp_all only: list.case if_True) auto
      with 5 s t four [of a b c e u] show ?thesis by blast
    next
      case False
      have "decodeRune (a # t) = (rune_error, 1)" unfolding eq
        by (rule list.exhaust [of t]; rule list.exhaust [of "tl t"]; rule list.exhaust [of "tl (tl t)"]) (use False in auto)
      with assms(1) s bad show ?thesis by simp
    qed
  qed
qed
lemma digits64:
  fixes z :: nat
  assumes "z < 64"
  shows "(k * 64 + z) div 64 = k" and "(k * 64 + z) mod 64 = z"
    and "(k * 64 + z) div 4096 = k div 64" and "(k * 64 + z) div 262144 = k div 4096"
proof -
  show d: "(k * 64 + z) div 64 = k" "(k * 64 + z) mod 64 = z" using assms by simp_all
  show "(k * 64 + z) div 4096 = k div 64" using div_mult2_eq [of "k * 64 + z" 64 64] d(1) by simp
  show "(k * 64 + z) div 262144 = k div 4096" using div_mult2_eq [of "k * 64 + z" 64 4096] d(1) by simp
qed

lemma utf8_two:
  assumes "194 \<le> byte a" and "byte a < 224" and "in_range 128 191 b"
  shows "utf8_encode ((byte a - 192) * 64 + (byte b - 128)) = [a, b]"
proof -
  obtain x y where x: "byte a = 192 + x" and y: "byte b = 128 + y" and "2 \<le> x" "x < 32" "y < 64"
    using assms by (auto simp: in_range_def intro: that [of "byte a - 192" "byte b - 128"])
  moreover have "a = char_of (192 + x)" "b = char_of (128 + y)" using x y by (metis char_of_char)+
  ultimately show ?thesis by (simp add: utf8_encode.simps)
qed

lemma utf8_three:
  assumes "224 \<le> byte a" and "byte a < 240"
    and "in_range (if byte a = 224 then 160 else 128) (if byte a = 237 then 159 else 191) b" and "in_range 128 191 c"
  shows "utf8_encode ((byte a - 224) * 4096 + (byte b - 128) * 64 + (byte c - 128)) = [a, b, c]"
proof -
  define x y z where "x = byte a - 224" and "y = byte b - 128" and "z = byte c - 128"
  have x: "byte a = 224 + x" and y: "byte b = 128 + y" and z: "byte c = 128 + z"
    using assms by (simp_all add: x_def y_def z_def in_range_def split: if_splits)
  have b: "x < 16" "y < 64" "z < 64" "x = 0 \<longrightarrow> 32 \<le> y" "x = 13 \<longrightarrow> y < 32"
    using assms by (simp_all add: in_range_def x y z split: if_splits)
  have r: "2048 \<le> x * 4096 + y * 64 + z" "x * 4096 + y * 64 + z < 65536" using b by (cases "x = 0"; simp)+
  have surrogate: "\<not> (55296 \<le> x * 4096 + y * 64 + z \<and> x * 4096 + y * 64 + z \<le> 57343)"
  proof (cases "x = 13")
    case False
    with b(2,3) show ?thesis by linarith
  qed (use b in simp)
  have "a = char_of (224 + x)" "b = char_of (128 + y)" "c = char_of (128 + z)" using x y z by (metis char_of_char)+
  moreover have "(x * 4096 + y * 64 + z) div 4096 = x" "(x * 4096 + y * 64 + z) div 64 mod 64 = y"
    "(x * 4096 + y * 64 + z) mod 64 = z"
    using digits64 [of z "x * 64 + y"] digits64 [of y x] b by (simp_all add: algebra_simps)
  ultimately show ?thesis using x y z r surrogate by (simp add: utf8_encode.simps)
qed

lemma utf8_four:
  assumes "240 \<le> byte a" and "byte a < 245"
    and "in_range (if byte a = 240 then 144 else 128) (if byte a = 244 then 143 else 191) b"
    and "in_range 128 191 c" and "in_range 128 191 e"
  shows "utf8_encode ((byte a - 240) * 262144 + (byte b - 128) * 4096 + (byte c - 128) * 64 + (byte e - 128)) = [a, b, c, e]"
proof -
  define x y z u where "x = byte a - 240" and "y = byte b - 128" and "z = byte c - 128" and "u = byte e - 128"
  have x: "byte a = 240 + x" and y: "byte b = 128 + y" and z: "byte c = 128 + z" and u: "byte e = 128 + u"
    using assms by (simp_all add: x_def y_def z_def u_def in_range_def split: if_splits)
  have b: "x < 5" "y < 64" "z < 64" "u < 64" "x = 0 \<longrightarrow> 16 \<le> y" "x = 4 \<longrightarrow> y < 16"
    using assms by (simp_all add: in_range_def x y z u split: if_splits)
  have r: "65536 \<le> x * 262144 + y * 4096 + z * 64 + u" using b by (cases "x = 0"; simp)
  have high: "x * 262144 + y * 4096 + z * 64 + u \<le> 1114111"
  proof (cases "x = 4")
    case False
    with b(1-4) show ?thesis by linarith
  qed (use b in simp)
  have "a = char_of (240 + x)" "b = char_of (128 + y)" "c = char_of (128 + z)" "e = char_of (128 + u)"
    using x y z u by (metis char_of_char)+
  moreover have e: "x * 262144 + y * 4096 + z * 64 + u = ((x * 64 + y) * 64 + z) * 64 + u" by (simp add: algebra_simps)
  have "(((x * 64 + y) * 64 + z) * 64 + u) div 262144 = x" "(((x * 64 + y) * 64 + z) * 64 + u) div 4096 mod 64 = y"
    "(((x * 64 + y) * 64 + z) * 64 + u) div 64 mod 64 = z" "(((x * 64 + y) * 64 + z) * 64 + u) mod 64 = u"
    unfolding digits64 [OF b(4)] using digits64 [OF b(3), of "x * 64 + y"] digits64(1,2) [OF b(2), of x] by simp_all
  ultimately show ?thesis using r high unfolding x y z u e diff_add_inverse by (simp add: utf8_encode.simps)
qed

lemma decodeRune_prefix:
  assumes "decodeRune s = (r, n)" and "s \<noteq> []" and "\<not> (r = rune_error \<and> n = 1)"
  shows "n \<le> length s \<and> decodeRune (take n s @ t) = (r, n) \<and> utf8_encode r = take n s"
  using assms(1,2)
proof (cases rule: decodeRune_cases)
  case (one a u)
  then show ?thesis by (simp add: decodeRune_1 utf8_encode.simps)
next
  case (two a b u)
  then show ?thesis by (simp add: decodeRune_2 utf8_two)
next
  case (three a b c u)
  then show ?thesis by (simp add: decodeRune_3 utf8_three)
next
  case (four a b c e u)
  then show ?thesis by (simp add: decodeRune_4 utf8_four)
qed (use assms(3) in simp)

text \<open>A rune outside ASCII has no byte of ASCII.\<close>

lemma utf8_encode_high:
  assumes "128 \<le> r" and "c \<in> set (utf8_encode r)"
  shows "128 \<le> byte c"
  using assms by (auto simp: utf8_encode.simps [of r] split: if_splits)

end
