(* ===== verification/JsonText.thy ===== *)
theory JsonText
  imports GoJson Utf8
begin

text \<open>
  The JSON columns of the store: what \<open>json.Marshal\<close> writes, \<open>json.Unmarshal\<close> reads back. Strings
  come back with invalid UTF-8 replaced, objects sorted by their keys; so \<open>json_rt\<close>, by which the
  store's rows are read, is what the two functions do together.
\<close>

section \<open>Strings\<close>

lemma hex_val_lower: "d < 16 \<Longrightarrow> hex_val (hex_lower ! d) = Some d"
proof -
  have "list_all (\<lambda>d. hex_val (hex_lower ! d) = Some d) [0..<16]" by code_simp
  then show "d < 16 \<Longrightarrow> hex_val (hex_lower ! d) = Some d" by (simp add: list_all_iff)
qed

lemma hex4_digits:
  assumes "n < 65536"
  shows "hex4 (hex_lower ! (n div 4096 mod 16) # hex_lower ! (n div 256 mod 16) # hex_lower ! (n div 16 mod 16)
    # hex_lower ! (n mod 16) # s) = Some (n, s)"
proof -
  have "((n div 4096 mod 16 * 16 + n div 256 mod 16) * 16 + n div 16 mod 16) * 16 + n mod 16 = n"
  proof -
    have "n div 4096 mod 16 = n div 4096" using assms by simp
    moreover have "n div 4096 * 16 + n div 256 mod 16 = n div 256"
      using div_mult_mod_eq [of "n div 256" 16] by (simp add: div_mult2_eq [symmetric])
    moreover have "n div 256 * 16 + n div 16 mod 16 = n div 16"
      using div_mult_mod_eq [of "n div 16" 16] by (simp add: div_mult2_eq [symmetric])
    ultimately show ?thesis by (simp only: div_mult_mod_eq)
  qed
  moreover have "hex_val (hex_lower ! (k mod 16)) = Some (k mod 16)" for k by (simp add: hex_val_lower)
  ultimately show ?thesis by (simp only: hex4.simps prod.case option.case)
qed

declare hex4.simps [simp del]

text \<open>A rune and its bytes, as \<open>runeChunks\<close> gives them.\<close>

definition chunk :: "nat \<times> string \<Rightarrow> bool" where
  "chunk p \<longleftrightarrow> (case p of (r, bs) \<Rightarrow>
     if r = rune_error \<and> length bs = 1 then True
     else bs \<noteq> [] \<and> utf8_encode r = bs \<and> (\<forall>t. decodeRune (bs @ t) = (r, length bs)))"

lemma runeChunks_chunk: "p \<in> set (runeChunks s) \<Longrightarrow> chunk p"
proof (induction s rule: runeChunks.induct)
  case (1 s)
  show ?case
  proof (cases "s = []")
    case False
    obtain r n where d: "decodeRune s = (r, n)" by fastforce
    with False have "runeChunks s = (r, take n s) # runeChunks (drop n s)" by (subst runeChunks.simps) simp
    with 1 d False consider "p = (r, take n s)" | "p \<in> set (runeChunks (drop n s))" by auto
    then show ?thesis
    proof cases
      case 1
      show ?thesis
      proof (cases "r = rune_error \<and> n = 1")
        case True
        with 1 False show ?thesis by (cases s) (simp_all add: chunk_def)
      next
        case bad: False
        have "0 < n" using decodeRune_width [OF False] d by simp
        with 1 decodeRune_prefix [OF d False bad] False bad show ?thesis by (auto simp: chunk_def)
      qed
    qed (use "1.IH" [OF False] d in auto)
  qed (use 1 in simp)
qed
lemma chunk_ascii:
  assumes "chunk (r, bs)" and "r < 128"
  shows "bs = [char_of r]" and "byte (char_of r) = r"
proof -
  have "bs \<noteq> [] \<and> utf8_encode r = bs" using assms by (auto simp: chunk_def rune_error_def split: if_splits)
  with assms(2) show "bs = [char_of r]" by (simp add: utf8_encode.simps)
  show "byte (char_of r) = r" using assms(2) by simp
qed

lemma chunk_high:
  assumes "chunk (r, bs)" and "128 \<le> r" and "\<not> (r = rune_error \<and> length bs = 1)"
  shows "\<exists>b t. bs = b # t \<and> 128 \<le> byte b \<and> decodeRune (bs @ u) = (r, length bs)"
proof -
  have b: "bs \<noteq> []" "decodeRune (bs @ u) = (r, length bs)" using assms(1,3) by (auto simp: chunk_def split: if_splits)
  then obtain b t where bs: "bs = b # t" by (cases bs) auto
  have "128 \<le> byte b"
  proof (rule ccontr)
    assume "\<not> 128 \<le> byte b"
    then have "decodeRune (bs @ u) = (byte b, 1)" by (simp add: bs decodeRune_1)
    with b(2) assms(2) \<open>\<not> 128 \<le> byte b\<close> show False by simp
  qed
  with b bs show ?thesis by blast
qed

text \<open>What a rune is after writing and reading.\<close>

definition sound_chunk :: "nat \<times> string \<Rightarrow> string" where
  "sound_chunk p = (case p of (r, bs) \<Rightarrow> if r = rune_error \<and> length bs = 1 then utf8_encode rune_error else bs)"

lemma to_valid_utf8_chunks: "to_valid_utf8 s = concat (map sound_chunk (runeChunks s))"
  by (simp add: to_valid_utf8_def sound_chunk_def [abs_def])

lemma json_string_hex:
  assumes "n < 65536" and "\<not> (55296 \<le> n \<and> n \<le> 57343)"
  shows "json_string (Suc fuel) (hex_escape n @ t) = map_option (\<lambda>(out, r). (utf8_encode n @ out, r)) (json_string fuel t)"
proof -
  have "unicode_escape (hex_lower ! (n div 4096 mod 16) # hex_lower ! (n div 256 mod 16) # hex_lower ! (n div 16 mod 16)
    # hex_lower ! (n mod 16) # t) = Some (utf8_encode n, t)"
    using assms(2) by (auto simp: unicode_escape_def hex4_digits [OF assms(1)])
  then show ?thesis by (simp add: hex_escape_def)
qed

lemma escapes:
  "escape_of (char_of (34 :: nat)) = Some [char_of (34 :: nat)]" "escape_of (char_of (92 :: nat)) = Some [char_of (92 :: nat)]"
  "escape_of (CHR ''b'') = Some [char_of (8 :: nat)]" "escape_of (CHR ''f'') = Some [char_of (12 :: nat)]"
  "escape_of (CHR ''n'') = Some [char_of (10 :: nat)]" "escape_of (CHR ''r'') = Some [char_of (13 :: nat)]"
  "escape_of (CHR ''t'') = Some [char_of (9 :: nat)]"
  "char_of (34 :: nat) \<noteq> CHR ''u''" "char_of (92 :: nat) \<noteq> CHR ''u''"
  by code_simp+

lemma json_string_rune:
  assumes "chunk (r, bs)"
  shows "json_string (Suc fuel) (json_escape_rune (r, bs) @ t) =
    map_option (\<lambda>(out, r'). (sound_chunk (r, bs) @ out, r')) (json_string fuel t)"
proof -
  have code: "bs = [char_of r]" "byte (char_of r) = r" if "r < 128" using chunk_ascii [OF assms that] .
  consider "r \<in> {34, 92, 8, 12, 10, 13, 9}" | "r \<notin> {34, 92, 8, 12, 10, 13, 9}" "r < 32 \<or> r \<in> {38, 60, 62}"
    | "r \<in> {8232, 8233}" | "r = rune_error" "length bs = 1"
    | "32 \<le> r" "r < 128" "r \<notin> {34, 92, 38, 60, 62}"
    | "128 \<le> r" "r \<notin> {8232, 8233}" "\<not> (r = rune_error \<and> length bs = 1)" by fastforce
  then show ?thesis
  proof cases
    case 1
    then have "r < 128" by auto
    with 1 code show ?thesis
      by (auto simp: json_escape_rune_def escapes sound_chunk_def rune_error_def)
  next
    case 2
    then have r: "r < 128" by auto
    with 2 have "json_escape_rune (r, bs) = hex_escape r" by (auto simp: json_escape_rune_def Let_def)
    with json_string_hex [of r fuel t] r code show ?thesis
      by (simp add: sound_chunk_def rune_error_def utf8_encode.simps)
  next
    case 3
    then have "json_escape_rune (r, bs) = hex_escape r" "bs = utf8_encode r"
      using assms by (auto simp: json_escape_rune_def Let_def chunk_def rune_error_def)
    with json_string_hex [of r fuel t] 3 show ?thesis by (auto simp: sound_chunk_def rune_error_def)
  next
    case 4
    then have "json_escape_rune (r, bs) = hex_escape rune_error" by (simp add: json_escape_rune_def Let_def rune_error_def)
    with json_string_hex [of rune_error fuel t] 4 show ?thesis by (simp add: sound_chunk_def rune_error_def)
  next
    case 5
    then have "json_escape_rune (r, bs) = bs" by (auto simp: json_escape_rune_def Let_def rune_error_def)
    moreover have "decodeRune (char_of r # t) = (r, 1)" using 5 code(2) by (simp add: decodeRune_1)
    ultimately show ?thesis using 5 code by (simp add: sound_chunk_def rune_error_def)
  next
    case 6
    then have e: "json_escape_rune (r, bs) = bs" by (auto simp: json_escape_rune_def Let_def)
    obtain b u where "bs = b # u" "128 \<le> byte b" "decodeRune (bs @ t) = (r, length bs)"
      using chunk_high [OF assms 6(1,3), of t] by blast
    with e 6(3) show ?thesis by (auto simp: sound_chunk_def)
  qed
qed

lemma json_escape_rune_nonempty: "chunk p \<Longrightarrow> json_escape_rune p \<noteq> []"
  by (auto simp: json_escape_rune_def hex_escape_def chunk_def Let_def rune_error_def split: prod.splits if_splits)

lemma json_string_escaped:
  assumes "\<And>p. p \<in> set ps \<Longrightarrow> chunk p" and "length (concat (map json_escape_rune ps)) < fuel" and "byte q = 34"
  shows "json_string fuel (concat (map json_escape_rune ps) @ q # t) = Some (concat (map sound_chunk ps), t)"
  using assms
proof (induction ps arbitrary: fuel)
  case Nil
  then show ?case by (cases fuel) auto
next
  case (Cons p ps)
  then obtain f where f: "fuel = Suc f" by (cases fuel) auto
  have p: "chunk p" using Cons.prems(1) by simp
  have "json_string f (concat (map json_escape_rune ps) @ q # t) = Some (concat (map sound_chunk ps), t)"
    using Cons.IH [of f] Cons.prems f json_escape_rune_nonempty [OF p] by (cases "json_escape_rune p") auto
  then show ?case
    using json_string_rune [of "fst p" "snd p" f] p by (simp add: f)
qed

lemma json_string_quote:
  assumes "length (json_quote s) \<le> fuel"
  shows "json_string fuel (tl (json_quote s) @ t) = Some (to_valid_utf8 s, t)"
  using json_string_escaped [where ps = "runeChunks s" and fuel = fuel and q = "char_of (34 :: nat)" and t = t]
    runeChunks_chunk [of _ s] assms
  by (simp add: json_quote_def to_valid_utf8_chunks)

section \<open>Values\<close>

text \<open>
  Values whose numbers are integers of 64 bits, with distinct keys of valid UTF-8: those of the queue
  attributes, tags, message attributes, recorded responses, and of the requests that clients send.
\<close>

fun plain_json :: "gval \<Rightarrow> bool" where
  "plain_json GNil = True"
| "plain_json (GStr s) = True"
| "plain_json (GBool b) = True"
| "plain_json (GList vs) = list_all plain_json vs"
| "plain_json (GMap m) = (distinct (map fst m) \<and> list_all (\<lambda>(k, v). valid_utf8 k \<and> plain_json v) m)"
| "plain_json (GInt n) = int64_range n"
| "plain_json v = False"

fun json_depth :: "gval \<Rightarrow> nat" where
  "json_depth (GList vs) = Suc (fold (\<lambda>v n. max n (json_depth v)) vs 0)"
| "json_depth (GMap m) = Suc (fold (\<lambda>(k, v) n. max n (json_depth v)) m 0)"
| "json_depth v = 0"

text \<open>What is read back: strings of valid UTF-8, objects in the order of their keys, and integers as the reader makes them.\<close>

fun json_read :: "(int \<Rightarrow> gval) \<Rightarrow> gval \<Rightarrow> gval" where
  "json_read img (GStr s) = GStr (to_valid_utf8 s)"
| "json_read img (GInt n) = img n"
| "json_read img (GList vs) = GList (map (json_read img) vs)"
| "json_read img (GMap m) = GMap (sort_key fst (map (\<lambda>(k, v). (k, json_read img v)) m))"
| "json_read img v = v"

text \<open>The store reads integers back as the nearest float64.\<close>

abbreviation json_sorted :: "gval \<Rightarrow> gval" where
  "json_sorted \<equiv> json_read (\<lambda>n. json_rt (GInt n))"

lemma mcopy_distinct: "distinct (map fst (dst @ src)) \<Longrightarrow> mcopy dst src = dst @ src"
proof (induction src arbitrary: dst)
  case (Cons p src)
  obtain k v where p: "p = (k, v)" by (cases p)
  have "k \<notin> fst ` set dst" using Cons.prems p by auto
  then have "mput dst k v = dst @ [(k, v)]" by (induction dst) auto
  with Cons.IH [of "dst @ [(k, v)]"] Cons.prems p show ?case by (simp add: mcopy_Cons)
qed simp

lemma mget_sort_key:
  assumes "distinct (map fst m)"
  shows "mget (sort_key fst m) k = mget m k"
proof -
  have "mset (map fst (sort_key fst m)) = mset (map fst m)" by (simp only: mset_map mset_sort)
  then have "distinct (map fst (sort_key fst m))" using assms by (metis mset_eq_imp_distinct_iff)
  with assms show ?thesis by (metis map_of_inject_set set_sort)
qed

lemma sort_key_values: "sort_key fst (map (\<lambda>(k, v). (k, f v)) m) = map (\<lambda>(k, v). (k, f v)) (sort_key fst m)"
proof -
  have ins: "insort_key fst (case p of (k, v) \<Rightarrow> (k, f v)) (map (\<lambda>(k, v). (k, f v)) xs) =
      map (\<lambda>(k, v). (k, f v)) (insort_key fst p xs)" for p xs
    by (induction xs) (auto split: prod.splits)
  show ?thesis by (induction m) (simp_all add: ins)
qed

lemma fold_max_le: "(fold (\<lambda>x n. max n (f x)) xs a :: nat) \<le> b \<longleftrightarrow> a \<le> b \<and> (\<forall>x \<in> set xs. f x \<le> b)"
  by (induction xs arbitrary: a) auto

lemma no_ws: "\<not> json_ws (CHR ''{'')" "\<not> json_ws (CHR ''['')" "\<not> json_ws (CHR ''}'')" "\<not> json_ws (CHR '']'')"
  "\<not> json_ws (CHR '','')" "\<not> json_ws (CHR '':'')" "\<not> json_ws (char_of (34 :: nat))"
  "\<not> json_ws (CHR ''n'')" "\<not> json_ws (CHR ''t'')" "\<not> json_ws (CHR ''f'')"
  by (simp_all add: json_ws_def)

lemma skip_ws_Cons: "\<not> json_ws c \<Longrightarrow> skip_ws (c # s) = c # s"
  by (simp add: skip_ws_def)

lemma json_quote_shape: "json_quote s = char_of (34 :: nat) # tl (json_quote s)"
  by (simp add: json_quote_def)

lemma json_value_quote:
  "json_value num (Suc fuel) depth (json_quote s @ t) = Some (GStr (to_valid_utf8 s), t)"
proof -
  have q: "char_of (34 :: nat) \<noteq> CHR ''{''" "char_of (34 :: nat) \<noteq> CHR ''[''" by code_simp+
  show ?thesis
    using json_string_quote [of s "Suc (length (tl (json_quote s) @ t))" t]
    by (simp add: json_quote_def skip_ws_Cons no_ws q)
qed

text \<open>The text of a list of values, and of the members of an object.\<close>

definition elems_text :: "gval list \<Rightarrow> string" where
  "elems_text vs = joinWith '','' (map json_marshal vs)"

definition members_text :: "gmap \<Rightarrow> string" where
  "members_text m = joinWith '','' (map (\<lambda>(k, v). json_quote k @ '':'' @ json_marshal v) m)"

lemma elems_text_Cons: "elems_text (v # vs) = json_marshal v @ (if vs = [] then [] else CHR '','' # elems_text vs)"
  by (cases vs) (simp_all add: elems_text_def)

lemma members_text_Cons:
  "members_text ((k, v) # m) = json_quote k @ CHR '':'' # json_marshal v @ (if m = [] then [] else CHR '','' # members_text m)"
  by (cases m) (auto simp: members_text_def)

lemma marshal_GMap: "json_marshal (GMap m) = ''{'' @ members_text (sort_key fst m) @ ''}''"
  unfolding json_marshal.simps sort_key_values members_text_def by (simp add: case_prod_unfold comp_def)

lemma marshal_GList: "json_marshal (GList vs) = ''['' @ elems_text vs @ '']''"
  by (simp add: elems_text_def)

section \<open>Integers\<close>

text \<open>What follows a value: the end of the text, or a separator.\<close>

definition ends :: "string \<Rightarrow> bool" where
  "ends t \<longleftrightarrow> (case t of [] \<Rightarrow> True | c # _ \<Rightarrow> c \<in> set '',]}'')"

lemma ends_simps [simp]: "ends []" "ends (CHR '','' # t)" "ends (CHR '']'' # t)" "ends (CHR ''}'' # t)"
  by (simp_all add: ends_def)

definition int_literal :: "int \<Rightarrow> number_lit" where
  "int_literal n = \<lparr>nl_neg = n < 0, nl_int = dec_digits (nat \<bar>n\<bar>), nl_frac = [], nl_exp = []\<rparr>"

lemma dec_digits_is_digit: "list_all is_digit (dec_digits n)"
  using digit_val_dec_digits [of _ n] by (auto simp: list_all_iff is_digit_def)

lemma dec_digits_leading: "dec_digits n = CHR ''0'' # ds \<Longrightarrow> ds = []"
proof (induction n arbitrary: ds rule: dec_digits.induct)
  case (1 n)
  show ?case
  proof (cases "n < 10")
    case False
    with 1(2) obtain ds' where d: "dec_digits (n div 10) = CHR ''0'' # ds'"
      by (subst (asm) dec_digits.simps) (cases "dec_digits (n div 10)", auto)
    with 1(1) [OF False d] have "dec_digits (n div 10) = ''0''" by simp
    then have "dec_value 0 (dec_digits (n div 10)) = Some 0" by (simp add: digit_val_def)
    then have "n div 10 = 0" by (simp add: dec_value_digits)
    with False show ?thesis by simp
  qed (use 1(2) in \<open>subst (asm) dec_digits.simps, simp\<close>)
qed

lemma ends_not_digit: "ends t \<Longrightarrow> takeWhile is_digit t = [] \<and> dropWhile is_digit t = t"
  by (cases t) (auto simp: ends_def is_digit_def digit_val_def)

lemma number_int_digits:
  assumes "ends t"
  shows "number_int (dec_digits n @ t) = Some (dec_digits n, t)"
proof -
  obtain c ds where d: "dec_digits n = c # ds" by (cases "dec_digits n") simp_all
  have all: "\<forall>x \<in> set (dec_digits n). is_digit x" using dec_digits_is_digit [of n] by (simp add: list_all_iff)
  show ?thesis
  proof (cases "c = CHR ''0''")
    case True
    with d dec_digits_leading have "ds = []" by blast
    with True d show ?thesis by (simp add: number_int_def)
  next
    case False
    have "takeWhile is_digit (dec_digits n @ t) = dec_digits n" "dropWhile is_digit (dec_digits n @ t) = t"
      using all ends_not_digit [OF assms] by (simp_all add: takeWhile_append dropWhile_append)
    with False d all show ?thesis by (auto simp: number_int_def)
  qed
qed

lemma number_rest: "ends t \<Longrightarrow> number_frac t = Some ([], t) \<and> number_exp t = Some ([], t)"
  by (cases t) (auto simp: ends_def number_frac_def number_exp_def)

lemma json_number_int:
  assumes "ends t"
  shows "json_number (formatInt n @ t) = Some (int_literal n, formatInt n, t)"
proof -
  obtain c ds where d: "dec_digits (nat \<bar>n\<bar>) = c # ds" "c \<noteq> CHR ''-''"
    using dec_digits_head by (cases "dec_digits (nat \<bar>n\<bar>)") auto
  show ?thesis
    using number_int_digits [OF assms, of "nat \<bar>n\<bar>"] number_rest [OF assms] d
    by (cases "n < 0") (simp_all add: json_number_def formatInt_def int_literal_def Let_def)
qed

lemma formatInt_head: "\<exists>c r. formatInt n = c # r \<and> (c = CHR ''-'' \<or> is_digit c)"
proof -
  have "\<exists>c r. dec_digits k = c # r \<and> is_digit c" for k
    using dec_digits_is_digit [of k] by (cases "dec_digits k") auto
  then show ?thesis unfolding formatInt_def by metis
qed

lemma number_head:
  assumes "c = CHR ''-'' \<or> is_digit c"
  shows "\<not> json_ws c \<and> c \<noteq> CHR ''{'' \<and> c \<noteq> CHR ''['' \<and> c \<noteq> CHR '']'' \<and> c \<noteq> CHR ''}'' \<and> byte c \<noteq> 34"
  using assms by (auto simp: is_digit_def digit_val_def json_ws_def Let_def)

text \<open>No value starts with the end of an object or a list.\<close>

lemma marshal_head:
  assumes "plain_json v"
  shows "\<exists>c r. json_marshal v = c # r \<and> c \<noteq> CHR ''}'' \<and> c \<noteq> CHR '']'' \<and> \<not> json_ws c"
proof -
  have q: "char_of (34 :: nat) \<noteq> CHR ''}''" "char_of (34 :: nat) \<noteq> CHR '']''" by code_simp+
  show ?thesis using assms
    using formatInt_head number_head
    by (cases v) (auto simp: json_quote_def q no_ws marshal_GMap marshal_GList simp del: json_marshal.simps(7,8), metis+)
qed

text \<open>
  How numbers are taken: an integer of 64 bits becomes its image. Unmarshalling takes the nearest
  float64, a decoder with \<open>UseNumber\<close> the text.
\<close>

locale number_reader =
  fixes num :: number_mode and img :: "int \<Rightarrow> gval"
  assumes reads_integer: "int64_range n \<Longrightarrow> num (int_literal n) (formatInt n) = Some (img n)"
begin

lemma json_value_int:
  assumes "int64_range n" and "ends t"
  shows "json_value num (Suc fuel) depth (formatInt n @ t) = Some (img n, t)"
proof -
  obtain c r where c: "formatInt n = c # r" "c = CHR ''-'' \<or> is_digit c" using formatInt_head by blast
  have "json_number (c # r @ t) = Some (int_literal n, c # r, t)" using json_number_int [OF assms(2), of n] c by simp
  then show ?thesis using number_head [OF c(2)] c reads_integer [OF assms(1)]
    by (simp add: skip_ws_Cons)
qed

end

definition reads :: "number_mode \<Rightarrow> (int \<Rightarrow> gval) \<Rightarrow> gval \<Rightarrow> bool" where
  "reads num img v \<longleftrightarrow> (\<forall>fuel depth t. ends t \<longrightarrow> length (json_marshal v) < fuel \<longrightarrow> depth + json_depth v \<le> max_depth \<longrightarrow>
     json_value num fuel depth (json_marshal v @ t) = Some (json_read img v, t))"

lemma readsD:
  "reads num img v \<Longrightarrow> ends t \<Longrightarrow> length (json_marshal v) < fuel \<Longrightarrow> depth + json_depth v \<le> max_depth \<Longrightarrow>
   json_value num fuel depth (json_marshal v @ t) = Some (json_read img v, t)"
  by (simp add: reads_def)

lemma json_elems_text:
  assumes "vs \<noteq> []" and "\<And>v. v \<in> set vs \<Longrightarrow> reads num img v" and "\<And>v. v \<in> set vs \<Longrightarrow> depth + json_depth v \<le> max_depth"
    and "Suc (length (elems_text vs)) < fuel"
  shows "json_elems num fuel depth (elems_text vs @ CHR '']'' # t) = Some (map (json_read img) vs, t)"
  using assms
proof (induction vs arbitrary: fuel)
  case (Cons v vs)
  then obtain f where f: "fuel = Suc f" by (cases fuel) auto
  let ?rest = "if vs = [] then CHR '']'' # t else CHR '','' # elems_text vs @ CHR '']'' # t"
  have "json_value num f depth (json_marshal v @ ?rest) = Some (json_read img v, ?rest)"
    by (rule readsD) (use Cons.prems f in \<open>simp_all add: elems_text_Cons\<close>)
  moreover have "elems_text (v # vs) @ CHR '']'' # t = json_marshal v @ ?rest"
    by (simp add: elems_text_Cons)
  moreover have "vs \<noteq> [] \<Longrightarrow> json_elems num f depth (elems_text vs @ CHR '']'' # t) = Some (map (json_read img) vs, t)"
    by (rule Cons.IH) (use Cons.prems f in \<open>simp_all add: elems_text_Cons\<close>)
  ultimately show ?case by (simp add: f skip_ws_Cons no_ws)
qed simp

lemma json_members_text:
  assumes "m \<noteq> []" and "\<And>k v. (k, v) \<in> set m \<Longrightarrow> reads num img v \<and> valid_utf8 k \<and> depth + json_depth v \<le> max_depth"
    and "Suc (length (members_text m)) < fuel"
  shows "json_members num fuel depth (members_text m @ CHR ''}'' # t) =
    Some (map (\<lambda>(k, v). (k, json_read img v)) m, t)"
  using assms
proof (induction m arbitrary: fuel)
  case (Cons p m)
  obtain k v where p: "p = (k, v)" by (cases p)
  obtain f where f: "fuel = Suc f" using Cons.prems(3) by (cases fuel) auto
  let ?rest = "if m = [] then CHR ''}'' # t else CHR '','' # members_text m @ CHR ''}'' # t"
  have v: "json_value num f depth (json_marshal v @ ?rest) = Some (json_read img v, ?rest)"
    by (rule readsD) (use Cons.prems p f in \<open>auto simp: members_text_Cons\<close>)
  have joined: "members_text (p # m) @ CHR ''}'' # t = json_quote k @ CHR '':'' # json_marshal v @ ?rest"
    by (simp add: p members_text_Cons)
  have k: "json_string fuel' (tl (json_quote k) @ u) = Some (k, u)" if "length (json_quote k) \<le> fuel'" for fuel' u
    using json_string_quote [OF that] Cons.prems(2) [of k v] p by (simp add: to_valid_utf8_id)
  have rest: "m \<noteq> [] \<Longrightarrow> json_members num f depth (members_text m @ CHR ''}'' # t) =
      Some (map (\<lambda>(k, v). (k, json_read img v)) m, t)"
    by (rule Cons.IH) (use Cons.prems p f in \<open>auto simp: members_text_Cons\<close>)
  show ?case
    unfolding joined using v rest k [of "Suc (length (tl (json_quote k) @ CHR '':'' # json_marshal v @ ?rest))"
        "CHR '':'' # json_marshal v @ ?rest"]
    by (subst json_quote_shape) (simp add: f p skip_ws_Cons no_ws)
qed simp

lemma json_value_object:
  assumes "depth < max_depth"
  shows "json_value num (Suc fuel) depth (CHR ''{'' # CHR ''}'' # t) = Some (GMap [], t)"
    and "x \<noteq> CHR ''}'' \<Longrightarrow> \<not> json_ws x \<Longrightarrow> json_value num (Suc fuel) depth (CHR ''{'' # x # t) =
      map_option (\<lambda>(m, t). (GMap (mcopy [] m), t)) (json_members num fuel (Suc depth) (x # t))"
  using assms by (simp_all add: skip_ws_Cons no_ws)

lemma json_value_array:
  assumes "depth < max_depth"
  shows "json_value num (Suc fuel) depth (CHR ''['' # CHR '']'' # t) = Some (GList [], t)"
    and "x \<noteq> CHR '']'' \<Longrightarrow> \<not> json_ws x \<Longrightarrow> json_value num (Suc fuel) depth (CHR ''['' # x # t) =
      map_option (\<lambda>(xs, t). (GList xs, t)) (json_elems num fuel (Suc depth) (x # t))"
  using assms by (simp_all add: skip_ws_Cons no_ws)

lemma json_value_literals:
  "json_value num (Suc fuel) depth (''null'' @ t) = Some (GNil, t)"
  "json_value num (Suc fuel) depth (''true'' @ t) = Some (GBool True, t)"
  "json_value num (Suc fuel) depth (''false'' @ t) = Some (GBool False, t)"
  by (simp_all add: skip_ws_Cons no_ws json_literal_def is_digit_def digit_val_def)

lemma reads_list:
  assumes "\<And>v. v \<in> set vs \<Longrightarrow> reads num img v" and "list_all plain_json vs"
  shows "reads num img (GList vs)"
  unfolding reads_def
proof (intro allI impI)
  fix fuel depth t
  assume "ends t" and l: "length (json_marshal (GList vs)) < fuel" and d: "depth + json_depth (GList vs) \<le> max_depth"
  then obtain f where f: "fuel = Suc f" by (cases fuel) auto
  have depth: "depth < max_depth" "\<And>v. v \<in> set vs \<Longrightarrow> Suc depth + json_depth v \<le> max_depth"
    using d fold_max_le [of json_depth vs 0 "max_depth - Suc depth"] by fastforce+
  show "json_value num fuel depth (json_marshal (GList vs) @ t) = Some (json_read img (GList vs), t)"
  proof (cases vs)
    case Nil
    then show ?thesis by (simp add: f json_value_array(1) [OF depth(1)] del: json_value.simps)
  next
    case (Cons v us)
    then obtain c r where c: "json_marshal v = c # r" "c \<noteq> CHR '']''" "\<not> json_ws c"
      using marshal_head [of v] assms(2) by auto
    have e: "json_elems num f (Suc depth) (elems_text vs @ CHR '']'' # t) = Some (map (json_read img) vs, t)"
      by (rule json_elems_text) (use Cons assms(1) depth(2) l f in \<open>auto simp: marshal_GList simp del: json_marshal.simps\<close>)
    obtain r' where "elems_text vs @ CHR '']'' # t = c # r'" using c(1) Cons by (auto simp: elems_text_Cons)
    with e json_value_array(2) [OF depth(1) c(2,3), of num f r'] show ?thesis
      by (simp add: marshal_GList f del: json_marshal.simps json_value.simps)
  qed
qed

lemma reads_map:
  assumes "\<And>k v. (k, v) \<in> set m \<Longrightarrow> reads num img v" and "plain_json (GMap m)"
  shows "reads num img (GMap m)"
  unfolding reads_def
proof (intro allI impI)
  fix fuel depth t
  assume "ends t" and l: "length (json_marshal (GMap m)) < fuel" and d: "depth + json_depth (GMap m) \<le> max_depth"
  then obtain f where f: "fuel = Suc f" by (cases fuel) auto
  have depth: "depth < max_depth" "\<And>k v. (k, v) \<in> set m \<Longrightarrow> Suc depth + json_depth v \<le> max_depth"
    using d fold_max_le [of "\<lambda>(k, v). json_depth v" m 0 "max_depth - Suc depth"]
    by (fastforce simp: case_prod_unfold)+
  let ?m = "sort_key fst m"
  show "json_value num fuel depth (json_marshal (GMap m) @ t) = Some (json_read img (GMap m), t)"
  proof (cases ?m)
    case Nil
    then have "m = []" by (metis set_empty set_sort)
    then show ?thesis by (simp add: f json_value_object(1) [OF depth(1)] del: json_value.simps)
  next
    case (Cons p us)
    have q: "char_of (34 :: nat) \<noteq> CHR ''}''" by code_simp
    have e: "json_members num f (Suc depth) (members_text ?m @ CHR ''}'' # t) =
        Some (map (\<lambda>(k, v). (k, json_read img v)) ?m, t)"
    proof (rule json_members_text)
      show "Suc (length (members_text ?m)) < f" using l f by (simp add: marshal_GMap del: json_marshal.simps)
      show "reads num img v \<and> valid_utf8 k \<and> Suc depth + json_depth v \<le> max_depth" if "(k, v) \<in> set ?m" for k v
        using that assms depth(2) by (auto simp: list_all_iff)
    qed (simp add: Cons)
    obtain r' where "members_text ?m @ CHR ''}'' # t = char_of (34 :: nat) # r'"
      using Cons by (cases p) (auto simp: members_text_Cons json_quote_def)
    moreover have "mcopy [] (map (\<lambda>(k, v). (k, json_read img v)) ?m) = map (\<lambda>(k, v). (k, json_read img v)) ?m"
    proof (rule mcopy_distinct [of "[]", simplified])
      have "mset (map fst ?m) = mset (map fst m)" by simp
      then have "distinct (map fst ?m)" using assms(2) by (metis mset_eq_imp_distinct_iff plain_json.simps(5))
      then show "distinct (map fst (map (\<lambda>(k, v). (k, json_read img v)) ?m))" by (simp add: case_prod_unfold comp_def)
    qed
    ultimately show ?thesis
      using e json_value_object(2) [OF depth(1) q no_ws(7), of num f r']
      by (simp add: marshal_GMap f sort_key_values del: json_marshal.simps json_value.simps)
  qed
qed

context number_reader
begin

lemma plain_json_reads: "plain_json v \<Longrightarrow> reads num img v"
proof (induction v)
  case (GList vs)
  then show ?case by (intro reads_list) (auto simp: list_all_iff)
next
  case (GMap m)
  then show ?case by (intro reads_map) (fastforce simp: list_all_iff)+
qed (auto simp: reads_def json_value_int json_value_literals [unfolded append.simps] json_value_quote less_eq_Suc_le dest!: Suc_le_D
    simp del: json_value.simps)

end

lemma bit_length_le: "n < 2 ^ k \<Longrightarrow> bit_length n \<le> k"
proof (induction k arbitrary: n)
  case (Suc k)
  then have "bit_length (n div 2) \<le> k" by (intro Suc.IH) (simp add: less_mult_imp_div_less mult.commute)
  then show ?case by (subst bit_length.simps) simp
qed (simp add: bit_length.simps)

lemma bit_length_lower: "0 < n \<Longrightarrow> 2 ^ (bit_length n - 1) \<le> n \<and> 0 < bit_length n"
proof (induction n rule: less_induct)
  case (less n)
  show ?case
  proof (cases "n = 1")
    case False
    with less.prems have h: "0 < n div 2" "n div 2 < n" by simp_all
    from less.IH [OF h(2,1)] have "2 ^ bit_length (n div 2) \<le> 2 * (n div 2)"
      by (cases "bit_length (n div 2)") simp_all
    also have "\<dots> \<le> n" by simp
    finally show ?thesis using less.prems by (subst (1 2) bit_length.simps) simp
  qed (simp add: bit_length.simps)
qed

lemma bit_length_upper: "n < 2 ^ bit_length n"
proof (induction n rule: bit_length.induct)
  case (1 n)
  show ?case
  proof (cases "n = 0")
    case False
    with 1 have "n < 2 * 2 ^ bit_length (n div 2)" by linarith
    with False show ?thesis by (subst bit_length.simps) simp
  qed simp
qed

lemma norm_float_nonzero: "0 < m \<Longrightarrow> 0 < fst (norm_float m e)"
  by (induction m e rule: norm_float.induct) (subst norm_float.simps, auto)

text \<open>An integer of 63 bits has a nearest float64, which is not zero unless the integer is.\<close>

lemma nearest_f64_int:
  assumes "0 < k" and "k \<le> 2 ^ 63"
  shows "\<exists>m e. nearest_f64 k 1 = Some (m, e) \<and> 0 < m"
proof -
  define b where "b = bit_length k"
  define scaled where "scaled = (\<lambda>e. (k * pow2 (- e), 1 * pow2 e))"
  define top where "top = (\<lambda>e. fst (scaled e) div snd (scaled e))"
  define e where "e = max (- 1074) (if top (int b - 54) < 2 ^ 53 then int b - 54 else int b - 54 + 1)"
  define q where "q = top e"
  define r where "r = fst (scaled e) mod snd (scaled e)"
  define m where "m = (if 2 * r > snd (scaled e) \<or> (2 * r = snd (scaled e) \<and> odd q) then q + 1 else q)"
  have b: "0 < b" "2 ^ (b - 1) \<le> k" "k < 2 ^ b" "b \<le> 64"
    using bit_length_lower [OF assms(1)] bit_length_upper [of k] bit_length_le [of k 64] assms(2) by (auto simp: b_def)
  have one: "bit_length 1 = 1" by (simp add: bit_length.simps)
  have run: "nearest_f64 k 1 = (if int (bit_length m) + e > 1024 then None else Some (norm_float m e))"
    using assms(1) unfolding nearest_f64_def one
    by (simp add: Let_def m_def q_def r_def e_def top_def scaled_def b_def algebra_simps)
  have e: "int b - 54 \<le> e" "e \<le> int b - 53" using b by (auto simp: e_def)
  have "0 < q \<and> q \<le> k * 2 ^ 54 \<and> bit_length m \<le> 64"
  proof (cases "e \<le> 0")
    case True
    define j where "j = nat (- e)"
    have s: "scaled e = (k * 2 ^ j, 1)" using True by (simp add: scaled_def pow2_def j_def)
    have j: "b + j \<le> 54" using e True by (simp add: j_def)
    have m: "m = k * 2 ^ j" by (simp add: m_def q_def top_def r_def s)
    have "k * 2 ^ j < 2 ^ b * 2 ^ j" using b(3) by simp
    also have "\<dots> = 2 ^ (b + j)" by (simp add: power_add)
    also have "\<dots> \<le> 2 ^ 54" by (rule power_increasing [OF j]) simp
    finally have "bit_length m \<le> 54" unfolding m by (rule bit_length_le)
    moreover have "q = k * 2 ^ j" by (simp add: q_def top_def s)
    moreover have "k * 2 ^ j \<le> k * 2 ^ 54" using j by (intro mult_le_mono2 power_increasing) auto
    ultimately show ?thesis using assms(1) by simp
  next
    case False
    define j where "j = nat e"
    have s: "scaled e = (k, 2 ^ j)" using False by (simp add: scaled_def pow2_def j_def)
    have j: "j + 1 \<le> b" using e False by (simp add: j_def)
    have q: "q = k div 2 ^ j" by (simp add: q_def top_def s)
    have "(2 :: nat) ^ j \<le> 2 ^ (b - 1)" using j by simp
    then have "2 ^ j \<le> k" using b(2) by linarith
    then have "0 < q" by (simp add: q div_greater_zero_iff)
    moreover have "q \<le> k" by (simp add: q)
    then have "m < 2 ^ 64" using assms(2) by (auto simp: m_def)
    then have "bit_length m \<le> 64" by (rule bit_length_le)
    moreover have "q \<le> k * 2 ^ 54" using \<open>q \<le> k\<close> by simp
    ultimately show ?thesis by simp
  qed
  then have "0 < m" "int (bit_length m) + e \<le> 1024" using e b by (auto simp: m_def)
  with run norm_float_nonzero [of m e] show ?thesis by (cases "norm_float m e") auto
qed

lemma json_rt_int: "int64_range n \<Longrightarrow> as_float64 (int_literal n) (formatInt n) = Some (json_rt (GInt n))"
proof -
  assume n: "int64_range n"
  have p: "as_float64 (int_literal n) (formatInt n) = (case nearest_f64 (nat \<bar>n\<bar>) 1 of None \<Rightarrow> None
      | Some (m, e) \<Rightarrow> Some (if m = 0 \<and> n < 0 then GFloat 0 1 else GFloat (if n < 0 then - int m else int m) e))"
    by (simp add: as_float64_def parse_float_def int_literal_def digits_nat_def dec_value_digits exp_int_def dec_ratio_def
        split: option.splits prod.splits)
  show ?thesis
  proof (cases "n = 0")
    case False
    have "nat \<bar>n\<bar> \<le> 2 ^ 63" using n by (simp add: int64_range_def) linarith
    with False obtain m e where "nearest_f64 (nat \<bar>n\<bar>) 1 = Some (m, e)" "0 < m"
      using nearest_f64_int [of "nat \<bar>n\<bar>"] by auto
    with False show ?thesis by (simp add: p sgn_if)
  qed (use p in \<open>simp add: nearest_f64_def\<close>)
qed

interpretation stored: number_reader as_float64 "\<lambda>n. json_rt (GInt n)"
  by unfold_locales (rule json_rt_int)

interpretation wire: number_reader as_number "\<lambda>n. GNum (formatInt n)"
  by unfold_locales (simp add: as_number_def)

text \<open>Reading back what was written.\<close>

lemma json_unmarshal_marshal:
  assumes "plain_json v" and "json_depth v \<le> max_depth"
  shows "json_unmarshal (json_marshal v) = Some (json_sorted v)"
proof -
  have "length (json_marshal v) < json_fuel (json_marshal v)" by (simp add: json_fuel_def)
  from readsD [OF stored.plain_json_reads [OF assms(1)] _ this, of "[]" 0] assms(2)
  show ?thesis by (simp add: json_unmarshal_def skip_ws_def)
qed

lemma json_unmarshal_map_marshal:
  assumes "plain_json (GMap m)" and "json_depth (GMap m) \<le> max_depth"
  shows "\<exists>m'. json_unmarshal_map (json_marshal (GMap m)) = Some m'
    \<and> (\<forall>k. mget m' k = map_option json_sorted (mget m k))"
proof -
  let ?m = "sort_key fst (map (\<lambda>(k, v). (k, json_sorted v)) m)"
  have "mget ?m k = map_option json_sorted (mget m k)" for k
  proof -
    have d: "distinct (map fst m)" using assms(1) by simp
    then have dm: "distinct (map fst (map (\<lambda>(k, v). (k, json_sorted v)) m))" by (simp add: case_prod_unfold comp_def)
    have "mset (map fst ?m) = mset (map fst (map (\<lambda>(k, v). (k, json_sorted v)) m))" by (simp only: mset_map mset_sort)
    then have "distinct (map fst ?m)" using dm by (metis mset_eq_imp_distinct_iff)
    then have "mget ?m = mget (map (\<lambda>(k, v). (k, json_sorted v)) m)"
      using dm by (simp only: map_of_inject_set set_sort)
    then show ?thesis by (simp add: map_of_map)
  qed
  with json_unmarshal_marshal [OF assms] show ?thesis
    by (intro exI [of _ ?m]) (simp add: json_unmarshal_map_def del: json_marshal.simps)
qed

lemma plain_strings: "plain_json (GMap (map (\<lambda>(k, v). (k, GStr v)) m)) \<longleftrightarrow> distinct (map fst m) \<and> (\<forall>k \<in> fst ` set m. valid_utf8 k)"
  by (auto simp: list_all_iff case_prod_unfold comp_def)

lemma depth_strings: "json_depth (GMap (map (\<lambda>(k, v). (k, GStr v)) m)) \<le> max_depth"
  using fold_max_le [of "\<lambda>(k, v). json_depth v" "map (\<lambda>(k, v). (k, GStr v)) m" 0 0]
  by (auto simp: max_depth_def case_prod_unfold)

end
