(* ===== verification/StoredText.thy ===== *)
theory StoredText
  imports JsonText SqliteStore QueueAttrs
begin

text \<open>
  What the store's JSON columns and the redrive policy give back: the round trips of \<open>JsonText\<close> on
  the definitions of the program.
\<close>

text \<open>
  C33. Reading a queue row gives the attributes that its JSON column holds: the text that
  \<open>json.Marshal\<close> writes for the attributes parses, and every key has the value that the scanned
  row has.
\<close>

theorem queue_attributes_column:
  assumes "distinct (map fst (q_Attributes q))" and "\<forall>k. k \<in> fst ` set (q_Attributes q) \<longrightarrow> valid_utf8 k"
  shows "\<exists>m. json_unmarshal_map (json_marshal (GMap (stringMapToAny (q_Attributes q)))) = Some m
    \<and> (\<forall>k. mget m k = map_option GStr (mget (q_Attributes (scanQueueRow q)) k))"
proof -
  let ?a = "q_Attributes q"
  have "mget (json_rt_strmap xs) k = map_option to_valid_utf8 (mget xs k)"
    if "\<forall>k \<in> fst ` set xs. valid_utf8 k" for xs :: strmap and k
    using that by (induction xs) (auto simp: json_rt_strmap_def to_valid_utf8_id)
  then have "mget (q_Attributes (scanQueueRow q)) k = map_option to_valid_utf8 (mget ?a k)" for k
    using assms(2) by (simp add: scanQueueRow_def)
  moreover have "map_option json_sorted (map_option GStr x) = map_option GStr (map_option to_valid_utf8 x)" for x
    by (cases x) simp_all
  ultimately show ?thesis
    using json_unmarshal_map_marshal [of "stringMapToAny ?a"] plain_strings [of ?a] depth_strings [of ?a] assms
    by (simp add: stringMapToAny_def mget_stringMapToAny [unfolded stringMapToAny_def] del: json_marshal.simps plain_json.simps json_depth.simps)
qed

theorem queue_attributes_column_witness:
  "\<exists>m. json_unmarshal_map (json_marshal (GMap (stringMapToAny [(''DelaySeconds'', ''5'')]))) = Some m
    \<and> mget m ''DelaySeconds'' = Some (GStr ''5'')"
  using queue_attributes_column [of "q\<lparr>q_Attributes := [(''DelaySeconds'', ''5'')]\<rparr>" for q]
  by (fastforce simp: scanQueueRow_def json_rt_strmap_def ascii_valid_utf8 ascii_def)

text \<open>A redrive policy as a client writes it.\<close>

lemma dropWhile_snoc: "\<not> P x \<Longrightarrow> dropWhile P (xs @ [x]) = dropWhile P xs @ [x]"
  by (induction xs) auto

lemma trimSpace_nonempty:
  assumes "byte c < 128" and "\<not> is_space (byte c)"
  shows "trimSpace (c # s) \<noteq> []"
  using assms by (simp add: trimSpace_def Let_def runeChunks_ascii_Cons dropWhile_snoc)

lemma ascii_formatInt: "ascii (formatInt n)"
proof -
  have "list_all (\<lambda>c. byte c < 128) (dec_digits k)" for k
    unfolding list_all_iff
  proof
    fix c
    assume "c \<in> set (dec_digits k)"
    then show "byte c < 128" using digit_val_dec_digits [of c k] by (simp add: digit_val_def Let_def split: if_splits)
  qed
  then show ?thesis by (simp add: ascii_def formatInt_def)
qed

lemma parse_written_policy:
  assumes "valid_utf8 arn" and "arn \<noteq> []" and "int64_range n" and "0 < n"
  shows "parseRedrivePolicy (json_marshal (GMap [(''deadLetterTargetArn'', GStr arn), (''maxReceiveCount'', GStr (formatInt n))])) =
    Inr (Some \<lparr>rp_TargetARN = arn, rp_MaxReceiveCount = n\<rparr>)"
proof -
  let ?m = "[(''deadLetterTargetArn'', GStr arn), (''maxReceiveCount'', GStr (formatInt n))]"
  have "trimSpace (json_marshal (GMap ?m)) \<noteq> []"
    unfolding marshal_GMap append.simps by (rule trimSpace_nonempty) (simp_all add: is_space_def)
  moreover have "valid_utf8 ''deadLetterTargetArn''" "valid_utf8 ''maxReceiveCount''" "valid_utf8 (formatInt n)"
    using ascii_formatInt by (simp_all add: ascii_valid_utf8 ascii_def)
  moreover have "json_depth (GMap ?m) \<le> max_depth" by (simp add: max_depth_def)
  ultimately obtain m where "json_unmarshal_map (json_marshal (GMap ?m)) = Some m"
    "\<forall>k. mget m k = map_option json_sorted (mget ?m k)"
    using json_unmarshal_map_marshal [of ?m] by auto
  with assms show ?thesis
    using \<open>trimSpace _ \<noteq> []\<close> \<open>valid_utf8 (formatInt n)\<close>
    by (simp add: parseRedrivePolicy_def int64Value_def stringValue_def stringOf_def parseInt_formatInt to_valid_utf8_id
        del: json_marshal.simps)
qed

end
