(* ===== verification/JsonRequests.thy ===== *)
theory JsonRequests
  imports HttpHandler StoredText
begin

text \<open>
  A request of the JSON protocol is decoded to the input that the client encoded: the decoder with
  \<open>UseNumber\<close> and \<open>normalizeNumbers\<close> together keep integers exact, where plain unmarshalling (which
  the store uses) takes the nearest float64.
\<close>

lemma normalizeNumbers_read:
  "plain_json v \<Longrightarrow> normalizeNumbers (json_read (\<lambda>n. GNum (formatInt n)) v) = json_read GInt v"
proof (induction v)
  case (GMap m)
  then have "normalizeNumbers (json_read (\<lambda>n. GNum (formatInt n)) v) = json_read GInt v" if "(k, v) \<in> set m" for k v
    using that by (fastforce simp: list_all_iff)
  then show ?case
    unfolding json_read.simps normalizeNumbers.simps sort_key_values map_map by (auto intro!: map_cong)
qed (auto simp: parseInt_formatInt list_all_iff)

lemma json_decode_map_marshal:
  assumes "plain_json (GMap m)" and "json_depth (GMap m) \<le> max_depth"
  shows "json_decode_map (json_marshal (GMap m)) = Some (sort_key fst (map (\<lambda>(k, v). (k, json_read (\<lambda>n. GNum (formatInt n)) v)) m))"
proof -
  have "length (json_marshal (GMap m)) < json_fuel (json_marshal (GMap m))" by (simp add: json_fuel_def)
  from readsD [OF wire.plain_json_reads [OF assms(1)] _ this, of "[]" 0] assms(2)
  show ?thesis by (simp add: json_decode_map_def)
qed

text \<open>
  C12. A JSON request is read as it was meant: when the target header names an operation and the body
  is an encoded object whose numbers are integers of 64 bits, decoding gives that operation and the
  same input: every integer exactly, strings of valid UTF-8 as they are, nested objects and
  lists with the same members.
\<close>

theorem json_request_roundtrip:
  assumes "Operation reg action = Some op" and "header_get (hr_Header r) ''X-Amz-Target'' = Target reg action"
    and "plain_json (GMap input)" and "json_depth (GMap input) \<le> max_depth"
  shows "\<exists>input'. json_DecodeRequest reg r (json_marshal (GMap input)) = Inr (action, input')
    \<and> (\<forall>k. mget input' k = map_option (json_read GInt) (mget input k))"
proof -
  let ?read = "\<lambda>img. map (\<lambda>(k, v). (k, json_read img v)) input"
  have "ActionFromTarget reg (Target reg action) = (action, True)"
    using assms(1) by (simp add: ActionFromTarget_Target)
  moreover have "trimSpace (json_marshal (GMap input)) \<noteq> []"
    unfolding marshal_GMap append.simps by (rule trimSpace_nonempty) (simp_all add: is_space_def)
  moreover have "map (\<lambda>(k, v). (k, normalizeNumbers v)) (sort_key fst (?read (\<lambda>n. GNum (formatInt n)))) = sort_key fst (?read GInt)"
    using normalizeNumbers_read [OF assms(3)] by simp
  ultimately have "json_DecodeRequest reg r (json_marshal (GMap input)) = Inr (action, sort_key fst (?read GInt))"
    by (simp add: json_DecodeRequest_def assms(2) json_decode_map_marshal [OF assms(3,4)] del: json_marshal.simps)
  moreover have "distinct (map fst (?read GInt))" using assms(3) by (simp add: case_prod_unfold comp_def)
  ultimately show ?thesis by (auto simp: mget_sort_key map_of_map)
qed

theorem json_request_roundtrip_witness:
  "\<exists>input. json_DecodeRequest Default (unsigned_request [(''X-Amz-Target'', [''AmazonSQS.ListQueues''])])
      (json_marshal (GMap [(''QueueNamePrefix'', GStr ''a''), (''MaxResults'', GInt 9007199254740993)])) = Inr (''ListQueues'', input)
    \<and> mget input ''MaxResults'' = Some (GInt 9007199254740993)"
proof -
  let ?r = "unsigned_request [(''X-Amz-Target'', [''AmazonSQS.ListQueues''])]"
  have "Operation Default ''ListQueues'' = Some op_ListQueues"
    by (rule Operation_found) (simp add: Default_Operations_def)
  moreover have "canonicalHeaderKey ''X-Amz-Target'' = ''X-Amz-Target''"
    by (simp add: canonicalHeaderKey_def token_char_def ascii_upper_def ascii_lower_def Let_def)
  then have "header_get (hr_Header ?r) ''X-Amz-Target'' = Target Default ''ListQueues''"
    by (simp add: unsigned_request_def header_get_def Target_def Default_def Default_Metadata_def)
  moreover have "valid_utf8 ''QueueNamePrefix''" "valid_utf8 ''MaxResults''"
    by (auto intro!: ascii_valid_utf8 simp: ascii_def)
  then have "plain_json (GMap [(''QueueNamePrefix'', GStr ''a''), (''MaxResults'', GInt 9007199254740993)])"
    by (simp add: int64_range_def)
  ultimately show ?thesis
    using json_request_roundtrip [of Default "''ListQueues''" op_ListQueues ?r
        "[(''QueueNamePrefix'', GStr ''a''), (''MaxResults'', GInt 9007199254740993)]"]
    by (auto simp: max_depth_def simp del: json_marshal.simps)
qed

end
