(* ===== verification/Server.thy ===== *)
theory Server
  imports HttpRefinement JsonRequests
begin

text \<open>
  \<open>cmd/sqsd/main.go\<close>: what start-up makes of the environment, the command line and the credentials
  file, and how the process ends. Whether the database can be opened and initialised, and what
  \<open>ListenAndServe\<close> returns in the end, are parameters. A signal starts \<open>Shutdown\<close> in another
  goroutine; \<open>ListenAndServe\<close> returns at once and the process ends without waiting for it, so
  requests may be cut off between two calls of the store (see \<open>Interleaving\<close>).
\<close>

datatype log_level = LevelDebug | LevelInfo | LevelWarn | LevelError

definition parseLogLevel :: "string \<Rightarrow> log_level" where
  "parseLogLevel raw =
     (let up = map ascii_upper raw
      in if up = ''DEBUG'' then LevelDebug else if up = ''WARN'' then LevelWarn
         else if up = ''ERROR'' then LevelError else LevelInfo)"

record server =
  sv_Addr :: string
  sv_Level :: log_level
  sv_Handler :: http_handler
  sv_ReadTimeout :: gotime
  sv_ReadHeaderTimeout :: gotime
  sv_WriteTimeout :: gotime
  sv_IdleTimeout :: gotime

datatype startup = Exited string | Panicked string | Serving server

definition default_credential :: "config \<Rightarrow> credential" where
  "default_credential cfg = zero_credential\<lparr>cr_AccessKeyID := cfg_DefaultAccessKeyID cfg,
     cr_SecretAccessKey := cfg_DefaultSecretAccessKey cfg, cr_SessionToken := cfg_DefaultSessionToken cfg,
     cr_AccountID := cfg_AccountID cfg\<rparr>"

definition sqsd_server :: "nat \<Rightarrow> config \<Rightarrow> credentials \<Rightarrow> server" where
  "sqsd_server rounds cfg creds =
     \<lparr>sv_Addr = cfg_ListenAddr cfg, sv_Level = parseLogLevel (cfg_LogLevel cfg),
      sv_Handler = \<lparr>hh_Registry = Default,
        hh_Auth = auth_NewService (cfg_AuthMode cfg) creds (cfg_AllowedRegions cfg) (cfg_Region cfg) (cfg_AccountID cfg),
        hh_Dispatcher = NewSQS rounds cfg\<rparr>,
      sv_ReadTimeout = seconds 30, sv_ReadHeaderTimeout = seconds 5, sv_WriteTimeout = seconds 30, sv_IdleTimeout = seconds 60\<rparr>"

definition sqsd_main :: "nat \<Rightarrow> (string \<Rightarrow> string) \<Rightarrow> string list \<Rightarrow> bool \<Rightarrow> bool \<Rightarrow> (string \<Rightarrow> string option) \<Rightarrow> startup" where
  "sqsd_main rounds env args opened initialised files =
     (case cfg_Load env args of
        None \<Rightarrow> Exited ''usage''
      | Some cfg \<Rightarrow>
          (case cfg_Validate cfg of
             Some e \<Rightarrow> Panicked e
           | None \<Rightarrow>
               (if \<not> opened then Exited ''failed to open storage''
                else if \<not> initialised then Exited ''failed to initialize storage''
                else (case auth_LoadFile (auth_NewRegistry (cfg_AccountID cfg) [default_credential cfg])
                        (cfg_CredentialsFile cfg) (files (cfg_CredentialsFile cfg)) of
                    Inl e \<Rightarrow> Exited ''failed to load credentials''
                  | Inr creds \<Rightarrow> Serving (sqsd_server rounds cfg creds)))))"

text \<open>The status with which a server that was started ends.\<close>

datatype serve_result = ServerClosed | ServeError string

definition sqsd_exit :: "serve_result \<Rightarrow> nat" where
  "sqsd_exit result = (case result of ServerClosed \<Rightarrow> 0 | ServeError e \<Rightarrow> 1)"

text \<open>A server that runs has the parts that \<open>http_refines_dispatch\<close> asks for, and a list of regions.\<close>

lemma serving:
  assumes "sqsd_main rounds env args opened initialised files = Serving s"
  shows "\<exists>cfg creds. cfg_Load env args = Some cfg \<and> cfg_Validate cfg = None \<and> s = sqsd_server rounds cfg creds"
  using assms by (auto simp: sqsd_main_def split: option.splits if_splits sum.splits)

lemma serving_regions:
  assumes "sqsd_main rounds env args opened initialised files = Serving s"
  shows "as_allowedRegions (hh_Auth (sv_Handler s)) \<noteq> []"
  using serving [OF assms] loaded_regions by (auto simp: sqsd_server_def auth_NewService_def)

lemma serving_steps:
  assumes "sqsd_main rounds env args opened initialised files = Serving s"
    and "ServeHTTP default_fuel (sv_Handler s) r w = (res, w')"
  shows "\<exists>cfg. turned_away (w_db w) res (w_db w') \<or> dispatched cfg (sv_Handler s) r (w_db w) res (w_db w')"
  using serving [OF assms(1)] http_step [OF _ _ assms(2)] by (fastforce simp: sqsd_server_def)

text \<open>
  In bypass mode every request is accepted, also when \<open>AllowInsecureBypass\<close> was not given: the
  setting is read and never asked for.
\<close>

lemma bypass_needs_no_permission:
  assumes "cfg_AuthMode cfg = ''bypass''" and "s = sqsd_server rounds cfg creds"
  shows "\<exists>identity. Authenticate (hh_Auth (sv_Handler s)) r body w = (Inr identity, w)"
  by (simp add: assms sqsd_server_def auth_NewService_def Authenticate_def)

end
