(* ===== verification/Selection.thy ===== *)
theory Selection
  imports StoredText ReceiptOps Hoare
begin

text \<open>
  The loop of \<open>selectMessagesForReceive\<close>: it ends when the dead-letter queue exists and is another
  queue, since every round that goes on has moved a message away; it never ends when that queue is
  missing. The store does not fail here: a failing lookup of the dead-letter queue is taken for a
  missing queue and the round is repeated.
\<close>

section \<open>One redrive\<close>

definition redrive_target :: "queue \<Rightarrow> db \<Rightarrow> queue option" where
  "redrive_target q d =
     (case parseRedrivePolicy (sget (q_Attributes q) ''RedrivePolicy'') of
        Inr (Some policy) \<Rightarrow> live_queue (db_QueueByARN (rp_TargetARN policy) d)
      | _ \<Rightarrow> None)"

lemma redrive_targetD:
  assumes "redrive_target q d = Some t"
  obtains policy where "parseRedrivePolicy (sget (q_Attributes q) ''RedrivePolicy'') = Inr (Some policy)"
    and "db_QueueByARN (rp_TargetARN policy) d = Some t" and "q_DeletedAt t = None" and "queue_exists d (q_ID t)"
  using assms by (auto simp: redrive_target_def live_queue_def db_QueueByARN_def queue_exists_def
      split: sum.splits option.splits if_splits dest: row_byD)

text \<open>What redriving some messages has done: others are as they were, and no message of the queue was added.\<close>

definition in_queue :: "queue \<Rightarrow> db \<Rightarrow> message list" where
  "in_queue q d = filter (\<lambda>m. m_QueueID m = q_ID q) (d_messages d)"

definition redriven :: "queue \<Rightarrow> queue \<Rightarrow> gotime \<Rightarrow> db \<Rightarrow> db \<Rightarrow> bool" where
  "redriven q t now d d' \<longleftrightarrow> d_queues d' = d_queues d \<and> length (in_queue q d') \<le> length (in_queue q d)
     \<and> (\<forall>m. m \<in> set (d_messages d) \<longrightarrow> m \<in> set (d_messages d')
          \<or> (m_QueueID m = q_ID q \<and> shouldRedrive q m \<and> scanMessage (redrive_to t q now m) \<in> set (d_messages d')))"

lemma redriven_refl: "redriven q t now d d"
  by (simp add: redriven_def)

lemma redriven_trans:
  "q_ID t \<noteq> q_ID q \<Longrightarrow> redriven q t now a b \<Longrightarrow> redriven q t now b c \<Longrightarrow> redriven q t now a c"
  by (fastforce simp: redriven_def redrive_to_def scanMessage_def)

lemma redriven_target: "redriven q t now d d' \<Longrightarrow> redrive_target q d' = redrive_target q d"
  unfolding redriven_def by (elim conjE) (simp add: redrive_target_def db_QueueByARN_def split: sum.split option.split)

lemma filter_update_fewer:
  assumes "m \<in> set ms" and "key m = k" and "P m" and "\<not> P new"
  shows "length (filter P (update_where (\<lambda>m. key m = k) (\<lambda>_. new) ms)) < length (filter P ms)"
proof -
  have le: "length (filter P (update_where (\<lambda>m. key m = k) (\<lambda>_. new) xs)) \<le> length (filter P xs)" for xs
    using assms(4) by (induction xs) (auto simp: update_where_def)
  show ?thesis using assms(1)
  proof (induction ms)
    case (Cons x xs)
    then show ?case using assms le [of xs] by (auto simp: update_where_def le_imp_less_Suc)
  qed simp
qed

lemma redrive_runs:
  assumes "healthy w" and "db_wf (w_db w)" and "redrive_target q (w_db w) = Some t" and "q_ID t \<noteq> q_ID q"
    and "m \<in> set (in_queue q (w_db w))" and "shouldRedrive q m"
  shows "\<exists>w'. redriveMessage q m now w = (Inr (), w') \<and> healthy w' \<and> db_wf (w_db w')
    \<and> redriven q t now (w_db w) (w_db w') \<and> length (in_queue q (w_db w')) < length (in_queue q (w_db w))
    \<and> (\<forall>x. x \<in> set (in_queue q (w_db w)) \<longrightarrow> m_RowID x \<noteq> m_RowID m \<longrightarrow> x \<in> set (in_queue q (w_db w')))"
proof -
  let ?d = "w_db w" and ?new = "redrive_to t q now m"
  obtain policy where p: "parseRedrivePolicy (sget (q_Attributes q) ''RedrivePolicy'') = Inr (Some policy)"
    and t: "db_QueueByARN (rp_TargetARN policy) ?d = Some t" "q_DeletedAt t = None" "queue_exists ?d (q_ID t)"
    using redrive_targetD [OF assms(3)] .
  obtain d1 where d1: "db_DeactivateReceiptsByMessage (m_RowID m) ?d = Inr ((), d1)"
    "d_messages d1 = d_messages ?d" "d_queues d1 = d_queues ?d"
    by (auto simp: db_DeactivateReceiptsByMessage_def)
  have wf1: "db_wf d1" by (rule wf_DeactivateReceiptsByMessage [OF d1(1) assms(2)])
  have m: "m \<in> set (d_messages ?d)" "m_QueueID m = q_ID q" using assms(5) by (auto simp: in_queue_def)
  have ids: "m_RowID ?new = m_RowID m" "m_MessageID ?new = m_MessageID m" "m_QueueID ?new = q_ID t"
    by (simp_all add: redrive_to_def)
  have uniq: "x = m" if "x \<in> set (d_messages ?d)" "m_RowID x = m_RowID m \<or> m_MessageID x = m_MessageID m" for x
    using assms(2) m(1) that by (auto simp: db_wf_def wf_messages_def ids_below_def distinct_map inj_on_def)
  let ?ms = "update_where (\<lambda>x. m_RowID x = m_RowID m) (\<lambda>_. scanMessage ?new) (d_messages ?d)"
  have u: "db_UpdateMessage ?new d1 = Inr ((), d1\<lparr>d_messages := ?ms\<rparr>)"
    using m(1) t(3) uniq by (auto simp: db_UpdateMessage_def d1 ids queue_exists_def)
  define w' where "w' = w\<lparr>w_calls := Suc (Suc (Suc (w_calls w))), w_db := d1\<lparr>d_messages := ?ms\<rparr>\<rparr>"
  have "redriveMessage q m now w = (Inr (), w')"
    using assms(1) p t d1(1) u
    by (simp add: redriveMessage_def run_bindE lookupQueueByARN_def QueueByARN_def DeactivateReceiptsByMessage_def
        UpdateMessage_def attempt_def w'_def)
  moreover have "db_wf (w_db w')" using wf_UpdateMessage [OF u wf1] by (simp add: w'_def)
  moreover have in': "in_queue q (w_db w') = filter (\<lambda>m. m_QueueID m = q_ID q) ?ms"
    by (simp add: in_queue_def w'_def)
  moreover have fewer: "length (in_queue q (w_db w')) < length (in_queue q ?d)"
    unfolding in' unfolding in_queue_def
    by (rule filter_update_fewer [of m]) (use m assms(4) ids in \<open>simp_all add: scanMessage_def\<close>)
  moreover have keep: "x \<in> set ?ms" if "x \<in> set (d_messages ?d)" "m_RowID x \<noteq> m_RowID m" for x
    using that by (auto simp: update_where_def intro: image_eqI [of _ _ x])
  moreover have "scanMessage ?new \<in> set ?ms"
    using m(1) by (auto simp: update_where_def intro: image_eqI [of _ _ m])
  then have "redriven q t now ?d (w_db w')"
    using fewer uniq keep m assms(6) by (auto simp: redriven_def w'_def d1)
  ultimately show ?thesis using assms(1) by (auto simp: w'_def in_queue_def)
qed

section \<open>One round\<close>

lemma redrive_round:
  assumes "healthy w" and "db_wf (w_db w)" and "redrive_target q (w_db w) = Some t" and "q_ID t \<noteq> q_ID q"
    and "set cs \<subseteq> set (in_queue q (w_db w))" and "distinct (map m_RowID cs)"
  shows "\<exists>b' w'. foldE (redrive_step q now) b cs w = (Inr b', w') \<and> healthy w' \<and> db_wf (w_db w')
    \<and> redriven q t now (w_db w) (w_db w')
    \<and> (if \<exists>m \<in> set cs. shouldRedrive q m
       then b' \<and> length (in_queue q (w_db w')) < length (in_queue q (w_db w)) else b' = b \<and> w' = w)"
  using assms
proof (induction cs arbitrary: b w)
  case Nil
  then show ?case by (simp add: redriven_refl)
next
  case (Cons m cs)
  show ?case
  proof (cases "shouldRedrive q m")
    case False
    with Cons.IH [of w b] Cons.prems show ?thesis by (simp add: redrive_step_def run_bindE)
  next
    case True
    obtain v where v: "redriveMessage q m now w = (Inr (), v)" "healthy v" "db_wf (w_db v)"
      "redriven q t now (w_db w) (w_db v)" "length (in_queue q (w_db v)) < length (in_queue q (w_db w))"
      "\<forall>x. x \<in> set (in_queue q (w_db w)) \<longrightarrow> m_RowID x \<noteq> m_RowID m \<longrightarrow> x \<in> set (in_queue q (w_db v))"
      using redrive_runs [OF Cons.prems(1-4) _ True] Cons.prems(5) by (meson list.set_intros(1) subsetD)
    have "set cs \<subseteq> set (in_queue q (w_db v))" "distinct (map m_RowID cs)"
      using Cons.prems(5,6) v(6) by (auto simp: image_iff) (metis subsetD)
    with Cons.IH [OF v(2,3), of True] v(4) Cons.prems(3,4) redriven_target [OF v(4)]
    obtain b' w' where w': "foldE (redrive_step q now) True cs v = (Inr b', w')" "healthy w'" "db_wf (w_db w')"
      "redriven q t now (w_db v) (w_db w')"
      "if \<exists>m \<in> set cs. shouldRedrive q m
       then b' \<and> length (in_queue q (w_db w')) < length (in_queue q (w_db v)) else b' = True \<and> w' = v"
      by fastforce
    moreover have "length (in_queue q (w_db w')) < length (in_queue q (w_db w))" "b'"
      using w'(5) v(5) by (auto split: if_splits)
    moreover have "foldE (redrive_step q now) b (m # cs) w = foldE (redrive_step q now) True cs v"
      using True v(1) by (simp add: redrive_step_def run_bindE)
    ultimately show ?thesis
      using True redriven_trans [OF Cons.prems(4) v(4) w'(4)]
      by (intro exI [of _ b'] exI [of _ w']) (simp del: foldE.simps)
  qed
qed

section \<open>The loop\<close>

lemma candidates_in_queue:
  assumes "db_wf d" and "1 \<le> n"
  shows "set (candidateMessages q (db_ListMessagesByQueue (q_ID q) d) n now) \<subseteq> set (in_queue q d)"
    and "distinct (map m_RowID (candidateMessages q (db_ListMessagesByQueue (q_ID q) d) n now))"
proof -
  have "distinct (map m_RowID (d_messages d))"
    using assms(1) by (simp add: db_wf_def wf_messages_def ids_below_def)
  then have "distinct (map m_RowID (filter (\<lambda>m. m_QueueID m = q_ID q) (d_messages d)))"
    by (simp add: distinct_map_filter)
  moreover have "mset (map m_RowID (db_ListMessagesByQueue (q_ID q) d)) =
      mset (map m_RowID (filter (\<lambda>m. m_QueueID m = q_ID q) (d_messages d)))"
    by (simp add: db_ListMessagesByQueue_def)
  ultimately have "distinct (map m_RowID (db_ListMessagesByQueue (q_ID q) d))"
    by (metis mset_eq_imp_distinct_iff)
  note chosen = candidates_chosen [OF assms(2) this, of q now]
  have "set (db_ListMessagesByQueue (q_ID q) d) = set (in_queue q d)"
    by (simp add: db_ListMessagesByQueue_def in_queue_def)
  with chosen show "set (candidateMessages q (db_ListMessagesByQueue (q_ID q) d) n now) \<subseteq> set (in_queue q d)"
    "distinct (map m_RowID (candidateMessages q (db_ListMessagesByQueue (q_ID q) d) n now))"
    by (simp_all add: subset_iff)
qed

definition selected :: "queue \<Rightarrow> int \<Rightarrow> gotime \<Rightarrow> db \<Rightarrow> message list \<Rightarrow> bool" where
  "selected q n now d cs \<longleftrightarrow>
     cs = candidateMessages q (db_ListMessagesByQueue (q_ID q) d) n now \<and> (\<forall>m \<in> set cs. \<not> shouldRedrive q m)"

lemma select_round:
  assumes "healthy w"
  shows "selectMessagesForReceive (Suc fuel) q n now w =
    (let cs = candidateMessages q (db_ListMessagesByQueue (q_ID q) (w_db w)) n now;
         v = w\<lparr>w_calls := Suc (w_calls w)\<rparr>
     in if cs = [] then (Inr (Some []), v)
        else bindE (foldE (redrive_step q now) False cs) (\<lambda>redriven.
          if redriven then selectMessagesForReceive fuel q n now else ok (Some cs)) v)"
  unfolding selectMessagesForReceive.simps ListMessagesByQueue_def Let_def
  by (subst run_bindE_Inr, rule run_query_calls [OF assms]) simp

lemma select_returns:
  assumes "healthy w" and "db_wf (w_db w)" and "redrive_target q (w_db w) = Some t" and "q_ID t \<noteq> q_ID q"
    and "1 \<le> n" and "length (in_queue q (w_db w)) < fuel"
  shows "\<exists>cs w'. selectMessagesForReceive fuel q n now w = (Inr (Some cs), w')
    \<and> selected q n now (w_db w') cs \<and> redriven q t now (w_db w) (w_db w')"
  using assms
proof (induction fuel arbitrary: w)
  case (Suc fuel)
  let ?v = "w\<lparr>w_calls := Suc (w_calls w)\<rparr>"
  let ?cs = "candidateMessages q (db_ListMessagesByQueue (q_ID q) (w_db w)) n now"
  have v: "healthy ?v" "db_wf (w_db ?v)" "redrive_target q (w_db ?v) = Some t"
    "set ?cs \<subseteq> set (in_queue q (w_db ?v))" "distinct (map m_RowID ?cs)"
    using Suc.prems candidates_in_queue [OF Suc.prems(2,5)] by auto
  from redrive_round [OF v(1-3) Suc.prems(4) v(4,5), of now False] obtain b' w'
    where r: "foldE (redrive_step q now) False ?cs ?v = (Inr b', w')" "healthy w'" "db_wf (w_db w')"
      "redriven q t now (w_db ?v) (w_db w')"
      "if \<exists>m \<in> set ?cs. shouldRedrive q m
       then b' \<and> length (in_queue q (w_db w')) < length (in_queue q (w_db ?v)) else b' = False \<and> w' = ?v"
    by blast
  show ?case
  proof (cases "\<exists>m \<in> set ?cs. shouldRedrive q m")
    case False
    then have "selectMessagesForReceive (Suc fuel) q n now w = (Inr (Some ?cs), ?v)"
      using r(1,5) unfolding select_round [OF Suc.prems(1)] by (simp add: Let_def)
    with False show ?thesis by (auto simp: selected_def redriven_refl)
  next
    case True
    then have b: "b'" "length (in_queue q (w_db w')) < fuel" "?cs \<noteq> []"
      using r(5) Suc.prems(6) by auto
    have run: "selectMessagesForReceive (Suc fuel) q n now w = selectMessagesForReceive fuel q n now w'"
      using b r(1) unfolding select_round [OF Suc.prems(1)] by (simp add: Let_def)
    have "redrive_target q (w_db w') = Some t" using redriven_target [OF r(4)] v(3) by simp
    from Suc.IH [OF r(2,3) this Suc.prems(4,5) b(2)] obtain cs w''
      where "selectMessagesForReceive fuel q n now w' = (Inr (Some cs), w'')"
        "selected q n now (w_db w'') cs" "redriven q t now (w_db w') (w_db w'')" by blast
    with run redriven_trans [OF Suc.prems(4) r(4)] show ?thesis by auto
  qed
qed simp

text \<open>Whether the dead-letter queue that the policy of \<open>q\<close> names, if it names one, is there and another queue.\<close>

definition dlq_ready :: "queue \<Rightarrow> db \<Rightarrow> bool" where
  "dlq_ready q d =
     (case parseRedrivePolicy (sget (q_Attributes q) ''RedrivePolicy'') of
        Inr (Some policy) \<Rightarrow>
          (case live_queue (db_QueueByARN (rp_TargetARN policy) d) of None \<Rightarrow> False | Some t \<Rightarrow> q_ID t \<noteq> q_ID q)
      | _ \<Rightarrow> True)"

lemma dlq_ready_cases:
  assumes "dlq_ready q d"
  obtains (plain) "\<And>m. \<not> shouldRedrive q m" | (target) t where "redrive_target q d = Some t" and "q_ID t \<noteq> q_ID q"
  using assms by (auto simp: dlq_ready_def redrive_target_def shouldRedrive_def split: sum.splits option.splits)

lemma select_plain:
  assumes "healthy w" and "\<And>m. \<not> shouldRedrive q m"
  shows "\<exists>cs. selectMessagesForReceive (Suc fuel) q n now w = (Inr (Some cs), w\<lparr>w_calls := Suc (w_calls w)\<rparr>)
    \<and> selected q n now (w_db w) cs"
proof -
  have "foldE (redrive_step q now) False cs v = (Inr False, v)" for cs v
    using assms(2) by (induction cs) (simp_all add: redrive_step_def run_bindE)
  then show ?thesis
    unfolding select_round [OF assms(1)] by (auto simp: Let_def selected_def assms(2))
qed

text \<open>What became of the messages of the queue: kept, or redriven because received too often.\<close>

definition only_exhausted_moved :: "queue \<Rightarrow> gotime \<Rightarrow> db \<Rightarrow> db \<Rightarrow> bool" where
  "only_exhausted_moved q now d d' \<longleftrightarrow>
     (\<forall>m. m \<in> set (d_messages d) \<longrightarrow> m \<in> set (d_messages d') \<or>
        (\<exists>t. redrive_target q d = Some t \<and> m_QueueID m = q_ID q \<and> shouldRedrive q m
           \<and> scanMessage (redrive_to t q now m) \<in> set (d_messages d')))"

text \<open>
  C15. Choosing the messages of a receive ends, after at most one round more than the queue has
  messages, when the dead-letter queue (if one is named) exists and is another queue: the result is
  the candidates of the queue as it then is, none of them received too often, and every message
  is still there, unchanged or moved to the dead-letter queue because it was received too often.
\<close>

theorem selection_ends:
  assumes "healthy w" and "db_wf (w_db w)" and "dlq_ready q (w_db w)" and "1 \<le> n"
    and "length (in_queue q (w_db w)) < fuel"
  shows "\<exists>cs w'. selectMessagesForReceive fuel q n now w = (Inr (Some cs), w')
    \<and> selected q n now (w_db w') cs \<and> only_exhausted_moved q now (w_db w) (w_db w')"
  using assms(3)
proof (cases rule: dlq_ready_cases)
  case plain
  obtain k where "fuel = Suc k" using assms(5) by (cases fuel) auto
  with select_plain [OF assms(1) plain] show ?thesis by (fastforce simp: only_exhausted_moved_def)
next
  case (target t)
  from select_returns [OF assms(1,2) target assms(4,5)] target(1) show ?thesis
    by (fastforce simp: redriven_def only_exhausted_moved_def)
qed

definition sample_policy :: string where
  "sample_policy = json_marshal (GMap [(''deadLetterTargetArn'', GStr ''arn:aws:sqs:r:0:d''),
     (''maxReceiveCount'', GStr (formatInt 2))])"

lemma parse_sample_policy:
  "parseRedrivePolicy sample_policy = Inr (Some \<lparr>rp_TargetARN = ''arn:aws:sqs:r:0:d'', rp_MaxReceiveCount = 2\<rparr>)"
  unfolding sample_policy_def
  by (rule parse_written_policy) (simp_all add: ascii_valid_utf8 ascii_def int64_range_def)

definition poisoned_db :: "queue list \<Rightarrow> db" where
  "poisoned_db qs = db_Init\<lparr>d_queues := sample_queue 1 ''a'' False [(''RedrivePolicy'', sample_policy)] # qs,
     d_queue_seq := 2, d_messages := [sample_message 1 1 [] 0\<lparr>m_ReceiveCount := 2\<rparr>], d_message_seq := 1\<rparr>"

lemma poisoned_wf: "db_wf (poisoned_db [sample_queue 2 ''d'' False []])"
  by (simp add: db_wf_def wf_defs poisoned_db_def sample_queue_def sample_message_def db_Init_def
      ids_below_def queue_exists_def queue_conflict_def)

theorem selection_ends_witness:
  "\<exists>cs w'. selectMessagesForReceive 2 (sample_queue 1 ''a'' False [(''RedrivePolicy'', sample_policy)]) 1 7
      (sample_world (poisoned_db [sample_queue 2 ''d'' False []]) 5) = (Inr (Some cs), w')"
proof -
  let ?d = "poisoned_db [sample_queue 2 ''d'' False []]"
  have "dlq_ready (sample_queue 1 ''a'' False [(''RedrivePolicy'', sample_policy)]) ?d"
    by (simp add: dlq_ready_def sample_queue_def sget_def parse_sample_policy poisoned_db_def db_QueueByARN_def
        row_by_def live_queue_def)
  moreover have "length (in_queue (sample_queue 1 ''a'' False [(''RedrivePolicy'', sample_policy)]) ?d) < 2"
    by (simp add: in_queue_def poisoned_db_def sample_queue_def sample_message_def)
  ultimately show ?thesis
    using selection_ends [OF healthy_sample_world, of ?d 5] poisoned_wf by (fastforce simp: sample_world_def)
qed

section \<open>Without the dead-letter queue\<close>

lemma redrive_nothing:
  assumes "healthy w" and "redrive_target q (w_db w) = None"
  shows "\<exists>k. redrive_step q now b m w = (Inr (b \<or> shouldRedrive q m), w\<lparr>w_calls := k\<rparr>)"
proof (cases "shouldRedrive q m")
  case True
  then obtain policy where p: "parseRedrivePolicy (sget (q_Attributes q) ''RedrivePolicy'') = Inr (Some policy)"
    by (auto simp: shouldRedrive_def split: sum.splits option.splits)
  with assms(2) have "live_queue (db_QueueByARN (rp_TargetARN policy) (w_db w)) = None"
    by (simp add: redrive_target_def)
  then have "\<exists>e. lookupQueueByARN (rp_TargetARN policy) w = (Inl e, w\<lparr>w_calls := Suc (w_calls w)\<rparr>)"
    using assms(1) by (auto simp: lookupQueueByARN_def QueueByARN_def run_bindE live_queue_def split: option.splits)
  with True p show ?thesis
    by (intro exI [of _ "Suc (w_calls w)"]) (auto simp: redrive_step_def redriveMessage_def run_bindE attempt_def)
qed (auto simp: redrive_step_def intro: exI [of _ "w_calls w"])

lemma redrive_nothing_round:
  assumes "healthy w" and "redrive_target q (w_db w) = None"
  shows "\<exists>k. foldE (redrive_step q now) b cs w =
    (Inr (b \<or> (\<exists>m \<in> set cs. shouldRedrive q m)), w\<lparr>w_calls := k\<rparr>)"
  using assms
proof (induction cs arbitrary: b w)
  case Nil
  show ?case by (intro exI [of _ "w_calls w"]) simp
next
  case (Cons m cs)
  obtain k where k: "redrive_step q now b m w = (Inr (b \<or> shouldRedrive q m), w\<lparr>w_calls := k\<rparr>)"
    using redrive_nothing [OF Cons.prems] by blast
  with Cons.IH [of "w\<lparr>w_calls := k\<rparr>" "b \<or> shouldRedrive q m"] Cons.prems show ?case by (auto simp: run_bindE)
qed

text \<open>
  C16. When the dead-letter queue is missing or deleted and one of the candidates was received too
  often, choosing the messages never ends: whatever the fuel, it runs out and the database is as
  before.
\<close>

theorem selection_without_dlq_never_ends:
  assumes "healthy w" and "redrive_target q (w_db w) = None"
    and "m \<in> set (candidateMessages q (db_ListMessagesByQueue (q_ID q) (w_db w)) n now)" and "shouldRedrive q m"
  shows "\<exists>k. selectMessagesForReceive fuel q n now w = (Inr None, w\<lparr>w_calls := k\<rparr>)"
  using assms
proof (induction fuel arbitrary: w)
  case 0
  show ?case by (intro exI [of _ "w_calls w"]) simp
next
  case (Suc fuel)
  let ?cs = "candidateMessages q (db_ListMessagesByQueue (q_ID q) (w_db w)) n now"
  obtain k where k: "foldE (redrive_step q now) False ?cs (w\<lparr>w_calls := Suc (w_calls w)\<rparr>) = (Inr True, w\<lparr>w_calls := k\<rparr>)"
    using redrive_nothing_round [of "w\<lparr>w_calls := Suc (w_calls w)\<rparr>" q now False ?cs] Suc.prems by (auto simp: bexI)
  have "selectMessagesForReceive (Suc fuel) q n now w = selectMessagesForReceive fuel q n now (w\<lparr>w_calls := k\<rparr>)"
    using k Suc.prems(3,4) unfolding select_round [OF Suc.prems(1)] by (auto simp: Let_def)
  with Suc.IH [of "w\<lparr>w_calls := k\<rparr>"] Suc.prems show ?case by auto
qed

theorem selection_without_dlq_never_ends_witness:
  "\<exists>k. selectMessagesForReceive 1000 (sample_queue 1 ''a'' False [(''RedrivePolicy'', sample_policy)]) 1 7
      (sample_world (poisoned_db []) 5) = (Inr None, (sample_world (poisoned_db []) 5)\<lparr>w_calls := k\<rparr>)"
proof -
  let ?q = "sample_queue 1 ''a'' False [(''RedrivePolicy'', sample_policy)]"
  let ?m = "sample_message 1 1 [] 0\<lparr>m_ReceiveCount := 2\<rparr>"
  have p: "parseRedrivePolicy (sget (q_Attributes ?q) ''RedrivePolicy'') =
      Inr (Some \<lparr>rp_TargetARN = ''arn:aws:sqs:r:0:d'', rp_MaxReceiveCount = 2\<rparr>)"
    by (simp add: sample_queue_def sget_def parse_sample_policy)
  have n: "live_queue (db_QueueByARN ''arn:aws:sqs:r:0:d'' (poisoned_db [])) = None"
    by (simp add: poisoned_db_def db_QueueByARN_def row_by_def live_queue_def sample_queue_def)
  have "db_ListMessagesByQueue 1 (poisoned_db []) = [?m]"
    by (simp add: db_ListMessagesByQueue_def poisoned_db_def sample_message_def)
  moreover have "message_live 7 ?m" "\<not> in_flight 7 ?m" "m_AvailableAt (sample_message 1 1 [] 0) = 0"
    by (simp_all add: messageVisible_def message_live_def in_flight_def sample_message_def)
  ultimately have "?m \<in> set (candidateMessages ?q (db_ListMessagesByQueue 1 (poisoned_db [])) 1 7)"
    by (simp add: candidateMessages_def liveMessages_def messageVisible_def sample_queue_def)
  moreover have "shouldRedrive ?q ?m" by (simp add: shouldRedrive_def p)
  ultimately show ?thesis
    using selection_without_dlq_never_ends [OF healthy_sample_world, of ?q "poisoned_db []" 5 ?m 1 7 1000] p n
    by (simp add: dlq_ready_def redrive_target_def sample_world_def) (simp add: sample_queue_def)
qed

end
