(* ===== verification/RegistryTidy.thy ===== *)
theory RegistryTidy
  imports DecodeTotal
begin

text \<open>
  Every shape of the registry is tidy: the names of its members on the wire consist of letters and
  digits, and the elements of its lists and maps are neither lists nor maps.
\<close>

definition alnum :: "char \<Rightarrow> bool" where
  "alnum c \<longleftrightarrow> (let n = byte c in (48 \<le> n \<and> n \<le> 57) \<or> (65 \<le> n \<and> n \<le> 90) \<or> (97 \<le> n \<and> n \<le> 122))"

definition clean_name :: "string \<Rightarrow> bool" where
  "clean_name name \<longleftrightarrow> name \<noteq> [] \<and> list_all alnum name"

definition shape_tidy :: "registry \<Rightarrow> shape \<Rightarrow> bool" where
  "shape_tidy reg s \<longleftrightarrow>
     (if sh_Type s = ''structure'' then
        list_all (\<lambda>m. case memberWireName reg m (member_of s m) of Inl _ \<Rightarrow> False | Inr w \<Rightarrow> clean_name w) (sh_MemberOrder s)
      else if sh_Type s = ''list'' then
        (case sh_Member s of None \<Rightarrow> False | Some r \<Rightarrow> (case Shape reg (sr_Shape r) of None \<Rightarrow> False
           | Some e \<Rightarrow> sh_Type e \<notin> {''list'', ''map''}))
      else if sh_Type s = ''map'' then
        (case sh_Value s of None \<Rightarrow> False | Some r \<Rightarrow> (case Shape reg (sr_Shape r) of None \<Rightarrow> False
           | Some e \<Rightarrow> sh_Type e \<notin> {''list'', ''map''}))
      else True)"

lemma cut_suffix_rev: "cutSuffix s suf = (if prefix (rev suf) (rev s) then Some (take (length s - length suf) s) else None)"
  by (simp add: cutSuffix_def suffix_to_prefix)

lemma Default_tidy:
  assumes "(name, s) \<in> set Default_Shapes"
  shows "shape_tidy Default s"
  using assms unfolding Default_Shapes_def
  by (simp only: list.set insert_iff empty_iff prod.inject)
    (elim disjE conjE FalseE; simp add: shape_tidy_def all_shape_defs shape_simps member_of_def memberWireName_def MustShape_def
      collectionWireName_def cut_suffix_rev clean_name_def alnum_def)

lemma tidy_shape: "Shape Default name = Some s \<Longrightarrow> shape_tidy Default s"
  by (rule Default_tidy [of name]) (simp add: Shape_def Default_def map_of_SomeD)

end
