(* ===== verification/QueryWellFormed.thy ===== *)
theory QueryWellFormed
  imports RegistryTidy QueryEncode JsonText
begin

text \<open>
  The XML documents of the query protocol are well formed: every tag that is opened is closed, in
  order, names consist of letters and digits, and the characters of text are data or references.
\<close>

section \<open>Content\<close>

definition text_char :: "char \<Rightarrow> bool" where
  "text_char c \<longleftrightarrow> 32 \<le> byte c \<and> byte c \<notin> {38, 60, 62}"

definition xml_references :: "string set" where
  "xml_references = {''&#34;'', ''&#39;'', ''&amp;'', ''&lt;'', ''&gt;'', ''&#x9;'', ''&#xA;'', ''&#xD;''}"

inductive xml_content :: "string \<Rightarrow> bool" where
  xml_empty: "xml_content []"
| xml_text: "text_char c \<Longrightarrow> xml_content s \<Longrightarrow> xml_content (c # s)"
| xml_reference: "r \<in> xml_references \<Longrightarrow> xml_content s \<Longrightarrow> xml_content (r @ s)"
| xml_element: "clean_name n \<Longrightarrow> xml_content t \<Longrightarrow> xml_content s \<Longrightarrow> xml_content (element n t @ s)"

lemma xml_append: "xml_content s \<Longrightarrow> xml_content t \<Longrightarrow> xml_content (s @ t)"
proof (induction rule: xml_content.induct)
  case (xml_element n u s)
  then show ?case using xml_content.xml_element [of n u "s @ t"] by simp
qed (auto intro: xml_content.intros)

lemma xml_one_element: "clean_name n \<Longrightarrow> xml_content t \<Longrightarrow> xml_content (element n t)"
  using xml_element [OF _ _ xml_empty] by simp

lemma xml_chars: "list_all text_char s \<Longrightarrow> xml_content s"
  by (induction s) (auto intro: xml_empty xml_text)

lemma xml_concat: "(\<And>s. s \<in> set ss \<Longrightarrow> xml_content s) \<Longrightarrow> xml_content (concat ss)"
  by (induction ss) (auto intro: xml_empty xml_append)

lemma xml_one_reference: "r \<in> xml_references \<Longrightarrow> xml_content r"
  using xml_reference [OF _ xml_empty] by simp

lemma xml_escape_rune_content:
  assumes "chunk (r, bs)"
  shows "xml_content (xml_escape_rune (r, bs))"
proof -
  have high: "xml_content (utf8_encode n)" if "128 \<le> n" for n
  proof -
    have "128 \<le> byte c \<Longrightarrow> text_char c" for c by (auto simp: text_char_def)
    with utf8_encode_high [OF that] show ?thesis by (intro xml_chars) (simp add: list_all_iff)
  qed
  show ?thesis
  proof (cases "r \<in> {34, 39, 38, 60, 62, 9, 10, 13}")
    case True
    then show ?thesis by (auto simp: xml_escape_rune_def xml_references_def intro!: xml_one_reference)
  next
    case False
    consider "\<not> xml_char r \<or> (r = rune_error \<and> length bs = 1)" | "xml_char r" "r < 128"
      | "128 \<le> r" "xml_char r" "\<not> (r = rune_error \<and> length bs = 1)" by linarith
    then show ?thesis
    proof cases
      case 1
      then have "xml_escape_rune (r, bs) = utf8_encode rune_error" using False by (auto simp: xml_escape_rune_def)
      with high show ?thesis by (simp add: rune_error_def)
    next
      case 2
      then have "xml_escape_rune (r, bs) = [char_of r]" "32 \<le> r" "byte (char_of r) = r"
        using False chunk_ascii [OF assms 2(2)] by (auto simp: xml_escape_rune_def rune_error_def xml_char_def)
      with False show ?thesis by (intro xml_chars) (simp_all add: text_char_def)
    next
      case 3
      then have "xml_escape_rune (r, bs) = utf8_encode r" using False assms by (auto simp: xml_escape_rune_def chunk_def)
      with high 3 show ?thesis by simp
    qed
  qed
qed

lemma xml_escapeText: "xml_content (escapeText s)"
  unfolding escapeText_def by (rule xml_concat) (auto dest!: runeChunks_chunk intro: xml_escape_rune_content)

lemma xml_formatInt: "xml_content (formatInt n)"
proof -
  have d: "list_all text_char (dec_digits k)" for k
    unfolding list_all_iff
  proof
    fix c
    assume "c \<in> set (dec_digits k)"
    then show "text_char c" using digit_val_dec_digits [of c k]
      by (auto simp: digit_val_def text_char_def Let_def split: if_splits)
  qed
  then show ?thesis by (intro xml_chars) (simp add: formatInt_def text_char_def)
qed

lemma xml_primitive: "xml_content (encode_primitive v)"
  by (cases v) (auto simp: encode_primitive_def text_char_def xml_escapeText xml_formatInt xml_empty intro!: xml_chars)

lemma clean_literals: "clean_name ''Name''" "clean_name ''Value''" "clean_name ''ResponseMetadata''" "clean_name ''RequestId''"
  "clean_name ''ErrorResponse''" "clean_name ''Error''" "clean_name ''Type''" "clean_name ''Code''" "clean_name ''Message''"
  "clean_name ''Detail''"
  by (simp_all add: clean_name_def alnum_def)

section \<open>Encoding\<close>

definition yields :: "('a \<Rightarrow> bool) \<Rightarrow> 'a decoding \<Rightarrow> bool" where
  "yields P m \<longleftrightarrow> (\<exists>x. m = decoded x \<and> P x)"

lemma yields_decoded: "P x \<Longrightarrow> yields P (decoded x)"
  by (simp add: yields_def)

lemma yields_dbind: "yields Q m \<Longrightarrow> (\<And>x. Q x \<Longrightarrow> yields P (f x)) \<Longrightarrow> yields P (dbind m f)"
  by (auto simp: yields_def dbind_def)

lemma yields_dfold:
  assumes "\<And>s x. P s \<Longrightarrow> x \<in> set xs \<Longrightarrow> yields P (f s x)" and "P s"
  shows "yields P (dfold f s xs)"
  using assms
proof (induction xs arbitrary: s)
  case (Cons x xs)
  have "yields P (f s x)" using Cons.prems by simp
  then have "yields P (dbind (f s x) (\<lambda>s'. dfold f s' xs))"
    by (rule yields_dbind) (rule Cons.IH, use Cons.prems in auto)
  then show ?case by simp
qed (simp add: yields_decoded)

lemma tidy_element:
  assumes "shape_tidy Default s" and "fits (Suc n) Default name" and "Shape Default name = Some s"
    and "sh_Type s = ''list'' \<and> r = sh_Member s \<or> sh_Type s = ''map'' \<and> r = sh_Value s"
  obtains x e where "r = Some x" and "fits n Default (sr_Shape x)" and "Shape Default (sr_Shape x) = Some e"
    and "sh_Type e \<notin> {''list'', ''map''}"
  using assms by (auto simp: shape_tidy_def fits.simps(2) split: option.splits if_splits)

lemma tidy_member:
  assumes "shape_tidy Default s" and "sh_Type s = ''structure''" and "m \<in> set (sh_MemberOrder s)"
  shows "\<exists>w. memberWireName Default m (member_of s m) = Inr w \<and> clean_name w"
  using assms by (cases "memberWireName Default m (member_of s m)") (auto simp: shape_tidy_def list_all_iff)

lemma encode_content:
  assumes "fits n Default name"
    and "\<And>s. Shape Default name = Some s \<Longrightarrow> sh_Type s \<in> {''list'', ''map''} \<Longrightarrow> clean_name explicit"
  shows "yields xml_content (encodeShape n Default name v parent explicit)"
  using assms
proof (induction n arbitrary: name v parent explicit)
  case (Suc n)
  obtain s where s: "Shape Default name = Some s" using fits_shape [OF Suc.prems(1)] by blast
  note tidy = tidy_shape [OF s]
  have plain: "yields xml_content (encodeShape n Default x v parent [])"
    if "fits n Default x" "Shape Default x = Some e" "sh_Type e \<notin> {''list'', ''map''}" for x e v parent
    using that by (intro Suc.IH) auto
  consider "sh_Type s = ''structure''" | "sh_Type s = ''list''" | "sh_Type s = ''map''"
    | "sh_Type s \<notin> {''structure'', ''list'', ''map''}" by blast
  then show ?case
  proof cases
    case 1
    have step: "yields xml_content (case mget (as_map v) m of None \<Rightarrow> decoded buf
        | Some x \<Rightarrow> (let mb = member_of s m in
            dbind (Some (memberWireName Default m mb)) (\<lambda>elemName.
            dbind (Some (MustShape Default (mb_Shape mb))) (\<lambda>ms.
            dbind (encodeShape n Default (mb_Shape mb) x m elemName) (\<lambda>t.
            decoded (buf @ (if sh_Type ms \<in> {''list'', ''map''} then t else element elemName t)))))))"
      if buf: "xml_content buf" and m: "m \<in> set (sh_MemberOrder s)" for buf m
    proof (cases "mget (as_map v) m")
      case None
      with buf show ?thesis by (simp add: yields_decoded)
    next
      case (Some x)
      obtain w where w: "memberWireName Default m (member_of s m) = Inr w" "clean_name w"
        using tidy_member [OF tidy 1 m] by blast
      have fit: "fits n Default (mb_Shape (member_of s m))" by (rule fits_structure [OF Suc.prems(1) s 1 m])
      then obtain ms where ms: "Shape Default (mb_Shape (member_of s m)) = Some ms" using fits_shape by blast
      have "yields xml_content (encodeShape n Default (mb_Shape (member_of s m)) x m w)"
        by (rule Suc.IH [OF fit]) (rule w(2))
      then have "yields xml_content (dbind (encodeShape n Default (mb_Shape (member_of s m)) x m w) (\<lambda>t.
          decoded (buf @ (if sh_Type ms \<in> {''list'', ''map''} then t else element w t))))"
        by (rule yields_dbind) (auto intro: yields_decoded xml_append buf xml_one_element w(2))
      with Some show ?thesis
        by (simp only: option.case Let_def w(1) settled_MustShape [OF ms]) (simp add: dbind_def)
    qed
    show ?thesis
      unfolding encodeShape.simps settled_MustShape [OF s] if_P [OF 1]
      by (rule yields_dfold [OF step xml_empty])
  next
    case 2
    with tidy_element [OF tidy Suc.prems(1) s] obtain x e where x: "sh_Member s = Some x" "fits n Default (sr_Shape x)"
      "Shape Default (sr_Shape x) = Some e" "sh_Type e \<notin> {''list'', ''map''}" by metis
    have "clean_name explicit" using Suc.prems(2) [OF s] 2 by simp
    then have item: "item_name explicit parent name = explicit" "clean_name explicit" by (auto simp: item_name_def clean_name_def)
    have "yields xml_content (dbind (encodeShape n Default (sr_Shape x) y parent []) (\<lambda>t. decoded (buf @ element explicit t)))"
      if "xml_content buf" for buf y
      using plain [OF x(2-4), of y parent] by (rule yields_dbind) (auto intro: yields_decoded xml_append that xml_one_element item(2))
    with 2 show ?thesis
      unfolding encodeShape.simps settled_MustShape [OF s]
      by (simp add: ref_shape_def x(1) item(1) dbind_def [of "Some (Inr _)"]) (auto intro: yields_dfold xml_empty)
  next
    case 3
    with tidy_element [OF tidy Suc.prems(1) s] obtain x e where x: "sh_Value s = Some x" "fits n Default (sr_Shape x)"
      "Shape Default (sr_Shape x) = Some e" "sh_Type e \<notin> {''list'', ''map''}" by metis
    have "clean_name explicit" using Suc.prems(2) [OF s] 3 by simp
    then have item: "item_name explicit parent name = explicit" "clean_name explicit" by (auto simp: item_name_def clean_name_def)
    have "yields xml_content (dbind (encodeShape n Default (sr_Shape x) (value_at (as_map v) k) k []) (\<lambda>t.
        decoded (buf @ element explicit (element ''Name'' (escapeText k) @ element ''Value'' t))))"
      if "xml_content buf" for buf k
      using plain [OF x(2-4)]
      by (rule yields_dbind) (auto intro!: yields_decoded xml_append that xml_one_element item(2) clean_literals xml_escapeText)
    with 3 show ?thesis
      unfolding encodeShape.simps settled_MustShape [OF s]
      by (simp add: ref_shape_def x(1) item(1) dbind_def [of "Some (Inr _)"]) (auto intro: yields_dfold xml_empty)
  next
    case 4
    then show ?thesis
      unfolding encodeShape.simps settled_MustShape [OF s] by (auto intro: yields_decoded xml_primitive)
  qed
qed simp

section \<open>Documents\<close>

lemma dbind_decoded: "dbind (decoded x) f = f x"
  by (simp add: dbind_def)

lemma Operation_name_clean: "Operation Default name = Some op \<Longrightarrow> clean_name name"
proof -
  have "list_all (\<lambda>(name, _). clean_name name) Default_Operations"
    by (simp add: Default_Operations_def clean_name_def alnum_def)
  moreover assume "Operation Default name = Some op"
  then have "(name, op) \<in> set Default_Operations" by (rule Operation_cases)
  ultimately show ?thesis by (auto simp: list_all_iff)
qed

lemma clean_append: "clean_name a \<Longrightarrow> clean_name b \<Longrightarrow> clean_name (a @ b)"
  by (auto simp: clean_name_def)

text \<open>The result of an operation, and the body of an error.\<close>

lemma result_content:
  assumes "Operation Default name = Some op"
  shows "yields xml_content (if op_OutputShape op \<noteq> [] \<and> output \<noteq> []
    then dbind (encodeShape default_fuel Default (op_OutputShape op) (GMap output) [] [])
      (\<lambda>t. decoded (element (name @ ''Result'') t)) else decoded [])"
proof (cases "op_OutputShape op \<noteq> [] \<and> output \<noteq> []")
  case True
  note op = Operation_cases [OF assms] and clean = Operation_name_clean [OF assms]
  obtain s where s: "Shape Default (op_OutputShape op) = Some s" "sh_Type s = ''structure''"
    using Default_responses [OF op] True by blast
  have "yields xml_content (encodeShape default_fuel Default (op_OutputShape op) (GMap output) [] [])"
    by (rule encode_content) (use Default_fits [OF op] True s in \<open>simp_all add: default_fuel_def numeral_eq_Suc\<close>)
  moreover have "clean_name (name @ ''Result'')"
    by (rule clean_append [OF clean]) (simp add: clean_name_def alnum_def)
  ultimately show ?thesis
    using True by (auto intro!: yields_dbind yields_decoded xml_one_element)
qed (auto intro: yields_decoded xml_empty)

lemma error_content:
  "\<exists>content. xml_content content \<and> hs_Body (query_EncodeError requestID err) = xml_header @ element ''ErrorResponse'' content"
proof -
  let ?e = "error_or_internal err"
  have "xml_content (fault_string (ae_Fault ?e))"
    by (auto simp: fault_string_def text_char_def intro!: xml_chars split: fault_type.split)
  then have "xml_content (element ''Error'' (element ''Type'' (fault_string (ae_Fault ?e)) @ element ''Code'' (escapeText (ae_Code ?e))
      @ element ''Message'' (escapeText (ae_Message ?e))
      @ (if ae_Detail ?e = [] then [] else element ''Detail'' (escapeText (ae_Detail ?e))))
    @ element ''RequestId'' (escapeText requestID))"
    by (auto intro!: xml_append xml_one_element clean_literals xml_escapeText xml_empty)
  then show ?thesis by (auto simp: query_EncodeError_def Let_def)
qed

text \<open>
  C13. Whatever a handler answers, the response of the query protocol is one well-formed document
  with status 200: an element named after the operation, with the namespace of the service and
  with well-formed content. Encoding neither fails nor runs out of fuel, and the error documents
  are well formed too.
\<close>

theorem query_responses_well_formed:
  assumes "Operation Default name = Some op"
  shows "(\<exists>resp content. query_EncodeResponse default_fuel Default name requestID output = Some (Inr resp)
      \<and> hs_Status resp = 200 \<and> xml_content content \<and> clean_name name
      \<and> hs_Body resp = xml_header @ ''<'' @ name @ ''Response xmlns='' @ [dq]
          @ ''http://queue.amazonaws.com/doc/2012-11-05/'' @ [dq] @ ''>'' @ content @ ''</'' @ name @ ''Response>'')
    \<and> (\<exists>content. xml_content content \<and> hs_Body (query_EncodeError requestID err) = xml_header @ element ''ErrorResponse'' content)"
proof
  note clean = Operation_name_clean [OF assms]
  obtain t where t: "(if op_OutputShape op \<noteq> [] \<and> output \<noteq> []
      then dbind (encodeShape default_fuel Default (op_OutputShape op) (GMap output) [] [])
        (\<lambda>t. decoded (element (name @ ''Result'') t)) else decoded []) = decoded t" "xml_content t"
    using result_content [OF assms, of "output"] by (auto simp: yields_def)
  let ?content = "t @ element ''ResponseMetadata'' (element ''RequestId'' (escapeText requestID))"
  have "xml_content ?content"
    by (intro xml_append t xml_one_element clean_literals xml_escapeText)
  moreover have op': "MustOperation Default name = Inr op" by (simp add: MustOperation_def assms)
  have "query_EncodeResponse default_fuel Default name requestID output = decoded
      \<lparr>hs_Status = 200, hs_Header = xml_headers,
       hs_Body = xml_header @ ''<'' @ name @ ''Response xmlns='' @ [dq] @ md_QueryNamespace (rg_Metadata Default) @ [dq] @ ''>''
         @ t @ element ''ResponseMetadata'' (element ''RequestId'' (escapeText requestID)) @ ''</'' @ name @ ''Response>''\<rparr>"
    unfolding query_EncodeResponse_def op' dbind_decoded t(1) ..
  moreover have "md_QueryNamespace (rg_Metadata Default) = ''http://queue.amazonaws.com/doc/2012-11-05/''"
    by (simp add: Default_def Default_Metadata_def)
  ultimately show "\<exists>resp content. query_EncodeResponse default_fuel Default name requestID output = Some (Inr resp)
      \<and> hs_Status resp = 200 \<and> xml_content content \<and> clean_name name
      \<and> hs_Body resp = xml_header @ ''<'' @ name @ ''Response xmlns='' @ [dq]
          @ ''http://queue.amazonaws.com/doc/2012-11-05/'' @ [dq] @ ''>'' @ content @ ''</'' @ name @ ''Response>''"
    using clean by (intro exI [of _ ?content] exI conjI) (assumption | simp)+
qed (rule error_content)

theorem query_responses_well_formed_witness:
  "\<exists>resp. query_EncodeResponse default_fuel Default ''PurgeQueue'' ''id-1'' [] = Some (Inr resp) \<and> hs_Status resp = 200"
  using query_responses_well_formed [OF Operation_found [of "''PurgeQueue''" op_PurgeQueue], of "''id-1''" "[]"]
  by (auto simp: Default_Operations_def)

end
