(* ===== verification/Progress.thy ===== *)
theory Progress
  imports Leases
begin

text \<open>
  That receiving makes progress: a receive on a store that does not fail delivers what is visible.
  The handles are drawn from the world's random source (or from its UUIDs); a receipt whose handle
  was drawn before would be refused by the store, so the sources must not repeat a salt that was
  used for the same message.
\<close>

section \<open>One delivery on a store that does not fail\<close>

definition handle_of :: "int \<Rightarrow> int \<Rightarrow> string \<Rightarrow> string" where
  "handle_of q i salt = rawURLEncode (uint64_bytes q @ uint64_bytes i @ salt)"

text \<open>The salts that a world can still give, or gave.\<close>

definition salts :: "world \<Rightarrow> string set" where
  "salts w = (\<Union>n. {map (w_rand w) [n..<n + 8], take 8 (w_uuid w n)})"

definition handles :: "db \<Rightarrow> string set" where
  "handles d = r_Handle ` set (d_receipts d)"

definition message_keys :: "db \<Rightarrow> (int \<times> string) list" where
  "message_keys d = map (\<lambda>m. (m_RowID m, m_MessageID m)) (d_messages d)"

definition same_sources :: "world \<Rightarrow> world \<Rightarrow> bool" where
  "same_sources w w' \<longleftrightarrow> healthy w' \<and> salts w' = salts w"

lemma salts_update [simp]:
  "salts (w\<lparr>w_db := d\<rparr>) = salts w" "salts (w\<lparr>w_calls := n\<rparr>) = salts w" "salts (w\<lparr>w_ticks := n\<rparr>) = salts w"
  "salts (w\<lparr>w_uuids := n\<rparr>) = salts w" "salts (w\<lparr>w_randpos := n\<rparr>) = salts w" "salts (w\<lparr>w_reads := n\<rparr>) = salts w"
  by (simp_all add: salts_def)

lemma newReceiptHandle_draws:
  assumes "healthy w"
  shows "\<exists>s w'. newReceiptHandle q i w = (Inr (handle_of q i s), w') \<and> s \<in> salts w \<and> w_db w' = w_db w \<and> same_sources w w'"
proof (cases "w_randfail w (w_reads w)")
  case True
  have "take 8 (w_uuid w (w_uuids w)) \<in> salts w" by (auto simp: salts_def)
  with True assms show ?thesis
    by (auto simp: newReceiptHandle_def run_bindE randRead_def handle_of_def same_sources_def)
next
  case False
  have "map (w_rand w) [w_randpos w..<w_randpos w + 8] \<in> salts w" by (auto simp: salts_def)
  with False assms show ?thesis
    by (auto simp: newReceiptHandle_def run_bindE randRead_def handle_of_def same_sources_def)
qed

lemma handle_of_inj:
  assumes "handle_of q i s = handle_of q j t" and "int64_range i" and "int64_range j"
  shows "i = j"
proof -
  have "uint64_bytes q @ uint64_bytes i @ s = uint64_bytes q @ uint64_bytes j @ t"
    using assms(1) unfolding handle_of_def by (metis option.inject rawURLDecode_encode)
  then have "uint64_bytes i = uint64_bytes j" by (simp add: uint64_bytes_def)
  then show ?thesis by (rule uint64_bytes_inj [OF _ assms(2,3)])
qed

lemma message_keys_update:
  assumes "m_RowID m1 = i" and "(i, m_MessageID m1) \<in> set (message_keys d)" and "distinct (map fst (message_keys d))"
  shows "map (\<lambda>m. (m_RowID m, m_MessageID m)) (update_where (\<lambda>r. m_RowID r = i) (\<lambda>_. scanMessage m1) (d_messages d)) = message_keys d"
proof -
  have "m_MessageID m = m_MessageID m1" if "m \<in> set (d_messages d)" "m_RowID m = i" for m
  proof -
    have "(i, m_MessageID m) \<in> set (message_keys d)" using that by (force simp: message_keys_def)
    then show ?thesis using assms(2,3) eq_key_imp_eq_value by metis
  qed
  then show ?thesis using assms(1) by (auto simp: update_where_def message_keys_def scanMessage_def)
qed

text \<open>The steps of a delivery in which nothing fails.\<close>

lemma deliver_steps:
  assumes "orInternal ''failed to deactivate prior receipts'' (DeactivateReceiptsByMessage (m_RowID m)) w = (Inr (), w1)"
    and "nowE w1 = (Inr start :: goerr + gotime, w2)"
    and "(if m_FirstReceivedAt m = None then nowE else ok 0) w2 = (Inr first :: goerr + gotime, w3)"
    and "orInternal ''failed to update message visibility'' (UpdateMessage (leased m first (start + seconds (rc_visibility rc)))) w3 = (Inr (), w4)"
    and "newReceiptHandle (q_ID q) (m_RowID m) w4 = (Inr h :: goerr + string, w5)"
    and "nowE w5 = (Inr issued :: goerr + gotime, w6)"
    and "orInternal ''failed to create receipt handle'' (InsertReceipt \<lparr>r_ID = 0, r_QueueID = q_ID q, r_MessageRowID = m_RowID m,
        r_Handle = h, r_IssuedAt = issued, r_VisibilityDeadline = start + seconds (rc_visibility rc), r_Active = True,
        r_ReceiveAttemptID = rc_attempt rc\<rparr>) w6 = (Inr r, w7)"
  shows "deliver q rc m w =
    (Inr (receiveMessageOutput (leased m first (start + seconds (rc_visibility rc))) (r_Handle r) (rc_names rc) (rc_system rc)), w7)"
  by (simp only: deliver_def Let_def run_bindE assms prod.case sum.case run_ok)

lemma deliver_runs:
  assumes healthy: "healthy w" and q: "queue_exists (w_db w) (q_ID q)" "m_QueueID m = q_ID q"
    and keys: "(m_RowID m, m_MessageID m) \<in> set (message_keys (w_db w))"
      "distinct (map fst (message_keys (w_db w)))" "distinct (map snd (message_keys (w_db w)))"
    and fresh: "\<And>s. s \<in> salts w \<Longrightarrow> handle_of (q_ID q) (m_RowID m) s \<notin> handles (w_db w)"
  shows "\<exists>out w' s. deliver q rc m w = (Inr out, w') \<and> mget out ''MessageId'' = Some (GStr (m_MessageID m))
    \<and> mget out ''Body'' = Some (GStr (m_Body m)) \<and> same_sources w w' \<and> d_queues (w_db w') = d_queues (w_db w)
    \<and> message_keys (w_db w') = message_keys (w_db w)
    \<and> s \<in> salts w \<and> handles (w_db w') = insert (handle_of (q_ID q) (m_RowID m) s) (handles (w_db w))"
proof -
  let ?i = "m_RowID m" and ?d = "w_db w"
  let ?deadline = "w_clock w (w_ticks w) + seconds (rc_visibility rc)"
  let ?first = "if m_FirstReceivedAt m = None then w_clock w (Suc (w_ticks w)) else 0"
  let ?ticks = "if m_FirstReceivedAt m = None then Suc (Suc (w_ticks w)) else Suc (w_ticks w)"
  define m1 where "m1 = leased m ?first ?deadline"
  have m1: "m_RowID m1 = ?i" "m_MessageID m1 = m_MessageID m" "m_QueueID m1 = q_ID q" "m_Body m1 = m_Body m"
    by (simp_all add: m1_def leased_def q)
  define rs where "rs = update_where (\<lambda>r. r_MessageRowID r = ?i \<and> r_Active r) (\<lambda>r. r\<lparr>r_Active := False\<rparr>) (d_receipts ?d)"
  define d1 where "d1 = ?d\<lparr>d_receipts := rs\<rparr>"
  define d2 where "d2 = d1\<lparr>d_messages := update_where (\<lambda>r. m_RowID r = ?i) (\<lambda>_. scanMessage m1) (d_messages ?d)\<rparr>"
  have run1: "db_DeactivateReceiptsByMessage ?i ?d = Inr ((), d1)"
    by (simp add: db_DeactivateReceiptsByMessage_def d1_def rs_def)
  have row: "\<exists>r \<in> set (d_messages ?d). m_RowID r = ?i" using keys(1) by (auto simp: message_keys_def)
  have unique: "\<not> (\<exists>r \<in> set (d_messages ?d). m_RowID r \<noteq> ?i \<and> m_MessageID r = m_MessageID m)"
  proof
    assume "\<exists>r \<in> set (d_messages ?d). m_RowID r \<noteq> ?i \<and> m_MessageID r = m_MessageID m"
    then obtain j where "j \<noteq> ?i" "(j, m_MessageID m) \<in> set (message_keys ?d)" by (force simp: message_keys_def)
    with keys(1) inj_onD [OF distinct_map [THEN iffD1, THEN conjunct2, OF keys(3)]] show False by fastforce
  qed
  have run2: "db_UpdateMessage m1 d1 = Inr ((), d2)"
    using row unique q(1) unfolding db_UpdateMessage_def m1
    by (auto simp: d1_def d2_def queue_exists_def)
  have "map r_Handle rs = map r_Handle (d_receipts ?d)" by (simp add: rs_def update_where_def)
  then have h1: "r_Handle ` set rs = handles ?d" unfolding handles_def by (metis set_map)
  let ?w2 = "w\<lparr>w_ticks := ?ticks, w_calls := Suc (Suc (w_calls w)), w_db := d2\<rparr>"
  obtain s w3 where draw: "newReceiptHandle (q_ID q) ?i ?w2 = (Inr (handle_of (q_ID q) ?i s) :: goerr + string, w3)"
    and s: "s \<in> salts w" and w3: "w_db w3 = d2" "healthy w3" "salts w3 = salts w"
    using newReceiptHandle_draws [of ?w2 "q_ID q" ?i, where ?'a = goerr] healthy by (auto simp: same_sources_def)
  define r where "r = \<lparr>r_ID = 0, r_QueueID = q_ID q, r_MessageRowID = ?i, r_Handle = handle_of (q_ID q) ?i s,
      r_IssuedAt = w_clock w3 (w_ticks w3), r_VisibilityDeadline = ?deadline, r_Active = True,
      r_ReceiveAttemptID = rc_attempt rc\<rparr>"
  define d3 where "d3 = d2\<lparr>d_receipts := rs @ [scanReceipt (r\<lparr>r_ID := d_receipt_seq ?d + 1\<rparr>)], d_receipt_seq := d_receipt_seq ?d + 1\<rparr>"
  have keys2: "message_keys d2 = message_keys ?d"
    using message_keys_update [OF m1(1) _ keys(2)] keys(1) by (simp add: message_keys_def d2_def m1(2))
  then have "(?i, m_MessageID m) \<in> set (message_keys d2)" using keys(1) by simp
  then have "message_exists d2 ?i" by (auto simp: message_exists_def message_keys_def)
  moreover have "\<not> (\<exists>r' \<in> set (d_receipts d2). r_Handle r' = handle_of (q_ID q) ?i s)"
  proof
    have "d_receipts d2 = rs" by (simp add: d2_def d1_def)
    moreover assume "\<exists>r' \<in> set (d_receipts d2). r_Handle r' = handle_of (q_ID q) ?i s"
    ultimately have "handle_of (q_ID q) ?i s \<in> r_Handle ` set rs" by (metis imageI)
    with fresh [OF s] h1 show False by simp
  qed
  moreover have "queue_exists d2 (q_ID q)" using q(1) by (simp add: d2_def d1_def queue_exists_def)
  ultimately have run3: "db_InsertReceipt r d2 = Inr (r\<lparr>r_ID := d_receipt_seq ?d + 1\<rparr>, d3)"
    by (simp add: db_InsertReceipt_def r_def d3_def Let_def) (simp add: d2_def d1_def)
  define out where "out = receiveMessageOutput m1 (handle_of (q_ID q) ?i s) (rc_names rc) (rc_system rc)"
  let ?w4 = "w3\<lparr>w_ticks := Suc (w_ticks w3), w_calls := Suc (w_calls w3), w_db := d3\<rparr>"
  have "deliver q rc m w = (Inr out, ?w4)"
  proof -
    have a: "orInternal msg (DeactivateReceiptsByMessage ?i) w = (Inr (), w\<lparr>w_calls := Suc (w_calls w), w_db := d1\<rparr>)" for msg
      using healthy run1 by (simp add: DeactivateReceiptsByMessage_def)
    have start: "nowE (w\<lparr>w_calls := Suc (w_calls w), w_db := d1\<rparr>) = (Inr (w_clock w (w_ticks w)) :: goerr + gotime,
        w\<lparr>w_calls := Suc (w_calls w), w_db := d1, w_ticks := Suc (w_ticks w)\<rparr>)" by simp
    have first: "(if m_FirstReceivedAt m = None then nowE else ok 0) (w\<lparr>w_calls := Suc (w_calls w), w_db := d1, w_ticks := Suc (w_ticks w)\<rparr>)
        = (Inr ?first :: goerr + gotime, w\<lparr>w_calls := Suc (w_calls w), w_db := d1, w_ticks := ?ticks\<rparr>)"
      by simp
    have u: "orInternal msg (UpdateMessage m1) (w\<lparr>w_calls := Suc (w_calls w), w_db := d1, w_ticks := ?ticks\<rparr>) = (Inr (), ?w2)" for msg
      using healthy run2 by (simp add: UpdateMessage_def)
    have i: "orInternal msg (InsertReceipt r) (w3\<lparr>w_ticks := Suc (w_ticks w3)\<rparr>) = (Inr (r\<lparr>r_ID := d_receipt_seq ?d + 1\<rparr>), ?w4)" for msg
      using run3 w3 by (simp add: InsertReceipt_def)
    show ?thesis
      using deliver_steps [OF a start first u [unfolded m1_def] draw run_nowE i [unfolded r_def]]
      by (simp add: out_def m1_def)
  qed
  moreover have "handles d3 = insert (handle_of (q_ID q) ?i s) (handles ?d)"
    using h1 by (auto simp: handles_def d3_def r_def scanReceipt_def)
  moreover have "mget out ''MessageId'' = Some (GStr (m_MessageID m))" "mget out ''Body'' = Some (GStr (m_Body m))"
    by (simp_all add: out_def receiveMessageOutput_def Let_def m1)
  moreover have "message_keys d3 = message_keys ?d" "d_queues d3 = d_queues ?d"
    using keys2 by (simp_all add: d3_def message_keys_def) (simp add: d2_def d1_def)
  ultimately show ?thesis using s w3 by (auto simp: same_sources_def)
qed

section \<open>All deliveries\<close>

definition deliverable :: "world \<Rightarrow> queue \<Rightarrow> message list \<Rightarrow> bool" where
  "deliverable w q ms \<longleftrightarrow> healthy w \<and> queue_exists (w_db w) (q_ID q)
     \<and> distinct (map fst (message_keys (w_db w))) \<and> distinct (map snd (message_keys (w_db w)))
     \<and> distinct (map m_RowID ms)
     \<and> (\<forall>m \<in> set ms. m_QueueID m = q_ID q \<and> int64_range (m_RowID m) \<and> (m_RowID m, m_MessageID m) \<in> set (message_keys (w_db w))
          \<and> (\<forall>s \<in> salts w. handle_of (q_ID q) (m_RowID m) s \<notin> handles (w_db w)))"

lemma deliver_all:
  "deliverable w q ms \<Longrightarrow> \<exists>outs w'. mapE (deliver q rc) ms w = (Inr outs, w')
     \<and> map (\<lambda>out. mget out ''MessageId'') outs = map (\<lambda>m. Some (GStr (m_MessageID m))) ms
     \<and> map (\<lambda>out. mget out ''Body'') outs = map (\<lambda>m. Some (GStr (m_Body m))) ms"
proof (induction ms arbitrary: w)
  case (Cons m ms)
  then have "healthy w" "queue_exists (w_db w) (q_ID q)" "m_QueueID m = q_ID q"
    "(m_RowID m, m_MessageID m) \<in> set (message_keys (w_db w))"
    "distinct (map fst (message_keys (w_db w)))" "distinct (map snd (message_keys (w_db w)))"
    "\<And>s. s \<in> salts w \<Longrightarrow> handle_of (q_ID q) (m_RowID m) s \<notin> handles (w_db w)"
    by (simp_all add: deliverable_def)
  from deliver_runs [OF this, of rc] obtain out v s where v: "deliver q rc m w = (Inr out, v)"
    "mget out ''MessageId'' = Some (GStr (m_MessageID m))" "mget out ''Body'' = Some (GStr (m_Body m))"
    "same_sources w v" "d_queues (w_db v) = d_queues (w_db w)" "message_keys (w_db v) = message_keys (w_db w)"
    "handles (w_db v) = insert (handle_of (q_ID q) (m_RowID m) s) (handles (w_db w))"
    by blast
  have "handle_of (q_ID q) (m_RowID m') t \<noteq> handle_of (q_ID q) (m_RowID m) s" if "m' \<in> set ms" for m' t
  proof
    assume e: "handle_of (q_ID q) (m_RowID m') t = handle_of (q_ID q) (m_RowID m) s"
    have "m_RowID m' = m_RowID m"
      by (rule handle_of_inj [OF e]) (use that Cons.prems in \<open>simp_all add: deliverable_def\<close>)
    then have "m_RowID m \<in> m_RowID ` set ms" using that by (metis imageI)
    with Cons.prems show False by (simp add: deliverable_def)
  qed
  then have "deliverable v q ms"
    using Cons.prems v(4-) by (auto simp: deliverable_def same_sources_def queue_exists_def)
  from Cons.IH [OF this] obtain outs w' where "mapE (deliver q rc) ms v = (Inr outs, w')"
    "map (\<lambda>out. mget out ''MessageId'') outs = map (\<lambda>m. Some (GStr (m_MessageID m))) ms"
    "map (\<lambda>out. mget out ''Body'') outs = map (\<lambda>m. Some (GStr (m_Body m))) ms" by blast
  with v show ?case by (simp add: run_bindE)
qed simp

lemma redrive_none:
  "\<forall>m \<in> set ms. \<not> shouldRedrive q m \<Longrightarrow> foldE (redrive_step q now) b ms w = (Inr b, w)"
  by (induction ms) (simp_all add: redrive_step_def run_bindE)

lemma candidates_deliverable:
  assumes "healthy w" and "db_wf (w_db w)" and "q \<in> set (d_queues (w_db w))" and "1 \<le> n"
    and ms: "candidateMessages q (db_ListMessagesByQueue (q_ID q) (w_db w)) n now = ms"
      "set ms \<subseteq> set (db_ListMessagesByQueue (q_ID q) (w_db w))"
    and fresh: "\<forall>m \<in> set ms. int64_range (m_RowID m) \<and> (\<forall>s \<in> salts w. handle_of (q_ID q) (m_RowID m) s \<notin> handles (w_db w))"
  shows "deliverable w q ms"
proof -
  let ?d = "w_db w" and ?listed = "db_ListMessagesByQueue (q_ID q) (w_db w)"
  have in_queue: "m \<in> set (d_messages ?d) \<and> m_QueueID m = q_ID q" if "m \<in> set ms" for m
    using that ms(2) by (auto simp: db_ListMessagesByQueue_def)
  have wf: "distinct (map m_RowID (d_messages ?d))" "distinct (map m_MessageID (d_messages ?d))"
    using assms(2) by (auto simp: db_wf_def wf_messages_def ids_below_def)
  have "mset (map m_RowID ?listed) = mset (map m_RowID (filter (\<lambda>m. m_QueueID m = q_ID q) (d_messages ?d)))"
    by (simp only: db_ListMessagesByQueue_def mset_map mset_sort)
  with wf(1) have "distinct (map m_RowID ?listed)" by (metis distinct_map_filter mset_eq_imp_distinct_iff)
  from candidates_chosen [OF assms(4) this, of q now] have "distinct (map m_RowID ms)" by (simp add: ms(1))
  with assms(1,3) wf in_queue fresh show ?thesis
    unfolding deliverable_def message_keys_def by (auto simp: queue_exists_def comp_def)
qed

text \<open>
  C9. A receive of a standard (not a FIFO) queue makes progress: when the store does not fail, no
  maintenance is due at any reading of the clock, the queue has visible messages, none of which is
  to be redriven, and the request has no attempt id, the receive answers, in one round and without
  waiting, with the oldest visible messages, as many as were asked for: their ids and bodies in
  their order. The handles to be drawn must not be among those stored.
\<close>

theorem visible_messages_are_received:
  assumes "healthy w" and "db_wf (w_db w)" and quiet: "\<And>i. quiet (w_clock w i) (w_db w)"
    and url: "queueURLFromRequest cfg req \<noteq> []" "db_QueueByURL (queueURLFromRequest cfg req) (w_db w) = Some q"
    and q: "q_DeletedAt q = None" "q_AvailableAt q \<le> w_clock w (w_ticks w)" "\<not> q_FIFO q"
    and checks: "receive_checks q (rq_Input req) = Inr rc" "rc_attempt rc = []" "1 \<le> rc_max rc"
    and visible: "visible = filter (\<lambda>m. messageVisible m (w_clock w (w_ticks w)))
        (liveMessages (db_ListMessagesByQueue (q_ID q) (w_db w)) (w_clock w (w_ticks w)))" "visible \<noteq> []"
    and plain: "\<And>m. m \<in> set visible \<Longrightarrow> \<not> shouldRedrive q m \<and> int64_range (m_RowID m)"
    and fresh: "\<And>m s. m \<in> set visible \<Longrightarrow> s \<in> salts w \<Longrightarrow> handle_of (q_ID q) (m_RowID m) s \<notin> handles (w_db w)"
  shows "\<exists>outs w'. ReceiveMessage (Suc fuel) cfg req w = (Inr (Some [(''Messages'', GList (map GMap outs))]), w')
    \<and> map (\<lambda>out. mget out ''MessageId'') outs = map (\<lambda>m. Some (GStr (m_MessageID m))) (take (nat (rc_max rc)) visible)
    \<and> map (\<lambda>out. mget out ''Body'') outs = map (\<lambda>m. Some (GStr (m_Body m))) (take (nat (rc_max rc)) visible)"
proof -
  let ?d = "w_db w" and ?now = "w_clock w (w_ticks w)" and ?url = "queueURLFromRequest cfg req"
  let ?ms = "take (nat (rc_max rc)) visible"
  have row: "q \<in> set (d_queues ?d)" "q_URL q = ?url" using url(2) by (auto simp: db_QueueByURL_def dest: row_byD)
  have cand: "candidateMessages q (db_ListMessagesByQueue (q_ID q) ?d) (rc_max rc) ?now = ?ms"
    using candidates_standard [OF q(3) checks(3)] visible(1) by simp
  have ms: "set ?ms \<subseteq> set visible" by (rule set_take_subset)
  have deliverable: "deliverable v q ?ms" if "healthy v" "w_db v = ?d" "salts v = salts w" for v
    by (rule candidates_deliverable [OF that(1)])
      (use that assms(2) row(1) checks(3) cand ms plain fresh in \<open>auto simp: visible(1)\<close>)
  have run_maintain: "\<exists>n. maintain cfg (w_clock w i) v = (Inr (), v\<lparr>w_calls := n\<rparr>)" if "healthy v" "w_db v = ?d" for v i
    using maintain_quiet [OF that(1), of "w_clock w i" cfg] quiet [of i] that(2) by simp
  obtain n1 where m1: "maintain cfg ?now (w\<lparr>w_ticks := Suc (w_ticks w)\<rparr>) = (Inr (), w\<lparr>w_ticks := Suc (w_ticks w), w_calls := n1\<rparr>)"
    using run_maintain [of "w\<lparr>w_ticks := Suc (w_ticks w)\<rparr>" "w_ticks w"] assms(1) by auto
  let ?w2 = "w\<lparr>w_calls := Suc n1, w_ticks := Suc (Suc (w_ticks w))\<rparr>"
  obtain n2 where m2: "maintain cfg (w_clock w (Suc (w_ticks w))) ?w2 = (Inr (), ?w2\<lparr>w_calls := n2\<rparr>)"
    using run_maintain [of ?w2 "Suc (w_ticks w)"] assms(1) by auto
  let ?w3 = "?w2\<lparr>w_calls := Suc (Suc n2)\<rparr>"
  have "?ms \<noteq> []" using visible(2) checks(3) by simp
  have redrive: "foldE (redrive_step q ?now) False ?ms ?w3 = (Inr False, ?w3)"
    by (rule redrive_none) (use plain ms in blast)
  have "salts ?w3 = salts w" by simp
  then obtain outs w' where run: "mapE (deliver q rc) ?ms ?w3 = (Inr outs, w')"
    and outs: "map (\<lambda>out. mget out ''MessageId'') outs = map (\<lambda>m. Some (GStr (m_MessageID m))) ?ms"
      "map (\<lambda>out. mget out ''Body'') outs = map (\<lambda>m. Some (GStr (m_Body m))) ?ms"
    using deliver_all [OF deliverable, of ?w3 rc] assms(1) by auto
  have "outs \<noteq> []" using outs(1) \<open>?ms \<noteq> []\<close> by auto
  have "ReceiveMessage (Suc fuel) cfg req w = (Inr (Some (messages_output outs)), w')"
    using assms(1) m1 m2 run redrive \<open>?ms \<noteq> []\<close> url q row checks
    by (simp add: ReceiveMessage_def run_bindE lookupQueueForRequest_def lookupQueueByURL_def QueueByURL_def
        ensureQueueReady_def cand ListMessagesByQueue_def record_attempt_def Let_def)
  with \<open>outs \<noteq> []\<close> outs show ?thesis by (auto simp: messages_output_def)
qed

lemma visible_messages_are_received_witness:
  "\<exists>outs w'. ReceiveMessage 1 sample_config (sample_request ''ReceiveMessage'' [(''QueueUrl'', GStr ''http://h/0/a'')])
      (sample_world sample_stock 5) = (Inr (Some [(''Messages'', GList (map GMap outs))]), w')
    \<and> map (\<lambda>out. mget out ''MessageId'') outs = [Some (GStr (m_MessageID (sample_message 1 1 [] 0)))]
    \<and> map (\<lambda>out. mget out ''Body'') outs = [Some (GStr (m_Body (sample_message 1 1 [] 0)))]"
proof -
  let ?w = "sample_world sample_stock 5" and ?m = "sample_message 1 1 [] 0"
  let ?q = "sample_queue 1 ''a'' False []" and ?r = "sample_request ''ReceiveMessage'' [(''QueueUrl'', GStr ''http://h/0/a'')]"
  let ?rc = "\<lparr>rc_max = 1, rc_wait = 0, rc_visibility = 30, rc_names = [], rc_system = [], rc_attempt = []\<rparr>"
  have q: "q_URL ?q = ''http://h/0/a''" "q_DeletedAt ?q = None" "q_AvailableAt ?q = 0" "q_FIFO ?q = False"
    "q_Attributes ?q = []" "q_ID ?q = 1" by (simp_all add: sample_queue_def)
  have url: "queueURLFromRequest sample_config ?r = ''http://h/0/a''"
    by (simp add: queueURLFromRequest_def sample_request_def trimRight_def)
  have byurl: "db_QueueByURL ''http://h/0/a'' sample_stock = Some ?q"
    by (simp add: db_QueueByURL_def row_by_def sample_stock_def sample_db_def q(1))
  have checks: "receive_checks ?q (rq_Input ?r) = Inr ?rc"
    by (simp add: receive_checks_def in_range_param_def sample_request_def int64Value_def queueWaitTime_def
        queueVisibilityTimeout_def int_setting_def q(5) sget_def parseInt_def stringSliceValue_def
        unionStringSets_def stringValue_def)
  have vis: "messageVisible ?m 5" by (simp add: messageVisible_def message_live_def in_flight_def sample_message_def)
  have seen: "filter (\<lambda>m. messageVisible m 5) (liveMessages (db_ListMessagesByQueue 1 sample_stock) 5) = [?m]"
  proof -
    have "db_ListMessagesByQueue 1 sample_stock = [?m]"
      by (simp add: db_ListMessagesByQueue_def sample_stock_def sample_message_def)
    with vis show ?thesis by (simp add: liveMessages_def messageVisible_def split: if_splits)
  qed
  have red: "\<not> shouldRedrive ?q ?m"
    by (simp add: shouldRedrive_def parseRedrivePolicy_def q(5) sget_def trimSpace_def)
  have id: "m_RowID ?m = 1" by (simp add: sample_message_def)
  have w: "w_db ?w = sample_stock" "\<And>i. w_clock ?w i = 5" by (simp_all add: sample_world_def)
  have "handles (w_db ?w) = {}" by (simp add: handles_def w sample_stock_receipts)
  with sample_stock_wf sample_stock_quiet id red
  have "\<exists>outs w'. ReceiveMessage (Suc 0) sample_config ?r ?w = (Inr (Some [(''Messages'', GList (map GMap outs))]), w')
    \<and> map (\<lambda>out. mget out ''MessageId'') outs = map (\<lambda>m. Some (GStr (m_MessageID m))) (take (nat (rc_max ?rc)) [?m])
    \<and> map (\<lambda>out. mget out ''Body'') outs = map (\<lambda>m. Some (GStr (m_Body m))) (take (nat (rc_max ?rc)) [?m])"
    by (intro visible_messages_are_received [where q = ?q] healthy_sample_world)
      (simp_all only: w url, simp_all add: byurl q checks seen int64_range_def)
  then show ?thesis by simp
qed

end
