(* ===== verification/Interleaving.thy ===== *)
theory Interleaving
  imports Dispatcher Progress
begin

text \<open>
  Requests are served at the same time, without a lock, and the process may end between two calls of
  the store. What a handler does to the database is a list of operations of the store, each of
  them one step; so whatever handlers run together, and wherever they are cut off, the database is
  the result of some list of operations. Any such list keeps the integrity of the tables. That a
  message has one active receipt needs the handlers to run one after the other: two deliveries
  whose operations alternate give two.
\<close>

section \<open>The operations that write\<close>

datatype store_op =
    OpApplyDueQueueMutations gotime
  | OpInsertQueue queue
  | OpUpdateQueue queue
  | OpDeleteQueueRow int
  | OpSavePendingAttributes int strmap gotime gotime
  | OpReplaceTags int strmap
  | OpDeleteTags int "string list"
  | OpInsertMoveTask move_task
  | OpUpdateMoveTask move_task
  | OpInsertMessage message
  | OpUpdateMessage message
  | OpDeleteMessagesByQueueBefore int gotime
  | OpDeleteMessagesByQueue int gotime
  | OpInsertReceipt receipt
  | OpUpdateReceipt receipt
  | OpDeactivateReceiptsByMessage int
  | OpInsertDedupEntry dedup_entry
  | OpDeleteExpiredDedupEntries gotime
  | OpInsertReceiveAttempt receive_attempt
  | OpInvalidateReceiveAttempts int gotime

text \<open>An operation that fails leaves the database as it is.\<close>

definition after :: "(db \<Rightarrow> string + 'a \<times> db) \<Rightarrow> db \<Rightarrow> db" where
  "after f d = (case f d of Inl e \<Rightarrow> d | Inr (x, d') \<Rightarrow> d')"

primrec exec_op :: "store_op \<Rightarrow> db \<Rightarrow> db" where
  "exec_op (OpApplyDueQueueMutations now) = after (db_ApplyDueQueueMutations now)"
| "exec_op (OpInsertQueue q) = after (db_InsertQueue q)"
| "exec_op (OpUpdateQueue q) = after (db_updateQueueTx q)"
| "exec_op (OpDeleteQueueRow i) = after (db_DeleteQueueRow i)"
| "exec_op (OpSavePendingAttributes i attrs t u) = after (db_SavePendingAttributes i attrs t u)"
| "exec_op (OpReplaceTags i tags) = after (db_ReplaceTags i tags)"
| "exec_op (OpDeleteTags i keys) = after (db_DeleteTags i keys)"
| "exec_op (OpInsertMoveTask t) = after (db_InsertMoveTask t)"
| "exec_op (OpUpdateMoveTask t) = after (db_UpdateMoveTask t)"
| "exec_op (OpInsertMessage m) = after (db_InsertMessage m)"
| "exec_op (OpUpdateMessage m) = after (db_UpdateMessage m)"
| "exec_op (OpDeleteMessagesByQueueBefore i t) = after (db_DeleteMessagesByQueueBefore i t)"
| "exec_op (OpDeleteMessagesByQueue i t) = after (db_DeleteMessagesByQueue i t)"
| "exec_op (OpInsertReceipt r) = after (db_InsertReceipt r)"
| "exec_op (OpUpdateReceipt r) = after (db_UpdateReceipt r)"
| "exec_op (OpDeactivateReceiptsByMessage i) = after (db_DeactivateReceiptsByMessage i)"
| "exec_op (OpInsertDedupEntry e) = after (db_InsertDedupEntry e)"
| "exec_op (OpDeleteExpiredDedupEntries now) = after (db_DeleteExpiredDedupEntries now)"
| "exec_op (OpInsertReceiveAttempt a) = after (db_InsertReceiveAttempt a)"
| "exec_op (OpInvalidateReceiveAttempts i now) = after (db_InvalidateReceiveAttempts i now)"

definition exec_ops :: "store_op list \<Rightarrow> db \<Rightarrow> db" where
  "exec_ops ops d = fold exec_op ops d"

lemma exec_ops_simps [simp]:
  "exec_ops [] d = d" "exec_ops (op # ops) d = exec_ops ops (exec_op op d)"
  "exec_ops (ops @ ops') d = exec_ops ops' (exec_ops ops d)"
  by (simp_all add: exec_ops_def)

lemma after_Inr: "f d = Inr (x, d') \<Longrightarrow> after f d = d'"
  by (simp add: after_def)

section \<open>Handlers are lists of operations\<close>

definition written :: "db \<Rightarrow> db \<Rightarrow> bool" where
  "written d d' \<longleftrightarrow> (\<exists>ops. d' = exec_ops ops d)"

lemma written_op: "after f = exec_op op \<Longrightarrow> keeps written f"
proof (rule keepsI)
  fix d x d'
  assume "after f = exec_op op" and "f d = Inr (x, d')"
  then have "d' = exec_ops [op] d" using after_Inr [of f d x d'] by simp
  then show "written d d'" unfolding written_def by blast
qed

interpretation written: store_contract written
proof unfold_locales
  show "dbrel written w w" for w unfolding dbrel_def written_def by (metis exec_ops_simps(1))
  show "dbrel written u v \<Longrightarrow> dbrel written v w \<Longrightarrow> dbrel written u w" for u v w
    unfolding dbrel_def written_def by (metis exec_ops_simps(3))
qed (rule written_op, rule exec_op.simps [symmetric])+

lemma served_written: "served cfg d d' \<Longrightarrow> \<exists>ops. d' = exec_ops ops d"
  using written.served_rel by (simp add: written_def)

section \<open>Any list of operations keeps the integrity\<close>

lemma wf_after: "keeps wf_rel f \<Longrightarrow> db_wf d \<Longrightarrow> db_wf (after f d)"
  by (auto simp: after_def keeps_def wf_rel_def split: sum.split)

lemma wf_DeleteMessagesByQueue: "keeps wf_rel (db_DeleteMessagesByQueue i t)"
  by (rule wf_keepsI) (auto simp: db_DeleteMessagesByQueue_def intro!: wf_touch_messages map_update_where)

lemmas wf_keeps =
  wf_core.keep_ApplyDueQueueMutations wf_core.keep_UpdateQueue wf_core.keep_UpdateMoveTask wf_core.keep_InsertMessage
  wf_core.keep_UpdateMessage wf_core.keep_DeleteMessagesByQueueBefore wf_core.keep_DeactivateReceiptsByMessage
  wf_core.keep_InsertDedupEntry wf_core.keep_DeleteExpiredDedupEntries wf_core.keep_InsertReceiveAttempt
  wf_core.keep_InvalidateReceiveAttempts wf.keep_InsertReceipt wf.keep_UpdateReceipt wf.keep_InsertQueue
  wf.keep_DeleteQueueRow wf.keep_SavePendingAttributes wf.keep_ReplaceTags wf.keep_DeleteTags wf.keep_InsertMoveTask
  wf_DeleteMessagesByQueue

lemma exec_op_wf: "db_wf d \<Longrightarrow> db_wf (exec_op op d)"
  by (cases op) (simp_all add: wf_after wf_keeps)

lemma exec_ops_wf: "db_wf d \<Longrightarrow> db_wf (exec_ops ops d)"
  by (induction ops arbitrary: d) (simp_all add: exec_op_wf)

text \<open>
  C2. Requests that run at the same time or are cut off keep the integrity of the tables: what the
  requests did is a list of operations of the store, and whatever part of it was done, and whatever
  operations of other requests come between and after, every database on the way is sound.
\<close>

theorem interrupted_requests_keep_integrity:
  assumes "served cfg db_Init d"
  shows "\<exists>ops. d = exec_ops ops db_Init
    \<and> (\<forall>n others. \<forall>order \<in> shuffles (take n ops) others. db_wf (exec_ops order db_Init))"
  using served_written [OF assms] exec_ops_wf [OF db_wf_Init] by blast

lemma interrupted_requests_keep_integrity_witness:
  "\<exists>ops. w_db (snd (Dispatch (NewSQS 1 sample_config) (sample_request ''CreateQueue'' [(''QueueName'', GStr ''a'')])
     (sample_world db_Init 5))) = exec_ops ops db_Init \<and> db_wf (exec_ops ops db_Init)"
proof -
  let ?d = "w_db (snd (Dispatch (NewSQS 1 sample_config) (sample_request ''CreateQueue'' [(''QueueName'', GStr ''a'')]) (sample_world db_Init 5)))"
  have "served sample_config db_Init ?d"
    using dispatch_served [of sample_config "sample_world db_Init 5"] by (simp only: sample_world_db)
  from interrupted_requests_keep_integrity [OF this] obtain ops where ops: "?d = exec_ops ops db_Init"
    "\<And>n others order. order \<in> shuffles (take n ops) others \<Longrightarrow> db_wf (exec_ops order db_Init)" by blast
  with ops(2) [of ops "length ops" "[]"] show ?thesis by auto
qed

section \<open>Two deliveries of one message\<close>

text \<open>The operations of a delivery, and what their order leaves.\<close>

definition delivery_ops :: "message \<Rightarrow> receipt \<Rightarrow> store_op list" where
  "delivery_ops m r = [OpDeactivateReceiptsByMessage (m_RowID m), OpUpdateMessage m, OpInsertReceipt r]"

lemma orInternal_op:
  assumes "orInternal msg (sqlE f) w = (Inr x, w')"
  shows "w_db w' = after f (w_db w)"
  using assms by (auto simp: orInternal_def mapErr_def sqlE_def after_def Let_def split: if_splits sum.splits prod.splits)

lemma deliver_ops:
  assumes "deliver q rc m w = (Inr out, w')"
  shows "\<exists>m1 r. m_RowID m1 = m_RowID m \<and> r_MessageRowID r = m_RowID m \<and> r_Active r
    \<and> w_db w' = exec_ops (delivery_ops m1 r) (w_db w)"
proof -
  from assms obtain w1 start w2 first w3 w4 h w5 issued w6 r where
    a: "orInternal ''failed to deactivate prior receipts'' (DeactivateReceiptsByMessage (m_RowID m)) w = (Inr (), w1)"
    and b: "(nowE w1 :: (goerr + gotime) \<times> world) = (Inr start, w2)"
    and c: "((if m_FirstReceivedAt m = None then nowE else ok 0) w2 :: (goerr + gotime) \<times> world) = (Inr first, w3)"
    and d: "orInternal ''failed to update message visibility'' (UpdateMessage (leased m first (start + seconds (rc_visibility rc)))) w3 = (Inr (), w4)"
    and e: "newReceiptHandle (q_ID q) (m_RowID m) w4 = (Inr h :: goerr + string, w5)"
    and f: "(nowE w5 :: (goerr + gotime) \<times> world) = (Inr issued, w6)"
    and g: "orInternal ''failed to create receipt handle'' (InsertReceipt \<lparr>r_ID = 0, r_QueueID = q_ID q, r_MessageRowID = m_RowID m,
        r_Handle = h, r_IssuedAt = issued, r_VisibilityDeadline = start + seconds (rc_visibility rc), r_Active = True,
        r_ReceiveAttemptID = rc_attempt rc\<rparr>) w6 = (Inr r, w')"
    unfolding deliver_def Let_def by (elim bindE_Inr_cases) auto
  have "w_db w5 = w_db w4" using e by (auto simp: newReceiptHandle_def run_bindE randRead_def newUUID_def split: option.splits if_splits sum.splits)
  moreover have "w_db w2 = w_db w1" "w_db w3 = w_db w2" "w_db w6 = w_db w5" using b c f by (auto split: if_splits)
  ultimately show ?thesis
    using orInternal_op [OF a [unfolded DeactivateReceiptsByMessage_def]] orInternal_op [OF d [unfolded UpdateMessage_def]]
      orInternal_op [OF g [unfolded InsertReceipt_def]]
    by (intro exI [of _ "leased m first (start + seconds (rc_visibility rc))"] exI [of _ "\<lparr>r_ID = 0, r_QueueID = q_ID q,
        r_MessageRowID = m_RowID m, r_Handle = h, r_IssuedAt = issued, r_VisibilityDeadline = start + seconds (rc_visibility rc),
        r_Active = True, r_ReceiveAttemptID = rc_attempt rc\<rparr>"]) (simp add: delivery_ops_def leased_def)
qed

text \<open>A queue with a message, and its receipts: what the operations of a delivery make of them.\<close>

definition stocked :: "db \<Rightarrow> int \<Rightarrow> int \<Rightarrow> (string \<times> bool) list \<Rightarrow> bool" where
  "stocked d q i rs \<longleftrightarrow> queue_exists d q \<and> message_exists d i \<and> (\<forall>r \<in> set (d_receipts d). r_MessageRowID r = i)
     \<and> map (\<lambda>r. (r_Handle r, r_Active r)) (d_receipts d) = rs"

lemma stocked_deactivate:
  assumes "stocked d q i rs"
  shows "stocked (exec_op (OpDeactivateReceiptsByMessage i) d) q i (map (\<lambda>(h, _). (h, False)) rs)"
  using assms by (auto simp: stocked_def after_def db_DeactivateReceiptsByMessage_def update_where_def queue_exists_def message_exists_def)

lemma stocked_update:
  assumes "stocked d q i rs"
  shows "stocked (exec_op (OpUpdateMessage m) d) q i rs"
proof -
  let ?ms = "update_where (\<lambda>r. m_RowID r = m_RowID m) (\<lambda>_. scanMessage m) (d_messages d)"
  have "map m_RowID ?ms = map m_RowID (d_messages d)" by (rule map_update_where) (simp add: scanMessage_def)
  then have "m_RowID ` set ?ms = m_RowID ` set (d_messages d)" by (metis list.set_map)
  moreover have exists_iff: "message_exists e i \<longleftrightarrow> i \<in> m_RowID ` set (d_messages e)" for e
    by (auto simp: message_exists_def)
  ultimately have "stocked (d\<lparr>d_messages := ?ms\<rparr>) q i rs"
    using assms by (simp add: stocked_def queue_exists_def exists_iff)
  moreover have "exec_op (OpUpdateMessage m) d \<in> {d, d\<lparr>d_messages := ?ms\<rparr>}"
    by (simp add: after_def db_UpdateMessage_def)
  ultimately show ?thesis using assms by auto
qed

lemma stocked_insert:
  assumes "stocked d q i rs" and "r_QueueID r = q" and "r_MessageRowID r = i" and "r_Handle r \<notin> fst ` set rs"
  shows "stocked (exec_op (OpInsertReceipt r) d) q i (rs @ [(r_Handle r, r_Active r)])"
proof -
  have "map (\<lambda>r. (r_Handle r, r_Active r)) (d_receipts d) = rs" using assms(1) by (simp add: stocked_def)
  from arg_cong [OF this, of "\<lambda>rs. fst ` set rs"] have "fst ` set rs = r_Handle ` set (d_receipts d)"
    by (simp add: image_image)
  with assms(4) have "\<not> (\<exists>x \<in> set (d_receipts d). r_Handle x = r_Handle r)" by (metis imageI)
  then have "exec_op (OpInsertReceipt r) d = d\<lparr>d_receipts := d_receipts d @ [scanReceipt (r\<lparr>r_ID := d_receipt_seq d + 1\<rparr>)],
      d_receipt_seq := d_receipt_seq d + 1\<rparr>"
    using assms(1-3) by (simp add: stocked_def after_def db_InsertReceipt_def Let_def)
  with assms(1-3) show ?thesis
    by (simp add: stocked_def queue_exists_def message_exists_def scanReceipt_def)
qed

text \<open>
  One delivery after the other leaves one active receipt; when their operations alternate, both
  handles stay active.
\<close>

lemma alternating_deliveries:
  assumes d: "stocked d q i []" and m: "m_RowID m = i" "m_RowID m' = i"
    and r: "r_QueueID r = q" "r_MessageRowID r = i" "r_Active r" and r': "r_QueueID r' = q" "r_MessageRowID r' = i" "r_Active r'"
    and handles: "r_Handle r \<noteq> r_Handle r'"
  shows "stocked (exec_ops (delivery_ops m r @ delivery_ops m' r') d) q i [(r_Handle r, False), (r_Handle r', True)]"
    and "\<exists>order \<in> shuffles (delivery_ops m r) (delivery_ops m' r').
      stocked (exec_ops order d) q i [(r_Handle r, True), (r_Handle r', True)]"
proof -
  have first: "stocked (exec_ops (delivery_ops m r) d) q i [(r_Handle r, True)]"
    using stocked_insert [OF stocked_update [OF stocked_deactivate [OF d]] r(1,2)] m(1) r(3) by (simp add: delivery_ops_def)
  show "stocked (exec_ops (delivery_ops m r @ delivery_ops m' r') d) q i [(r_Handle r, False), (r_Handle r', True)]"
    using stocked_insert [OF stocked_update [OF stocked_deactivate [OF first]] r'(1,2)] m(2) r'(3) handles
    by (simp add: delivery_ops_def)
  let ?order = "[OpDeactivateReceiptsByMessage i, OpDeactivateReceiptsByMessage i, OpUpdateMessage m, OpUpdateMessage m',
    OpInsertReceipt r, OpInsertReceipt r']"
  have both: "stocked (exec_ops [OpDeactivateReceiptsByMessage i, OpDeactivateReceiptsByMessage i, OpUpdateMessage m, OpUpdateMessage m',
      OpInsertReceipt r] d) q i [(r_Handle r, True)]"
    using stocked_insert [OF stocked_update [OF stocked_update [OF stocked_deactivate [OF stocked_deactivate [OF d]]]] r(1,2)] r(3) by simp
  have "stocked (exec_ops ?order d) q i [(r_Handle r, True), (r_Handle r', True)]"
    using stocked_insert [OF both r'(1,2)] r'(3) handles by simp
  moreover have "?order \<in> shuffles (delivery_ops m r) (delivery_ops m' r')" using m by (simp add: delivery_ops_def)
  ultimately show "\<exists>order \<in> shuffles (delivery_ops m r) (delivery_ops m' r').
      stocked (exec_ops order d) q i [(r_Handle r, True), (r_Handle r', True)]" by blast
qed

end
