(* ===== verification/JsonIndent.thy ===== *)
theory JsonIndent
  imports JsonText
begin

text \<open>
  \<open>json.MarshalIndent\<close> with tabs, for values without numbers: members in the order of the list (a
  struct has its fields in the order of their declaration, a Go map has its keys sorted). What is
  shown: the parser reads the value back, order included.
\<close>

definition line :: "nat \<Rightarrow> string" where
  "line n = char_of (10 :: nat) # replicate n (char_of (9 :: nat))"

fun indent_value :: "nat \<Rightarrow> gval \<Rightarrow> string" where
  "indent_value n (GList vs) =
     (if vs = [] then ''[]''
      else ''['' @ line (Suc n) @ joinWith ('','' @ line (Suc n)) (map (indent_value (Suc n)) vs) @ line n @ '']'')"
| "indent_value n (GMap m) =
     (if m = [] then ''{}''
      else ''{'' @ line (Suc n) @ joinWith ('','' @ line (Suc n))
        (map (\<lambda>(k, v). json_quote k @ '': '' @ indent_value (Suc n) v) m) @ line n @ ''}'')"
| "indent_value n v = json_marshal v"

definition json_marshal_indent :: "gval \<Rightarrow> string" where
  "json_marshal_indent v = indent_value 0 v"

text \<open>Values without numbers and null whose strings and keys all satisfy \<open>P\<close>.\<close>

fun json_doc :: "(string \<Rightarrow> bool) \<Rightarrow> gval \<Rightarrow> bool" where
  "json_doc P (GStr s) = P s"
| "json_doc P (GBool b) = True"
| "json_doc P (GList vs) = list_all (json_doc P) vs"
| "json_doc P (GMap m) = (distinct (map fst m) \<and> list_all (\<lambda>(k, v). P k \<and> json_doc P v) m)"
| "json_doc P v = False"

lemma json_doc_mono: "json_doc P v \<Longrightarrow> (\<And>s. P s \<Longrightarrow> Q s) \<Longrightarrow> json_doc Q v"
proof (induction v)
  case (GMap m)
  then show ?case by (fastforce simp: list_all_iff)
qed (auto simp: list_all_iff)

section \<open>White space\<close>

lemma skip_ws_line [simp]: "skip_ws (line n @ s) = skip_ws s"
proof -
  have "\<forall>c \<in> set (line n). json_ws c" by (auto simp: line_def json_ws_def)
  then show ?thesis by (simp add: skip_ws_def dropWhile_append2)
qed

lemma skip_ws_blank [simp]: "skip_ws (CHR '' '' # s) = skip_ws s"
  by (simp add: skip_ws_def json_ws_def)

lemma json_value_ws: "skip_ws s = skip_ws s' \<Longrightarrow> json_value num fuel depth s = json_value num fuel depth s'"
  by (cases fuel) simp_all

lemma json_elems_line [simp]: "json_elems num fuel depth (line n @ s) = json_elems num fuel depth s"
proof (cases fuel)
  case (Suc f)
  have "json_value num f depth (line n @ s) = json_value num f depth s" by (rule json_value_ws) simp
  with Suc show ?thesis by simp
qed simp

lemma json_members_line [simp]: "json_members num fuel depth (line n @ s) = json_members num fuel depth s"
  by (cases fuel) simp_all

section \<open>Lists and objects\<close>

definition indent_elems :: "nat \<Rightarrow> gval list \<Rightarrow> string" where
  "indent_elems n vs = joinWith ('','' @ line n) (map (indent_value n) vs)"

definition indent_members :: "nat \<Rightarrow> gmap \<Rightarrow> string" where
  "indent_members n m = joinWith ('','' @ line n) (map (\<lambda>(k, v). json_quote k @ '': '' @ indent_value n v) m)"

lemma indent_elems_Cons:
  "indent_elems n (v # vs) = indent_value n v @ (if vs = [] then [] else CHR '','' # line n @ indent_elems n vs)"
  by (cases vs) (simp_all add: indent_elems_def)

lemma indent_members_Cons:
  "indent_members n ((k, v) # m) = json_quote k @ CHR '':'' # CHR '' '' # indent_value n v
     @ (if m = [] then [] else CHR '','' # line n @ indent_members n m)"
  by (cases m) (auto simp: indent_members_def)

lemma indent_value_list: "vs \<noteq> [] \<Longrightarrow> indent_value n (GList vs) = CHR ''['' # line (Suc n) @ indent_elems (Suc n) vs @ line n @ '']''"
  by (simp add: indent_elems_def)

lemma indent_value_map: "m \<noteq> [] \<Longrightarrow> indent_value n (GMap m) = CHR ''{'' # line (Suc n) @ indent_members (Suc n) m @ line n @ ''}''"
  by (simp add: indent_members_def)

lemma indent_head: "json_doc P v \<Longrightarrow> \<exists>c r. indent_value n v = c # r \<and> c \<noteq> CHR '']'' \<and> \<not> json_ws c"
proof (cases v)
  case (GStr s)
  have "char_of (34 :: nat) \<noteq> CHR '']''" by code_simp
  with GStr show ?thesis by (auto simp: json_quote_def no_ws)
qed (auto simp: no_ws)

definition reads_indented :: "gval \<Rightarrow> bool" where
  "reads_indented v \<longleftrightarrow> (\<forall>num fuel depth n t. length (indent_value n v) < fuel \<longrightarrow> depth + json_depth v \<le> max_depth \<longrightarrow>
     json_value num fuel depth (indent_value n v @ t) = Some (v, t))"

lemma reads_indentedD:
  "reads_indented v \<Longrightarrow> length (indent_value n v) < fuel \<Longrightarrow> depth + json_depth v \<le> max_depth \<Longrightarrow>
   json_value num fuel depth (indent_value n v @ t) = Some (v, t)"
  by (simp add: reads_indented_def)

lemma json_elems_indented:
  assumes "vs \<noteq> []" and "\<And>v. v \<in> set vs \<Longrightarrow> reads_indented v \<and> depth + json_depth v \<le> max_depth"
    and "Suc (length (indent_elems n vs)) < fuel"
  shows "json_elems num fuel depth (indent_elems n vs @ line k @ CHR '']'' # t) = Some (vs, t)"
  using assms
proof (induction vs arbitrary: fuel)
  case (Cons v vs)
  then obtain f where f: "fuel = Suc f" by (cases fuel) auto
  let ?rest = "if vs = [] then line k @ CHR '']'' # t else CHR '','' # line n @ indent_elems n vs @ line k @ CHR '']'' # t"
  have "json_value num f depth (indent_value n v @ ?rest) = Some (v, ?rest)"
    by (rule reads_indentedD) (use Cons.prems f in \<open>simp_all add: indent_elems_Cons\<close>)
  moreover have "indent_elems n (v # vs) @ line k @ CHR '']'' # t = indent_value n v @ ?rest"
    by (simp add: indent_elems_Cons)
  moreover have "vs \<noteq> [] \<Longrightarrow> json_elems num f depth (indent_elems n vs @ line k @ CHR '']'' # t) = Some (vs, t)"
    by (rule Cons.IH) (use Cons.prems f in \<open>simp_all add: indent_elems_Cons\<close>)
  ultimately show ?case by (simp add: f skip_ws_Cons no_ws)
qed simp

lemma json_members_indented:
  assumes "m \<noteq> []" and "\<And>key v. (key, v) \<in> set m \<Longrightarrow> reads_indented v \<and> valid_utf8 key \<and> depth + json_depth v \<le> max_depth"
    and "Suc (length (indent_members n m)) < fuel"
  shows "json_members num fuel depth (indent_members n m @ line k @ CHR ''}'' # t) = Some (m, t)"
  using assms
proof (induction m arbitrary: fuel)
  case (Cons p m)
  obtain key v where p: "p = (key, v)" by (cases p)
  obtain f where f: "fuel = Suc f" using Cons.prems(3) by (cases fuel) auto
  let ?rest = "if m = [] then line k @ CHR ''}'' # t else CHR '','' # line n @ indent_members n m @ line k @ CHR ''}'' # t"
  let ?v = "indent_value n v @ ?rest"
  have "json_value num f depth ?v = Some (v, ?rest)"
    by (rule reads_indentedD) (use Cons.prems p f in \<open>auto simp: indent_members_Cons\<close>)
  then have v: "json_value num f depth (CHR '' '' # ?v) = Some (v, ?rest)"
    using json_value_ws [OF skip_ws_blank, of num f depth ?v] by simp
  have joined: "indent_members n (p # m) @ line k @ CHR ''}'' # t = json_quote key @ CHR '':'' # CHR '' '' # ?v"
    by (simp add: p indent_members_Cons)
  have key: "json_string fuel' (tl (json_quote key) @ u) = Some (key, u)" if "length (json_quote key) \<le> fuel'" for fuel' u
    using json_string_quote [OF that] Cons.prems(2) [of key v] p by (simp add: to_valid_utf8_id)
  have rest: "m \<noteq> [] \<Longrightarrow> json_members num f depth (indent_members n m @ line k @ CHR ''}'' # t) = Some (m, t)"
    by (rule Cons.IH) (use Cons.prems p f in \<open>auto simp: indent_members_Cons\<close>)
  show ?case
    unfolding joined using v rest key [of "Suc (length (tl (json_quote key) @ CHR '':'' # CHR '' '' # ?v))" "CHR '':'' # CHR '' '' # ?v"]
    by (subst json_quote_shape) (simp add: f p skip_ws_Cons no_ws)
qed simp

section \<open>Reading back\<close>

lemma reads_indented_list:
  assumes "\<And>v. v \<in> set vs \<Longrightarrow> reads_indented v" and "list_all (json_doc valid_utf8) vs"
  shows "reads_indented (GList vs)"
  unfolding reads_indented_def
proof (intro allI impI)
  fix num fuel depth n t
  assume l: "length (indent_value n (GList vs)) < fuel" and d: "depth + json_depth (GList vs) \<le> max_depth"
  then obtain f where f: "fuel = Suc f" by (cases fuel) auto
  have depth: "depth < max_depth" "\<And>v. v \<in> set vs \<Longrightarrow> Suc depth + json_depth v \<le> max_depth"
    using d fold_max_le [of json_depth vs 0 "max_depth - Suc depth"] by fastforce+
  show "json_value num fuel depth (indent_value n (GList vs) @ t) = Some (GList vs, t)"
  proof (cases vs)
    case Nil
    then show ?thesis by (simp add: f json_value_array(1) [OF depth(1)] del: json_value.simps)
  next
    case (Cons v us)
    then obtain c r where c: "indent_value (Suc n) v = c # r" "c \<noteq> CHR '']''" "\<not> json_ws c"
      using indent_head [of valid_utf8 v "Suc n"] assms(2) by auto
    have e: "json_elems num f (Suc depth) (indent_elems (Suc n) vs @ line n @ CHR '']'' # t) = Some (vs, t)"
      by (rule json_elems_indented)
        (use Cons assms(1) depth(2) l f in \<open>auto simp: indent_value_list simp del: indent_value.simps\<close>)
    obtain r' where "indent_elems (Suc n) vs @ line n @ CHR '']'' # t = c # r'" using c(1) Cons by (auto simp: indent_elems_Cons)
    with e c(2,3) depth(1) Cons show ?thesis
      by (simp add: indent_value_list f skip_ws_Cons no_ws del: indent_value.simps)
  qed
qed

lemma reads_indented_map:
  assumes "\<And>k v. (k, v) \<in> set m \<Longrightarrow> reads_indented v" and "json_doc valid_utf8 (GMap m)"
  shows "reads_indented (GMap m)"
  unfolding reads_indented_def
proof (intro allI impI)
  fix num fuel depth n t
  assume l: "length (indent_value n (GMap m)) < fuel" and d: "depth + json_depth (GMap m) \<le> max_depth"
  then obtain f where f: "fuel = Suc f" by (cases fuel) auto
  have depth: "depth < max_depth" "\<And>k v. (k, v) \<in> set m \<Longrightarrow> Suc depth + json_depth v \<le> max_depth"
    using d fold_max_le [of "\<lambda>(k, v). json_depth v" m 0 "max_depth - Suc depth"]
    by (fastforce simp: case_prod_unfold)+
  show "json_value num fuel depth (indent_value n (GMap m) @ t) = Some (GMap m, t)"
  proof (cases m)
    case Nil
    then show ?thesis by (simp add: f json_value_object(1) [OF depth(1)] del: json_value.simps)
  next
    case (Cons p us)
    have q: "char_of (34 :: nat) \<noteq> CHR ''}''" by code_simp
    have e: "json_members num f (Suc depth) (indent_members (Suc n) m @ line n @ CHR ''}'' # t) = Some (m, t)"
    proof (rule json_members_indented)
      show "Suc (length (indent_members (Suc n) m)) < f"
        using l f Cons by (simp add: indent_value_map del: indent_value.simps)
      show "reads_indented v \<and> valid_utf8 k \<and> Suc depth + json_depth v \<le> max_depth" if "(k, v) \<in> set m" for k v
        using that assms depth(2) by (auto simp: list_all_iff)
    qed (simp add: Cons)
    obtain r' where "indent_members (Suc n) m @ line n @ CHR ''}'' # t = char_of (34 :: nat) # r'"
      using Cons by (cases p) (auto simp: indent_members_Cons json_quote_def)
    moreover have "mcopy [] m = m" using mcopy_distinct [of "[]" m] assms(2) by simp
    ultimately show ?thesis
      using e q depth(1) Cons by (simp add: indent_value_map f skip_ws_Cons no_ws del: indent_value.simps)
  qed
qed

lemma json_doc_reads: "json_doc valid_utf8 v \<Longrightarrow> reads_indented v"
proof (induction v)
  case (GStr s)
  then show ?case
    by (auto simp: reads_indented_def json_value_quote to_valid_utf8_id less_eq_Suc_le dest!: Suc_le_D simp del: json_value.simps)
next
  case (GBool b)
  then show ?case
    by (auto simp: reads_indented_def json_value_literals [unfolded append.simps] less_eq_Suc_le dest!: Suc_le_D simp del: json_value.simps)
next
  case (GList vs)
  then show ?case by (intro reads_indented_list) (auto simp: list_all_iff)
next
  case (GMap m)
  then show ?case by (intro reads_indented_map) (fastforce simp: list_all_iff)+
qed simp_all

lemma json_indent_read:
  assumes "json_doc valid_utf8 v" and "json_depth v \<le> max_depth"
  shows "json_value num (json_fuel (json_marshal_indent v)) 0 (json_marshal_indent v) = Some (v, [])"
  using reads_indentedD [OF json_doc_reads [OF assms(1)], of 0 "json_fuel (json_marshal_indent v)" 0 num "[]"] assms(2)
  by (simp add: json_marshal_indent_def json_fuel_def)

section \<open>The characters of the text\<close>

lemma joinWith_chars: "c \<in> set (joinWith sep xs) \<Longrightarrow> c \<in> set sep \<or> (\<exists>x \<in> set xs. c \<in> set x)"
  by (induction sep xs rule: joinWith.induct) auto

lemma hex_lower_char: "i < 16 \<Longrightarrow> byte (hex_lower ! i) \<notin> {13, 96}"
  by (simp add: hex_lower_def less_Suc_eq numeral_eq_Suc) (elim disjE; simp)

text \<open>A carriage return is escaped, and a backquote is one of the string.\<close>

lemma json_escape_rune_char:
  assumes "chunk (r, bs)" and "c \<in> set (json_escape_rune (r, bs))" and "byte c \<in> {13, 96}"
  shows "byte c = 96 \<and> c \<in> set bs"
proof -
  have hex: "c \<notin> set (hex_escape n)" for n
    using assms(3) hex_lower_char [of "n div 4096 mod 16"] hex_lower_char [of "n div 256 mod 16"]
      hex_lower_char [of "n div 16 mod 16"] hex_lower_char [of "n mod 16"] by (auto simp: hex_escape_def)
  have low: "bs = [char_of r]" "byte (char_of r) = r" if "r < 128" using chunk_ascii [OF assms(1) that] .
  have high: "c \<notin> set bs" if "128 \<le> r" "\<not> (r = rune_error \<and> length bs = 1)"
    using assms(1,3) that utf8_encode_high [OF that(1), of c] by (auto simp: chunk_def)
  show ?thesis
    using assms(2,3) hex low high by (cases "r < 128") (auto simp: json_escape_rune_def Let_def split: if_splits)
qed

lemma json_quote_char:
  assumes "c \<in> set (json_quote s)" and "byte c \<in> {13, 96}"
  shows "byte c = 96 \<and> c \<in> set s"
proof -
  from assms obtain r bs where "(r, bs) \<in> set (runeChunks s)" "c \<in> set (json_escape_rune (r, bs))"
    by (auto simp: json_quote_def)
  with json_escape_rune_char [OF runeChunks_chunk _ assms(2)] have "byte c = 96 \<and> c \<in> set bs" "bs \<in> snd ` set (runeChunks s)"
    by force+
  moreover have "set s = (\<Union>b \<in> snd ` set (runeChunks s). set b)"
    using arg_cong [OF runeChunks_concat [of s], of set] by simp
  ultimately show ?thesis by blast
qed

lemma indent_value_char:
  assumes "json_doc P v" and "\<And>s. P s \<Longrightarrow> c \<notin> set (json_quote s)" and "byte c \<in> {13, 96}"
  shows "c \<notin> set (indent_value n v)"
proof -
  have c: "c \<notin> set (line k)" "c \<notin> set '',[]{}: ''" "c \<notin> set ''truefalse''" for k
    using assms(3) by (auto simp: line_def)
  show ?thesis using assms(1)
  proof (induction v arbitrary: n)
    case (GList vs)
    then show ?case using c by (auto simp: list_all_iff dest!: joinWith_chars)
  next
    case (GMap m)
    have "c \<notin> set (json_quote k @ '': '' @ indent_value (Suc n) v)" if "(k, v) \<in> set m" for k v
    proof -
      have "P k" "json_doc P v" using GMap.prems that by (auto simp: list_all_iff)
      with GMap.IH [OF that, of v "Suc n"] assms(2) c(2) show ?thesis by simp
    qed
    then show ?case using c by (auto dest!: joinWith_chars)
  qed (use assms(2) c in auto)
qed

end
