(* ===== verification/Generator.thy ===== *)
theory Generator
  imports Registry JsonIndent
begin

text \<open>
  \<open>tools/gensqs/main.go\<close>, the generator of \<open>internal/model/registry_gen.go\<close>: it reads the service model
  and the paginators of the AWS SDK, makes the registry of them and writes it as JSON text inside
  the source of a Go function, which decodes it at start-up (\<open>internal/model/decode.go\<close>).
  \<open>gunzip\<close> stands for \<open>compress/gzip\<close>, \<open>file\<close> for the file system. The template is formatted as
  \<open>gofmt\<close> would, so \<open>format.Source\<close> leaves it as it is when the text has no backquote.
\<close>

section \<open>Decoding JSON into structs\<close>

text \<open>
  The fields of a struct by their names, matched without regard to case; \<open>null\<close> leaves the struct as it is
  and other values are errors. Not covered: an object that gives a field twice in different case.
\<close>

type_synonym 'a field = "gval \<Rightarrow> 'a \<Rightarrow> 'a option"

definition decode_into :: "(string \<times> 'a field) list \<Rightarrow> string \<times> gval \<Rightarrow> 'a option \<Rightarrow> 'a option" where
  "decode_into fs kv s = Option.bind s (\<lambda>a.
     case find (\<lambda>(name, _). equalFold (fst kv) name) fs of None \<Rightarrow> Some a | Some (_, dec) \<Rightarrow> dec (snd kv) a)"

definition decode_struct :: "(string \<times> 'a field) list \<Rightarrow> 'a \<Rightarrow> gval \<Rightarrow> 'a option" where
  "decode_struct fs zero v = (case v of GNil \<Rightarrow> Some zero | GMap m \<Rightarrow> fold (decode_into fs) m (Some zero) | _ \<Rightarrow> None)"

definition str_field :: "((string \<Rightarrow> string) \<Rightarrow> 'a \<Rightarrow> 'a) \<Rightarrow> 'a field" where
  "str_field upd v a = (case v of GNil \<Rightarrow> Some a | GStr s \<Rightarrow> Some (upd (\<lambda>_. s) a) | _ \<Rightarrow> None)"

definition bool_field :: "((bool \<Rightarrow> bool) \<Rightarrow> 'a \<Rightarrow> 'a) \<Rightarrow> 'a field" where
  "bool_field upd v a = (case v of GNil \<Rightarrow> Some a | GBool b \<Rightarrow> Some (upd (\<lambda>_. b) a) | _ \<Rightarrow> None)"

definition struct_field :: "(gval \<Rightarrow> 'b option) \<Rightarrow> (('b \<Rightarrow> 'b) \<Rightarrow> 'a \<Rightarrow> 'a) \<Rightarrow> 'a field" where
  "struct_field dec upd v a = (if v = GNil then Some a else map_option (\<lambda>x. upd (\<lambda>_. x) a) (dec v))"

definition pointer_field :: "(gval \<Rightarrow> 'b option) \<Rightarrow> (('b option \<Rightarrow> 'b option) \<Rightarrow> 'a \<Rightarrow> 'a) \<Rightarrow> 'a field" where
  "pointer_field dec upd v a =
     (if v = GNil then Some (upd (\<lambda>_. None) a) else map_option (\<lambda>x. upd (\<lambda>_. Some x) a) (dec v))"

definition slice_field :: "(gval \<Rightarrow> 'b option) \<Rightarrow> (('b list \<Rightarrow> 'b list) \<Rightarrow> 'a \<Rightarrow> 'a) \<Rightarrow> 'a field" where
  "slice_field dec upd v a = (case v of GNil \<Rightarrow> Some (upd (\<lambda>_. []) a)
     | GList vs \<Rightarrow> map_option (\<lambda>xs. upd (\<lambda>_. xs) a) (those (map dec vs)) | _ \<Rightarrow> None)"

definition map_field :: "(gval \<Rightarrow> 'b option) \<Rightarrow> (((string \<times> 'b) list \<Rightarrow> (string \<times> 'b) list) \<Rightarrow> 'a \<Rightarrow> 'a) \<Rightarrow> 'a field" where
  "map_field dec upd v a = (case v of GNil \<Rightarrow> Some (upd (\<lambda>_. []) a)
     | GMap m \<Rightarrow> map_option (\<lambda>xs. upd (\<lambda>_. xs) a) (those (map (\<lambda>(k, x). map_option (Pair k) (dec x)) m)) | _ \<Rightarrow> None)"

definition decode_str :: "gval \<Rightarrow> string option" where
  "decode_str v = (case v of GNil \<Rightarrow> Some [] | GStr s \<Rightarrow> Some s | _ \<Rightarrow> None)"

text \<open>\<open>json.Unmarshal\<close> into a value that \<open>dec\<close> decodes; numbers in fields that are skipped are not converted.\<close>

definition unmarshal_with :: "(gval \<Rightarrow> 'a option) \<Rightarrow> string \<Rightarrow> 'a option" where
  "unmarshal_with dec raw = (case json_value as_number (json_fuel raw) 0 raw of
      Some (v, rest) \<Rightarrow> (if skip_ws rest = [] then dec v else None) | None \<Rightarrow> None)"

section \<open>The service model of the SDK\<close>

record raw_metadata =
  xm_APIVersion :: string
  xm_EndpointPrefix :: string
  xm_JSONVersion :: string
  xm_Protocol :: string
  xm_Protocols :: "string list"
  xm_TargetPrefix :: string
  xm_ServiceID :: string

record raw_shape_ref =
  xr_Shape :: string
  xr_LocationName :: string
  xr_Flattened :: bool

record raw_member =
  xb_Shape :: string
  xb_LocationName :: string
  xb_Flattened :: bool

record raw_operation =
  xo_Input :: raw_shape_ref
  xo_Output :: raw_shape_ref
  xo_Errors :: "raw_shape_ref list"

record raw_shape =
  xs_Type :: string
  xs_Enum :: "string list"
  xs_Required :: "string list"
  xs_Members :: "(string \<times> raw_member) list"
  xs_Key :: "raw_shape_ref option"
  xs_Value :: "raw_shape_ref option"
  xs_Member :: "raw_shape_ref option"
  xs_Flattened :: bool
  xs_Exception :: bool

record raw_service_model =
  xv_Metadata :: raw_metadata
  xv_Operations :: "(string \<times> raw_operation) list"
  xv_Shapes :: "(string \<times> raw_shape) list"

record raw_paginator =
  xp_InputToken :: string
  xp_OutputToken :: string
  xp_LimitKey :: string
  xp_ResultKey :: string

record raw_paginators =
  xq_Pagination :: "(string \<times> raw_paginator) list"

definition zero_raw_ref :: raw_shape_ref where
  "zero_raw_ref = \<lparr>xr_Shape = [], xr_LocationName = [], xr_Flattened = False\<rparr>"

definition zero_raw_metadata :: raw_metadata where
  "zero_raw_metadata = \<lparr>xm_APIVersion = [], xm_EndpointPrefix = [], xm_JSONVersion = [], xm_Protocol = [],
     xm_Protocols = [], xm_TargetPrefix = [], xm_ServiceID = []\<rparr>"

definition raw_metadata_of :: "gval \<Rightarrow> raw_metadata option" where
  "raw_metadata_of = decode_struct
     [(''apiVersion'', str_field xm_APIVersion_update), (''endpointPrefix'', str_field xm_EndpointPrefix_update),
      (''jsonVersion'', str_field xm_JSONVersion_update), (''protocol'', str_field xm_Protocol_update),
      (''protocols'', slice_field decode_str xm_Protocols_update), (''targetPrefix'', str_field xm_TargetPrefix_update),
      (''serviceId'', str_field xm_ServiceID_update)] zero_raw_metadata"

definition raw_ref_of :: "gval \<Rightarrow> raw_shape_ref option" where
  "raw_ref_of = decode_struct
     [(''shape'', str_field xr_Shape_update), (''locationName'', str_field xr_LocationName_update),
      (''flattened'', bool_field xr_Flattened_update)] zero_raw_ref"

definition raw_member_of :: "gval \<Rightarrow> raw_member option" where
  "raw_member_of = decode_struct
     [(''shape'', str_field xb_Shape_update), (''locationName'', str_field xb_LocationName_update),
      (''flattened'', bool_field xb_Flattened_update)] \<lparr>xb_Shape = [], xb_LocationName = [], xb_Flattened = False\<rparr>"

definition raw_operation_of :: "gval \<Rightarrow> raw_operation option" where
  "raw_operation_of = decode_struct
     [(''input'', struct_field raw_ref_of xo_Input_update), (''output'', struct_field raw_ref_of xo_Output_update),
      (''errors'', slice_field raw_ref_of xo_Errors_update)]
     \<lparr>xo_Input = zero_raw_ref, xo_Output = zero_raw_ref, xo_Errors = []\<rparr>"

definition raw_shape_of :: "gval \<Rightarrow> raw_shape option" where
  "raw_shape_of = decode_struct
     [(''type'', str_field xs_Type_update), (''enum'', slice_field decode_str xs_Enum_update),
      (''required'', slice_field decode_str xs_Required_update), (''members'', map_field raw_member_of xs_Members_update),
      (''key'', pointer_field raw_ref_of xs_Key_update), (''value'', pointer_field raw_ref_of xs_Value_update),
      (''member'', pointer_field raw_ref_of xs_Member_update), (''flattened'', bool_field xs_Flattened_update),
      (''exception'', bool_field xs_Exception_update)]
     \<lparr>xs_Type = [], xs_Enum = [], xs_Required = [], xs_Members = [], xs_Key = None, xs_Value = None,
      xs_Member = None, xs_Flattened = False, xs_Exception = False\<rparr>"

definition raw_service_model_of :: "gval \<Rightarrow> raw_service_model option" where
  "raw_service_model_of = decode_struct
     [(''metadata'', struct_field raw_metadata_of xv_Metadata_update),
      (''operations'', map_field raw_operation_of xv_Operations_update),
      (''shapes'', map_field raw_shape_of xv_Shapes_update)]
     \<lparr>xv_Metadata = zero_raw_metadata, xv_Operations = [], xv_Shapes = []\<rparr>"

definition raw_paginator_of :: "gval \<Rightarrow> raw_paginator option" where
  "raw_paginator_of = decode_struct
     [(''input_token'', str_field xp_InputToken_update), (''output_token'', str_field xp_OutputToken_update),
      (''limit_key'', str_field xp_LimitKey_update), (''result_key'', str_field xp_ResultKey_update)]
     \<lparr>xp_InputToken = [], xp_OutputToken = [], xp_LimitKey = [], xp_ResultKey = []\<rparr>"

definition raw_paginators_of :: "gval \<Rightarrow> raw_paginators option" where
  "raw_paginators_of = decode_struct [(''pagination'', map_field raw_paginator_of xq_Pagination_update)] \<lparr>xq_Pagination = []\<rparr>"

section \<open>The registry of a service model\<close>

text \<open>
  The output types have the fields of the types of \<open>internal/model/types.go\<close>. Where the code makes an
  empty slice and leaves others nil the JSON is the same, as empty slices are omitted.
\<close>

type_synonym output_metadata = metadata
type_synonym output_operation = operation
type_synonym output_paginator = paginator
type_synonym output_shape_ref = shape_ref
type_synonym output_member = member_ref
type_synonym output_shape = shape
type_synonym output_registry = registry

definition generate_metadata :: "raw_metadata \<Rightarrow> output_metadata" where
  "generate_metadata m =
     \<lparr>md_APIVersion = xm_APIVersion m, md_EndpointPrefix = xm_EndpointPrefix m, md_JSONVersion = xm_JSONVersion m,
      md_Protocol = xm_Protocol m, md_TargetPrefix = xm_TargetPrefix m,
      md_QueryNamespace = ''http://queue.amazonaws.com/doc/'' @ xm_APIVersion m @ ''/'', md_ServiceID = xm_ServiceID m\<rparr>"

definition generate_operation :: "string \<Rightarrow> raw_operation \<Rightarrow> output_operation" where
  "generate_operation name raw =
     \<lparr>op_Name = name, op_InputShape = xr_Shape (xo_Input raw), op_OutputShape = xr_Shape (xo_Output raw),
      op_Errors = map xr_Shape (xo_Errors raw)\<rparr>"

definition generate_ref :: "raw_shape_ref \<Rightarrow> output_shape_ref" where
  "generate_ref r = \<lparr>sr_Shape = xr_Shape r, sr_LocationName = xr_LocationName r, sr_Flattened = xr_Flattened r\<rparr>"

definition generate_member :: "raw_member \<Rightarrow> output_member" where
  "generate_member r = \<lparr>mb_Shape = xb_Shape r, mb_LocationName = xb_LocationName r, mb_Flattened = xb_Flattened r\<rparr>"

definition generate_shape :: "string \<Rightarrow> raw_shape \<Rightarrow> output_shape" where
  "generate_shape name raw =
     \<lparr>sh_Name = name, sh_Type = xs_Type raw, sh_Enum = xs_Enum raw, sh_Required = xs_Required raw,
      sh_MemberOrder = (if xs_Members raw \<noteq> [] then sort (map fst (xs_Members raw)) else []),
      sh_Members = (if xs_Members raw \<noteq> [] then map (\<lambda>(k, r). (k, generate_member r)) (xs_Members raw) else []),
      sh_Key = map_option generate_ref (xs_Key raw), sh_Value = map_option generate_ref (xs_Value raw),
      sh_Member = map_option generate_ref (xs_Member raw), sh_Flattened = xs_Flattened raw, sh_Exception = xs_Exception raw\<rparr>"

definition generate_paginator :: "raw_paginator \<Rightarrow> output_paginator" where
  "generate_paginator p =
     \<lparr>pg_InputToken = xp_InputToken p, pg_OutputToken = xp_OutputToken p, pg_LimitKey = xp_LimitKey p,
      pg_ResultKey = xp_ResultKey p\<rparr>"

definition generate :: "raw_service_model \<Rightarrow> raw_paginators \<Rightarrow> output_registry" where
  "generate model paginators =
     \<lparr>rg_Metadata = generate_metadata (xv_Metadata model),
      rg_Operations = map (\<lambda>(name, raw). (name, generate_operation name raw)) (xv_Operations model),
      rg_Shapes = map (\<lambda>(name, raw). (name, generate_shape name raw)) (xv_Shapes model),
      rg_Pagination = map (\<lambda>(name, p). (name, generate_paginator p)) (xq_Pagination paginators)\<rparr>"

section \<open>The JSON of the registry\<close>

text \<open>Fields in the order of their declaration; \<open>None\<close> for one that \<open>omitempty\<close> leaves out.\<close>

definition object :: "(string \<times> gval option) list \<Rightarrow> gval" where
  "object fs = GMap (List.map_filter (\<lambda>(k, v). map_option (Pair k) v) fs)"

definition opt_string :: "string \<Rightarrow> gval option" where
  "opt_string s = (if s = [] then None else Some (GStr s))"

definition opt_strings :: "string list \<Rightarrow> gval option" where
  "opt_strings xs = (if xs = [] then None else Some (GList (map GStr xs)))"

definition opt_bool :: "bool \<Rightarrow> gval option" where
  "opt_bool b = (if b then Some (GBool True) else None)"

definition map_json :: "('a \<Rightarrow> gval) \<Rightarrow> (string \<times> 'a) list \<Rightarrow> gval" where
  "map_json f m = GMap (sort_key fst (map (\<lambda>(k, v). (k, f v)) m))"

definition metadata_json :: "output_metadata \<Rightarrow> gval" where
  "metadata_json m = object
     [(''apiVersion'', Some (GStr (md_APIVersion m))), (''endpointPrefix'', Some (GStr (md_EndpointPrefix m))),
      (''jsonVersion'', Some (GStr (md_JSONVersion m))), (''protocol'', Some (GStr (md_Protocol m))),
      (''targetPrefix'', Some (GStr (md_TargetPrefix m))), (''queryNamespace'', Some (GStr (md_QueryNamespace m))),
      (''serviceId'', Some (GStr (md_ServiceID m)))]"

definition operation_json :: "output_operation \<Rightarrow> gval" where
  "operation_json op = object
     [(''name'', Some (GStr (op_Name op))), (''inputShape'', opt_string (op_InputShape op)),
      (''outputShape'', opt_string (op_OutputShape op)), (''errors'', opt_strings (op_Errors op))]"

definition paginator_json :: "output_paginator \<Rightarrow> gval" where
  "paginator_json p = object
     [(''inputToken'', opt_string (pg_InputToken p)), (''outputToken'', opt_string (pg_OutputToken p)),
      (''limitKey'', opt_string (pg_LimitKey p)), (''resultKey'', opt_string (pg_ResultKey p))]"

definition ref_json :: "output_shape_ref \<Rightarrow> gval" where
  "ref_json r = object
     [(''shape'', Some (GStr (sr_Shape r))), (''locationName'', opt_string (sr_LocationName r)),
      (''flattened'', opt_bool (sr_Flattened r))]"

definition member_json :: "output_member \<Rightarrow> gval" where
  "member_json r = object
     [(''shape'', Some (GStr (mb_Shape r))), (''locationName'', opt_string (mb_LocationName r)),
      (''flattened'', opt_bool (mb_Flattened r))]"

definition shape_json :: "output_shape \<Rightarrow> gval" where
  "shape_json s = object
     [(''name'', Some (GStr (sh_Name s))), (''type'', Some (GStr (sh_Type s))), (''enum'', opt_strings (sh_Enum s)),
      (''required'', opt_strings (sh_Required s)), (''memberOrder'', opt_strings (sh_MemberOrder s)),
      (''members'', if sh_Members s = [] then None else Some (map_json member_json (sh_Members s))),
      (''key'', map_option ref_json (sh_Key s)), (''value'', map_option ref_json (sh_Value s)),
      (''member'', map_option ref_json (sh_Member s)), (''flattened'', opt_bool (sh_Flattened s)),
      (''exception'', opt_bool (sh_Exception s))]"

definition registry_json :: "output_registry \<Rightarrow> gval" where
  "registry_json r = object
     [(''metadata'', Some (metadata_json (rg_Metadata r))), (''operations'', Some (map_json operation_json (rg_Operations r))),
      (''shapes'', Some (map_json shape_json (rg_Shapes r))), (''pagination'', Some (map_json paginator_json (rg_Pagination r)))]"

section \<open>The generated source\<close>

definition source_head :: string where
  "source_head = concat (map (\<lambda>l. l @ [char_of (10 :: nat)])
     [''package model'', [], ''// Code generated by tools/gensqs. DO NOT EDIT.'', [], ''func init() {'',
      char_of (9 :: nat) # ''Default = Registry{}''])
     @ char_of (9 :: nat) # ''const raw = '' @ [char_of (96 :: nat)]"

definition source_tail :: string where
  "source_tail = char_of (96 :: nat) # concat (map (\<lambda>l. l @ [char_of (10 :: nat)])
     [[], char_of (9 :: nat) # ''if err := decodeRegistry([]byte(raw), &Default); err != nil {'',
      char_of (9 :: nat) # char_of (9 :: nat) # ''panic(err)'', char_of (9 :: nat) # ''}'', ''}''])"

definition generated_source :: "output_registry \<Rightarrow> string" where
  "generated_source r = source_head @ json_marshal_indent (registry_json r) @ source_tail"

text \<open>The first raw string literal of a Go source: what stands between the backquotes, less carriage returns.\<close>

definition raw_literal :: "string \<Rightarrow> string" where
  "raw_literal source =
     filter (\<lambda>c. byte c \<noteq> 13) (takeWhile (\<lambda>c. byte c \<noteq> 96) (tl (dropWhile (\<lambda>c. byte c \<noteq> 96) source)))"

definition mustReadMaybeCompressed :: "(string \<Rightarrow> string option) \<Rightarrow> (string \<Rightarrow> string option) \<Rightarrow> string \<Rightarrow> string option" where
  "mustReadMaybeCompressed gunzip file path = (case file path of None \<Rightarrow> None
     | Some raw \<Rightarrow> (if suffix ''.gz'' path then gunzip raw else Some raw))"

definition mustReadServiceModel :: "(string \<Rightarrow> string option) \<Rightarrow> (string \<Rightarrow> string option) \<Rightarrow> string \<Rightarrow> raw_service_model option" where
  "mustReadServiceModel gunzip file path =
     Option.bind (mustReadMaybeCompressed gunzip file path) (unmarshal_with raw_service_model_of)"

definition mustReadPaginators :: "(string \<Rightarrow> string option) \<Rightarrow> (string \<Rightarrow> string option) \<Rightarrow> string \<Rightarrow> raw_paginators option" where
  "mustReadPaginators gunzip file path =
     Option.bind (mustReadMaybeCompressed gunzip file path) (unmarshal_with raw_paginators_of)"

text \<open>
  The run for the three flags: the source that is formatted and written to the path. \<open>None\<close> is the exit
  with status 2, for a missing flag and for a panic: of the readers, or of \<open>format.Source\<close>,
  \<open>os.MkdirAll\<close> and \<open>os.WriteFile\<close>, which succeed where \<open>written\<close> says so. The formatter's
  layout of the source is left out: it does not touch the literal.
\<close>

definition gensqs_main :: "(string \<Rightarrow> string \<Rightarrow> bool) \<Rightarrow> (string \<Rightarrow> string option) \<Rightarrow> (string \<Rightarrow> string option) \<Rightarrow> string \<Rightarrow> string \<Rightarrow> string \<Rightarrow> (string \<times> string) option" where
  "gensqs_main written gunzip file servicePath paginatorsPath outPath =
     (if servicePath = [] \<or> paginatorsPath = [] \<or> outPath = [] then None
      else Option.bind (mustReadServiceModel gunzip file servicePath) (\<lambda>model.
           Option.bind (mustReadPaginators gunzip file paginatorsPath) (\<lambda>paginators.
           if written outPath (generated_source (generate model paginators))
           then Some (outPath, generated_source (generate model paginators)) else None)))"

section \<open>Decoding the registry\<close>

definition metadata_of :: "gval \<Rightarrow> metadata option" where
  "metadata_of = decode_struct
     [(''apiVersion'', str_field md_APIVersion_update), (''endpointPrefix'', str_field md_EndpointPrefix_update),
      (''jsonVersion'', str_field md_JSONVersion_update), (''protocol'', str_field md_Protocol_update),
      (''targetPrefix'', str_field md_TargetPrefix_update), (''queryNamespace'', str_field md_QueryNamespace_update),
      (''serviceId'', str_field md_ServiceID_update)]
     \<lparr>md_APIVersion = [], md_EndpointPrefix = [], md_JSONVersion = [], md_Protocol = [], md_TargetPrefix = [],
      md_QueryNamespace = [], md_ServiceID = []\<rparr>"

definition operation_of :: "gval \<Rightarrow> operation option" where
  "operation_of = decode_struct
     [(''name'', str_field op_Name_update), (''inputShape'', str_field op_InputShape_update),
      (''outputShape'', str_field op_OutputShape_update), (''errors'', slice_field decode_str op_Errors_update)]
     \<lparr>op_Name = [], op_InputShape = [], op_OutputShape = [], op_Errors = []\<rparr>"

definition paginator_of :: "gval \<Rightarrow> paginator option" where
  "paginator_of = decode_struct
     [(''inputToken'', str_field pg_InputToken_update), (''outputToken'', str_field pg_OutputToken_update),
      (''limitKey'', str_field pg_LimitKey_update), (''resultKey'', str_field pg_ResultKey_update)]
     \<lparr>pg_InputToken = [], pg_OutputToken = [], pg_LimitKey = [], pg_ResultKey = []\<rparr>"

definition ref_of :: "gval \<Rightarrow> shape_ref option" where
  "ref_of = decode_struct
     [(''shape'', str_field sr_Shape_update), (''locationName'', str_field sr_LocationName_update),
      (''flattened'', bool_field sr_Flattened_update)] \<lparr>sr_Shape = [], sr_LocationName = [], sr_Flattened = False\<rparr>"

definition member_ref_of :: "gval \<Rightarrow> member_ref option" where
  "member_ref_of = decode_struct
     [(''shape'', str_field mb_Shape_update), (''locationName'', str_field mb_LocationName_update),
      (''flattened'', bool_field mb_Flattened_update)] \<lparr>mb_Shape = [], mb_LocationName = [], mb_Flattened = False\<rparr>"

definition shape_of :: "gval \<Rightarrow> shape option" where
  "shape_of = decode_struct
     [(''name'', str_field sh_Name_update), (''type'', str_field sh_Type_update),
      (''enum'', slice_field decode_str sh_Enum_update), (''required'', slice_field decode_str sh_Required_update),
      (''memberOrder'', slice_field decode_str sh_MemberOrder_update), (''members'', map_field member_ref_of sh_Members_update),
      (''key'', pointer_field ref_of sh_Key_update), (''value'', pointer_field ref_of sh_Value_update),
      (''member'', pointer_field ref_of sh_Member_update), (''flattened'', bool_field sh_Flattened_update),
      (''exception'', bool_field sh_Exception_update)]
     \<lparr>sh_Name = [], sh_Type = [], sh_Enum = [], sh_Required = [], sh_MemberOrder = [], sh_Members = [],
      sh_Key = None, sh_Value = None, sh_Member = None, sh_Flattened = False, sh_Exception = False\<rparr>"

definition registry_of :: "gval \<Rightarrow> registry option" where
  "registry_of = decode_struct
     [(''metadata'', struct_field metadata_of rg_Metadata_update), (''operations'', map_field operation_of rg_Operations_update),
      (''shapes'', map_field shape_of rg_Shapes_update), (''pagination'', map_field paginator_of rg_Pagination_update)]
     \<lparr>rg_Metadata = \<lparr>md_APIVersion = [], md_EndpointPrefix = [], md_JSONVersion = [], md_Protocol = [],
        md_TargetPrefix = [], md_QueryNamespace = [], md_ServiceID = []\<rparr>,
      rg_Operations = [], rg_Shapes = [], rg_Pagination = []\<rparr>"

definition decodeRegistry :: "string \<Rightarrow> registry option" where
  "decodeRegistry raw = unmarshal_with registry_of raw"

end
