(* ===== verification/GeneratedRegistry.thy ===== *)
theory GeneratedRegistry
  imports Generator
begin

text \<open>
  The program decodes at start-up the registry that the generator wrote: the JSON of a registry is read
  back field by field, with the keys of its maps in order, and the raw string literal of Go that
  holds it is the JSON itself.
\<close>

section \<open>Objects are read field by field\<close>

definition read_fields :: "(string \<times> 'a field) list \<Rightarrow> (string \<times> gval option) list \<Rightarrow> 'a option \<Rightarrow> 'a option" where
  "read_fields fs ps s = fold (decode_into fs) (List.map_filter (\<lambda>(k, v). map_option (Pair k) v) ps) s"

lemma decode_struct_object: "decode_struct fs zero (object ps) = read_fields fs ps (Some zero)"
  by (simp add: decode_struct_def object_def read_fields_def)

definition field_of :: "(string \<times> 'a field) list \<Rightarrow> string \<Rightarrow> 'a field" where
  "field_of fs k = (case find (\<lambda>(name, _). equalFold k name) fs of None \<Rightarrow> (\<lambda>x a. Some a) | Some (_, dec) \<Rightarrow> dec)"

definition read_opt :: "gval option \<Rightarrow> 'a field \<Rightarrow> 'a \<Rightarrow> 'a option" where
  "read_opt v dec a = (case v of None \<Rightarrow> Some a | Some x \<Rightarrow> dec x a)"

lemma read_fields_Nil: "read_fields fs [] s = s"
  by (simp add: read_fields_def List.map_filter_def)

lemma read_fields_Cons:
  "read_fields fs ((k, v) # ps) (Some a) = read_fields fs ps (read_opt v (field_of fs k) a)"
  by (auto simp: read_fields_def List.map_filter_def decode_into_def field_of_def read_opt_def split: option.split)

lemma field_of_Cons:
  "field_of ((name, dec) # fs) k = (if map ascii_lower k = map ascii_lower name then dec else field_of fs k)"
  by (simp add: field_of_def equalFold_def)

lemma decode_strs: "those (map decode_str (map GStr xs)) = Some xs"
  by (induction xs) (simp_all add: decode_str_def)

named_theorems read_field

lemma read_str [read_field]: "read_opt (Some (GStr s)) (str_field upd) a = Some (upd (\<lambda>_. s) a)"
  by (simp add: read_opt_def str_field_def)

lemma read_opt_string [read_field]:
  "upd (\<lambda>_. []) a = a \<Longrightarrow> read_opt (opt_string s) (str_field upd) a = Some (upd (\<lambda>_. s) a)"
  by (simp add: read_opt_def opt_string_def str_field_def)

lemma read_opt_strings [read_field]:
  "upd (\<lambda>_. []) a = a \<Longrightarrow>
   read_opt (opt_strings xs) (slice_field decode_str upd) a = Some (upd (\<lambda>_. xs) a)"
  using decode_strs [of xs] by (simp add: read_opt_def opt_strings_def slice_field_def)

lemma read_opt_bool [read_field]:
  "upd (\<lambda>_. False) a = a \<Longrightarrow> read_opt (opt_bool b) (bool_field upd) a = Some (upd (\<lambda>_. b) a)"
  by (simp add: read_opt_def opt_bool_def bool_field_def)

lemma those_map_Some: "(\<And>x. x \<in> set xs \<Longrightarrow> f x = Some (g x)) \<Longrightarrow> those (map f xs) = Some (map g xs)"
  by (induction xs) auto

lemma read_map:
  assumes "\<And>k v. (k, v) \<in> set m \<Longrightarrow> dec (f v) = Some (g v)"
  shows "read_opt (Some (map_json f m)) (map_field dec upd) a = Some (upd (\<lambda>_. map (\<lambda>(k, v). (k, g v)) (sort_key fst m)) a)"
proof -
  have "those (map (\<lambda>(k, x). map_option (Pair k) (dec x)) (map (\<lambda>(k, v). (k, f v)) (sort_key fst m))) =
      Some (map (\<lambda>(k, v). (k, g v)) (sort_key fst m))"
    using assms by (simp add: comp_def case_prod_unfold, intro those_map_Some) auto
  then show ?thesis by (simp add: read_opt_def map_field_def map_json_def sort_key_values)
qed

lemma read_pointer [read_field]:
  assumes "upd (\<lambda>_. None) a = a" and "\<And>x. dec (f x) = Some x" and "\<And>x. f x \<noteq> GNil"
  shows "read_opt (map_option f p) (pointer_field dec upd) a = Some (upd (\<lambda>_. p) a)"
  using assms by (cases p) (simp_all add: read_opt_def pointer_field_def)

lemma read_struct [read_field]:
  "v \<noteq> GNil \<Longrightarrow> dec v = Some x \<Longrightarrow> read_opt (Some v) (struct_field dec upd) a = Some (upd (\<lambda>_. x) a)"
  by (simp add: read_opt_def struct_field_def)

lemma object_not_nil [simp]: "object ps \<noteq> GNil" "map_json f m \<noteq> GNil"
  by (simp_all add: object_def map_json_def)

lemmas reading = decode_struct_object read_fields_Nil read_fields_Cons field_of_Cons ascii_lower_def Let_def

section \<open>The parts of the registry\<close>

lemma metadata_read: "metadata_of (metadata_json m) = Some m"
  by (simp add: metadata_of_def metadata_json_def reading read_field)

lemma operation_read: "operation_of (operation_json op) = Some op"
  by (simp add: operation_of_def operation_json_def reading read_field)

lemma paginator_read: "paginator_of (paginator_json p) = Some p"
  by (simp add: paginator_of_def paginator_json_def reading read_field)

lemma ref_read: "ref_of (ref_json r) = Some r"
  by (simp add: ref_of_def ref_json_def reading read_field)

lemma member_ref_read: "member_ref_of (member_json r) = Some r"
  by (simp add: member_ref_of_def member_json_def reading read_field)

text \<open>A shape is read with its members in the order of their names.\<close>

definition ordered_shape :: "shape \<Rightarrow> shape" where
  "ordered_shape s = s\<lparr>sh_Members := sort_key fst (sh_Members s)\<rparr>"

lemma read_members [read_field]:
  assumes "upd (\<lambda>_. []) a = a"
  shows "read_opt (if m = [] then None else Some (map_json member_json m)) (map_field member_ref_of upd) a = Some (upd (\<lambda>_. sort_key fst m) a)"
  using assms read_map [where f = member_json and dec = member_ref_of and g = id and m = m and upd = upd and a = a]
  by (auto simp: member_ref_read case_prod_unfold read_opt_def)

lemma ref_json_not_nil: "ref_json r \<noteq> GNil"
  by (simp add: ref_json_def)

lemma shape_read: "shape_of (shape_json s) = Some (ordered_shape s)"
  by (simp add: shape_of_def shape_json_def reading read_field ref_read ref_json_not_nil ordered_shape_def)

definition ordered :: "registry \<Rightarrow> registry" where
  "ordered r = r\<lparr>rg_Operations := sort_key fst (rg_Operations r),
     rg_Shapes := map (\<lambda>(name, s). (name, ordered_shape s)) (sort_key fst (rg_Shapes r)),
     rg_Pagination := sort_key fst (rg_Pagination r)\<rparr>"

lemma metadata_json_not_nil: "metadata_json m \<noteq> GNil"
  by (simp add: metadata_json_def)

lemma read_maps [read_field]:
  "read_opt (Some (map_json operation_json ops)) (map_field operation_of upd) a = Some (upd (\<lambda>_. sort_key fst ops) a)"
  "read_opt (Some (map_json paginator_json pgs)) (map_field paginator_of upd') a = Some (upd' (\<lambda>_. sort_key fst pgs) a)"
  "read_opt (Some (map_json shape_json shapes)) (map_field shape_of upd'') a =
     Some (upd'' (\<lambda>_. map (\<lambda>(name, s). (name, ordered_shape s)) (sort_key fst shapes)) a)"
  using read_map [where f = operation_json and dec = operation_of and g = id and m = ops]
    read_map [where f = paginator_json and dec = paginator_of and g = id and m = pgs]
    read_map [where f = shape_json and dec = shape_of and g = ordered_shape and m = shapes]
  by (simp_all add: operation_read paginator_read shape_read)

lemma registry_read: "registry_of (registry_json r) = Some (ordered r)"
  by (simp add: registry_of_def registry_json_def reading read_field metadata_read metadata_json_not_nil ordered_def)

text \<open>Putting the maps in order changes no lookup.\<close>

lemma ordered_lookups:
  assumes "distinct (map fst (rg_Operations r))" and "distinct (map fst (rg_Shapes r))"
  shows "Operation (ordered r) name = Operation r name"
    and "Shape (ordered r) name = map_option ordered_shape (Shape r name)"
  using assms by (simp_all add: ordered_def Operation_def Shape_def mget_sort_key map_of_map [unfolded case_prod_unfold] case_prod_unfold)

section \<open>Texts that can stand in the source\<close>

text \<open>Valid UTF-8 without a backquote, which would end the raw string.\<close>

definition text_ok :: "string \<Rightarrow> bool" where
  "text_ok s \<longleftrightarrow> valid_utf8 s \<and> list_all (\<lambda>c. byte c \<noteq> 96) s"

definition map_ok :: "('a \<Rightarrow> bool) \<Rightarrow> (string \<times> 'a) list \<Rightarrow> bool" where
  "map_ok P m \<longleftrightarrow> distinct (map fst m) \<and> list_all (\<lambda>(k, v). text_ok k \<and> P v) m"

definition metadata_ok :: "metadata \<Rightarrow> bool" where
  "metadata_ok m \<longleftrightarrow> list_all text_ok [md_APIVersion m, md_EndpointPrefix m, md_JSONVersion m, md_Protocol m,
     md_TargetPrefix m, md_QueryNamespace m, md_ServiceID m]"

definition operation_ok :: "operation \<Rightarrow> bool" where
  "operation_ok op \<longleftrightarrow> text_ok (op_Name op) \<and> text_ok (op_InputShape op) \<and> text_ok (op_OutputShape op) \<and> list_all text_ok (op_Errors op)"

definition paginator_ok :: "paginator \<Rightarrow> bool" where
  "paginator_ok p \<longleftrightarrow> list_all text_ok [pg_InputToken p, pg_OutputToken p, pg_LimitKey p, pg_ResultKey p]"

definition ref_ok :: "shape_ref \<Rightarrow> bool" where
  "ref_ok r \<longleftrightarrow> text_ok (sr_Shape r) \<and> text_ok (sr_LocationName r)"

definition member_ok :: "member_ref \<Rightarrow> bool" where
  "member_ok r \<longleftrightarrow> text_ok (mb_Shape r) \<and> text_ok (mb_LocationName r)"

definition shape_ok :: "shape \<Rightarrow> bool" where
  "shape_ok s \<longleftrightarrow> text_ok (sh_Name s) \<and> text_ok (sh_Type s) \<and> list_all text_ok (sh_Enum s) \<and> list_all text_ok (sh_Required s)
     \<and> list_all text_ok (sh_MemberOrder s) \<and> map_ok member_ok (sh_Members s)
     \<and> pred_option ref_ok (sh_Key s) \<and> pred_option ref_ok (sh_Value s) \<and> pred_option ref_ok (sh_Member s)"

definition registry_ok :: "registry \<Rightarrow> bool" where
  "registry_ok r \<longleftrightarrow> metadata_ok (rg_Metadata r) \<and> map_ok operation_ok (rg_Operations r) \<and> map_ok shape_ok (rg_Shapes r)
     \<and> map_ok paginator_ok (rg_Pagination r)"

text \<open>Their JSON is a document of a bounded depth.\<close>

definition doc :: "nat \<Rightarrow> gval \<Rightarrow> bool" where
  "doc n v \<longleftrightarrow> json_doc text_ok v \<and> json_depth v \<le> n"

definition doc_opt :: "nat \<Rightarrow> gval option \<Rightarrow> bool" where
  "doc_opt n v \<longleftrightarrow> pred_option (doc n) v"

lemma depth_map: "json_depth (GMap m) \<le> Suc n \<longleftrightarrow> (\<forall>(k, v) \<in> set m. json_depth v \<le> n)"
  using fold_max_le [of "\<lambda>(k, v). json_depth v" m 0 n] by (simp add: case_prod_unfold)

lemma depth_list: "json_depth (GList vs) \<le> Suc n \<longleftrightarrow> (\<forall>v \<in> set vs. json_depth v \<le> n)"
  using fold_max_le [of json_depth vs 0 n] by simp

named_theorems docs

lemma doc_opt_string [docs]: "text_ok s \<Longrightarrow> doc_opt n (opt_string s)"
  by (simp add: doc_opt_def doc_def opt_string_def)

lemma doc_opt_strings [docs]: "list_all text_ok xs \<Longrightarrow> doc_opt (Suc n) (opt_strings xs)"
  by (simp add: doc_opt_def doc_def opt_strings_def depth_list list_all_iff del: json_depth.simps(1))

lemma doc_opt_bool [docs]: "doc_opt n (opt_bool b)"
  by (simp add: doc_opt_def doc_def opt_bool_def)

lemma doc_opt_Some [docs]: "doc n v \<Longrightarrow> doc_opt n (Some v)"
  by (simp add: doc_opt_def)

lemma doc_string [docs]: "text_ok s \<Longrightarrow> doc n (GStr s)"
  by (simp add: doc_def)

lemma in_object: "(k, v) \<in> set (List.map_filter (\<lambda>(k, v). map_option (Pair k) v) ps) \<longleftrightarrow> (k, Some v) \<in> set ps"
  by (induction ps) (auto simp: List.map_filter_simps split: option.splits)

lemma distinct_object: "distinct (map fst ps) \<Longrightarrow> distinct (map fst (List.map_filter (\<lambda>(k, v). map_option (Pair k) v) ps))"
proof (induction ps)
  case (Cons p ps)
  obtain k v where p: "p = (k, v)" by (cases p)
  have "k \<notin> fst ` set (List.map_filter (\<lambda>(k, v). map_option (Pair k) v) ps)"
  proof
    assume "k \<in> fst ` set (List.map_filter (\<lambda>(k, v). map_option (Pair k) v) ps)"
    then obtain x where "(k, Some x) \<in> set ps" by (auto simp: in_object)
    then have "k \<in> fst ` set ps" by force
    with Cons.prems p show False by simp
  qed
  with Cons p show ?case by (simp add: List.map_filter_simps split: option.split)
qed (simp add: List.map_filter_simps)

lemma doc_object:
  assumes "distinct (map fst ps)" and "list_all (\<lambda>(k, v). text_ok k \<and> doc_opt n v) ps"
  shows "doc (Suc n) (object ps)"
proof -
  have "text_ok k \<and> doc n v" if "(k, Some v) \<in> set ps" for k v
    using that assms(2) by (fastforce simp: list_all_iff doc_opt_def)
  with distinct_object [OF assms(1)] show ?thesis
    by (auto simp: doc_def object_def depth_map list_all_iff in_object simp del: json_depth.simps(2))
qed

lemma map_fst_values: "map fst (map (\<lambda>(k, v). (k, f v)) m) = map fst m"
  by (induction m) auto

lemma doc_map_json:
  assumes "map_ok P m" and "\<And>v. P v \<Longrightarrow> doc n (f v)"
  shows "doc (Suc n) (map_json f m)"
proof -
  have "mset (map fst (sort_key fst m)) = mset (map fst m)" by simp
  with assms(1) have d: "distinct (map fst (map (\<lambda>(k, v). (k, f v)) (sort_key fst m)))"
    unfolding map_fst_values by (metis map_ok_def mset_eq_imp_distinct_iff)
  have "text_ok k \<and> doc n (f v)" if "(k, v) \<in> set m" for k v
    using that assms by (fastforce simp: map_ok_def list_all_iff)
  with d show ?thesis
    by (auto simp: doc_def map_json_def sort_key_values depth_map list_all_iff simp del: json_depth.simps(2) map_map)
qed

lemma text_ok_ascii: "ascii s \<and> list_all (\<lambda>c. byte c \<noteq> 96) s \<Longrightarrow> text_ok s"
  by (simp add: text_ok_def ascii_valid_utf8)

lemma metadata_doc: "metadata_ok m \<Longrightarrow> doc (Suc n) (metadata_json m)"
  unfolding metadata_json_def by (rule doc_object) (simp_all add: metadata_ok_def docs text_ok_ascii ascii_def)

lemma operation_doc: "operation_ok op \<Longrightarrow> doc (Suc (Suc n)) (operation_json op)"
  unfolding operation_json_def by (rule doc_object) (simp_all add: operation_ok_def docs text_ok_ascii ascii_def)

lemma paginator_doc: "paginator_ok p \<Longrightarrow> doc (Suc n) (paginator_json p)"
  unfolding paginator_json_def by (rule doc_object) (simp_all add: paginator_ok_def docs text_ok_ascii ascii_def)

lemma ref_doc: "ref_ok r \<Longrightarrow> doc (Suc n) (ref_json r)"
  unfolding ref_json_def by (rule doc_object) (simp_all add: ref_ok_def docs text_ok_ascii ascii_def)

lemma member_doc: "member_ok r \<Longrightarrow> doc (Suc n) (member_json r)"
  unfolding member_json_def by (rule doc_object) (simp_all add: member_ok_def docs text_ok_ascii ascii_def)

lemma opt_ref_doc [docs]: "pred_option ref_ok r \<Longrightarrow> doc_opt (Suc n) (map_option ref_json r)"
  by (cases r) (simp_all add: doc_opt_def ref_doc)

lemma opt_members_doc [docs]:
  "map_ok member_ok m \<Longrightarrow> doc_opt (Suc (Suc n)) (if m = [] then None else Some (map_json member_json m))"
  by (simp add: doc_opt_def doc_map_json [OF _ member_doc])

lemma shape_doc: "shape_ok s \<Longrightarrow> doc (Suc (Suc (Suc n))) (shape_json s)"
  unfolding shape_json_def by (rule doc_object) (simp_all add: shape_ok_def docs text_ok_ascii ascii_def)

lemma registry_doc:
  assumes "registry_ok r"
  shows "doc 5 (registry_json r)"
proof -
  have "doc (Suc (Suc (Suc (Suc (Suc 0))))) (registry_json r)"
    unfolding registry_json_def
  proof (rule doc_object)
    have "doc (Suc (Suc (Suc (Suc 0)))) (metadata_json (rg_Metadata r))"
      "doc (Suc (Suc (Suc (Suc 0)))) (map_json operation_json (rg_Operations r))"
      "doc (Suc (Suc (Suc (Suc 0)))) (map_json shape_json (rg_Shapes r))"
      "doc (Suc (Suc (Suc (Suc 0)))) (map_json paginator_json (rg_Pagination r))"
      using assms by (auto simp: registry_ok_def metadata_doc intro: doc_map_json operation_doc shape_doc paginator_doc)
    then show "list_all (\<lambda>(k, v). text_ok k \<and> doc_opt (Suc (Suc (Suc (Suc 0)))) v)
      [(''metadata'', Some (metadata_json (rg_Metadata r))), (''operations'', Some (map_json operation_json (rg_Operations r))),
       (''shapes'', Some (map_json shape_json (rg_Shapes r))), (''pagination'', Some (map_json paginator_json (rg_Pagination r)))]"
      by (simp add: docs text_ok_ascii ascii_def)
  qed simp
  then show ?thesis by (simp add: eval_nat_numeral)
qed

section \<open>From the files of the SDK to the registry of the program\<close>

lemma unmarshal_with_indent: "doc n v \<Longrightarrow> n \<le> max_depth \<Longrightarrow> unmarshal_with dec (json_marshal_indent v) = dec v"
  using json_indent_read [of v as_number] json_doc_mono [of text_ok v valid_utf8]
  by (simp add: unmarshal_with_def doc_def text_ok_def skip_ws_def)

lemma mget_named: "mget (map (\<lambda>(k, x). (k, f k x)) m) name = map_option (f name) (mget m name)"
  by (induction m) auto

lemma raw_literal_source:
  assumes "doc n v"
  shows "raw_literal (source_head @ json_marshal_indent v @ source_tail) = json_marshal_indent v"
proof -
  have plain: "c \<in> set (json_marshal_indent v) \<Longrightarrow> byte c \<notin> {13, 96}" for c
  proof (rule notI)
    assume c: "c \<in> set (json_marshal_indent v)" and b: "byte c \<in> {13, 96}"
    have "c \<notin> set (json_quote s)" if "text_ok s" for s
      using json_quote_char [OF _ b] that by (auto simp: text_ok_def list_all_iff)
    with indent_value_char [of text_ok v c 0] b c assms show False by (simp add: doc_def json_marshal_indent_def)
  qed
  obtain h where h: "source_head = h @ [char_of (96 :: nat)]" "\<forall>c \<in> set h. byte c \<noteq> 96"
    by (rule that [of "butlast source_head"]) (simp_all add: source_head_def)
  obtain t where t: "source_tail = char_of (96 :: nat) # t" unfolding source_tail_def by blast
  have "dropWhile (\<lambda>c. byte c \<noteq> 96) (source_head @ json_marshal_indent v @ source_tail) =
      char_of (96 :: nat) # json_marshal_indent v @ source_tail"
    unfolding h(1) append_assoc using h(2) by (subst dropWhile_append2) auto
  moreover have "takeWhile (\<lambda>c. byte c \<noteq> 96) (json_marshal_indent v @ source_tail) = json_marshal_indent v"
    unfolding t using plain by (subst takeWhile_append2) auto
  ultimately show ?thesis using plain by (auto simp: raw_literal_def filter_id_conv)
qed

text \<open>
  C30. What the generator writes is what the program decodes at start-up: the raw string of the source is
  the JSON of the registry, and decoding it gives every operation and every shape of the service
  model, with their names, and the maps in the order of their keys.
\<close>

theorem generated_registry_is_decoded:
  assumes "gensqs_main written gunzip file servicePath paginatorsPath outPath = Some (path, source)"
    and "mustReadServiceModel gunzip file servicePath = Some model"
    and "mustReadPaginators gunzip file paginatorsPath = Some paginators"
    and "registry_ok (generate model paginators)"
  shows "path = outPath \<and> (\<exists>registry. decodeRegistry (raw_literal source) = Some registry
    \<and> registry = ordered (generate model paginators)
    \<and> (\<forall>name. Operation registry name = map_option (generate_operation name) (map_of (xv_Operations model) name)
        \<and> Shape registry name = map_option (\<lambda>s. ordered_shape (generate_shape name s)) (map_of (xv_Shapes model) name)))"
proof -
  let ?r = "generate model paginators"
  have source: "path = outPath" "source = source_head @ json_marshal_indent (registry_json ?r) @ source_tail"
    using assms(1-3) by (auto simp: gensqs_main_def generated_source_def split: if_splits)
  have doc: "doc 5 (registry_json ?r)" by (rule registry_doc [OF assms(4)])
  then have "decodeRegistry (raw_literal source) = Some (ordered ?r)"
    unfolding source(2) raw_literal_source [OF doc] decodeRegistry_def
    using unmarshal_with_indent [OF doc, of registry_of] by (simp add: max_depth_def registry_read)
  moreover have "distinct (map fst (rg_Operations ?r))" "distinct (map fst (rg_Shapes ?r))"
    using assms(4) by (simp_all add: registry_ok_def map_ok_def)
  note ordered_lookups [OF this]
  ultimately show ?thesis
    using source(1) by (simp add: Operation_def Shape_def generate_def mget_named option.map_comp comp_def)
qed

text \<open>A service model with one operation, in a file that is read as it is.\<close>

definition sample_model_json :: gval where
  "sample_model_json = GMap
     [(''metadata'', GMap [(''apiVersion'', GStr ''2012-11-05''), (''targetPrefix'', GStr ''AmazonSQS'')]),
      (''operations'', GMap [(''Ping'', GMap [(''name'', GStr ''Ping''), (''input'', GMap [(''shape'', GStr ''PingRequest'')])])]),
      (''shapes'', GMap [(''PingRequest'', GMap [(''type'', GStr ''structure''),
         (''members'', GMap [(''QueueUrl'', GMap [(''shape'', GStr ''String'')])])])])]"

definition sample_file :: "string \<Rightarrow> string option" where
  "sample_file path = (if path = ''service-2.json'' then Some (json_marshal_indent sample_model_json)
     else if path = ''paginators-1.json'' then Some (json_marshal_indent (GMap [(''pagination'', GMap [])])) else None)"

definition sample_model :: raw_service_model where
  "sample_model =
    \<lparr>xv_Metadata = zero_raw_metadata\<lparr>xm_APIVersion := ''2012-11-05'', xm_TargetPrefix := ''AmazonSQS''\<rparr>,
     xv_Operations = [(''Ping'', \<lparr>xo_Input = zero_raw_ref\<lparr>xr_Shape := ''PingRequest''\<rparr>, xo_Output = zero_raw_ref, xo_Errors = []\<rparr>)],
     xv_Shapes = [(''PingRequest'', \<lparr>xs_Type = ''structure'', xs_Enum = [], xs_Required = [],
        xs_Members = [(''QueueUrl'', \<lparr>xb_Shape = ''String'', xb_LocationName = [], xb_Flattened = False\<rparr>)], xs_Key = None,
        xs_Value = None, xs_Member = None, xs_Flattened = False, xs_Exception = False\<rparr>)]\<rparr>"

lemma sample_model_ok: "registry_ok (generate sample_model \<lparr>xq_Pagination = []\<rparr>)"
proof -
  have "metadata_ok (generate_metadata (xv_Metadata sample_model))"
    by (simp add: sample_model_def generate_metadata_def metadata_ok_def zero_raw_metadata_def text_ok_ascii ascii_def)
  moreover have "map_ok operation_ok (map (\<lambda>(name, raw). (name, generate_operation name raw)) (xv_Operations sample_model))"
    by (simp add: sample_model_def generate_operation_def operation_ok_def map_ok_def zero_raw_ref_def text_ok_ascii ascii_def)
  moreover have "map_ok shape_ok (map (\<lambda>(name, raw). (name, generate_shape name raw)) (xv_Shapes sample_model))"
    by (simp add: sample_model_def generate_shape_def generate_member_def shape_ok_def member_ok_def map_ok_def text_ok_ascii ascii_def)
  ultimately show ?thesis by (simp add: registry_ok_def generate_def map_ok_def)
qed

lemma sample_model_read: "unmarshal_with raw_service_model_of (json_marshal_indent sample_model_json) = Some sample_model"
proof -
  have "doc 5 sample_model_json" by (simp add: doc_def sample_model_json_def text_ok_ascii ascii_def)
  then show ?thesis
    using unmarshal_with_indent [of 5 sample_model_json raw_service_model_of]
    by (simp add: max_depth_def sample_model_def sample_model_json_def zero_raw_metadata_def zero_raw_ref_def raw_service_model_of_def raw_metadata_of_def raw_operation_of_def
        raw_ref_of_def raw_shape_of_def raw_member_of_def decode_struct_def decode_into_def equalFold_def ascii_lower_def Let_def
        str_field_def struct_field_def map_field_def)
qed

lemma sample_paginators_read:
  "unmarshal_with raw_paginators_of (json_marshal_indent (GMap [(''pagination'', GMap [])])) = Some \<lparr>xq_Pagination = []\<rparr>"
proof -
  have "doc 5 (GMap [(''pagination'', GMap [])])" by (simp add: doc_def text_ok_ascii ascii_def)
  then show ?thesis
    using unmarshal_with_indent [of 5 "GMap [(''pagination'', GMap [])]" raw_paginators_of]
    by (simp add: max_depth_def raw_paginators_of_def decode_struct_def decode_into_def equalFold_def map_field_def)
qed

lemma generated_registry_is_decoded_witness:
  "\<exists>path source registry. gensqs_main (\<lambda>_ _. True) (\<lambda>_. None) sample_file ''service-2.json'' ''paginators-1.json'' ''registry_gen.go'' = Some (path, source)
    \<and> decodeRegistry (raw_literal source) = Some registry
    \<and> map_option op_InputShape (Operation registry ''Ping'') = Some ''PingRequest''"
proof -
  have model: "mustReadServiceModel (\<lambda>_. None) sample_file ''service-2.json'' = Some sample_model"
    unfolding mustReadServiceModel_def mustReadMaybeCompressed_def sample_file_def
    by (simp add: sample_model_read suffix_to_prefix)
  have pages: "mustReadPaginators (\<lambda>_. None) sample_file ''paginators-1.json'' = Some \<lparr>xq_Pagination = []\<rparr>"
    unfolding mustReadPaginators_def mustReadMaybeCompressed_def sample_file_def
    by (simp add: sample_paginators_read suffix_to_prefix)
  obtain path source where run: "gensqs_main (\<lambda>_ _. True) (\<lambda>_. None) sample_file ''service-2.json'' ''paginators-1.json'' ''registry_gen.go'' = Some (path, source)"
    using model pages by (simp add: gensqs_main_def)
  have "map_of (xv_Operations sample_model) ''Ping'' = Some \<lparr>xo_Input = zero_raw_ref\<lparr>xr_Shape := ''PingRequest''\<rparr>, xo_Output = zero_raw_ref, xo_Errors = []\<rparr>"
    by (simp add: sample_model_def)
  with generated_registry_is_decoded [OF run model pages sample_model_ok] run show ?thesis
    by (auto simp: generate_operation_def zero_raw_ref_def)
qed

end
