(* ===== verification/RegistryDecoded.thy ===== *)
theory RegistryDecoded
  imports GeneratedRegistry RegistryFacts
begin

text \<open>
  The registry \<open>Default\<close> of the model is the one that \<open>internal/model/registry_gen.go\<close> decodes: the JSON of
  \<open>Default\<close>, which is the text of that file, is read as \<open>Default\<close>.
\<close>

lemma ascending_sorted: "ascending xs \<Longrightarrow> sorted xs"
  by (induction xs) (auto dest!: ascending_Cons)

lemma ascending_sort_key: "ascending (map fst m) \<Longrightarrow> sort_key fst m = m"
  by (rule sort_key_id_if_sorted) (rule ascending_sorted)

lemma Default_members_ascending:
  assumes "(name, s) \<in> set Default_Shapes"
  shows "ascending (map fst (sh_Members s))"
  using assms unfolding Default_Shapes_def
  by (simp only: list.set insert_iff empty_iff prod.inject)
    (elim disjE conjE FalseE; simp add: all_shape_defs shape_simps less_char_def less_eq_char_def)

lemma Default_shape_ok:
  assumes "(name, s) \<in> set Default_Shapes"
  shows "text_ok name \<and> shape_ok s"
  using assms unfolding Default_Shapes_def
  by (simp only: list.set insert_iff empty_iff prod.inject)
    (elim disjE conjE FalseE; simp add: text_ok_ascii ascii_def shape_ok_def all_shape_defs shape_simps map_ok_def
      member_ok_def ref_ok_def)

lemma Default_operation_ok:
  assumes "(name, op) \<in> set Default_Operations"
  shows "text_ok name \<and> operation_ok op"
  using assms unfolding Default_Operations_def
  by (simp only: list.set insert_iff empty_iff prod.inject)
    (elim disjE conjE FalseE; simp add: operation_simps text_ok_ascii ascii_def operation_ok_def)

lemma Default_ok: "registry_ok Default"
proof -
  have "map_ok shape_ok Default_Shapes"
    using Default_shape_ok ascending_distinct [OF Shape_names_ascending] by (auto simp: map_ok_def list_all_iff)
  moreover have "map_ok operation_ok Default_Operations"
    using Default_operation_ok ascending_distinct [OF Operation_names_ascending] by (auto simp: map_ok_def list_all_iff)
  moreover have "metadata_ok Default_Metadata" "map_ok paginator_ok Default_Pagination"
    by (simp_all add: metadata_ok_def Default_Metadata_def map_ok_def paginator_ok_def Default_Pagination_def text_ok_ascii ascii_def)
  ultimately show ?thesis by (simp add: registry_ok_def Default_def)
qed

lemma Default_ordered: "ordered Default = Default"
proof -
  have "ordered_shape s = s" if "(name, s) \<in> set Default_Shapes" for name s
    using ascending_sort_key [OF Default_members_ascending [OF that]] by (simp add: ordered_shape_def)
  then have "map (\<lambda>(name, s). (name, ordered_shape s)) Default_Shapes = Default_Shapes"
    by (intro map_idI) auto
  moreover have "ascending (map fst Default_Pagination)" by code_simp
  ultimately show ?thesis
    using Shape_names_ascending Operation_names_ascending by (simp add: ordered_def Default_def ascending_sort_key)
qed

lemma Default_decoded: "decodeRegistry (raw_literal (generated_source Default)) = Some Default"
proof -
  have doc: "doc 5 (registry_json Default)" by (rule registry_doc [OF Default_ok])
  show ?thesis
    unfolding generated_source_def raw_literal_source [OF doc] decodeRegistry_def
    using unmarshal_with_indent [OF doc, of registry_of] by (simp add: max_depth_def registry_read Default_ordered)
qed

end
