(* ===== verification/Spec2Isabelle.thy ===== *)
theory Spec2Isabelle
  imports Server Selection QueryWellFormed Interleaving RegistryDecoded
begin

text \<open>
  A model of \<open>emulator-aws-sqs\<close>, an emulator of the Amazon Simple Queue Service, with the theorems that
  make it correct.

  \<^bold>\<open>The program.\<close> \<open>cmd/sqsd\<close> reads its settings (\<open>internal/config\<close>), opens an SQLite database
  (\<open>internal/storage/sqlite\<close>) and serves HTTP (\<open>internal/httpx\<close>). A request is authenticated by its
  AWS signature (\<open>internal/auth\<close>), decoded by the JSON or the query protocol
  (\<open>internal/protocol\<close>) against the generated description of the service (\<open>internal/model\<close>), and
  dispatched to one of 23 handlers (\<open>internal/service\<close>), which read and write the store and answer
  with a map or an error (\<open>internal/errors\<close>); the answer is encoded by the same protocol.

  \<^bold>\<open>The theories\<close>, from the bottom up.

  \<^item> \<open>Prelude\<close>: Go's dynamic values (\<open>gval\<close>), its maps as association lists, 64 bit integers and times.
    \<open>Programs\<close>: handlers as functions from the world to an error or a result and the world they
    leave, and the locale \<open>effect\<close>, by which a relation between states is carried through programs.
  \<^item> \<open>GoStrings\<close>, \<open>GoEncoding\<close>, \<open>GoCrypto\<close>, \<open>GoJson\<close>, \<open>GoHttp\<close>, \<open>GoTime\<close>: what the code uses of Go's standard
    library (strings, UTF-8, base64, hex, SHA-256, MD5, HMAC, JSON with float64, query strings,
    headers, dates, durations), as functions that compute. \<open>Utf8\<close> and \<open>JsonText\<close> hold what is proved of
    them: JSON text that was written is read back.
  \<^item> \<open>ApiErrors\<close> (\<open>internal/errors/api.go\<close>), \<open>Helpers\<close> (\<open>service/helpers.go\<close>), \<open>StorageTypes\<close>
    (\<open>storage/types.go\<close>, and the world: database, faults of the store, clock, random source,
    cancellation), \<open>Config\<close> (\<open>config/config.go\<close>).
  \<^item> \<open>SqliteStore\<close>, \<open>MessageStore\<close> (\<open>storage/sqlite/store.go\<close>, \<open>message_store.go\<close>): the tables as lists of
    rows with their constraints, each statement as a function on the database; every call may
    fail, as the world says. \<open>StoreContract\<close>: the locale that says what every statement keeps, with
    \<open>Integrity\<close>: its interpretation for the integrity of the tables.
  \<^item> \<open>QueueAttrs\<close>, \<open>MessageAttrs\<close>, \<open>Lookup\<close> (\<open>service/sqs.go\<close>, \<open>service/messages.go\<close>): names, attributes and
    their validation, message attributes and digests, batches, queue look-up.
  \<^item> \<open>Delivery\<close>, \<open>Maintain\<close>, \<open>SendMessage\<close>, \<open>ReceiveMessage\<close>, \<open>ReceiptOps\<close>, \<open>QueueOps\<close>, \<open>QueueLifecycle\<close>, \<open>MoveTaskOps\<close>,
    \<open>Dispatcher\<close>: the operations of \<open>service/messages.go\<close>, \<open>service/sqs.go\<close> and \<open>service/dispatcher.go\<close>,
    handler by handler, with their properties; \<open>Hoare\<close> (total correctness of programs), \<open>OneActive\<close>,
    \<open>Leases\<close>, \<open>Progress\<close>, \<open>Selection\<close>, \<open>StoredText\<close>: properties that need several of them;
    \<open>Interleaving\<close>: handlers as lists of store operations. \<open>Samples\<close>: the databases and requests of
    the witnesses.
  \<^item> \<open>Registry\<close>, \<open>RegistryGen\<close> (\<open>model/types.go\<close>, \<open>registry.go\<close>, \<open>registry_gen.go\<close>): the description of the
    service, shape by shape; \<open>RegistryFacts\<close>, \<open>RegistryTidy\<close>: what the codecs rely on in it. \<open>Generator\<close>
    (\<open>tools/gensqs/main.go\<close>, \<open>model/decode.go\<close>): how the description is made of the SDK's model and
    decoded at start-up; \<open>JsonIndent\<close> and \<open>GeneratedRegistry\<close>: that the two agree; \<open>RegistryDecoded\<close>:
    that the JSON in \<open>registry_gen.go\<close> decodes to the registry of the model.
  \<^item> \<open>QueryDecode\<close>, \<open>QueryEncode\<close> (\<open>protocol/query\<close>), \<open>JsonCodec\<close> (\<open>protocol/json\<close>), with \<open>DecodeTotal\<close>,
    \<open>QueryWellFormed\<close> and \<open>JsonRequests\<close> for their properties.
  \<^item> \<open>Auth\<close> (\<open>auth/auth.go\<close>) and \<open>Signatures\<close>; \<open>HttpHandler\<close> (\<open>httpx/handler.go\<close>, \<open>request_id.go\<close>) and
    \<open>HttpRefinement\<close>; \<open>Server\<close> (\<open>cmd/sqsd/main.go\<close>).

  \<^bold>\<open>State.\<close> The database is the record \<open>db\<close>: queues, pending attribute patches, tags, move tasks,
  messages, receipts, the deduplication ledger, receive attempts, and the id sequences of the
  tables. What a handler takes from outside (time, random bytes, failures of the store,
  cancellation) is a stream in the record \<open>world\<close> that is consumed in order, so a theorem over
  every world is one over every schedule of time and failures. Rows keep what a column keeps:
  times in milliseconds, maps as JSON text. A Go \<open>error\<close> is \<open>goerr\<close>; a panic is one of its values.

  \<^bold>\<open>What is shown.\<close>
  Composition: in every database that requests lead to, the tables are sound (C1), also when
  requests run at the same time or are cut off (C2). Requests that run one after the other leave a
  message one active receipt (C3); ids are not used again (C21), and message operations
  create and remove no queues, tasks or tags, beyond what due maintenance does to them (C22). HTTP: a request is turned away or is one dispatched request (C4), so these
  hold of the server. Delivery: only visible messages are offered (C23), by a standard queue the oldest
  first (C24); a FIFO group is offered in order and only while none of it is in flight (C6, C7); a
  delivery hides the message until its deadline (C8), and the visible messages of a standard queue, when
  none is to be redriven and no maintenance is due, are received in one round (C9); redrive ends when the dead-letter queue exists, and runs for ever when it does not
  (C15, C16). Sending: one message is stored as the entry asks, or none (C17, C18, C35); a repeated deduplication id
  within five minutes stores nothing (C5). Receipts: C19, C20, C39, C40; handles of different
  messages differ (C38). Queues: pages of listings are complete (C25), attribute changes take
  effect when due, counted from the request's reading of the clock (C26), counters partition the
  messages (C27), creation is idempotent for equivalent attributes and refused for others (C28), deleted
  names are blocked for the cooldown and free afterwards (C29), settings of accepted queues lie in their ranges (C37).
  Authentication: only signed requests are accepted (C10), signed requests are accepted (C11), the
  canonical query is unambiguous (C32). Protocols: JSON requests arrive as they were meant, integers
  exactly (C12); query responses are well-formed XML (C13); query requests are always decoded or
  refused (C14); batches are well formed (C34); message attributes and their digests: C31, C36.
  Stored text: what is written to JSON columns is read back (C33). Start-up: the registry that
  the generator writes is the one that the program decodes (C30).

  \<^bold>\<open>Bounds and fuel.\<close> \<open>decodeShape\<close> and \<open>encodeShape\<close> recurse over the shapes of the registry with fuel;
  \<open>default_fuel\<close> is 7, the depth of the deepest shape of SQS, and C14 and C13 show that it lasts. The
  parser of JSON has fuel from the length of its text, and C12 with \<open>JsonText\<close> shows that it is
  enough. \<open>ReceiveMessage\<close> has fuel for its rounds of polling and for the selection of messages, as
  neither is bounded in the code; C15 says when the selection ends and C16 when it never does.

  \<^bold>\<open>Not modelled.\<close> The SQL text and the file format of SQLite (the statements are modelled by what they
  do, each of them and each transaction as one step), the server of \<open>net/http\<close> below \<open>ServeHTTP\<close>, the
  logger, signals, the timers of \<open>internal/clock\<close>, which nothing uses (its \<open>Now\<close> is the world's clock), the
  formatter and the decompression that \<open>tools/gensqs\<close> calls. The causes of API errors are logged only
  and abbreviated. The map columns of queues keep their keys apart, also keys that invalid UTF-8 makes
  equal in their JSON text. A handler is a function of the database it starts on: what holds of handlers that
  run at the same time is what \<open>Interleaving\<close> shows of the operations they consist of.
\<close>

end
